(* ===== verification/Prelude.thy ===== *)
theory Prelude
  imports Main "HOL-Library.Word"
begin

text \<open>
  Shared vocabulary of the development: names for the fixed-width integers and byte
  strings of the Go sources, Go error values, decimal text as \<^verbatim>\<open>strconv\<close> reads and
  writes it, the byte orders of \<^verbatim>\<open>encoding/binary\<close>, and the generic lemmas the
  component theories rewrite with. Everything here models the language and its standard
  library; no repository code is translated in this theory.
\<close>

unbundle bit_operations_syntax

named_theorems go_simps \<open>defining equations of the Go standard library model\<close>
named_theorems wire_simps \<open>round trips and lengths of byte-level encodings\<close>

section \<open>Machine types\<close>

type_synonym byte = "8 word"
type_synonym bytes = "byte list"
type_synonym uint8 = "8 word"
type_synonym uint16 = "16 word"
type_synonym uint32 = "32 word"
type_synonym uint64 = "64 word"

lemma unat_less_pow: "unat (w :: 'a::len word) < 2 ^ LENGTH('a)"
  by (rule unsigned_less)

section \<open>Error values\<close>

text \<open>
  An error is a leaf (\<^verbatim>\<open>errors.New\<close>, or \<^verbatim>\<open>fmt.Errorf\<close> without \<^verbatim>\<open>%w\<close>), or it wraps
  others: \<open>ErrWrap s e\<close> is \<^verbatim>\<open>fmt.Errorf("s: %w", e)\<close>, \<open>ErrNote e s\<close> is
  \<^verbatim>\<open>fmt.Errorf("%w: s", e)\<close>, \<open>ErrBoth\<close> is \<^verbatim>\<open>fmt.Errorf("%w: %w", ...)\<close> and
  \<open>ErrJoin\<close> is \<^verbatim>\<open>errors.Join\<close> of two errors.
\<close>

datatype goerr =
    ErrNew string
  | ErrWrap string goerr
  | ErrNote goerr string
  | ErrBoth goerr goerr
  | ErrJoin goerr goerr

primrec errors_Is :: "goerr \<Rightarrow> goerr \<Rightarrow> bool" where
  "errors_Is (ErrNew s) t = (ErrNew s = t)"
| "errors_Is (ErrWrap s e) t = (ErrWrap s e = t \<or> errors_Is e t)"
| "errors_Is (ErrNote e s) t = (ErrNote e s = t \<or> errors_Is e t)"
| "errors_Is (ErrBoth e f) t = (ErrBoth e f = t \<or> errors_Is e t \<or> errors_Is f t)"
| "errors_Is (ErrJoin e f) t = (ErrJoin e f = t \<or> errors_Is e t \<or> errors_Is f t)"

primrec Error :: "goerr \<Rightarrow> string" where
  "Error (ErrNew s) = s"
| "Error (ErrWrap s e) = s @ '': '' @ Error e"
| "Error (ErrNote e s) = Error e @ '': '' @ s"
| "Error (ErrBoth e f) = Error e @ '': '' @ Error f"
| "Error (ErrJoin e f) = Error e @ [CHR 0x0A] @ Error f"

type_synonym 'a result = "goerr + 'a"

lemma errors_Is_refl [simp]: "errors_Is e e"
  by (cases e) simp_all

section \<open>Decimal text\<close>

definition is_digit :: "char \<Rightarrow> bool" where
  "is_digit c \<longleftrightarrow> 48 \<le> (of_char c :: nat) \<and> (of_char c :: nat) \<le> 57"

definition digit_val :: "char \<Rightarrow> nat" where
  "digit_val c = of_char c - 48"

definition digit_char :: "nat \<Rightarrow> char" where
  "digit_char d = ''0123456789'' ! (d mod 10)"

text \<open>\<^verbatim>\<open>strconv.FormatUint(n, 10)\<close>, least significant digit last.\<close>

fun FormatUint :: "nat \<Rightarrow> string" where
  "FormatUint n = (if n < 10 then [digit_char n] else FormatUint (n div 10) @ [digit_char (n mod 10)])"

declare FormatUint.simps [simp del]

definition FormatInt :: "int \<Rightarrow> string" where
  "FormatInt i = (if i < 0 then CHR ''-'' # FormatUint (nat (- i)) else FormatUint (nat i))"

definition ErrSyntax :: goerr where "ErrSyntax = ErrNew ''invalid syntax''"
definition ErrRange :: goerr where "ErrRange = ErrNew ''value out of range''"

text \<open>
  \<^verbatim>\<open>strconv.ParseUint(s, 10, bits)\<close>: the digits are read from the left; the first
  digit that takes the value past \<open>2 ^ bits - 1\<close> is a range error, the first character
  that is no digit a syntax error.
\<close>

fun parse_uint_loop :: "nat \<Rightarrow> nat \<Rightarrow> string \<Rightarrow> nat result" where
  "parse_uint_loop b n [] = Inr n"
| "parse_uint_loop b n (c # cs) =
     (if \<not> is_digit c then Inl ErrSyntax
      else if 2 ^ b \<le> n * 10 + digit_val c then Inl ErrRange
      else parse_uint_loop b (n * 10 + digit_val c) cs)"

definition ParseUint :: "string \<Rightarrow> nat \<Rightarrow> nat result" where
  "ParseUint s b = (if s = [] then Inl ErrSyntax else parse_uint_loop b 0 s)"

text \<open>\<^verbatim>\<open>strconv.ParseInt(s, 10, bits)\<close>: an optional sign, then an unsigned 64-bit number
  whose magnitude has to fit \<open>bits\<close> bits of two's complement.\<close>

definition ParseInt :: "string \<Rightarrow> nat \<Rightarrow> int result" where
  "ParseInt s b =
     (if s = [] then Inl ErrSyntax
      else let neg = (hd s = CHR ''-'');
               body = (if hd s = CHR ''-'' \<or> hd s = CHR ''+'' then tl s else s)
           in case ParseUint body 64 of
                Inl e \<Rightarrow> Inl e
              | Inr n \<Rightarrow>
                  if \<not> neg \<and> 2 ^ (b - 1) \<le> n then Inl ErrRange
                  else if neg \<and> 2 ^ (b - 1) < n then Inl ErrRange
                  else Inr (if neg then - int n else int n))"

lemma less_10_cases:
  "(d::nat) < 10 \<Longrightarrow> d = 0 \<or> d = 1 \<or> d = 2 \<or> d = 3 \<or> d = 4 \<or> d = 5 \<or> d = 6 \<or> d = 7 \<or> d = 8 \<or> d = 9"
  by presburger

lemma digit_val_char [simp]: "d < 10 \<Longrightarrow> digit_val (digit_char d) = d"
  by (drule less_10_cases) (auto simp: digit_val_def digit_char_def)

lemma is_digit_char [simp]: "d < 10 \<Longrightarrow> is_digit (digit_char d)"
  by (drule less_10_cases) (auto simp: is_digit_def digit_char_def)

lemma digit_char_eq_iff [simp]: "d < 10 \<Longrightarrow> digit_char d = c \<longleftrightarrow> is_digit c \<and> digit_val c = d"
  by (metis digit_val_char digit_val_def is_digit_char is_digit_def le_add_diff_inverse of_char_eq_iff)

lemma not_is_digit [simp]:
  "\<not> is_digit (CHR '':'')" "\<not> is_digit (CHR ''-'')" "\<not> is_digit (CHR ''+'')"
  "\<not> is_digit (CHR ''['')" "\<not> is_digit (CHR '']'')"
  by (simp_all add: is_digit_def)

lemma FormatUint_nonempty [simp]: "FormatUint n \<noteq> []"
  by (subst FormatUint.simps) simp

lemma FormatUint_digits: "\<forall>c \<in> set (FormatUint n). is_digit c"
proof (induction n rule: FormatUint.induct)
  case (1 n)
  then show ?case
    by (subst FormatUint.simps) auto
qed

lemma parse_uint_loop_append:
  "parse_uint_loop b n (xs @ ys) =
     (case parse_uint_loop b n xs of Inl e \<Rightarrow> Inl e | Inr m \<Rightarrow> parse_uint_loop b m ys)"
  by (induction xs arbitrary: n) auto

lemma parse_uint_loop_Format: "n < 2 ^ b \<Longrightarrow> parse_uint_loop b 0 (FormatUint n) = Inr n"
proof (induction n rule: FormatUint.induct)
  case (1 n)
  show ?case
  proof (cases "n < 10")
    case True
    then show ?thesis
      using 1 by (subst FormatUint.simps) simp
  next
    case False
    have "n div 10 < 2 ^ b"
      using 1 by (metis div_le_dividend le_less_trans)
    with 1 False have "parse_uint_loop b 0 (FormatUint (n div 10)) = Inr (n div 10)"
      by simp
    moreover have "n div 10 * 10 + n mod 10 = n"
      by simp
    ultimately show ?thesis
      using False 1 by (subst FormatUint.simps) (simp add: parse_uint_loop_append)
  qed
qed

lemma ParseUint_FormatUint [simp]: "n < 2 ^ b \<Longrightarrow> ParseUint (FormatUint n) b = Inr n"
  by (simp add: ParseUint_def parse_uint_loop_Format)

lemma parse_uint_loop_bound: "n < 2 ^ b \<Longrightarrow> parse_uint_loop b n s = Inr m \<Longrightarrow> m < 2 ^ b"
  by (induction s arbitrary: n) (auto simp: not_le split: if_splits)

lemma ParseUint_bound: "ParseUint s b = Inr m \<Longrightarrow> m < 2 ^ b"
  unfolding ParseUint_def by (auto split: if_splits dest!: parse_uint_loop_bound [rotated])

lemma FormatUint_single: "n < 10 \<Longrightarrow> FormatUint n = [digit_char n]"
  by (subst FormatUint.simps) simp

lemma list_all_FormatUint [simp]: "list_all is_digit (FormatUint n)"
  using FormatUint_digits by (simp add: list_all_iff)

lemma length_FormatUint: "0 < k \<Longrightarrow> length (FormatUint n) \<le> k \<longleftrightarrow> n < 10 ^ k"
proof (induction n arbitrary: k rule: FormatUint.induct)
  case (1 n)
  show ?case
  proof (cases "n < 10")
    case True
    have "(10::nat) \<le> 10 ^ k"
      using 1 by (metis One_nat_def Suc_leI power_increasing power_one_right numeral_le_one_iff semiring_norm(69) linear)
    with True 1 show ?thesis
      by (simp add: FormatUint_single)
  next
    case False
    show ?thesis
    proof (cases "k = 1")
      case True
      then show ?thesis
        using False FormatUint_nonempty [of "n div 10"]
        by (subst FormatUint.simps) simp
    next
      case k: False
      with "1.prems" obtain j where j: "k = Suc j" "0 < j" by (cases k) auto
      have "length (FormatUint (n div 10)) \<le> j \<longleftrightarrow> n div 10 < 10 ^ j"
        using "1.IH" False j by simp
      also have "\<dots> \<longleftrightarrow> n < 10 ^ k"
        using j by (simp add: div_less_iff_less_mult mult.commute)
      finally show ?thesis
        using False j by (subst FormatUint.simps) simp
    qed
  qed
qed

section \<open>Byte order\<close>

text \<open>
  \<open>le_bytes n w\<close> are the \<open>n\<close> low bytes of \<open>w\<close>, least significant first
  (\<^verbatim>\<open>binary.LittleEndian\<close>); \<open>le_word\<close> reads them back. Big-endian text is the
  reverse list.
\<close>

primrec le_bytes :: "nat \<Rightarrow> 'a::len word \<Rightarrow> bytes" where
  "le_bytes 0 w = []"
| "le_bytes (Suc n) w = ucast w # le_bytes n (drop_bit 8 w)"

primrec le_word :: "bytes \<Rightarrow> 'a::len word" where
  "le_word [] = 0"
| "le_word (b # bs) = ucast b OR push_bit 8 (le_word bs)"

definition be_bytes :: "nat \<Rightarrow> 'a::len word \<Rightarrow> bytes" where
  "be_bytes n w = rev (le_bytes n w)"

definition be_word :: "bytes \<Rightarrow> 'a::len word" where
  "be_word bs = le_word (rev bs)"

lemma length_le_bytes [simp, wire_simps]: "length (le_bytes n w) = n"
  by (induction n arbitrary: w) simp_all

lemma length_be_bytes [simp, wire_simps]: "length (be_bytes n w) = n"
  by (simp add: be_bytes_def)

lemma le_word_le_bytes: "le_word (le_bytes n w) = take_bit (8 * n) (w :: 'a::len word)"
proof (induction n arbitrary: w)
  case 0
  then show ?case by simp
next
  case (Suc n)
  have "ucast (ucast w :: byte) OR push_bit 8 (take_bit (8 * n) (drop_bit 8 w)) =
      take_bit (8 * Suc n) w"
    by (rule bit_word_eqI) (auto simp: bit_simps)
  with Suc show ?case by simp
qed

lemma le_word_le_bytes_full [simp, wire_simps]:
  "LENGTH('a::len) \<le> 8 * n \<Longrightarrow> le_word (le_bytes n w) = (w :: 'a word)"
  by (simp add: le_word_le_bytes take_bit_word_eq_self)

lemma nth_le_bytes: "i < n \<Longrightarrow> le_bytes n w ! i = ucast (drop_bit (8 * i) w)"
proof (induction n arbitrary: w i)
  case 0
  then show ?case by simp
next
  case (Suc n)
  then show ?case
    by (cases i) (simp_all add: algebra_simps)
qed

lemma bit_le_word:
  "bit (le_word bs :: 'a::len word) i \<longleftrightarrow>
     i < LENGTH('a) \<and> i div 8 < length bs \<and> bit (bs ! (i div 8)) (i mod 8)"
proof (induction bs arbitrary: i)
  case Nil
  then show ?case by simp
next
  case (Cons b bs)
  show ?case
  proof (cases "i < 8")
    case True
    then show ?thesis by (auto simp: bit_simps)
  next
    case False
    then have "i div 8 = Suc ((i - 8) div 8)" and "i mod 8 = (i - 8) mod 8"
      by (simp_all add: le_div_geq le_mod_geq)
    moreover have "\<not> bit b i"
      using False by (auto dest: bit_imp_le_length)
    ultimately show ?thesis
      using False Cons.IH [of "i - 8"] by (auto simp: bit_simps)
  qed
qed

lemma le_bytes_le_word [wire_simps]:
  assumes "length bs = n" and "8 * n \<le> LENGTH('a::len)"
  shows "le_bytes n (le_word bs :: 'a word) = bs"
proof (rule nth_equalityI)
  show "length (le_bytes n (le_word bs :: 'a word)) = length bs"
    using assms by simp
next
  fix i
  assume "i < length (le_bytes n (le_word bs :: 'a word))"
  then have i: "i < n" by simp
  show "le_bytes n (le_word bs :: 'a word) ! i = bs ! i"
  proof (rule bit_word_eqI)
    fix k
    assume k: "k < LENGTH(8)"
    then have "(8 * i + k) div 8 = i" and "(8 * i + k) mod 8 = k" by simp_all
    then show "bit (le_bytes n (le_word bs :: 'a word) ! i) k = bit (bs ! i) k"
      using assms i k by (simp add: nth_le_bytes bit_simps bit_le_word add.commute)
  qed
qed

section \<open>Blocks of bytes\<close>

text \<open>The first \<open>n\<close> pieces of \<open>sz\<close> elements, and exclusive or position by position.\<close>

fun chunks :: "nat \<Rightarrow> nat \<Rightarrow> 'a list \<Rightarrow> 'a list list" where
  "chunks sz 0 xs = []"
| "chunks sz (Suc n) xs = take sz xs # chunks sz n (drop sz xs)"

definition xor_bytes :: "bytes \<Rightarrow> bytes \<Rightarrow> bytes" where
  "xor_bytes xs ys = map2 (XOR) xs ys"

lemma length_xor_bytes [simp]: "length (xor_bytes xs ys) = min (length xs) (length ys)"
  by (simp add: xor_bytes_def)

lemma xor_bytes_cancel [simp]: "length xs \<le> length ys \<Longrightarrow> xor_bytes (xor_bytes xs ys) ys = xs"
  by (rule nth_equalityI) (auto simp: xor_bytes_def xor.assoc)

lemma length_chunks [simp]: "length (chunks sz n xs) = n"
  by (induction n arbitrary: xs) simp_all

lemma chunks_length: "length xs = sz * n \<Longrightarrow> \<forall>c \<in> set (chunks sz n xs). length c = sz"
proof (induction n arbitrary: xs)
  case (Suc n)
  from Suc.prems have "length (drop sz xs) = sz * n" and "length (take sz xs) = sz"
    by simp_all
  with Suc.IH show ?case by (metis chunks.simps(2) set_ConsD)
qed simp

lemma length_concat_const: "\<forall>w \<in> set ws. length w = n \<Longrightarrow> length (concat ws) = n * length ws"
  by (induction ws) simp_all

lemma concat_chunks: "length xs = sz * n \<Longrightarrow> concat (chunks sz n xs) = xs"
proof (induction n arbitrary: xs)
  case (Suc n)
  from Suc.prems have "length (drop sz xs) = sz * n" by simp
  then have "concat (chunks sz n (drop sz xs)) = drop sz xs" by (rule Suc.IH)
  then show ?case by simp
qed simp

text \<open>A string as the bytes it consists of, and back.\<close>

definition bytes_of_string :: "string \<Rightarrow> bytes" where
  "bytes_of_string s = map of_char s"

definition string_of_bytes :: "bytes \<Rightarrow> string" where
  "string_of_bytes bs = map (\<lambda>b. char_of (unat b)) bs"

lemma length_bytes_of_string [simp]: "length (bytes_of_string s) = length s"
  by (simp add: bytes_of_string_def)

end
