(* ===== verification/GoLib.thy ===== *)
theory GoLib
  imports Prelude
begin

text \<open>
  The parts of the Go standard library the components call, as executable definitions:
  readers (\<^verbatim>\<open>bytes.Reader\<close>, \<^verbatim>\<open>io.ReadFull\<close>, \<^verbatim>\<open>binary.Read\<close>), text
  (\<^verbatim>\<open>strings\<close>), JSON values as \<^verbatim>\<open>encoding/json\<close> decodes them, and buffered channels.
\<close>

section \<open>Readers\<close>

definition EOF :: goerr where "EOF = ErrNew ''EOF''"
definition ErrUnexpectedEOF :: goerr where "ErrUnexpectedEOF = ErrNew ''unexpected EOF''"

text \<open>
  A \<^verbatim>\<open>bytes.Reader\<close> is the list of bytes it has not yet delivered. \<^verbatim>\<open>io.ReadFull\<close> needs
  \<open>n\<close> bytes: none left is \<^verbatim>\<open>io.EOF\<close>, too few is \<^verbatim>\<open>io.ErrUnexpectedEOF\<close>.
\<close>

definition ReadFull :: "nat \<Rightarrow> bytes \<Rightarrow> (bytes \<times> bytes) result" where
  "ReadFull n r =
     (if n \<le> length r then Inr (take n r, drop n r)
      else if r = [] then Inl EOF else Inl ErrUnexpectedEOF)"

text \<open>\<^verbatim>\<open>(*bytes.Reader).Read\<close> into a buffer of \<open>n\<close> bytes: the bytes copied and the rest.
  An exhausted reader answers \<^verbatim>\<open>io.EOF\<close> even for an empty buffer.\<close>

definition reader_Read :: "nat \<Rightarrow> bytes \<Rightarrow> (bytes \<times> bytes) result" where
  "reader_Read n r = (if r = [] then Inl EOF else Inr (take n r, drop n r))"

text \<open>\<^verbatim>\<open>binary.Read(r, binary.LittleEndian, &x)\<close> for a word of \<open>n\<close> bytes.\<close>

definition read_le :: "nat \<Rightarrow> bytes \<Rightarrow> ('a::len word \<times> bytes) result" where
  "read_le n r = (case ReadFull n r of Inl e \<Rightarrow> Inl e | Inr (b, r') \<Rightarrow> Inr (le_word b, r'))"

abbreviation read_u8 :: "bytes \<Rightarrow> (uint8 \<times> bytes) result" where "read_u8 \<equiv> read_le 1"
abbreviation read_u16 :: "bytes \<Rightarrow> (uint16 \<times> bytes) result" where "read_u16 \<equiv> read_le 2"
abbreviation read_u32 :: "bytes \<Rightarrow> (uint32 \<times> bytes) result" where "read_u32 \<equiv> read_le 4"
abbreviation read_u64 :: "bytes \<Rightarrow> (uint64 \<times> bytes) result" where "read_u64 \<equiv> read_le 8"

lemma ReadFull_append [simp, wire_simps]: "length xs = n \<Longrightarrow> ReadFull n (xs @ ys) = Inr (xs, ys)"
  by (simp add: ReadFull_def)

lemma ReadFull_exact [simp, wire_simps]: "length xs = n \<Longrightarrow> ReadFull n xs = Inr (xs, [])"
  by (simp add: ReadFull_def)

lemma ReadFull_Inr:
  "ReadFull n r = Inr (a, r') \<longleftrightarrow> n \<le> length r \<and> a = take n r \<and> r' = drop n r"
  by (auto simp: ReadFull_def)

lemma read_le_append [simp, wire_simps]:
  "LENGTH('a::len) \<le> 8 * n \<Longrightarrow> read_le n (le_bytes n w @ r) = Inr (w :: 'a word, r)"
  by (simp add: read_le_def)

lemma read_le_Inr:
  "read_le n r = Inr (w, r') \<longleftrightarrow> n \<le> length r \<and> w = le_word (take n r) \<and> r' = drop n r"
  by (auto simp: read_le_def ReadFull_def)

lemma read_le_short: "length r < n \<Longrightarrow> \<exists>e. read_le n r = Inl e"
  by (auto simp: read_le_def ReadFull_def)

lemma read_le_length: "read_le n r = Inr (w, r') \<Longrightarrow> length r = n + length r'"
  by (auto simp: read_le_Inr)

section \<open>Text\<close>

definition has_prefix :: "'a list \<Rightarrow> 'a list \<Rightarrow> bool" where
  "has_prefix p s \<longleftrightarrow> take (length p) s = p"

text \<open>
  \<^verbatim>\<open>strings.TrimSpace\<close> removes \<^verbatim>\<open>unicode.IsSpace\<close> runes at both ends; the table holds
  the UTF-8 encoding of each of them.
\<close>

definition space_runes :: "string list" where
  "space_runes =
     [[CHR 0x09], [CHR 0x0A], [CHR 0x0B], [CHR 0x0C], [CHR 0x0D], [CHR 0x20],
      [CHR 0xC2, CHR 0x85], [CHR 0xC2, CHR 0xA0], [CHR 0xE1, CHR 0x9A, CHR 0x80],
      [CHR 0xE2, CHR 0x80, CHR 0x80], [CHR 0xE2, CHR 0x80, CHR 0x81],
      [CHR 0xE2, CHR 0x80, CHR 0x82], [CHR 0xE2, CHR 0x80, CHR 0x83],
      [CHR 0xE2, CHR 0x80, CHR 0x84], [CHR 0xE2, CHR 0x80, CHR 0x85],
      [CHR 0xE2, CHR 0x80, CHR 0x86], [CHR 0xE2, CHR 0x80, CHR 0x87],
      [CHR 0xE2, CHR 0x80, CHR 0x88], [CHR 0xE2, CHR 0x80, CHR 0x89],
      [CHR 0xE2, CHR 0x80, CHR 0x8A], [CHR 0xE2, CHR 0x80, CHR 0xA8],
      [CHR 0xE2, CHR 0x80, CHR 0xA9], [CHR 0xE2, CHR 0x80, CHR 0xAF],
      [CHR 0xE2, CHR 0x81, CHR 0x9F], [CHR 0xE3, CHR 0x80, CHR 0x80]]"

function trim_left :: "string list \<Rightarrow> string \<Rightarrow> string" where
  "trim_left ps s =
     (case find (\<lambda>p. p \<noteq> [] \<and> s \<noteq> [] \<and> has_prefix p s) ps of
        None \<Rightarrow> s
      | Some p \<Rightarrow> trim_left ps (drop (length p) s))"
  by pat_completeness auto
termination
  by (relation "measure (\<lambda>(ps, s). length s)") (auto simp: find_Some_iff)

declare trim_left.simps [simp del]

definition TrimSpace :: "string \<Rightarrow> string" where
  "TrimSpace s = rev (trim_left (map rev space_runes) (rev (trim_left space_runes s)))"

lemma trim_left_id:
  assumes "\<And>p. p \<in> set ps \<Longrightarrow> \<not> has_prefix p s"
  shows "trim_left ps s = s"
proof -
  have "find (\<lambda>p. p \<noteq> [] \<and> s \<noteq> [] \<and> has_prefix p s) ps = None"
    using assms by (auto simp: find_None_iff)
  then show ?thesis
    by (subst trim_left.simps) simp
qed

text \<open>A text whose first and last characters are printable ASCII is left alone.\<close>

definition graphic :: "char \<Rightarrow> bool" where
  "graphic c \<longleftrightarrow> 0x20 < (of_char c :: nat) \<and> (of_char c :: nat) < 0x7F"

lemma graphic_not_space:
  "graphic c \<Longrightarrow> p \<in> set space_runes \<Longrightarrow> \<not> has_prefix p (c # s)"
  by (auto simp: space_runes_def has_prefix_def graphic_def)

lemma graphic_not_space_rev:
  "graphic c \<Longrightarrow> p \<in> set (map rev space_runes) \<Longrightarrow> \<not> has_prefix p (c # s)"
  by (auto simp: space_runes_def has_prefix_def graphic_def)

lemma TrimSpace_id: "s \<noteq> [] \<Longrightarrow> graphic (hd s) \<Longrightarrow> graphic (last s) \<Longrightarrow> TrimSpace s = s"
proof -
  assume s: "s \<noteq> []" and h: "graphic (hd s)" and l: "graphic (last s)"
  have 1: "trim_left space_runes s = s"
    using s h by (intro trim_left_id) (metis graphic_not_space list.collapse)
  have "rev s = last s # rev (butlast s)"
    using s by (metis append_butlast_last_id rev.simps(2) rev_rev_ident rev_append rev_singleton_conv append_Cons append_Nil)
  then have "trim_left (map rev space_runes) (rev s) = rev s"
    using l by (intro trim_left_id) (metis graphic_not_space_rev)
  with 1 show ?thesis
    by (simp add: TrimSpace_def)
qed

text \<open>\<^verbatim>\<open>strings.ToUpper\<close> on ASCII letters.\<close>

definition upper_char :: "char \<Rightarrow> char" where
  "upper_char c =
     (if 97 \<le> (of_char c :: nat) \<and> (of_char c :: nat) \<le> 122 then char_of (of_char c - 32 :: nat) else c)"

definition ToUpper :: "string \<Rightarrow> string" where
  "ToUpper s = map upper_char s"

section \<open>JSON values\<close>

text \<open>
  A syntactically valid JSON text as the decoder sees it: numbers keep their literal.
  \<^verbatim>\<open>json.Unmarshal\<close> into an integer accepts \<^verbatim>\<open>null\<close> (the target keeps its zero value)
  and number literals \<^verbatim>\<open>strconv\<close> accepts; into a string, \<^verbatim>\<open>null\<close> and string literals.
  Text that is not valid JSON is \<open>None\<close>.
\<close>

datatype json =
    JNull
  | JBool bool
  | JNum string
  | JStr string
  | JArr "json list"
  | JObj "(string \<times> json) list"

definition ErrJSON :: goerr where "ErrJSON = ErrNew ''json: cannot unmarshal''"

definition unmarshal_uint64 :: "json option \<Rightarrow> uint64 result" where
  "unmarshal_uint64 b =
     (case b of
        Some JNull \<Rightarrow> Inr 0
      | Some (JNum l) \<Rightarrow> (case ParseUint l 64 of Inl e \<Rightarrow> Inl ErrJSON | Inr n \<Rightarrow> Inr (of_nat n))
      | _ \<Rightarrow> Inl ErrJSON)"

definition unmarshal_int64 :: "json option \<Rightarrow> int result" where
  "unmarshal_int64 b =
     (case b of
        Some JNull \<Rightarrow> Inr 0
      | Some (JNum l) \<Rightarrow> (case ParseInt l 64 of Inl e \<Rightarrow> Inl ErrJSON | Inr n \<Rightarrow> Inr n)
      | _ \<Rightarrow> Inl ErrJSON)"

definition unmarshal_string :: "json option \<Rightarrow> string result" where
  "unmarshal_string b =
     (case b of Some JNull \<Rightarrow> Inr [] | Some (JStr s) \<Rightarrow> Inr s | _ \<Rightarrow> Inl ErrJSON)"

section \<open>Buffered channels\<close>

text \<open>
  A buffered channel of capacity \<open>chcap\<close> with its pending values, oldest first. A send in a
  \<^verbatim>\<open>select\<close> with \<^verbatim>\<open>default\<close> drops the value when the buffer is full; a plain send parks
  the goroutine, which the callers model as an outcome of its own.
\<close>

record 'a channel =
  chbuf :: "'a list"
  chcap :: nat

definition chan_full :: "'a channel \<Rightarrow> bool" where
  "chan_full c \<longleftrightarrow> chcap c \<le> length (chbuf c)"

definition chan_push :: "'a \<Rightarrow> 'a channel \<Rightarrow> 'a channel" where
  "chan_push x c = c\<lparr>chbuf := chbuf c @ [x]\<rparr>"

definition try_send :: "'a \<Rightarrow> 'a channel \<Rightarrow> 'a channel" where
  "try_send x c = (if chan_full c then c else chan_push x c)"

definition wf_chan :: "'a channel \<Rightarrow> bool" where
  "wf_chan c \<longleftrightarrow> length (chbuf c) \<le> chcap c"

lemma try_send_wf [simp, intro]: "wf_chan c \<Longrightarrow> wf_chan (try_send x c)"
  by (auto simp: wf_chan_def try_send_def chan_full_def chan_push_def)

lemma chan_push_wf [intro]: "\<not> chan_full c \<Longrightarrow> wf_chan (chan_push x c)"
  by (auto simp: wf_chan_def chan_full_def chan_push_def)

lemma try_send_cap [simp]: "chcap (try_send x c) = chcap c"
  by (simp add: try_send_def chan_push_def)

section \<open>Outcomes and URL values\<close>

text \<open>
  How a call that can do more than fail ends: with a value, an error, a panic, or parked
  for ever on a full channel nobody drains.
\<close>

datatype 'a outcome = Return 'a | Fail goerr | Panic goerr | Parked

text \<open>\<^verbatim>\<open>url.Values\<close>: the values of each key in the order they were added.\<close>

type_synonym url_values = "(string \<times> string list) list"

fun values_Add :: "string \<Rightarrow> string \<Rightarrow> url_values \<Rightarrow> url_values" where
  "values_Add k v [] = [(k, [v])]"
| "values_Add k v ((k', vs) # m) =
     (if k = k' then (k', vs @ [v]) # m else (k', vs) # values_Add k v m)"

definition values_Get :: "string \<Rightarrow> url_values \<Rightarrow> string list" where
  "values_Get k m = (case map_of m k of None \<Rightarrow> [] | Some vs \<Rightarrow> vs)"

lemma values_Get_Add:
  "values_Get k (values_Add k' v m) = (if k = k' then values_Get k m @ [v] else values_Get k m)"
  by (induction m) (auto simp: values_Get_def)

section \<open>Contexts\<close>

text \<open>What the code looks at in a \<^verbatim>\<open>context.Context\<close>: its deadline, if it has one, the
  time at which it is cancelled or expires, if ever, and the error it then answers. A nil
  context is \<open>None\<close> where the code checks for it. Times are nanoseconds.\<close>

record goctx =
  ctx_deadline :: "int option"
  ctx_done_at :: "int option"
  ctx_err :: goerr

definition Background :: goctx where
  "Background = \<lparr>ctx_deadline = None, ctx_done_at = None, ctx_err = ErrNew ''context canceled''\<rparr>"

definition ctx_done :: "goctx \<Rightarrow> int \<Rightarrow> bool" where
  "ctx_done cx now \<longleftrightarrow> (case ctx_done_at cx of None \<Rightarrow> False | Some t \<Rightarrow> t \<le> now)"

end
