(* ===== verification/SteamID.thy ===== *)
theory SteamID
  imports GoLib
begin

text \<open>
  Package \<^verbatim>\<open>steamid\<close>: the 64-bit identifier with its four bit fields
  (\<^verbatim>\<open>steamid_bits.go\<close>), its constructors and predicates (\<^verbatim>\<open>steamid.go\<close>), and the
  Steam2, Steam3 and decimal texts (\<^verbatim>\<open>steamid_2.go\<close>, \<^verbatim>\<open>steamid_3.go\<close>,
  \<^verbatim>\<open>steamid_64.go\<close>). The regular expressions are the recognisers
  \<open>Steam2_match\<close>, \<open>Steam3_match\<close> and \<open>Steam64_match\<close>, which return the submatches.
\<close>

section \<open>Types and constants\<close>

type_synonym SteamID = uint64
type_synonym AccountID = uint32
type_synonym AccountInstance = uint32
type_synonym AccountType = uint8
type_synonym AccountUniverse = uint8

definition AccountInstanceClanMask :: AccountInstance where
  "AccountInstanceClanMask = push_bit 19 1"
definition AccountInstanceLobbyMask :: AccountInstance where
  "AccountInstanceLobbyMask = push_bit 18 1"
definition AccountInstanceMMSLobbyMask :: AccountInstance where
  "AccountInstanceMMSLobbyMask = push_bit 17 1"

definition AccountTypeInvalid :: AccountType where "AccountTypeInvalid = 0"
definition AccountTypeIndividual :: AccountType where "AccountTypeIndividual = 1"
definition AccountTypeMultiseat :: AccountType where "AccountTypeMultiseat = 2"
definition AccountTypeGameServer :: AccountType where "AccountTypeGameServer = 3"
definition AccountTypeAnonGameServer :: AccountType where "AccountTypeAnonGameServer = 4"
definition AccountTypePending :: AccountType where "AccountTypePending = 5"
definition AccountTypeContentServer :: AccountType where "AccountTypeContentServer = 6"
definition AccountTypeClan :: AccountType where "AccountTypeClan = 7"
definition AccountTypeChat :: AccountType where "AccountTypeChat = 8"
definition AccountTypeP2PSuperSeeder :: AccountType where "AccountTypeP2PSuperSeeder = 9"
definition AccountTypeAnonUser :: AccountType where "AccountTypeAnonUser = 10"

definition AccountUniverseInvalid :: AccountUniverse where "AccountUniverseInvalid = 0"
definition AccountUniversePublic :: AccountUniverse where "AccountUniversePublic = 1"
definition AccountUniverseBeta :: AccountUniverse where "AccountUniverseBeta = 2"
definition AccountUniverseInternal :: AccountUniverse where "AccountUniverseInternal = 3"
definition AccountUniverseDev :: AccountUniverse where "AccountUniverseDev = 4"
definition AccountUniverseMax :: AccountUniverse where "AccountUniverseMax = 5"

lemmas account_type_defs =
  AccountTypeInvalid_def AccountTypeIndividual_def AccountTypeMultiseat_def
  AccountTypeGameServer_def AccountTypeAnonGameServer_def AccountTypePending_def
  AccountTypeContentServer_def AccountTypeClan_def AccountTypeChat_def
  AccountTypeP2PSuperSeeder_def AccountTypeAnonUser_def

lemmas account_universe_defs =
  AccountUniverseInvalid_def AccountUniversePublic_def AccountUniverseBeta_def
  AccountUniverseInternal_def AccountUniverseDev_def AccountUniverseMax_def

section \<open>Bit fields\<close>

definition accountIDOffset :: nat where "accountIDOffset = 0"
definition accountIDMask :: uint64 where "accountIDMask = 0xFFFFFFFF"
definition accountInstanceOffset :: nat where "accountInstanceOffset = 32"
definition accountInstanceMask :: uint64 where "accountInstanceMask = 0xFFFFF"
definition accountTypeOffset :: nat where "accountTypeOffset = 52"
definition accountTypeMask :: uint64 where "accountTypeMask = 0xF"
definition accountUniverseOffset :: nat where "accountUniverseOffset = 56"
definition accountUniverseMask :: uint64 where "accountUniverseMask = 0xF"

definition Uint64 :: "SteamID \<Rightarrow> uint64" where "Uint64 sid = sid"

definition getBits :: "SteamID \<Rightarrow> uint64 \<Rightarrow> nat \<Rightarrow> uint64" where
  "getBits sid m off = drop_bit off (Uint64 sid) AND m"

definition setBits :: "SteamID \<Rightarrow> uint64 \<Rightarrow> uint64 \<Rightarrow> nat \<Rightarrow> SteamID" where
  "setBits sid v m off = (Uint64 sid AND NOT (push_bit off m)) OR push_bit off (v AND m)"

definition AccountID :: "SteamID \<Rightarrow> AccountID" where
  "AccountID sid = ucast (getBits sid accountIDMask accountIDOffset)"
definition WithAccountID :: "SteamID \<Rightarrow> AccountID \<Rightarrow> SteamID" where
  "WithAccountID sid v = setBits sid (ucast v) accountIDMask accountIDOffset"
definition AccountInstance :: "SteamID \<Rightarrow> AccountInstance" where
  "AccountInstance sid = ucast (getBits sid accountInstanceMask accountInstanceOffset)"
definition WithAccountInstance :: "SteamID \<Rightarrow> AccountInstance \<Rightarrow> SteamID" where
  "WithAccountInstance sid v = setBits sid (ucast v) accountInstanceMask accountInstanceOffset"
definition AccountType :: "SteamID \<Rightarrow> AccountType" where
  "AccountType sid = ucast (getBits sid accountTypeMask accountTypeOffset)"
definition WithAccountType :: "SteamID \<Rightarrow> AccountType \<Rightarrow> SteamID" where
  "WithAccountType sid v = setBits sid (ucast v) accountTypeMask accountTypeOffset"
definition AccountUniverse :: "SteamID \<Rightarrow> AccountUniverse" where
  "AccountUniverse sid = ucast (getBits sid accountUniverseMask accountUniverseOffset)"
definition WithAccountUniverse :: "SteamID \<Rightarrow> AccountUniverse \<Rightarrow> SteamID" where
  "WithAccountUniverse sid v = setBits sid (ucast v) accountUniverseMask accountUniverseOffset"

lemmas field_defs =
  AccountID_def WithAccountID_def AccountInstance_def WithAccountInstance_def
  AccountType_def WithAccountType_def AccountUniverse_def WithAccountUniverse_def
  accountIDOffset_def accountInstanceOffset_def accountTypeOffset_def accountUniverseOffset_def

lemma field_masks:
  "accountIDMask = mask 32" "accountInstanceMask = mask 20"
  "accountTypeMask = mask 4" "accountUniverseMask = mask 4"
  by (simp_all add: accountIDMask_def accountInstanceMask_def accountTypeMask_def
      accountUniverseMask_def mask_eq_exp_minus_1)

text \<open>The laws of one field of \<open>wd\<close> bits at offset \<open>off\<close>, and of two disjoint ones.\<close>

locale bit_field =
  fixes wd :: nat and off :: nat
  assumes in_word: "off + wd \<le> 64"
begin

lemma get_set: "getBits (setBits sid v (mask wd) off) (mask wd) off = v AND mask wd"
  using in_word
  by (intro bit_word_eqI) (auto simp: getBits_def setBits_def Uint64_def bit_simps)

lemma set_get: "setBits sid (getBits sid (mask wd) off) (mask wd) off = sid"
  by (intro bit_word_eqI) (auto simp: getBits_def setBits_def Uint64_def bit_simps)

lemma set_set: "setBits (setBits sid v (mask wd) off) v' (mask wd) off = setBits sid v' (mask wd) off"
  by (intro bit_word_eqI) (auto simp: setBits_def Uint64_def bit_simps)

end

locale disjoint_fields = bit_field wd off for wd off +
  fixes wd' :: nat and off' :: nat
  assumes apart: "off + wd \<le> off' \<or> off' + wd' \<le> off"
begin

lemma get_set_other: "getBits (setBits sid v (mask wd') off') (mask wd) off = getBits sid (mask wd) off"
  using apart in_word
  by (intro bit_word_eqI) (auto simp: getBits_def setBits_def Uint64_def bit_simps)

lemma set_commute:
  "setBits (setBits sid v (mask wd) off) v' (mask wd') off' =
   setBits (setBits sid v' (mask wd') off') v (mask wd) off"
  using apart
  by (intro bit_word_eqI) (auto simp: setBits_def Uint64_def bit_simps)

end

interpretation idf: bit_field 32 0 by unfold_locales simp
interpretation instf: bit_field 20 32 by unfold_locales simp
interpretation typef: bit_field 4 52 by unfold_locales simp
interpretation univf: bit_field 4 56 by unfold_locales simp

interpretation id_inst: disjoint_fields 32 0 20 32 by unfold_locales simp
interpretation id_type: disjoint_fields 32 0 4 52 by unfold_locales simp
interpretation id_univ: disjoint_fields 32 0 4 56 by unfold_locales simp
interpretation inst_id: disjoint_fields 20 32 32 0 by unfold_locales simp
interpretation inst_type: disjoint_fields 20 32 4 52 by unfold_locales simp
interpretation inst_univ: disjoint_fields 20 32 4 56 by unfold_locales simp
interpretation type_id: disjoint_fields 4 52 32 0 by unfold_locales simp
interpretation type_inst: disjoint_fields 4 52 20 32 by unfold_locales simp
interpretation type_univ: disjoint_fields 4 52 4 56 by unfold_locales simp
interpretation univ_id: disjoint_fields 4 56 32 0 by unfold_locales simp
interpretation univ_inst: disjoint_fields 4 56 20 32 by unfold_locales simp
interpretation univ_type: disjoint_fields 4 56 4 52 by unfold_locales simp

lemmas other_fields =
  id_inst.get_set_other id_type.get_set_other id_univ.get_set_other
  inst_id.get_set_other inst_type.get_set_other inst_univ.get_set_other
  type_id.get_set_other type_inst.get_set_other type_univ.get_set_other
  univ_id.get_set_other univ_inst.get_set_other univ_type.get_set_other

lemma With_other [simp]:
  "AccountID (WithAccountInstance sid i) = AccountID sid"
  "AccountID (WithAccountType sid t) = AccountID sid"
  "AccountID (WithAccountUniverse sid u) = AccountID sid"
  "AccountInstance (WithAccountID sid a) = AccountInstance sid"
  "AccountInstance (WithAccountType sid t) = AccountInstance sid"
  "AccountInstance (WithAccountUniverse sid u) = AccountInstance sid"
  "AccountType (WithAccountID sid a) = AccountType sid"
  "AccountType (WithAccountInstance sid i) = AccountType sid"
  "AccountType (WithAccountUniverse sid u) = AccountType sid"
  "AccountUniverse (WithAccountID sid a) = AccountUniverse sid"
  "AccountUniverse (WithAccountInstance sid i) = AccountUniverse sid"
  "AccountUniverse (WithAccountType sid t) = AccountUniverse sid"
  by (simp_all add: field_defs field_masks other_fields)

lemma With_same [simp]:
  "AccountID (WithAccountID sid a) = a"
  "AccountInstance (WithAccountInstance sid i) = i AND mask 20"
  "AccountType (WithAccountType sid t) = t AND mask 4"
  "AccountUniverse (WithAccountUniverse sid u) = u AND mask 4"
  by (simp_all add: field_defs field_masks idf.get_set instf.get_set typef.get_set univf.get_set)
    (rule bit_word_eqI; auto simp: bit_simps)+

text \<open>Two identifiers with the same fields and no bits above the universe are equal.\<close>

lemma fields_eqI:
  assumes "AccountID s = AccountID t" "AccountInstance s = AccountInstance t"
    "AccountType s = AccountType t" "AccountUniverse s = AccountUniverse t"
    "drop_bit 60 s = drop_bit 60 t"
  shows "s = t"
proof (rule bit_word_eqI)
  fix n assume n: "n < LENGTH(64)"
  have A: "bit s n = bit t n" if "n < 32"
    using arg_cong [OF assms(1), of "\<lambda>w. bit w n"] that
    by (simp add: field_defs field_masks getBits_def Uint64_def bit_simps)
  have B: "bit s n = bit t n" if "32 \<le> n" "n < 52"
    using arg_cong [OF assms(2), of "\<lambda>w. bit w (n - 32)"] that
    by (auto simp: field_defs field_masks getBits_def Uint64_def bit_simps)
  have C: "bit s n = bit t n" if "52 \<le> n" "n < 56"
    using arg_cong [OF assms(3), of "\<lambda>w. bit w (n - 52)"] that
    by (auto simp: field_defs field_masks getBits_def Uint64_def bit_simps)
  have D: "bit s n = bit t n" if "56 \<le> n" "n < 60"
    using arg_cong [OF assms(4), of "\<lambda>w. bit w (n - 56)"] that
    by (auto simp: field_defs field_masks getBits_def Uint64_def bit_simps)
  have E: "bit s n = bit t n" if "60 \<le> n"
    using arg_cong [OF assms(5), of "\<lambda>w. bit w (n - 60)"] that
    by (auto simp: bit_simps)
  show "bit s n = bit t n"
    using A B C D E by (meson leI)
qed

lemma drop_bit_With [simp]:
  "drop_bit 60 (WithAccountID s a) = drop_bit 60 s"
  "drop_bit 60 (WithAccountInstance s i) = drop_bit 60 s"
  "drop_bit 60 (WithAccountType s ty) = drop_bit 60 s"
  "drop_bit 60 (WithAccountUniverse s u) = drop_bit 60 s"
  by (rule bit_word_eqI; auto simp: field_defs field_masks setBits_def Uint64_def bit_simps dest: bit_imp_le_length)+

section \<open>Constructors, predicates and conversions\<close>

definition NewSteamID :: "AccountID \<Rightarrow> AccountInstance \<Rightarrow> AccountType \<Rightarrow> AccountUniverse \<Rightarrow> SteamID" where
  "NewSteamID accountID accountInstance accountType accountUniverse =
     WithAccountUniverse
       (WithAccountType
         (WithAccountInstance (WithAccountID 0 accountID) accountInstance)
         accountType)
       accountUniverse"

definition FromUint64 :: "uint64 \<Rightarrow> SteamID" where
  "FromUint64 steamID = steamID"

definition IsValid :: "SteamID \<Rightarrow> bool" where
  "IsValid sid \<longleftrightarrow>
     AccountUniverse sid \<noteq> AccountUniverseInvalid \<and>
     AccountType sid \<noteq> AccountTypeInvalid \<and>
     AccountID sid \<noteq> 0"

definition ConvertClanToChat :: "SteamID \<Rightarrow> SteamID" where
  "ConvertClanToChat sid =
     (if AccountType sid \<noteq> AccountTypeClan then sid
      else WithAccountInstance (WithAccountType sid AccountTypeChat) AccountInstanceClanMask)"

definition ConvertChatToClan :: "SteamID \<Rightarrow> SteamID" where
  "ConvertChatToClan sid =
     (if AccountType sid \<noteq> AccountTypeChat then sid
      else if AccountInstance sid \<noteq> AccountInstanceClanMask then sid
      else WithAccountInstance (WithAccountType sid AccountTypeClan) 0)"

section \<open>Decimal text\<close>

definition ToSteam64 :: "SteamID \<Rightarrow> string" where
  "ToSteam64 sid = FormatUint (unat (Uint64 sid))"

definition Steam64Pattern :: string where
  "Steam64Pattern = [CHR ''^'', CHR 0x5C] @ ''d{17,18}$''"

definition Steam64_match :: "string \<Rightarrow> bool" where
  "Steam64_match s \<longleftrightarrow> list_all is_digit s \<and> 17 \<le> length s \<and> length s \<le> 18"

definition ErrInvalidSteam64 :: goerr where
  "ErrInvalidSteam64 = ErrNew ''invalid format for Steam64''"

definition quoted :: "string \<Rightarrow> string" where
  "quoted s = [CHR 0x27] @ s @ [CHR 0x27]"

definition FromSteam64 :: "string \<Rightarrow> SteamID result" where
  "FromSteam64 input =
     (if \<not> Steam64_match input then
        Inl (ErrJoin ErrInvalidSteam64
          (ErrNew (''value '' @ quoted input @ '' does not match pattern '' @ quoted Steam64Pattern)))
      else case ParseUint input 64 of
          Inl err \<Rightarrow> Inl (ErrJoin ErrInvalidSteam64 err)
        | Inr id' \<Rightarrow> Inr (of_nat id'))"

section \<open>Steam2 text\<close>

definition ErrInvalidSteam2 :: goerr where
  "ErrInvalidSteam2 = ErrNew ''invalid Steam2 format''"

text \<open>\<^verbatim>\<open>^STEAM_([0-5]):([0-1]):(\d+)$\<close> with its three submatches.\<close>

definition Steam2_match :: "string \<Rightarrow> (string \<times> string \<times> string) option" where
  "Steam2_match s =
     (if \<not> has_prefix ''STEAM_'' s then None
      else case drop 6 s of
        x # c1 # y # c2 # z \<Rightarrow>
          (if is_digit x \<and> digit_val x \<le> 5 \<and> c1 = CHR '':'' \<and>
              is_digit y \<and> digit_val y \<le> 1 \<and> c2 = CHR '':'' \<and>
              z \<noteq> [] \<and> list_all is_digit z
           then Some ([x], [y], z) else None)
      | _ \<Rightarrow> None)"

definition FromSteam2 :: "string \<Rightarrow> SteamID result" where
  "FromSteam2 input =
     (case Steam2_match input of
        None \<Rightarrow> Inl (ErrJoin ErrInvalidSteam2 (ErrNew (''invalid format for '' @ input)))
      | Some (m1, m2, m3) \<Rightarrow>
        (case ParseInt m1 8 of
           Inl err \<Rightarrow> Inl (ErrJoin ErrInvalidSteam2 (ErrWrap (''invalid universe value for '' @ input) err))
         | Inr u \<Rightarrow>
           let universe = (if u = uint AccountUniverseInvalid then uint AccountUniversePublic else u) in
           (case ParseUint m2 32 of
              Inl err \<Rightarrow> Inl (ErrJoin ErrInvalidSteam2
                (ErrWrap (''invalid authentication server value for '' @ input) err))
            | Inr authenticationServer \<Rightarrow>
              (case ParseUint m3 32 of
                 Inl err \<Rightarrow> Inl (ErrJoin ErrInvalidSteam2
                   (ErrWrap (''invalid account number value for '' @ input) err))
               | Inr accountNumber \<Rightarrow>
                   Inr (NewSteamID
                     (push_bit 1 (of_nat accountNumber) OR of_nat authenticationServer)
                     1 (of_int universe) AccountTypeIndividual)))))"

definition ToSteam2 :: "SteamID \<Rightarrow> string" where
  "ToSteam2 sid =
     (let universe = (if AccountUniverse sid = AccountUniverseInvalid
                      then AccountUniversePublic else AccountUniverse sid)
      in ''STEAM_'' @ FormatUint (unat universe) @ '':'' @
         FormatUint (unat (AccountID sid AND 1)) @ '':'' @
         FormatUint (unat (drop_bit 1 (AccountID sid))))"

section \<open>Steam3 text\<close>

definition ErrInvalidSteam3 :: goerr where
  "ErrInvalidSteam3 = ErrNew ''invalid format for Steam3''"

definition Steam3Pattern :: string where
  "Steam3Pattern =
     [CHR ''^'', CHR 0x5C] @ ''[([iIUgGcCAa])?:?('' @ [CHR 0x5C] @ ''d+):('' @ [CHR 0x5C] @
     ''d+)(:?'' @ [CHR 0x5C] @ ''d*)?'' @ [CHR 0x5C] @ '']$''"

text \<open>
  \<^verbatim>\<open>^\[([iIUgGcCAa])?:?(\d+):(\d+)(:?\d*)?\]$\<close>. No two neighbouring pieces of the
  pattern accept the same character except the last two digit runs, where the greedy one
  takes all digits, so reading left to right finds the leftmost-first match.
\<close>

definition steam3_letters :: string where "steam3_letters = ''iIUgGcCAa''"

definition Steam3_match :: "string \<Rightarrow> (string \<times> string \<times> string \<times> string) option" where
  "Steam3_match s =
     (case s of
        [] \<Rightarrow> None
      | b # s0 \<Rightarrow>
        if b \<noteq> CHR ''['' then None else
        let g1 = (case s0 of c # _ \<Rightarrow> if c \<in> set steam3_letters then [c] else [] | [] \<Rightarrow> []);
            s1 = drop (length g1) s0;
            s2 = (case s1 of c # r \<Rightarrow> if c = CHR '':'' then r else s1 | [] \<Rightarrow> s1);
            g2 = takeWhile is_digit s2;
            s3 = dropWhile is_digit s2
        in case s3 of
             [] \<Rightarrow> None
           | c # s4 \<Rightarrow>
             if g2 = [] \<or> c \<noteq> CHR '':'' then None else
             let g3 = takeWhile is_digit s4;
                 s5 = dropWhile is_digit s4;
                 col = (case s5 of d # _ \<Rightarrow> if d = CHR '':'' then [d] else [] | [] \<Rightarrow> []);
                 s6 = drop (length col) s5;
                 g4 = col @ takeWhile is_digit s6;
                 s7 = dropWhile is_digit s6
             in if g3 \<noteq> [] \<and> s7 = [CHR '']''] then Some (g1, g2, g3, g4) else None)"

definition MapAccountTypeToSteamID3Character :: "AccountType \<Rightarrow> string" where
  "MapAccountTypeToSteamID3Character accountType =
     (if accountType = AccountTypeIndividual then ''U''
      else if accountType = AccountTypeClan then ''G''
      else if accountType = AccountTypeAnonGameServer then ''A''
      else if accountType = AccountTypeContentServer then ''C''
      else if accountType = AccountTypeChat then ''T''
      else if accountType = AccountTypeInvalid then ''I''
      else ''U'')"

definition MapSteamID3CharacterToAccountType :: "string \<Rightarrow> AccountType" where
  "MapSteamID3CharacterToAccountType c =
     (let u = ToUpper c in
      if u = ''U'' then AccountTypeIndividual
      else if u = ''G'' then AccountTypeClan
      else if u = ''A'' then AccountTypeAnonGameServer
      else if u = ''C'' then AccountTypeContentServer
      else if u = ''T'' then AccountTypeChat
      else if u = ''I'' then AccountTypeInvalid
      else AccountTypeIndividual)"

definition defaultInstanceForAccountType :: "AccountType \<Rightarrow> AccountInstance" where
  "defaultInstanceForAccountType accountType = (if accountType = AccountTypeClan then 0 else 1)"

definition FromSteam3 :: "string \<Rightarrow> SteamID result" where
  "FromSteam3 input =
     (case Steam3_match input of
        None \<Rightarrow> Inl (ErrJoin ErrInvalidSteam3
          (ErrNew (''value '' @ quoted input @ '' does not match pattern '' @ quoted Steam3Pattern)))
      | Some (m1, m2, m3, m4) \<Rightarrow>
        let accountType = MapSteamID3CharacterToAccountType m1 in
        (case ParseUint m2 8 of
           Inl err \<Rightarrow> Inl (ErrJoin ErrInvalidSteam3 (ErrWrap (''invalid universe value for '' @ input) err))
         | Inr universe \<Rightarrow>
           (case ParseUint m3 32 of
              Inl err \<Rightarrow> Inl (ErrJoin ErrInvalidSteam3 (ErrWrap (''invalid account ID value for '' @ input) err))
            | Inr accountID \<Rightarrow>
                Inr (NewSteamID (of_nat accountID) (defaultInstanceForAccountType accountType)
                  (of_nat universe) accountType))))"

definition ToSteam3 :: "SteamID \<Rightarrow> string" where
  "ToSteam3 sid =
     ''['' @ MapAccountTypeToSteamID3Character (AccountType sid) @ '':'' @
     FormatUint (unat (AccountUniverse sid)) @ '':'' @ FormatUint (unat (AccountID sid)) @ '']''"

section \<open>Any text, JSON and query values\<close>

definition FromString :: "string \<Rightarrow> SteamID result" where
  "FromString input0 =
     (let input = TrimSpace input0 in
      if Steam2_match input \<noteq> None then FromSteam2 input
      else if Steam3_match input \<noteq> None then FromSteam3 input
      else if Steam64_match input then
        (case ParseUint input 64 of
           Inl err \<Rightarrow> Inl (ErrNew (''invalid SteamID format: '' @ input))
         | Inr id64 \<Rightarrow> Inr (of_nat id64))
      else Inl (ErrNew (''invalid SteamID format: '' @ input)))"

definition must :: "'a result \<Rightarrow> 'a outcome" where
  "must r = (case r of Inl err \<Rightarrow> Panic err | Inr sid \<Rightarrow> Return sid)"

definition MustFromString :: "string \<Rightarrow> SteamID outcome" where
  "MustFromString input = must (FromString input)"
definition MustFromSteam2 :: "string \<Rightarrow> SteamID outcome" where
  "MustFromSteam2 input = must (FromSteam2 input)"
definition MustFromSteam3 :: "string \<Rightarrow> SteamID outcome" where
  "MustFromSteam3 input = must (FromSteam3 input)"
definition MustFromSteam64 :: "string \<Rightarrow> SteamID outcome" where
  "MustFromSteam64 input = must (FromSteam64 input)"

definition SteamID_String :: "SteamID \<Rightarrow> string" where
  "SteamID_String sid =
     (if AccountType sid = AccountTypeIndividual then ToSteam2 sid else ToSteam64 sid)"

definition SteamID_EncodeValues :: "SteamID \<Rightarrow> string \<Rightarrow> url_values \<Rightarrow> url_values" where
  "SteamID_EncodeValues sid key v = values_Add key (ToSteam64 sid) v"

definition SteamID_MarshalJSON :: "SteamID \<Rightarrow> json" where
  "SteamID_MarshalJSON sid = JStr (SteamID_String sid)"

definition SteamID_UnmarshalJSON :: "json option \<Rightarrow> SteamID result" where
  "SteamID_UnmarshalJSON b =
     (case unmarshal_uint64 b of
        Inr i \<Rightarrow>
          if i > 76561197960265728 then Inr (FromUint64 i)
          else Inr (NewSteamID (ucast i) 1 AccountTypeIndividual AccountUniversePublic)
      | Inl _ \<Rightarrow>
        (case unmarshal_string b of
           Inr s \<Rightarrow> FromString s
         | Inl _ \<Rightarrow> Inl (ErrNew ''invalid SteamID'')))"

section \<open>Laws of the fields\<close>

lemma New_fields [simp]:
  "AccountID (NewSteamID a i ty u) = a"
  "AccountInstance (NewSteamID a i ty u) = i AND mask 20"
  "AccountType (NewSteamID a i ty u) = ty AND mask 4"
  "AccountUniverse (NewSteamID a i ty u) = u AND mask 4"
  "drop_bit 60 (NewSteamID a i ty u) = 0"
  by (simp_all add: NewSteamID_def)

lemma field_range [simp]:
  "AccountInstance s AND mask 20 = AccountInstance s"
  "AccountType s AND mask 4 = AccountType s"
  "AccountUniverse s AND mask 4 = AccountUniverse s"
  by (rule bit_word_eqI; auto simp: field_defs field_masks getBits_def bit_simps)+

lemma New_of_fields:
  "NewSteamID (AccountID s) (AccountInstance s) (AccountType s) (AccountUniverse s) = s
    \<longleftrightarrow> drop_bit 60 s = 0"
  by (metis New_fields(5) New_fields(1-4) field_range fields_eqI)

section \<open>Texts read back\<close>

definition steam2_text :: "nat \<Rightarrow> nat \<Rightarrow> nat \<Rightarrow> string" where
  "steam2_text x y z = ''STEAM_'' @ FormatUint x @ '':'' @ FormatUint y @ '':'' @ FormatUint z"

lemma Steam2_match_text:
  assumes "x < 16" "y < 2"
  shows "Steam2_match (steam2_text x y z) =
    (if x \<le> 5 then Some (FormatUint x, FormatUint y, FormatUint z) else None)"
proof (cases "x < 10")
  case True
  with assms show ?thesis
    by (simp add: steam2_text_def Steam2_match_def has_prefix_def FormatUint_single)
next
  case False
  then have "x div 10 = 1" "x mod 10 < 10" using assms by auto
  then have "FormatUint x = [digit_char 1, digit_char (x mod 10)]"
    using False by (subst FormatUint.simps) (simp add: FormatUint_single)
  then show ?thesis
    using False by (simp add: steam2_text_def Steam2_match_def has_prefix_def split: list.splits)
qed

lemma ParseInt_digit: "d < 10 \<Longrightarrow> ParseInt (FormatUint d) 8 = Inr (int d)"
  by (simp add: ParseInt_def FormatUint_single ParseUint_def)

lemma FromSteam2_text:
  assumes "x < 16" "y < 2" "z < 2 ^ 32"
  shows "FromSteam2 (steam2_text x y z) =
    (if x \<le> 5 then
       Inr (NewSteamID (push_bit 1 (of_nat z) OR of_nat y) 1 (if x = 0 then 1 else of_nat x)
              AccountTypeIndividual)
     else Inl (ErrJoin ErrInvalidSteam2 (ErrNew (''invalid format for '' @ steam2_text x y z))))"
  using assms
  by (simp add: FromSteam2_def Steam2_match_text ParseInt_digit account_universe_defs)

definition steam2_universe :: "SteamID \<Rightarrow> AccountUniverse" where
  "steam2_universe s = (if AccountUniverse s = 0 then 1 else AccountUniverse s)"

lemma ToSteam2_text:
  "ToSteam2 s = steam2_text (unat (steam2_universe s)) (unat (AccountID s AND 1))
     (unat (drop_bit 1 (AccountID s)))"
  by (simp add: ToSteam2_def steam2_text_def steam2_universe_def account_universe_defs)

lemma field_less:
  "unat (AccountUniverse s) < 16" "unat (AccountType s) < 16"
proof -
  have A: "unat (w AND mask 4 :: 8 word) < 16" for w
  proof -
    have "w AND mask 4 \<le> mask 4" by (rule word_and_le1)
    then show ?thesis by (simp add: word_le_nat_alt mask_eq_exp_minus_1)
  qed
  show "unat (AccountUniverse s) < 16" "unat (AccountType s) < 16"
    using A [of "AccountUniverse s"] A [of "AccountType s"] by simp_all
qed

lemma steam2_universe_range: "1 \<le> unat (steam2_universe s)" "unat (steam2_universe s) < 16"
  using field_less(1) [of s] by (auto simp: steam2_universe_def unat_gt_0 Suc_le_eq)

lemma split_word: "push_bit n (drop_bit n a) OR (a AND mask n) = (a :: 'a::len word)"
  by (rule bit_word_eqI) (auto simp: bit_simps)

lemma account_halves:
  "push_bit 1 (of_nat (unat (drop_bit 1 a))) OR of_nat (unat (a AND 1)) = (a :: uint32)"
  using split_word [of 1 a] by simp

lemma and1_less: "unat (a AND 1 :: uint32) < 2"
  using word_and_le1 [of a 1] by (simp only: word_le_nat_alt) simp

lemma FromSteam2_ToSteam2:
  "FromSteam2 (ToSteam2 s) =
     (if AccountUniverse s \<le> 5 then
        Inr (NewSteamID (AccountID s) 1 (steam2_universe s) AccountTypeIndividual)
      else Inl (ErrJoin ErrInvalidSteam2 (ErrNew (''invalid format for '' @ ToSteam2 s))))"
proof -
  have z: "unat (drop_bit 1 (AccountID s)) < 2 ^ 32"
    using unat_less_pow [of "drop_bit 1 (AccountID s)"] by simp
  have u: "unat (steam2_universe s) \<le> 5 \<longleftrightarrow> AccountUniverse s \<le> 5"
    by (auto simp: steam2_universe_def word_le_nat_alt)
  show ?thesis
    unfolding ToSteam2_text FromSteam2_text [OF steam2_universe_range(2) and1_less z] u account_halves
    using steam2_universe_range(1) [of s] by simp
qed


lemma Steam64_match_Format:
  "Steam64_match (FormatUint n) \<longleftrightarrow> 10 ^ 16 \<le> n \<and> n < 10 ^ 18"
proof -
  have "17 \<le> length (FormatUint n) \<longleftrightarrow> \<not> length (FormatUint n) \<le> 16" by linarith
  then show ?thesis
    by (simp only: Steam64_match_def length_FormatUint list_all_FormatUint) (simp add: not_less)
qed

lemma FromSteam64_ToSteam64:
  "FromSteam64 (ToSteam64 s) = Inr s \<longleftrightarrow> 10 ^ 16 \<le> unat s \<and> unat s < 10 ^ 18"
  using unat_less_pow [of s]
  by (auto simp: FromSteam64_def ToSteam64_def Uint64_def Steam64_match_Format)

text \<open>A decimal text is neither in Steam2 nor in Steam3 form.\<close>

lemma hd_FormatUint: "is_digit (hd (FormatUint n))"
  using FormatUint_digits [of n] by (metis FormatUint_nonempty hd_in_set)

lemma last_FormatUint: "is_digit (last (FormatUint n))"
  using FormatUint_digits [of n] by simp

lemma digits_not_steam2: "s \<noteq> [] \<Longrightarrow> is_digit (hd s) \<Longrightarrow> Steam2_match s = None"
  by (cases s) (auto simp: Steam2_match_def has_prefix_def is_digit_def)

lemma digits_not_steam3: "s \<noteq> [] \<Longrightarrow> is_digit (hd s) \<Longrightarrow> Steam3_match s = None"
  by (cases s) (auto simp: Steam3_match_def)

lemma digit_graphic: "is_digit c \<Longrightarrow> graphic c"
  by (simp add: is_digit_def graphic_def)

lemma TrimSpace_FormatUint: "TrimSpace (FormatUint n) = FormatUint n"
  by (simp add: TrimSpace_id digit_graphic hd_FormatUint last_FormatUint)

lemma FromString_ToSteam64:
  "10 ^ 16 \<le> unat s \<Longrightarrow> unat s < 10 ^ 18 \<Longrightarrow> FromString (ToSteam64 s) = Inr s"
  using unat_less_pow [of s]
  by (simp add: FromString_def ToSteam64_def Uint64_def TrimSpace_FormatUint Steam64_match_Format
      digits_not_steam2 digits_not_steam3 hd_FormatUint Let_def)

lemma TrimSpace_steam2_text: "TrimSpace (steam2_text x y z) = steam2_text x y z"
  by (rule TrimSpace_id) (simp_all add: steam2_text_def digit_graphic last_FormatUint, simp add: graphic_def)

lemma FromString_ToSteam2:
  "AccountUniverse s \<le> 5 \<Longrightarrow>
     FromString (ToSteam2 s) = Inr (NewSteamID (AccountID s) 1 (steam2_universe s) AccountTypeIndividual)"
proof -
  assume u: "AccountUniverse s \<le> 5"
  have "unat (steam2_universe s) \<le> 5"
    using u by (auto simp: steam2_universe_def word_le_nat_alt)
  then have "Steam2_match (ToSteam2 s) \<noteq> None"
    unfolding ToSteam2_text by (subst Steam2_match_text) (simp_all add: steam2_universe_range and1_less)
  moreover have "TrimSpace (ToSteam2 s) = ToSteam2 s"
    by (simp add: ToSteam2_text TrimSpace_steam2_text)
  ultimately show ?thesis
    using u by (simp add: FromString_def FromSteam2_ToSteam2 Let_def)
qed

text \<open>The identifiers the textual form keeps: users of the public universe with instance 1,
  and the others whose decimal text has 17 or 18 digits.\<close>

definition stringable :: "SteamID \<Rightarrow> bool" where
  "stringable s \<longleftrightarrow>
     (if AccountType s = AccountTypeIndividual then
        AccountUniverse s = AccountUniversePublic \<and> AccountInstance s = 1 \<and> drop_bit 60 s = 0
      else 10 ^ 16 \<le> unat s \<and> unat s < 10 ^ 18)"

lemma FromString_String:
  assumes "stringable s"
  shows "FromString (SteamID_String s) = Inr s"
proof (cases "AccountType s = AccountTypeIndividual")
  case True
  with assms have f: "AccountUniverse s = 1" "AccountInstance s = 1" "drop_bit 60 s = 0"
    by (simp_all add: stringable_def account_universe_defs)
  have "FromString (ToSteam2 s) = Inr (NewSteamID (AccountID s) 1 1 AccountTypeIndividual)"
    using f by (simp add: FromString_ToSteam2 steam2_universe_def)
  also have "NewSteamID (AccountID s) 1 1 AccountTypeIndividual = s"
    using f True New_of_fields [of s] by (simp add: account_type_defs)
  finally show ?thesis
    using True by (simp add: SteamID_String_def)
next
  case False
  with assms show ?thesis
    by (simp add: SteamID_String_def stringable_def FromString_ToSteam64)
qed

lemma UnmarshalJSON_MarshalJSON:
  "stringable s \<Longrightarrow> SteamID_UnmarshalJSON (Some (SteamID_MarshalJSON s)) = Inr s"
  by (simp add: SteamID_UnmarshalJSON_def SteamID_MarshalJSON_def unmarshal_uint64_def
      unmarshal_string_def FromString_String)

section \<open>Steam3 texts read back\<close>

definition steam3_text :: "char \<Rightarrow> nat \<Rightarrow> nat \<Rightarrow> string" where
  "steam3_text c x z = ''['' @ [c] @ '':'' @ FormatUint x @ '':'' @ FormatUint z @ '']''"

lemma takeWhile_FormatUint:
  "\<not> is_digit c \<Longrightarrow> takeWhile is_digit (FormatUint n @ c # r) = FormatUint n"
  "\<not> is_digit c \<Longrightarrow> dropWhile is_digit (FormatUint n @ c # r) = c # r"
  using FormatUint_digits [of n]
  by (simp_all add: takeWhile_append2 dropWhile_append2)

lemma Steam3_match_text:
  "c \<in> set steam3_letters \<Longrightarrow>
     Steam3_match (steam3_text c x z) = Some ([c], FormatUint x, FormatUint z, [])"
  by (simp add: steam3_text_def Steam3_match_def takeWhile_FormatUint)

lemma Steam3_match_T: "Steam3_match (steam3_text (CHR ''T'') x z) = None"
  by (simp add: steam3_text_def Steam3_match_def steam3_letters_def is_digit_def)

lemma FromSteam3_text:
  assumes "c \<in> set steam3_letters" "x < 256" "z < 2 ^ 32"
  shows "FromSteam3 (steam3_text c x z) =
     (let t = MapSteamID3CharacterToAccountType [c] in
      Inr (NewSteamID (of_nat z) (defaultInstanceForAccountType t) (of_nat x) t))"
proof -
  have "Steam3_match (steam3_text c x z) = Some ([c], FormatUint x, FormatUint z, [])"
    using assms(1) by (rule Steam3_match_text)
  then show ?thesis
    using assms by (simp add: FromSteam3_def)
qed

text \<open>The account type that the letter printed for \<open>t\<close> stands for.\<close>

definition steam3_type :: "AccountType \<Rightarrow> AccountType" where
  "steam3_type t =
     (if t \<in> {AccountTypeClan, AccountTypeAnonGameServer, AccountTypeContentServer, AccountTypeInvalid}
      then t else AccountTypeIndividual)"

lemma steam3_letter:
  "t \<noteq> AccountTypeChat \<Longrightarrow>
     \<exists>c. MapAccountTypeToSteamID3Character t = [c] \<and> c \<in> set steam3_letters \<and>
         MapSteamID3CharacterToAccountType [c] = steam3_type t"
  by (auto simp: MapAccountTypeToSteamID3Character_def MapSteamID3CharacterToAccountType_def
      steam3_type_def steam3_letters_def ToUpper_def upper_char_def account_type_defs)

lemma ToSteam3_text:
  "MapAccountTypeToSteamID3Character (AccountType s) = [c] \<Longrightarrow>
     ToSteam3 s = steam3_text c (unat (AccountUniverse s)) (unat (AccountID s))"
  by (simp add: ToSteam3_def steam3_text_def)

section \<open>Properties\<close>

text \<open>What an identifier is made of: the four fields and the four bits above them.\<close>

definition parts :: "SteamID \<Rightarrow> AccountID \<times> AccountInstance \<times> AccountType \<times> AccountUniverse \<times> uint64" where
  "parts s = (AccountID s, AccountInstance s, AccountType s, AccountUniverse s, drop_bit 60 s)"

text \<open>Property C33: the packed fields. On every identifier, whatever it held before, each
  \<^verbatim>\<open>With\<close> method replaces its own field by the given value, cut to the field's 32, 20, 4 or 4
  bits, and leaves the three other fields and the four bits above them alone; the fields together with
  those four bits determine the identifier; \<^verbatim>\<open>NewSteamID\<close> has the given fields and those bits
  clear; and an identifier is the one built from its own fields exactly when they are clear.\<close>

theorem steamid_fields:
  "parts s = (a, i, t, u, hi) \<longrightarrow>
     parts (WithAccountID s a') = (a', i, t, u, hi) \<and>
     parts (WithAccountInstance s i') = (a, i' AND mask 20, t, u, hi) \<and>
     parts (WithAccountType s t') = (a, i, t' AND mask 4, u, hi) \<and>
     parts (WithAccountUniverse s u') = (a, i, t, u' AND mask 4, hi) \<and>
     parts (NewSteamID a' i' t' u') = (a', i' AND mask 20, t' AND mask 4, u' AND mask 4, 0) \<and>
     (NewSteamID a i t u = s \<longleftrightarrow> hi = 0) \<and> (\<forall>r. parts r = (a, i, t, u, hi) \<longleftrightarrow> r = s)"
proof
  assume p: "parts s = (a, i, t, u, hi)"
  then have f: "AccountID s = a" "AccountInstance s = i" "AccountType s = t" "AccountUniverse s = u" "drop_bit 60 s = hi"
    by (simp_all add: parts_def)
  have "parts r = (a, i, t, u, hi) \<longleftrightarrow> r = s" for r
    using f by (auto simp: parts_def intro: fields_eqI)
  moreover have "NewSteamID a i t u = s \<longleftrightarrow> hi = 0"
    using New_of_fields [of s] f by simp
  moreover have "parts (NewSteamID a' i' t' u') = (a', i' AND mask 20, t' AND mask 4, u' AND mask 4, 0)"
    by (simp add: parts_def NewSteamID_def)
  ultimately show "parts (WithAccountID s a') = (a', i, t, u, hi) \<and>
     parts (WithAccountInstance s i') = (a, i' AND mask 20, t, u, hi) \<and>
     parts (WithAccountType s t') = (a, i, t' AND mask 4, u, hi) \<and>
     parts (WithAccountUniverse s u') = (a, i, t, u' AND mask 4, hi) \<and>
     parts (NewSteamID a' i' t' u') = (a', i' AND mask 20, t' AND mask 4, u' AND mask 4, 0) \<and>
     (NewSteamID a i t u = s \<longleftrightarrow> hi = 0) \<and> (\<forall>r. parts r = (a, i, t, u, hi) \<longleftrightarrow> r = s)"
    using f by (simp add: parts_def)
qed

theorem steamid_fields_witness:
  "WithAccountUniverse (WithAccountInstance 76561198065346589 4) 2 = NewSteamID 105080861 4 1 2"
proof -
  have p: "parts 76561198065346589 = (105080861, 1, 1, 1, 0)" by code_simp
  then have 1: "parts (WithAccountInstance 76561198065346589 4) = (105080861, 4 AND mask 20, 1, 1, 0)"
    using steamid_fields by blast
  then have 2: "parts (WithAccountUniverse (WithAccountInstance 76561198065346589 4) 2) =
      (105080861, 4 AND mask 20, 1, 2 AND mask 4, 0)"
    using steamid_fields by blast
  from steamid_fields 2
  have "NewSteamID 105080861 (4 AND mask 20) 1 (2 AND mask 4) = WithAccountUniverse (WithAccountInstance 76561198065346589 4) 2"
    by blast
  then show ?thesis by (simp add: mask_eq_exp_minus_1)
qed

text \<open>Turning a clan identifier into its chat and back restores it up to the
  instance, which ends as zero; every other identifier is left alone by the first step,
  and the account and universe never change.\<close>

theorem steamid_clan_chat:
  "ConvertChatToClan (ConvertClanToChat s) =
     (if AccountType s = AccountTypeClan then WithAccountInstance s 0 else ConvertChatToClan s) \<and>
   AccountID (ConvertClanToChat s) = AccountID s \<and>
   AccountUniverse (ConvertClanToChat s) = AccountUniverse s \<and>
   AccountID (ConvertChatToClan s) = AccountID s \<and>
   AccountUniverse (ConvertChatToClan s) = AccountUniverse s"
proof -
  have "ConvertChatToClan (ConvertClanToChat s) = WithAccountInstance s 0"
    if clan: "AccountType s = AccountTypeClan"
    by (rule fields_eqI) (use clan in \<open>simp_all add: ConvertChatToClan_def ConvertClanToChat_def
        account_type_defs AccountInstanceClanMask_def mask_eq_exp_minus_1\<close>)
  moreover have "ConvertClanToChat s = s" if "AccountType s \<noteq> AccountTypeClan"
    using that by (simp add: ConvertClanToChat_def)
  moreover have "AccountID (ConvertClanToChat s) = AccountID s \<and>
      AccountUniverse (ConvertClanToChat s) = AccountUniverse s \<and>
      AccountID (ConvertChatToClan s) = AccountID s \<and>
      AccountUniverse (ConvertChatToClan s) = AccountUniverse s"
    by (simp add: ConvertChatToClan_def ConvertClanToChat_def)
  ultimately show ?thesis by simp
qed

text \<open>The JSON form of an identifier is read back as the same identifier, for
  public users with instance 1 and for all other identifiers of 17 or 18 decimal digits.\<close>

theorem steamid_json_roundtrip:
  assumes "stringable s"
  shows "SteamID_UnmarshalJSON (Some (SteamID_MarshalJSON s)) = Inr s \<and>
    FromString (SteamID_String s) = Inr s"
  using assms by (simp add: UnmarshalJSON_MarshalJSON FromString_String)

theorem steamid_json_roundtrip_witness:
  "stringable 76561198065346589 \<and>
   SteamID_UnmarshalJSON (Some (SteamID_MarshalJSON 76561198065346589)) = Inr 76561198065346589"
proof -
  have "stringable 76561198065346589"
    by code_simp
  then show ?thesis
    using steamid_json_roundtrip by blast
qed

text \<open>The decimal text of an identifier is read back exactly for the
  identifiers of 17 or 18 digits; shorter and longer ones are refused.\<close>

theorem steam64_roundtrip:
  "FromSteam64 (ToSteam64 s) = Inr s \<longleftrightarrow> 10 ^ 16 \<le> unat s \<and> unat s < 10 ^ 18"
  by (rule FromSteam64_ToSteam64)

text \<open>Reading \<^verbatim>\<open>STEAM_x:y:z\<close> yields the account \<open>2 * z + y\<close> modulo
  \<open>2 ^ 32\<close> and instance 1, but the universe digit lands in the account type field and the
  universe is always 1, since the last two arguments of \<open>NewSteamID\<close> are exchanged.\<close>

theorem steam2_parse:
  assumes "x \<le> 5" and "y \<le> 1" and "z < 2 ^ 32"
  shows "\<exists>s. FromSteam2 (steam2_text x y z) = Inr s \<and>
     unat (AccountID s) = (2 * z + y) mod 2 ^ 32 \<and> AccountInstance s = 1 \<and>
     unat (AccountType s) = (if x = 0 then 1 else x) \<and>
     AccountUniverse s = AccountUniversePublic"
proof -
  have x: "x = 0 \<or> x = 1 \<or> x = 2 \<or> x = 3 \<or> x = 4 \<or> x = 5" using assms by linarith
  have "push_bit 1 (of_nat z) OR of_nat y = (of_nat (2 * z + y) :: uint32)"
  proof (cases "y = 0")
    case False
    then have y: "y = 1" using assms by linarith
    have "push_bit 1 w OR 1 = 2 * w + (1 :: uint32)" for w
      by (simp add: or_one_eq mult.commute)
    from this [of "of_nat z"] y show ?thesis by simp
  qed simp
  moreover have "FromSteam2 (steam2_text x y z) =
      Inr (NewSteamID (push_bit 1 (of_nat z) OR of_nat y) 1 (if x = 0 then 1 else of_nat x)
        AccountTypeIndividual)"
    using assms by (simp add: FromSteam2_text)
  moreover have "unat (2 * of_nat z + of_nat y :: uint32) = (2 * z + y) mod 2 ^ 32"
    using unat_of_nat [of "2 * z + y", where 'a = 32] by simp
  ultimately show ?thesis
    using x by (auto simp: account_type_defs account_universe_defs mask_eq_exp_minus_1)
qed

theorem steam2_parse_witness:
  "\<exists>s. FromSteam2 (steam2_text 2 0 9999) = Inr s \<and> unat (AccountID s) = 19998 \<and>
     unat (AccountType s) = 2 \<and> AccountUniverse s = AccountUniversePublic"
  using steam2_parse [of 2 0 9999] by auto

text \<open>Reading back the Steam2 text of an identifier keeps the account; it
  fails exactly for universes above 5, and the universe comes back as the account type.\<close>

theorem steam2_roundtrip:
  "FromSteam2 (ToSteam2 s) =
     (if AccountUniverse s \<le> 5 then
        Inr (NewSteamID (AccountID s) 1
          (if AccountUniverse s = AccountUniverseInvalid then AccountUniversePublic else AccountUniverse s)
          AccountTypeIndividual)
      else Inl (ErrJoin ErrInvalidSteam2 (ErrNew (''invalid format for '' @ ToSteam2 s))))"
  unfolding FromSteam2_ToSteam2 by (simp add: steam2_universe_def account_universe_defs)

text \<open>Property C34: the Steam3 text of a chat identifier is refused; that of any other
  identifier is read back with its account, but with the universe in the type field and
  the type (as far as the letter keeps it) in the universe field.\<close>

theorem steam3_roundtrip:
  "FromSteam3 (ToSteam3 s) =
     (if AccountType s = AccountTypeChat then
        Inl (ErrJoin ErrInvalidSteam3 (ErrNew
          (''value '' @ quoted (ToSteam3 s) @ '' does not match pattern '' @ quoted Steam3Pattern)))
      else Inr (NewSteamID (AccountID s)
        (if AccountType s = AccountTypeClan then 0 else 1) (AccountUniverse s) (steam3_type (AccountType s))))"
proof (cases "AccountType s = AccountTypeChat")
  case True
  then have "MapAccountTypeToSteamID3Character (AccountType s) = ''T''"
    by (simp add: MapAccountTypeToSteamID3Character_def account_type_defs)
  then have "Steam3_match (ToSteam3 s) = None"
    using Steam3_match_T by (simp add: ToSteam3_text)
  with True show ?thesis
    by (simp add: FromSteam3_def)
next
  case False
  then obtain c where c: "MapAccountTypeToSteamID3Character (AccountType s) = [c]"
      "c \<in> set steam3_letters" "MapSteamID3CharacterToAccountType [c] = steam3_type (AccountType s)"
    using steam3_letter by blast
  have "unat (AccountUniverse s) < 256" "unat (AccountID s) < 2 ^ 32"
    using field_less(1) [of s] unat_less_pow [of "AccountID s"] by simp_all
  then show ?thesis
    using False c by (simp add: ToSteam3_text FromSteam3_text defaultInstanceForAccountType_def
        steam3_type_def account_type_defs)
qed

text \<open>A JSON number above the base value is taken as it is; any other number,
  and \<^verbatim>\<open>null\<close> as zero, becomes the public user with that number's low 32 bits as account;
  so \<^verbatim>\<open>null\<close> is accepted and gives an identifier that is not valid.\<close>

theorem steamid_json_number:
  assumes "n < 2 ^ 64"
  shows "SteamID_UnmarshalJSON (Some (JNum (FormatUint n))) =
     (if n > 76561197960265728 then Inr (of_nat n)
      else Inr (NewSteamID (of_nat n) 1 AccountTypeIndividual AccountUniversePublic)) \<and>
   SteamID_UnmarshalJSON (Some JNull) =
     Inr (NewSteamID 0 1 AccountTypeIndividual AccountUniversePublic) \<and>
   \<not> IsValid (NewSteamID 0 1 AccountTypeIndividual AccountUniversePublic)"
proof -
  have "ucast (of_nat n :: uint64) = (of_nat n :: uint32)"
    by (rule bit_word_eqI) (auto simp: bit_simps)
  moreover have "(of_nat n :: uint64) > 76561197960265728 \<longleftrightarrow> n > 76561197960265728"
    using assms by (simp add: word_less_nat_alt unat_of_nat)
  ultimately show ?thesis
    using assms
    by (simp add: SteamID_UnmarshalJSON_def unmarshal_uint64_def FromUint64_def IsValid_def)
qed

theorem steamid_json_number_witness:
  "SteamID_UnmarshalJSON (Some (JNum (FormatUint 1234))) =
     Inr (NewSteamID 1234 1 AccountTypeIndividual AccountUniversePublic)"
  using steamid_json_number [of 1234] by simp

end
