(* ===== verification/Digest.thy ===== *)
theory Digest
  imports Prelude
begin

text \<open>
  The hash and text encodings of the Go standard library that the sources call:
  \<^verbatim>\<open>crypto/sha1\<close>, \<^verbatim>\<open>crypto/sha256\<close>, \<^verbatim>\<open>crypto/hmac\<close>, \<^verbatim>\<open>hash/crc32\<close>,
  \<^verbatim>\<open>encoding/base64\<close> and \<^verbatim>\<open>encoding/hex\<close>, as executable definitions with the lengths of
  their results.
\<close>

section \<open>SHA-1\<close>

text \<open>Message, a one bit, zeros up to 56 modulo 64, and the bit length as eight bytes.\<close>

definition sha_pad :: "bytes \<Rightarrow> bytes" where
  "sha_pad m = m @ [0x80] @ replicate ((119 - length m mod 64) mod 64) 0 @
     be_bytes 8 (of_nat (8 * length m) :: uint64)"

definition sha_blocks :: "bytes \<Rightarrow> uint32 list list" where
  "sha_blocks m =
     (let p = sha_pad m
      in map (\<lambda>b. map be_word (chunks 4 16 b)) (chunks 64 (length p div 64) p))"

text \<open>The message schedule, newest word first while it grows.\<close>

fun sha1_extend :: "nat \<Rightarrow> uint32 list \<Rightarrow> uint32 list" where
  "sha1_extend 0 ws = ws"
| "sha1_extend (Suc n) ws =
     sha1_extend n (word_rotl 1 (ws ! 2 XOR ws ! 7 XOR ws ! 13 XOR ws ! 15) # ws)"

type_synonym sha1_state = "uint32 \<times> uint32 \<times> uint32 \<times> uint32 \<times> uint32"

definition sha1_f :: "nat \<Rightarrow> uint32 \<Rightarrow> uint32 \<Rightarrow> uint32 \<Rightarrow> uint32" where
  "sha1_f t b c d =
     (if t < 20 then (b AND c) OR (NOT b AND d)
      else if t < 40 then b XOR c XOR d
      else if t < 60 then (b AND c) OR (b AND d) OR (c AND d)
      else b XOR c XOR d)"

definition sha1_k :: "nat \<Rightarrow> uint32" where
  "sha1_k t = (if t < 20 then 0x5a827999 else if t < 40 then 0x6ed9eba1
     else if t < 60 then 0x8f1bbcdc else 0xca62c1d6)"

fun sha1_rounds :: "nat \<Rightarrow> uint32 list \<Rightarrow> sha1_state \<Rightarrow> sha1_state" where
  "sha1_rounds t [] s = s"
| "sha1_rounds t (w # ws) (a, b, c, d, e) =
     sha1_rounds (Suc t) ws
       (word_rotl 5 a + sha1_f t b c d + e + sha1_k t + w, a, word_rotl 30 b, c, d)"

definition sha1_compress :: "uint32 list \<Rightarrow> sha1_state \<Rightarrow> sha1_state" where
  "sha1_compress blk s =
     (case s of (h0, h1, h2, h3, h4) \<Rightarrow>
      case sha1_rounds 0 (rev (sha1_extend 64 (rev blk))) s of (a, b, c, d, e) \<Rightarrow>
        (h0 + a, h1 + b, h2 + c, h3 + d, h4 + e))"

definition sha1 :: "bytes \<Rightarrow> bytes" where
  "sha1 m =
     (case fold sha1_compress (sha_blocks m)
        (0x67452301, 0xefcdab89, 0x98badcfe, 0x10325476, 0xc3d2e1f0)
      of (a, b, c, d, e) \<Rightarrow>
        be_bytes 4 a @ be_bytes 4 b @ be_bytes 4 c @ be_bytes 4 d @ be_bytes 4 e)"

section \<open>SHA-256\<close>

definition sha256_k :: "uint32 list" where
  "sha256_k =
     [1116352408, 1899447441, 3049323471, 3921009573, 961987163, 1508970993, 2453635748, 2870763221,
      3624381080, 310598401, 607225278, 1426881987, 1925078388, 2162078206, 2614888103, 3248222580,
      3835390401, 4022224774, 264347078, 604807628, 770255983, 1249150122, 1555081692, 1996064986,
      2554220882, 2821834349, 2952996808, 3210313671, 3336571891, 3584528711, 113926993, 338241895,
      666307205, 773529912, 1294757372, 1396182291, 1695183700, 1986661051, 2177026350, 2456956037,
      2730485921, 2820302411, 3259730800, 3345764771, 3516065817, 3600352804, 4094571909, 275423344,
      430227734, 506948616, 659060556, 883997877, 958139571, 1322822218, 1537002063, 1747873779,
      1955562222, 2024104815, 2227730452, 2361852424, 2428436474, 2756734187, 3204031479, 3329325298]"

fun sha256_extend :: "nat \<Rightarrow> uint32 list \<Rightarrow> uint32 list" where
  "sha256_extend 0 ws = ws"
| "sha256_extend (Suc n) ws =
     (let x = ws ! 1; y = ws ! 14;
          s1 = word_rotr 17 x XOR word_rotr 19 x XOR drop_bit 10 x;
          s0 = word_rotr 7 y XOR word_rotr 18 y XOR drop_bit 3 y
      in sha256_extend n ((s1 + ws ! 6 + s0 + ws ! 15) # ws))"

fun sha256_rounds :: "(uint32 \<times> uint32) list \<Rightarrow> uint32 list \<Rightarrow> uint32 list" where
  "sha256_rounds ((k, w) # r) [a, b, c, d, e, f, g, h] =
     (let t1 = h + (word_rotr 6 e XOR word_rotr 11 e XOR word_rotr 25 e) +
               ((e AND f) XOR (NOT e AND g)) + k + w;
          t2 = (word_rotr 2 a XOR word_rotr 13 a XOR word_rotr 22 a) +
               ((a AND b) XOR (a AND c) XOR (b AND c))
      in sha256_rounds r [t1 + t2, a, b, c, d + t1, e, f, g])"
| "sha256_rounds _ s = s"

definition sha256_compress :: "uint32 list \<Rightarrow> uint32 list \<Rightarrow> uint32 list" where
  "sha256_compress blk s =
     map2 (+) s (sha256_rounds (zip sha256_k (rev (sha256_extend 48 (rev blk)))) s)"

definition sha256 :: "bytes \<Rightarrow> bytes" where
  "sha256 m =
     concat (map (be_bytes 4) (fold sha256_compress (sha_blocks m)
       [0x6a09e667, 0xbb67ae85, 0x3c6ef372, 0xa54ff53a, 0x510e527f, 0x9b05688c, 0x1f83d9ab, 0x5be0cd19]))"

section \<open>HMAC-SHA1\<close>

definition hmac_key :: "bytes \<Rightarrow> bytes" where
  "hmac_key key = (let k = (if 64 < length key then sha1 key else key)
                   in k @ replicate (64 - length k) 0)"

definition hmac_sha1 :: "bytes \<Rightarrow> bytes \<Rightarrow> bytes" where
  "hmac_sha1 key m =
     (let k = hmac_key key
      in sha1 (map (\<lambda>b. b XOR 0x5c) k @ sha1 (map (\<lambda>b. b XOR 0x36) k @ m)))"

section \<open>CRC-32\<close>

definition crc_shift :: "uint32 \<Rightarrow> uint32" where
  "crc_shift c = drop_bit 1 c XOR (if bit c 0 then 0xEDB88320 else 0)"

definition crc_byte :: "byte \<Rightarrow> uint32 \<Rightarrow> uint32" where
  "crc_byte b c = (crc_shift ^^ 8) (c XOR ucast b)"

definition ChecksumIEEE :: "bytes \<Rightarrow> uint32" where
  "ChecksumIEEE bs = NOT (fold crc_byte bs (NOT 0))"

section \<open>Base64 and hexadecimal text\<close>

definition b64_alphabet :: string where
  "b64_alphabet = ''ABCDEFGHIJKLMNOPQRSTUVWXYZabcdefghijklmnopqrstuvwxyz0123456789+/''"

definition b64_char :: "nat \<Rightarrow> char" where "b64_char n = b64_alphabet ! n"

fun index_of :: "'a \<Rightarrow> 'a list \<Rightarrow> nat option" where
  "index_of x [] = None"
| "index_of x (y # ys) = (if x = y then Some 0 else map_option Suc (index_of x ys))"

definition b64_val :: "char \<Rightarrow> nat option" where "b64_val c = index_of c b64_alphabet"

fun b64_encode :: "bytes \<Rightarrow> string" where
  "b64_encode [] = []"
| "b64_encode [a] =
     (let x = unat a in [b64_char (x div 4), b64_char (x mod 4 * 16), CHR ''='', CHR ''=''])"
| "b64_encode [a, b] =
     (let x = unat a; y = unat b
      in [b64_char (x div 4), b64_char (x mod 4 * 16 + y div 16), b64_char (y mod 16 * 4), CHR ''=''])"
| "b64_encode (a # b # c # r) =
     (let x = unat a; y = unat b; z = unat c
      in b64_char (x div 4) # b64_char (x mod 4 * 16 + y div 16) #
         b64_char (y mod 16 * 4 + z div 64) # b64_char (z mod 64) # b64_encode r)"

text \<open>
  \<^verbatim>\<open>base64.StdEncoding.DecodeString\<close>: carriage returns and line feeds are skipped, the
  rest comes in groups of four, of which only the last may be padded; the unused low bits
  of a padded group are not checked.
\<close>

definition ErrBase64 :: goerr where "ErrBase64 = ErrNew ''illegal base64 data''"

fun b64_groups :: "string \<Rightarrow> bytes result" where
  "b64_groups [] = Inr []"
| "b64_groups [p, q, r, s] =
     (case (b64_val p, b64_val q) of
        (Some a, Some b) \<Rightarrow>
          (if r = CHR ''='' then
             (if s = CHR ''='' then Inr [of_nat (a * 4 + b div 16)] else Inl ErrBase64)
           else case b64_val r of
               None \<Rightarrow> Inl ErrBase64
             | Some c \<Rightarrow>
                 if s = CHR ''='' then Inr [of_nat (a * 4 + b div 16), of_nat (b mod 16 * 16 + c div 4)]
                 else (case b64_val s of
                         None \<Rightarrow> Inl ErrBase64
                       | Some d \<Rightarrow> Inr [of_nat (a * 4 + b div 16), of_nat (b mod 16 * 16 + c div 4),
                                       of_nat (c mod 4 * 64 + d)]))
      | _ \<Rightarrow> Inl ErrBase64)"
| "b64_groups (p # q # r # s # t) =
     (case (b64_val p, b64_val q, b64_val r, b64_val s) of
        (Some a, Some b, Some c, Some d) \<Rightarrow>
          (case b64_groups t of
             Inl e \<Rightarrow> Inl e
           | Inr out \<Rightarrow> Inr (of_nat (a * 4 + b div 16) # of_nat (b mod 16 * 16 + c div 4) #
                              of_nat (c mod 4 * 64 + d) # out))
      | _ \<Rightarrow> Inl ErrBase64)"
| "b64_groups _ = Inl ErrBase64"

definition b64_decode :: "string \<Rightarrow> bytes result" where
  "b64_decode s = b64_groups (filter (\<lambda>c. c \<noteq> CHR 0x0A \<and> c \<noteq> CHR 0x0D) s)"

definition hex_digit :: "nat \<Rightarrow> char" where "hex_digit n = ''0123456789abcdef'' ! n"

definition hex_encode :: "bytes \<Rightarrow> string" where
  "hex_encode bs = concat (map (\<lambda>b. [hex_digit (unat b div 16), hex_digit (unat b mod 16)]) bs)"

section \<open>Lengths\<close>

lemma length_sha1 [simp]: "length (sha1 m) = 20"
  by (simp add: sha1_def split: prod.splits)

lemma length_hmac_sha1 [simp]: "length (hmac_sha1 k m) = 20"
  by (simp add: hmac_sha1_def Let_def)

lemma length_hex_encode [simp]: "length (hex_encode bs) = 2 * length bs"
  by (induction bs) (simp_all add: hex_encode_def)

section \<open>Decoding base64 text\<close>

lemma b64_char_facts:
  "n < 64 \<Longrightarrow> b64_val (b64_char n) = Some n \<and> b64_char n \<notin> {CHR ''='', CHR 0x0A, CHR 0x0D}"
proof -
  have "list_all (\<lambda>n. b64_val (b64_char n) = Some n \<and> b64_char n \<notin> {CHR ''='', CHR 0x0A, CHR 0x0D}) [0..<64]"
    by code_simp
  then show "n < 64 \<Longrightarrow> ?thesis" by (simp add: list_all_iff)
qed

text \<open>Two digits of a mixed base.\<close>

lemma digits_join:
  fixes p q k m :: nat assumes "q < k"
  shows "(p * k + q) div k = p" "(p * k + q) mod k = q" "p < m \<Longrightarrow> p * k + q < m * k"
proof -
  have "p * k + q < Suc p * k" using assms by simp
  also have "p < m \<Longrightarrow> Suc p * k \<le> m * k" by (intro mult_le_mono1) simp
  finally show "p < m \<Longrightarrow> p * k + q < m * k" .
qed (use assms in simp_all)

text \<open>The four sextets of three bytes.\<close>

lemma b64_triple:
  fixes a b c :: byte
  obtains p q r s where "p < 64" "q < 64" "r < 64" "s < 64"
    and "unat a div 4 = p" "unat a mod 4 * 16 + unat b div 16 = q" "unat b mod 16 * 4 + unat c div 64 = r" "unat c mod 64 = s"
    and "of_nat (p * 4 + q div 16) = a" "of_nat (q mod 16 * 16 + r div 4) = b" "of_nat (r mod 4 * 64 + s) = c"
proof -
  have u: "unat w < 256" for w :: byte using unat_less_pow [of w] by simp
  have w: "of_nat (unat w) = w" for w :: byte by simp
  have d: "unat a div 4 < 64" "unat b div 16 < 16" "unat c div 64 < 4" using u by (simp_all add: less_mult_imp_div_less)
  note j = digits_join [OF d(2), of "unat a mod 4"] digits_join [OF d(3), of "unat b mod 16"]
  have b: "unat a mod 4 * 16 + unat b div 16 < 64" "unat b mod 16 * 4 + unat c div 64 < 64"
    using j(3) [of 4] j(6) [of 16] by simp_all
  show ?thesis
    by (rule that [OF d(1) b, of "unat c mod 64", OF _ refl refl refl refl])
      (simp_all only: j(1,2,4,5) div_mult_mod_eq w mod_less_divisor zero_less_numeral)
qed

lemma b64_encode_nice: "b64_groups (b64_encode bs) = Inr bs \<and> (\<forall>c \<in> set (b64_encode bs). c \<noteq> CHR 0x0A \<and> c \<noteq> CHR 0x0D)"
proof (induction bs rule: b64_encode.induct)
  case (2 a)
  obtain p q r s where "p < 64" "q < 64" "unat a div 4 = p" "unat a mod 4 * 16 + unat (0 :: byte) div 16 = q" "of_nat (p * 4 + q div 16) = a"
    by (rule b64_triple [of a 0 0])
  then show ?case using b64_char_facts by (simp add: Let_def)
next
  case (3 a b)
  obtain p q r s where "p < 64" "q < 64" "r < 64" "unat a div 4 = p" "unat a mod 4 * 16 + unat b div 16 = q"
      "unat b mod 16 * 4 + unat (0 :: byte) div 64 = r" "of_nat (p * 4 + q div 16) = a" "of_nat (q mod 16 * 16 + r div 4) = b"
    by (rule b64_triple [of a b 0])
  then show ?case using b64_char_facts by (simp add: Let_def)
next
  case (4 a b c r)
  obtain p q u v where f: "p < 64" "q < 64" "u < 64" "v < 64" "unat a div 4 = p" "unat a mod 4 * 16 + unat b div 16 = q"
      "unat b mod 16 * 4 + unat c div 64 = u" "unat c mod 64 = v" "of_nat (p * 4 + q div 16) = a"
      "of_nat (q mod 16 * 16 + u div 4) = b" "of_nat (u mod 4 * 64 + v) = c"
    by (rule b64_triple [of a b c])
  have e: "b64_encode (a # b # c # r) = b64_char p # b64_char q # b64_char u # b64_char v # b64_encode r"
    using f(5-8) by (simp add: Let_def)
  have "b64_encode r = [] \<or> (\<exists>p q u v t. b64_encode r = p # q # u # v # t)"
    by (cases r rule: b64_encode.cases) (simp_all add: Let_def)
  then show ?case
    unfolding e using 4 f(1-4,9-11) b64_char_facts by auto
qed simp

lemma b64_decode_encode: "b64_decode (b64_encode bs) = Inr bs"
  using b64_encode_nice [of bs] by (simp add: b64_decode_def filter_id_conv [THEN iffD2])

end
