(* ===== verification/Totp.thy ===== *)
theory Totp
  imports GoLib Digest
begin

text \<open>
  Package \<^verbatim>\<open>totp\<close>: the Steam Guard code of a shared secret at a time, and the device
  identifier of an account.
\<close>

section \<open>Authentication codes\<close>

definition charSet :: string where "charSet = ''23456789BCDFGHJKMNPQRTVWXY''"

text \<open>The loop that writes the remaining characters of the code.\<close>

fun code_loop :: "nat \<Rightarrow> uint32 \<Rightarrow> string" where
  "code_loop 0 b = []"
| "code_loop (Suc n) b = charSet ! unat (b mod of_nat (length charSet)) # code_loop n (b div of_nat (length charSet))"

text \<open>
  The time is the seconds of \<^verbatim>\<open>time.Unix()\<close>; Go's division truncates towards zero and the
  conversion to \<^verbatim>\<open>uint32\<close> keeps the low 32 bits.
\<close>

definition go_div :: "int \<Rightarrow> int \<Rightarrow> int" where
  "go_div a b = (if a \<ge> 0 then a div b else - ((- a) div b))"

definition CreateAuthenticationCode :: "string \<Rightarrow> int \<Rightarrow> string result" where
  "CreateAuthenticationCode sharedSecret unix =
     (case b64_decode sharedSecret of
        Inl err \<Rightarrow> Inl (ErrWrap ''failed to decode shared secret'' err)
      | Inr sharedSecretBytes \<Rightarrow>
        let buffer = be_bytes 4 (0 :: uint32) @ be_bytes 4 (of_int (go_div unix 30) :: uint32);
            checksum = hmac_sha1 sharedSecretBytes buffer;
            dynamicOffset = unat (checksum ! (length checksum - 1) AND 0x0F)
        in if dynamicOffset + 4 > length checksum then Inl (ErrNew ''dynamic bytes exceed checksum length'')
           else
             let binaryCode = (be_word (take 4 (drop dynamicOffset checksum)) :: uint32) AND 0x7fffffff
             in Inr (code_loop 5 binaryCode))"

section \<open>Device identifiers\<close>

definition slice :: "nat \<Rightarrow> nat \<Rightarrow> string \<Rightarrow> string" where
  "slice i j s = take (j - i) (drop i s)"

definition CreateDeviceID :: "string \<Rightarrow> string" where
  "CreateDeviceID steamID64 =
     (let hash = hex_encode (sha1 (bytes_of_string steamID64))
      in ''android:'' @ slice 0 8 hash @ ''-'' @ slice 8 12 hash @ ''-'' @ slice 12 16 hash @ ''-'' @
         slice 16 20 hash @ ''-'' @ slice 20 32 hash)"

section \<open>Lemmas\<close>

lemma charSet_props: "length charSet = 26" "distinct charSet"
  by (simp_all add: charSet_def)

text \<open>The code is the number's five lowest digits in base 26, lowest first.\<close>

lemma code_loop_digits:
  "code_loop n b = map (\<lambda>i. charSet ! (unat b div 26 ^ i mod 26)) [0..<n]"
proof (induction n arbitrary: b)
  case (Suc n)
  have d: "unat (b mod 26) = unat b mod 26" "unat (b div 26) = unat b div 26"
    by (simp_all add: unat_mod unat_div)
  have "code_loop n (b div 26) = map (\<lambda>i. charSet ! (unat b div 26 ^ Suc i mod 26)) [0..<n]"
    by (simp add: Suc.IH d div_mult2_eq)
  then show ?case
    by (simp add: charSet_props d map_upt_Suc del: upt_Suc power_Suc)
qed simp

definition is_hex :: "char \<Rightarrow> bool" where "is_hex c \<longleftrightarrow> c \<in> set ''0123456789abcdef''"

lemma hex_digit_is_hex: "n < 16 \<Longrightarrow> is_hex (hex_digit n)"
  by (simp only: hex_digit_def is_hex_def) (rule nth_mem, simp)

lemma hex_encode_is_hex: "list_all is_hex (hex_encode bs)"
proof -
  have "unat b div 16 < 16" "unat b mod 16 < 16" for b :: byte
    using unat_less_pow [of b] by (simp_all add: less_mult_imp_div_less)
  then show ?thesis
    by (simp add: hex_encode_def list_all_iff hex_digit_is_hex)
qed

lemma slice_props:
  "j \<le> length s \<Longrightarrow> length (slice i j s) = j - i" "list_all P s \<Longrightarrow> list_all P (slice i j s)"
  by (auto simp: slice_def list_all_iff dest: in_set_takeD in_set_dropD)

section \<open>Properties\<close>

text \<open>Property C38: for a secret that is valid base64 a code is always produced, at any time
  (the check of the offset never fails, since the digest has 20 bytes): five characters,
  the base-26 digits, lowest first, of the 31 bits read from the HMAC of the time step.\<close>

theorem totp_code:
  assumes "b64_decode secret = Inr key"
  shows "\<exists>n < 2 ^ 31. CreateAuthenticationCode secret unix =
      Inr (map (\<lambda>i. charSet ! (n div 26 ^ i mod 26)) [0..<5]) \<and>
    (let d = hmac_sha1 key (replicate 4 0 @ be_bytes 4 (of_int (go_div unix 30) :: uint32));
         o' = unat (last d) mod 16
     in n = unat (be_word (take 4 (drop o' d)) :: uint32) mod 2 ^ 31)"
proof -
  define d where "d = hmac_sha1 key (replicate 4 0 @ be_bytes 4 (of_int (go_div unix 30) :: uint32))"
  define o' where "o' = unat (last d) mod 16"
  have len: "length d = 20" by (simp add: d_def)
  have buf: "be_bytes 4 (0 :: uint32) = replicate 4 0" by code_simp
  have l: "d ! (length d - 1) = last d" using len by (intro last_conv_nth [symmetric]) auto
  have m: "unat (w AND 0x0F) = unat w mod 16" for w :: byte
  proof -
    have "w AND 0x0F = take_bit 4 w" by (simp add: take_bit_eq_mask mask_eq_exp_minus_1)
    then show ?thesis by (simp add: take_bit_eq_mod unat_mod)
  qed
  have o19: "unat (d ! 19) mod 16 = o'" using l len by (simp add: o'_def)
  have o15: "o' + 4 \<le> 20" by (simp add: o'_def)
  define b where "b = (be_word (take 4 (drop o' d)) :: uint32)"
  have b: "unat (b AND 0x7fffffff) = unat b mod 2 ^ 31"
  proof -
    have "b AND 0x7fffffff = take_bit 31 b" by (simp add: take_bit_eq_mask mask_eq_exp_minus_1)
    then show ?thesis by (simp add: take_bit_eq_mod unat_mod)
  qed
  have "CreateAuthenticationCode secret unix = Inr (code_loop 5 (b AND 0x7fffffff))"
    using o15 by (simp add: CreateAuthenticationCode_def assms buf d_def [symmetric] len
        m o19 b_def Let_def)
  then show ?thesis
    by (intro exI [of _ "unat b mod 2 ^ 31"])
      (simp add: code_loop_digits b Let_def d_def [symmetric] o'_def [symmetric] b_def [symmetric])
qed

theorem totp_code_witness:
  "\<exists>c. CreateAuthenticationCode ''AQID'' 1700000000 = Inr c \<and> length c = 5"
proof -
  have "b64_decode ''AQID'' = Inr [1, 2, 3]" by code_simp
  from totp_code [OF this, of 1700000000] show ?thesis
    by (metis length_map length_upt diff_zero)
qed

text \<open>A device identifier is \<^verbatim>\<open>android:\<close> and five groups of 8, 4, 4, 4 and 12
  lower-case hexadecimal digits, 44 characters in all.\<close>

theorem device_id_format:
  "\<exists>a b c d e. CreateDeviceID s = ''android:'' @ a @ ''-'' @ b @ ''-'' @ c @ ''-'' @ d @ ''-'' @ e \<and>
     map length [a, b, c, d, e] = [8, 4, 4, 4, 12] \<and> list_all (list_all is_hex) [a, b, c, d, e] \<and>
     a @ b @ c @ d @ e = take 32 (hex_encode (sha1 (bytes_of_string s)))"
proof -
  define h where "h = hex_encode (sha1 (bytes_of_string s))"
  have h: "length h = 40" "list_all is_hex h" by (simp_all add: h_def hex_encode_is_hex)
  have "slice 0 8 h @ slice 8 12 h @ slice 12 16 h @ slice 16 20 h @ slice 20 32 h = take 32 h"
  proof -
    have A: "take (j - i) (drop i h) @ take k (drop j h) = take (j - i + k) (drop i h)" if "i \<le> j" for i j k
      using that take_add [of "j - i" k "drop i h"] by simp
    show ?thesis
      using A [of 16 20 12] A [of 12 16 16] A [of 8 12 20] A [of 0 8 24] by (simp add: slice_def)
  qed
  then show ?thesis
    using h slice_props [of _ h] unfolding CreateDeviceID_def h_def [symmetric] Let_def
    by (intro exI [of _ "slice 0 8 h"] exI [of _ "slice 8 12 h"] exI [of _ "slice 12 16 h"]
        exI [of _ "slice 16 20 h"] exI [of _ "slice 20 32 h"]) simp
qed

end
