(* ===== verification/Language.thy ===== *)
theory Language
  imports GoLib
begin

text \<open>
  The part of the generated package \<^verbatim>\<open>language/steam\<close> the library touches: the message
  numbers it sends or handles, the enumerations of the authentication service with their
  query-string encoding, and the protobuf messages with their getters. Optional protobuf
  fields are options. Fields the library neither sets nor reads are kept together, by field
  number, as the \<open>others\<close> of a message.
\<close>

section \<open>Message numbers\<close>

type_synonym EMsg = "32 word"

definition EMsg_Multi :: EMsg where "EMsg_Multi = 1"
definition EMsg_ClientHeartBeat :: EMsg where "EMsg_ClientHeartBeat = 703"
definition EMsg_ClientLogOnResponse :: EMsg where "EMsg_ClientLogOnResponse = 751"
definition EMsg_ChannelEncryptRequest :: EMsg where "EMsg_ChannelEncryptRequest = 1303"
definition EMsg_ChannelEncryptResponse :: EMsg where "EMsg_ChannelEncryptResponse = 1304"
definition EMsg_ChannelEncryptResult :: EMsg where "EMsg_ChannelEncryptResult = 1305"
definition EMsg_ClientLogon :: EMsg where "EMsg_ClientLogon = 5514"
definition EMsg_ClientItemAnnouncements :: EMsg where "EMsg_ClientItemAnnouncements = 5576"
definition EMsg_ClientRequestItemAnnouncements :: EMsg where "EMsg_ClientRequestItemAnnouncements = 5577"
definition EMsg_ClientUserNotifications :: EMsg where "EMsg_ClientUserNotifications = 5599"
definition EMsg_ServiceMethodCallFromClientNonAuthed :: EMsg where
  "EMsg_ServiceMethodCallFromClientNonAuthed = 9804"
definition EMsg_ClientHello :: EMsg where "EMsg_ClientHello = 9805"

lemmas emsg_defs =
  EMsg_Multi_def EMsg_ClientHeartBeat_def EMsg_ClientLogOnResponse_def EMsg_ChannelEncryptRequest_def
  EMsg_ChannelEncryptResponse_def EMsg_ChannelEncryptResult_def EMsg_ClientLogon_def
  EMsg_ClientItemAnnouncements_def EMsg_ClientRequestItemAnnouncements_def
  EMsg_ClientUserNotifications_def EMsg_ServiceMethodCallFromClientNonAuthed_def EMsg_ClientHello_def

section \<open>Enumerations of the authentication service\<close>

type_synonym EAuthSessionGuardType = "32 word"

definition GuardType_Unknown :: EAuthSessionGuardType where "GuardType_Unknown = 0"
definition GuardType_None :: EAuthSessionGuardType where "GuardType_None = 1"
definition GuardType_EmailCode :: EAuthSessionGuardType where "GuardType_EmailCode = 2"
definition GuardType_DeviceCode :: EAuthSessionGuardType where "GuardType_DeviceCode = 3"
definition GuardType_DeviceConfirmation :: EAuthSessionGuardType where "GuardType_DeviceConfirmation = 4"
definition GuardType_EmailConfirmation :: EAuthSessionGuardType where "GuardType_EmailConfirmation = 5"
definition GuardType_MachineToken :: EAuthSessionGuardType where "GuardType_MachineToken = 6"
definition GuardType_LegacyMachineAuth :: EAuthSessionGuardType where "GuardType_LegacyMachineAuth = 7"

lemmas guard_type_defs =
  GuardType_Unknown_def GuardType_None_def GuardType_EmailCode_def GuardType_DeviceCode_def
  GuardType_DeviceConfirmation_def GuardType_EmailConfirmation_def GuardType_MachineToken_def
  GuardType_LegacyMachineAuth_def

definition EAuthSessionGuardType_name :: "(int \<times> string) list" where
  "EAuthSessionGuardType_name =
     [(0, ''k_EAuthSessionGuardType_Unknown''), (1, ''k_EAuthSessionGuardType_None''),
      (2, ''k_EAuthSessionGuardType_EmailCode''), (3, ''k_EAuthSessionGuardType_DeviceCode''),
      (4, ''k_EAuthSessionGuardType_DeviceConfirmation''), (5, ''k_EAuthSessionGuardType_EmailConfirmation''),
      (6, ''k_EAuthSessionGuardType_MachineToken''), (7, ''k_EAuthSessionGuardType_LegacyMachineAuth'')]"

definition GuardType_String :: "EAuthSessionGuardType \<Rightarrow> string" where
  "GuardType_String x =
     (case map_of EAuthSessionGuardType_name (sint x) of Some s \<Rightarrow> s | None \<Rightarrow> FormatInt (sint x))"

text \<open>A name in quotes, or a number; \<^verbatim>\<open>null\<close> is the number zero.\<close>

definition GuardType_UnmarshalJSON :: "json \<Rightarrow> EAuthSessionGuardType result" where
  "GuardType_UnmarshalJSON j =
     (case j of
        JStr n \<Rightarrow> (case map_of (map (\<lambda>(i, s). (s, i)) EAuthSessionGuardType_name) n of
                    Some i \<Rightarrow> Inr (of_int i)
                  | None \<Rightarrow> Inl (ErrNew (''invalid value for enum EAuthSessionGuardType: '' @ n)))
      | JNull \<Rightarrow> Inr 0
      | JNum l \<Rightarrow> (case ParseInt l 32 of
                    Inr i \<Rightarrow> Inr (of_int i)
                  | Inl e \<Rightarrow> Inl (ErrNew ''invalid input for enum EAuthSessionGuardType''))
      | _ \<Rightarrow> Inl (ErrNew ''invalid input for enum EAuthSessionGuardType''))"

text \<open>The enumerations are 32-bit signed integers: their number is read signed.\<close>

definition enum_EncodeValues :: "32 word \<Rightarrow> string \<Rightarrow> url_values \<Rightarrow> url_values" where
  "enum_EncodeValues x key v = values_Add key (FormatInt (sint x)) v"

definition PlatformType_SteamClient :: "32 word" where "PlatformType_SteamClient = 1"
definition SessionPersistence_Persistent :: "32 word" where "SessionPersistence_Persistent = 1"

section \<open>Messages\<close>

type_synonym others = "(nat \<times> bytes) list"

record CMsgProtoBufHeader =
  ph_Steamid :: "uint64 option"
  ph_ClientSessionid :: "32 word option"
  ph_JobidSource :: "uint64 option"
  ph_JobidTarget :: "uint64 option"
  ph_others :: others

definition new_ProtoBufHeader :: CMsgProtoBufHeader where
  "new_ProtoBufHeader = \<lparr>ph_Steamid = None, ph_ClientSessionid = None, ph_JobidSource = None,
     ph_JobidTarget = None, ph_others = []\<rparr>"

text \<open>The getters, on a pointer that may be nil.\<close>

definition GetSteamid :: "CMsgProtoBufHeader option \<Rightarrow> uint64" where
  "GetSteamid x = (case x of Some h \<Rightarrow> (case ph_Steamid h of Some v \<Rightarrow> v | None \<Rightarrow> 0) | None \<Rightarrow> 0)"

definition GetClientSessionid :: "CMsgProtoBufHeader option \<Rightarrow> 32 word" where
  "GetClientSessionid x =
     (case x of Some h \<Rightarrow> (case ph_ClientSessionid h of Some v \<Rightarrow> v | None \<Rightarrow> 0) | None \<Rightarrow> 0)"

definition GetJobidSource :: "CMsgProtoBufHeader option \<Rightarrow> uint64" where
  "GetJobidSource x =
     (case x of Some h \<Rightarrow> (case ph_JobidSource h of Some v \<Rightarrow> v | None \<Rightarrow> 18446744073709551615)
      | None \<Rightarrow> 18446744073709551615)"

definition GetJobidTarget :: "CMsgProtoBufHeader option \<Rightarrow> uint64" where
  "GetJobidTarget x =
     (case x of Some h \<Rightarrow> (case ph_JobidTarget h of Some v \<Rightarrow> v | None \<Rightarrow> 18446744073709551615)
      | None \<Rightarrow> 18446744073709551615)"

record CMsgMulti =
  mu_SizeUnzipped :: "uint32 option"
  mu_MessageBody :: bytes

definition GetSizeUnzipped :: "CMsgMulti \<Rightarrow> uint32" where
  "GetSizeUnzipped x = (case mu_SizeUnzipped x of Some v \<Rightarrow> v | None \<Rightarrow> 0)"

record CMsgClientLogonResponse =
  lr_Eresult :: "32 word option"
  lr_HeartbeatSeconds :: "32 word option"
  lr_others :: others

definition GetEresult :: "CMsgClientLogonResponse \<Rightarrow> 32 word" where
  "GetEresult x = (case lr_Eresult x of Some v \<Rightarrow> v | None \<Rightarrow> 2)"

record CMsgClientItemAnnouncements =
  ia_CountNewItems :: "uint32 option"
  ia_others :: others

definition GetCountNewItems :: "CMsgClientItemAnnouncements \<Rightarrow> uint32" where
  "GetCountNewItems x = (case ia_CountNewItems x of Some v \<Rightarrow> v | None \<Rightarrow> 0)"

record Notification =
  no_UserNotificationType :: "uint32 option"
  no_Count :: "uint32 option"

definition GetUserNotificationType :: "Notification \<Rightarrow> uint32" where
  "GetUserNotificationType x = (case no_UserNotificationType x of Some v \<Rightarrow> v | None \<Rightarrow> 0)"

definition GetCount :: "Notification \<Rightarrow> uint32" where
  "GetCount x = (case no_Count x of Some v \<Rightarrow> v | None \<Rightarrow> 0)"

text \<open>The messages the library sends: only the fields it sets.\<close>

record CMsgClientLogon =
  lo_ProtocolVersion :: uint32
  lo_AccessToken :: string
  lo_SupportsRateLimitResponse :: bool
  lo_MachineName :: string
  lo_ObfuscatedPrivateIp_V4 :: uint32
  lo_ClientLanguage :: string
  lo_ClientOsType :: uint32
  lo_ChatMode :: uint32
  lo_CellId :: uint32
  lo_MachineId :: bytes

datatype message =
    ClientHeartBeat
  | ClientRequestItemAnnouncements
  | ClientLogon CMsgClientLogon

text \<open>
  What the third-party protobuf and the JSON and gzip packages do with these messages is a
  parameter: the bytes of a message or the message of some bytes, the debugging text of a
  message, and the decompression of a gzip stream (opening it, then reading it to its end).
\<close>

record codec =
  pb_header :: "CMsgProtoBufHeader \<Rightarrow> bytes result"
  pb_message :: "message \<Rightarrow> bytes result"
  pb_to_header :: "bytes \<Rightarrow> CMsgProtoBufHeader result"
  pb_to_multi :: "bytes \<Rightarrow> CMsgMulti result"
  pb_to_logon_response :: "bytes \<Rightarrow> CMsgClientLogonResponse result"
  pb_to_item_announcements :: "bytes \<Rightarrow> CMsgClientItemAnnouncements result"
  pb_to_notifications :: "bytes \<Rightarrow> Notification list result"
  json_message :: "message \<Rightarrow> string result"
  gzip_NewReader :: "bytes \<Rightarrow> unit result"
  gzip_ReadAll :: "bytes \<Rightarrow> bytes result"

end
