(* ===== verification/Http.thy ===== *)
theory Http
  imports SteamID Language "HOL-Library.List_Lexorder" "HOL-Library.Char_ord"
begin

text \<open>
  The HTTP transport of the web API (\<^verbatim>\<open>api/transports\<close>) with what it uses of the
  libraries: the query-string encoding of parameter structs (\<^verbatim>\<open>go-querystring\<close>), the
  escaping and encoding of \<^verbatim>\<open>net/url\<close>, and the decoding of JSON objects into structs.
  The HTTP client is a parameter: what it reports of a request's method and address, and
  a function from the request and the state of the world to a response or an error.
\<close>

section \<open>Escaping and encoding of values\<close>

definition unreserved :: "char \<Rightarrow> bool" where
  "unreserved c \<longleftrightarrow>
     (let n = (of_char c :: nat) in
        48 \<le> n \<and> n \<le> 57 \<or> 65 \<le> n \<and> n \<le> 90 \<or> 97 \<le> n \<and> n \<le> 122 \<or> c \<in> set ''-_.~'')"

definition upper_hex :: "nat \<Rightarrow> char" where "upper_hex n = ''0123456789ABCDEF'' ! n"

definition escape_char :: "char \<Rightarrow> string" where
  "escape_char c =
     (if unreserved c then [c]
      else if c = CHR '' '' then ''+''
      else [CHR ''%'', upper_hex (of_char c div 16), upper_hex (of_char c mod 16)])"

definition QueryEscape :: "string \<Rightarrow> string" where "QueryEscape s = concat (map escape_char s)"

fun join :: "string \<Rightarrow> string list \<Rightarrow> string" where
  "join sep [] = []"
| "join sep [s] = s"
| "join sep (s # t # r) = s @ sep @ join sep (t # r)"

definition pairs_of :: "url_values \<Rightarrow> (string \<times> string) list" where
  "pairs_of m = concat (map (\<lambda>(k, vs). map (\<lambda>v. (k, v)) vs) (sort_key fst m))"

text \<open>\<^verbatim>\<open>url.Values.Encode\<close>: the pairs sorted by key.\<close>

definition values_Encode :: "url_values \<Rightarrow> string" where
  "values_Encode m = join ''&'' (map (\<lambda>(k, v). QueryEscape k @ ''='' @ QueryEscape v) (pairs_of m))"

section \<open>Parameter structs\<close>

text \<open>
  The value of a struct field as \<^verbatim>\<open>go-querystring\<close> distinguishes them; integers of every
  width are their number. A field is its name, whether it is tagged \<^verbatim>\<open>omitempty\<close>, and its
  value.
\<close>

datatype qval =
    QStr string
  | QBool bool
  | QInt int
  | QEnum "32 word"
  | QSteamID SteamID
  | QInts "int list"
  | QStruct "(string \<times> bool \<times> qval) list"

fun isEmptyValue :: "qval \<Rightarrow> bool" where
  "isEmptyValue (QStr s) = (s = [])"
| "isEmptyValue (QBool b) = (\<not> b)"
| "isEmptyValue (QInt n) = (n = 0)"
| "isEmptyValue (QEnum x) = (x = 0)"
| "isEmptyValue (QSteamID s) = (s = 0)"
| "isEmptyValue (QInts l) = (l = [])"
| "isEmptyValue (QStruct fs) = False"

definition bool_text :: "bool \<Rightarrow> string" where "bool_text b = (if b then ''true'' else ''false'')"

function add_value :: "string \<Rightarrow> qval \<Rightarrow> url_values \<Rightarrow> url_values"
  and reflectValue :: "string \<Rightarrow> (string \<times> bool \<times> qval) list \<Rightarrow> url_values \<Rightarrow> url_values" where
  "add_value name (QStr s) m = values_Add name s m"
| "add_value name (QBool b) m = values_Add name (bool_text b) m"
| "add_value name (QInt n) m = values_Add name (FormatInt n) m"
| "add_value name (QEnum x) m = enum_EncodeValues x name m"
| "add_value name (QSteamID s) m = SteamID_EncodeValues s name m"
| "add_value name (QInts l) m = fold (\<lambda>n. values_Add name (FormatInt n)) l m"
| "add_value name (QStruct fs) m = reflectValue name fs m"
| "reflectValue scope [] m = m"
| "reflectValue scope ((name, omit, v) # fs) m =
     reflectValue scope fs
       (if omit \<and> isEmptyValue v then m
        else add_value (if scope = [] then name else scope @ ''['' @ name @ '']'') v m)"
  by pat_completeness auto
termination
  by (relation "measure (\<lambda>x. case x of Inl (n, v, m) \<Rightarrow> size v | Inr (s, fs, m) \<Rightarrow> size_list (size_prod (\<lambda>_. 0) (size_prod (\<lambda>_. 0) size)) fs)") auto

definition query_Values :: "(string \<times> bool \<times> qval) list \<Rightarrow> url_values" where
  "query_Values fs = reflectValue [] fs []"

section \<open>JSON objects into structs\<close>

text \<open>
  A struct is decoded field by field, in the order of the object's members: the field with
  the member's exact name, else one whose name differs only in the case of ASCII letters;
  other members are skipped, \<^verbatim>\<open>null\<close> leaves the target alone, and the first mismatch is the
  error.
\<close>

type_synonym 'r field_decoder = "json \<Rightarrow> 'r \<Rightarrow> 'r result"

definition find_field :: "(string \<times> 'a) list \<Rightarrow> string \<Rightarrow> 'a option" where
  "find_field fs k =
     (case map_of fs k of
        Some f \<Rightarrow> Some f
      | None \<Rightarrow> map_option snd (find (\<lambda>(n, f). ToUpper n = ToUpper k) fs))"

fun dec_members :: "(string \<times> 'r field_decoder) list \<Rightarrow> (string \<times> json) list \<Rightarrow> 'r \<Rightarrow> 'r result" where
  "dec_members fs [] r = Inr r"
| "dec_members fs ((k, j) # ms) r =
     (case find_field fs k of
        None \<Rightarrow> dec_members fs ms r
      | Some f \<Rightarrow> (case f j r of Inl e \<Rightarrow> Inl e | Inr r' \<Rightarrow> dec_members fs ms r'))"

definition dec_struct :: "(string \<times> 'r field_decoder) list \<Rightarrow> json \<Rightarrow> 'r \<Rightarrow> 'r result" where
  "dec_struct fs j r =
     (case j of JNull \<Rightarrow> Inr r | JObj ms \<Rightarrow> dec_members fs ms r | _ \<Rightarrow> Inl ErrJSON)"

definition dec_with :: "(json \<Rightarrow> 'a result) \<Rightarrow> (('a \<Rightarrow> 'a) \<Rightarrow> 'r \<Rightarrow> 'r) \<Rightarrow> 'r field_decoder" where
  "dec_with p upd j r = (case p j of Inl e \<Rightarrow> Inl e | Inr v \<Rightarrow> Inr (upd (\<lambda>_. v) r))"

definition dec_kept :: "(json \<Rightarrow> 'a result) \<Rightarrow> (('a \<Rightarrow> 'a) \<Rightarrow> 'r \<Rightarrow> 'r) \<Rightarrow> 'r field_decoder" where
  "dec_kept p upd j r = (if j = JNull then Inr r else dec_with p upd j r)"

definition p_str :: "json \<Rightarrow> string result" where
  "p_str j = (case j of JStr s \<Rightarrow> Inr s | _ \<Rightarrow> Inl ErrJSON)"

definition p_bool :: "json \<Rightarrow> bool result" where
  "p_bool j = (case j of JBool b \<Rightarrow> Inr b | _ \<Rightarrow> Inl ErrJSON)"

definition p_uint :: "nat \<Rightarrow> json \<Rightarrow> int result" where
  "p_uint b j = (case j of JNum l \<Rightarrow> (case ParseUint l b of Inl e \<Rightarrow> Inl ErrJSON | Inr n \<Rightarrow> Inr (int n)) | _ \<Rightarrow> Inl ErrJSON)"

definition p_int :: "nat \<Rightarrow> json \<Rightarrow> int result" where
  "p_int b j = (case j of JNum l \<Rightarrow> (case ParseInt l b of Inl e \<Rightarrow> Inl ErrJSON | Inr n \<Rightarrow> Inr n) | _ \<Rightarrow> Inl ErrJSON)"

text \<open>Fields tagged \<^verbatim>\<open>string\<close>: the number is quoted; the quoted text \<^verbatim>\<open>null\<close> counts as null,
  and any other text has to start like a number.\<close>

definition unquoted :: "json \<Rightarrow> json" where
  "unquoted j = (case j of JNull \<Rightarrow> JNull | 
      JStr s \<Rightarrow> if s = ''null'' then JNull
                else if s \<noteq> [] \<and> (hd s = CHR ''-'' \<or> is_digit (hd s)) then JNum s else JBool False
    | _ \<Rightarrow> JBool False)"

fun p_list :: "(json \<Rightarrow> 'a result) \<Rightarrow> json list \<Rightarrow> 'a list result" where
  "p_list p [] = Inr []"
| "p_list p (j # js) =
     (case p j of Inl e \<Rightarrow> Inl e | Inr x \<Rightarrow> (case p_list p js of Inl e \<Rightarrow> Inl e | Inr xs \<Rightarrow> Inr (x # xs)))"

definition p_array :: "(json \<Rightarrow> 'a result) \<Rightarrow> json \<Rightarrow> 'a list result" where
  "p_array p j = (case j of JNull \<Rightarrow> Inr [] | JArr js \<Rightarrow> p_list p js | _ \<Rightarrow> Inl ErrJSON)"

definition dec_str :: "((string \<Rightarrow> string) \<Rightarrow> 'r \<Rightarrow> 'r) \<Rightarrow> 'r field_decoder" where "dec_str = dec_kept p_str"
definition dec_bool :: "((bool \<Rightarrow> bool) \<Rightarrow> 'r \<Rightarrow> 'r) \<Rightarrow> 'r field_decoder" where "dec_bool = dec_kept p_bool"
definition dec_uint :: "nat \<Rightarrow> ((int \<Rightarrow> int) \<Rightarrow> 'r \<Rightarrow> 'r) \<Rightarrow> 'r field_decoder" where "dec_uint b = dec_kept (p_uint b)"
definition dec_int :: "nat \<Rightarrow> ((int \<Rightarrow> int) \<Rightarrow> 'r \<Rightarrow> 'r) \<Rightarrow> 'r field_decoder" where "dec_int b = dec_kept (p_int b)"

definition dec_quoted_uint :: "((int \<Rightarrow> int) \<Rightarrow> 'r \<Rightarrow> 'r) \<Rightarrow> 'r field_decoder" where
  "dec_quoted_uint upd j r = dec_uint 64 upd (unquoted j) r"

definition dec_quoted_int :: "((int \<Rightarrow> int) \<Rightarrow> 'r \<Rightarrow> 'r) \<Rightarrow> 'r field_decoder" where
  "dec_quoted_int upd j r = dec_int 64 upd (unquoted j) r"

section \<open>The transport\<close>

record HttpRequest =
  rq_verb :: string
  rq_url :: string
  rq_body :: string
  rq_content_type :: "string option"

record HttpResponse =
  rs_status :: nat
  rs_eresult :: string
  rs_body :: "json result"

record 'w HTTPClient =
  hc_parse :: "string \<Rightarrow> string \<Rightarrow> goerr option"
  hc_do :: "HttpRequest \<Rightarrow> 'w \<Rightarrow> HttpResponse result \<times> 'w"

record 'w HTTPTransport =
  ht_BaseURL :: string
  ht_UserAgent :: string
  ht_HttpClient :: "'w HTTPClient"

type_synonym 'w Option = "'w HTTPTransport \<Rightarrow> 'w HTTPTransport"

definition WithBaseURL :: "string \<Rightarrow> 'w Option" where "WithBaseURL u o' = o'\<lparr>ht_BaseURL := u\<rparr>"
definition WithUserAgent :: "string \<Rightarrow> 'w Option" where "WithUserAgent u o' = o'\<lparr>ht_UserAgent := u\<rparr>"
definition WithHTTPClient :: "'w HTTPClient \<Rightarrow> 'w Option" where "WithHTTPClient c o' = o'\<lparr>ht_HttpClient := c\<rparr>"

definition NewHTTPTransport :: "'w HTTPClient \<Rightarrow> 'w Option list \<Rightarrow> 'w HTTPTransport" where
  "NewHTTPTransport DefaultClient options =
     fold (\<lambda>option t. option t) options
       \<lparr>ht_BaseURL = ''https://api.steampowered.com'', ht_UserAgent = ''go-steam'', ht_HttpClient = DefaultClient\<rparr>"

text \<open>
  The parameters are \<open>None\<close> for nil, and otherwise what \<^verbatim>\<open>query.Values\<close> makes of them. The
  response type is given by its decoder. Tracing has no effect on the call.
\<close>

definition http_request :: "'w HTTPTransport \<Rightarrow> string \<Rightarrow> string \<Rightarrow> string \<Rightarrow> int \<Rightarrow> url_values \<Rightarrow> HttpRequest" where
  "http_request t verb service method version values =
     (let base = ht_BaseURL t @ ''/'' @ service @ ''/'' @ method @ ''/v'' @ FormatInt version in
      \<lparr>rq_verb = verb,
       rq_url = (if verb = ''GET'' then base @ ''/?'' @ values_Encode values else base),
       rq_body = (if verb = ''POST'' then values_Encode values else []),
       rq_content_type = (if verb = ''POST'' then Some ''application/x-www-form-urlencoded'' else None)\<rparr>)"

definition Call :: "'w HTTPTransport \<Rightarrow> string \<Rightarrow> string \<Rightarrow> string \<Rightarrow> int \<Rightarrow> url_values result option \<Rightarrow>
    (json \<Rightarrow> 'r result) \<Rightarrow> 'w \<Rightarrow> 'r result \<times> 'w" where
  "Call t verb service method version params decode w =
     (case (case params of None \<Rightarrow> Inr [] | Some v \<Rightarrow> v) of
        Inl err \<Rightarrow> (Inl (ErrWrap ''failed to create query values'' err), w)
      | Inr values0 \<Rightarrow>
        let req = http_request t verb service method version (values_Add ''format'' ''json'' values0) in
        case hc_parse (ht_HttpClient t) verb (rq_url req) of
          Some err \<Rightarrow> (Inl (ErrWrap ''failed to create request'' err), w)
        | None \<Rightarrow>
          (case hc_do (ht_HttpClient t) req w of
             (Inl err, w') \<Rightarrow> (Inl (ErrWrap ''failed to make request'' err), w')
           | (Inr res, w') \<Rightarrow>
             if rs_eresult res \<noteq> [] \<and> rs_eresult res \<noteq> ''1'' then
               (Inl (ErrNew (''request failed with error code: '' @ rs_eresult res)), w')
             else
               (case rs_body res of
                  Inl err \<Rightarrow> (Inl (ErrWrap ''failed to decode response'' err), w')
                | Inr j \<Rightarrow>
                  (case decode j of
                     Inl err \<Rightarrow> (Inl (ErrWrap ''failed to decode response'' err), w')
                   | Inr r \<Rightarrow> (Inr r, w')))))"

section \<open>What a server reads\<close>

text \<open>The server's side of the encoding: split at \<^verbatim>\<open>&\<close> and \<^verbatim>\<open>=\<close>, and undo the escapes.\<close>

fun split_on :: "char \<Rightarrow> string \<Rightarrow> string list" where
  "split_on c [] = [[]]"
| "split_on c (x # xs) =
     (if x = c then [] # split_on c xs
      else case split_on c xs of [] \<Rightarrow> [[x]] | w # ws \<Rightarrow> (x # w) # ws)"

definition hex_value :: "char \<Rightarrow> nat" where
  "hex_value c = (if is_digit c then digit_val c else of_char c - 55)"

fun QueryUnescape :: "string \<Rightarrow> string" where
  "QueryUnescape [] = []"
| "QueryUnescape (c # s) =
     (if c = CHR ''%'' then
        (case s of a # b # r \<Rightarrow> char_of (16 * hex_value a + hex_value b) # QueryUnescape r | _ \<Rightarrow> [])
      else (if c = CHR ''+'' then CHR '' '' else c) # QueryUnescape s)"

definition parse_query :: "string \<Rightarrow> (string \<times> string) list" where
  "parse_query q =
     map (\<lambda>p. case split_on (CHR ''='') p of
                k # v # _ \<Rightarrow> (QueryUnescape k, QueryUnescape v)
              | [k] \<Rightarrow> (QueryUnescape k, []) | [] \<Rightarrow> ([], []))
       (split_on (CHR ''&'') q)"

definition received :: "string \<Rightarrow> string \<Rightarrow> string list" where
  "received k q = map snd (filter (\<lambda>p. fst p = k) (parse_query q))"

lemma less_16_cases: "n < 16 \<Longrightarrow> n \<in> {0, 1, 2, 3, 4, 5, 6, 7, 8, 9, 10, 11, 12, 13, 14, 15 :: nat}"
  by (simp add: numeral_eq_Suc less_Suc_eq disj_ac)

lemma upper_hex_value: "n < 16 \<Longrightarrow> hex_value (upper_hex n) = n"
  by (drule less_16_cases, elim insertE emptyE) (simp_all add: upper_hex_def hex_value_def is_digit_def digit_val_def)

lemma upper_hex_unreserved: "n < 16 \<Longrightarrow> unreserved (upper_hex n)"
  by (drule less_16_cases, elim insertE emptyE) (simp_all add: upper_hex_def unreserved_def)

lemma unreserved_plain: "unreserved c \<Longrightarrow> c \<notin> set ''&=%+ ''"
  by (auto simp: unreserved_def)

lemma of_char_256: "(of_char c :: nat) div 16 < 16" "(of_char c :: nat) mod 16 < 16"
proof -
  have "(of_char c :: nat) < 256" by (metis nat_of_char_less_256)
  then show "(of_char c :: nat) div 16 < 16" by (simp add: less_mult_imp_div_less)
qed simp

lemma QueryUnescape_escape: "QueryUnescape (escape_char c @ s) = c # QueryUnescape s"
proof -
  have "char_of (16 * (of_char c div 16) + of_char c mod 16 :: nat) = c"
    by (simp only: mult_div_mod_eq char_of_char)
  then show ?thesis
    using unreserved_plain [of c]
    by (auto simp: escape_char_def upper_hex_value of_char_256)
qed

lemma QueryUnescape_QueryEscape [simp]: "QueryUnescape (QueryEscape s) = s"
  by (induction s) (simp_all add: QueryEscape_def QueryUnescape_escape)

lemma upper_hex_plain: "n < 16 \<Longrightarrow> upper_hex n \<noteq> CHR ''&'' \<and> upper_hex n \<noteq> CHR ''=''"
  using unreserved_plain [OF upper_hex_unreserved] by auto

lemma QueryEscape_plain: "CHR ''&'' \<notin> set (QueryEscape s)" "CHR ''='' \<notin> set (QueryEscape s)"
proof -
  have "CHR ''&'' \<notin> set (escape_char c) \<and> CHR ''='' \<notin> set (escape_char c)" for c
    using unreserved_plain [of c] upper_hex_plain [OF of_char_256(1) [of c]]
      upper_hex_plain [OF of_char_256(2) [of c]]
    by (simp add: escape_char_def) metis
  then show "CHR ''&'' \<notin> set (QueryEscape s)" "CHR ''='' \<notin> set (QueryEscape s)"
    by (auto simp: QueryEscape_def)
qed

lemma split_on_plain: "c \<notin> set s \<Longrightarrow> split_on c s = [s]"
  by (induction s) auto

lemma split_on_append: "c \<notin> set s \<Longrightarrow> split_on c (s @ c # t) = s # split_on c t"
  by (induction s) auto

lemma split_on_join:
  "\<forall>s \<in> set ss. c \<notin> set s \<Longrightarrow> ss \<noteq> [] \<Longrightarrow> split_on c (join [c] ss) = ss"
  by (induction "[c]" ss rule: join.induct) (simp_all add: split_on_plain split_on_append)

lemma parse_query_encode:
  assumes "pairs_of m \<noteq> []"
  shows "parse_query (values_Encode m) = pairs_of m"
proof -
  define f where "f = (\<lambda>(k, v). QueryEscape k @ ''='' @ QueryEscape v)"
  have a: "\<forall>s \<in> set (map f (pairs_of m)). CHR ''&'' \<notin> set s"
    using QueryEscape_plain by (auto simp: f_def)
  have p: "(case split_on (CHR ''='') (f (k, v)) of
      k' # v' # _ \<Rightarrow> (QueryUnescape k', QueryUnescape v')
    | [k'] \<Rightarrow> (QueryUnescape k', []) | [] \<Rightarrow> ([], [])) = (k, v)" for k v
    using QueryEscape_plain
    by (simp add: f_def split_on_append split_on_plain)
  show ?thesis
    unfolding parse_query_def values_Encode_def f_def [symmetric]
    using assms a by (simp add: split_on_join p split_paired_all comp_def map_idI)
qed

text \<open>The keys of a value map stay distinct.\<close>

abbreviation keys_distinct :: "url_values \<Rightarrow> bool" where "keys_distinct m \<equiv> distinct (map fst m)"

lemma fst_values_Add: "fst ` set (values_Add k v m) = insert k (fst ` set m)"
proof (induction m)
  case (Cons a m)
  then show ?case by (cases a) (auto simp: insert_commute)
qed simp

lemma values_Add_distinct [intro]: "keys_distinct m \<Longrightarrow> keys_distinct (values_Add k v m)"
proof (induction m)
  case (Cons a m)
  then show ?case by (cases a) (auto simp: fst_values_Add)
qed simp

lemma fold_values_Add_distinct:
  "keys_distinct m \<Longrightarrow> keys_distinct (fold (\<lambda>n. values_Add name (g n)) l m)"
  by (induction l arbitrary: m) auto

lemma reflectValue_distinct:
  "keys_distinct m \<Longrightarrow> keys_distinct (add_value name v m)"
  "keys_distinct m \<Longrightarrow> keys_distinct (reflectValue scope fs m)"
  by (induction name v m and scope fs m rule: add_value_reflectValue.induct)
    (auto simp: enum_EncodeValues_def SteamID_EncodeValues_def fold_values_Add_distinct)

text \<open>The reference for the encoding of a struct: the pairs of its fields, nested ones with
  their path, empty ones left out where the tag says so.\<close>

function value_pairs :: "string \<Rightarrow> qval \<Rightarrow> (string \<times> string) list"
  and field_pairs :: "string \<Rightarrow> (string \<times> bool \<times> qval) list \<Rightarrow> (string \<times> string) list" where
  "value_pairs name (QStr s) = [(name, s)]"
| "value_pairs name (QBool b) = [(name, bool_text b)]"
| "value_pairs name (QInt n) = [(name, FormatInt n)]"
| "value_pairs name (QEnum x) = [(name, FormatInt (sint x))]"
| "value_pairs name (QSteamID s) = [(name, ToSteam64 s)]"
| "value_pairs name (QInts l) = map (\<lambda>n. (name, FormatInt n)) l"
| "value_pairs name (QStruct fs) = field_pairs name fs"
| "field_pairs scope [] = []"
| "field_pairs scope ((name, omit, v) # fs) =
     (if omit \<and> isEmptyValue v then []
      else value_pairs (if scope = [] then name else scope @ ''['' @ name @ '']'') v) @ field_pairs scope fs"
  by pat_completeness auto
termination
  by (relation "measure (\<lambda>x. case x of Inl (n, v) \<Rightarrow> size v | Inr (s, fs) \<Rightarrow> size_list (size_prod (\<lambda>_. 0) (size_prod (\<lambda>_. 0) size)) fs)") auto

definition under :: "string \<Rightarrow> (string \<times> string) list \<Rightarrow> string list" where
  "under k ps = map snd (filter (\<lambda>p. fst p = k) ps)"

lemma under_simps [simp]:
  "under k [] = []" "under k ((k', v) # ps) = (if k' = k then [v] else []) @ under k ps"
  "under k (ps @ qs) = under k ps @ under k qs"
  "under k (map (\<lambda>n. (name, g n)) l) = (if name = k then map g l else [])"
  by (auto simp: under_def filter_map comp_def)

lemma fold_Add_Get:
  "values_Get k (fold (\<lambda>n. values_Add name (g n)) l m) =
     values_Get k m @ (if name = k then map g l else [])"
  by (induction l arbitrary: m) (auto simp: values_Get_Add)

lemma encode_Get:
  "values_Get k (add_value name v m) = values_Get k m @ under k (value_pairs name v)"
  "values_Get k (reflectValue scope fs m) = values_Get k m @ under k (field_pairs scope fs)"
  by (induction name v m and scope fs m rule: add_value_reflectValue.induct)
    (auto simp: values_Get_Add enum_EncodeValues_def SteamID_EncodeValues_def fold_Add_Get)

lemma values_Get_query: "values_Get k (query_Values fs) = under k (field_pairs [] fs)"
  by (simp add: query_Values_def encode_Get) (simp add: values_Get_def)

lemma query_Values_distinct [simp]: "keys_distinct (query_Values fs)"
  unfolding query_Values_def by (rule reflectValue_distinct) simp

lemma filter_pairs:
  "keys_distinct m \<Longrightarrow>
   map snd (filter (\<lambda>p. fst p = k) (concat (map (\<lambda>(k, vs). map (\<lambda>v. (k, v)) vs) m))) = values_Get k m"
proof (induction m)
  case (Cons a m)
  obtain k' vs where a: "a = (k', vs)" by force
  have f: "filter (\<lambda>p. fst p = k) (map (\<lambda>v. (k', v)) vs) = (if k' = k then map (\<lambda>v. (k', v)) vs else [])"
    by (induction vs) auto
  show ?case
  proof (cases "k' = k")
    case True
    then have "map_of m k = None" using Cons.prems a by (auto simp: map_of_eq_None_iff)
    then show ?thesis using Cons a f True by (simp add: values_Get_def comp_def)
  qed (use Cons a f in \<open>simp add: values_Get_def\<close>)
qed (simp add: values_Get_def)

lemma received_encode:
  assumes "keys_distinct m" "pairs_of m \<noteq> []"
  shows "received k (values_Encode m) = values_Get k m"
proof -
  have d: "keys_distinct (sort_key fst m)"
    using assms(1) distinct_map [of fst m] distinct_map [of fst "sort_key fst m"] by simp
  then have "map_of (sort_key fst m) = map_of m"
    using assms(1) by (simp add: map_of_inject_set)
  with filter_pairs [OF d, of k] show ?thesis
    unfolding received_def parse_query_encode [OF assms(2)] pairs_of_def by (simp add: values_Get_def)
qed

lemma pairs_of_Add: "pairs_of (values_Add k v m) \<noteq> []"
proof -
  have "\<exists>vs. (k, vs) \<in> set (values_Add k v m) \<and> vs \<noteq> []" by (induction m) auto
  then show ?thesis unfolding pairs_of_def by force
qed

section \<open>Properties\<close>

text \<open>Property C36: for any parameter struct, whatever characters its values hold, the server
  decodes from the query of a GET request, or from the body of a POST request, exactly the
  values of the struct's fields under their names, in order, and \<^verbatim>\<open>format=json\<close>; a GET has
  no body and a POST no query.\<close>

theorem http_request_carries_params:
  fixes fs :: "(string \<times> bool \<times> qval) list"
  defines "m \<equiv> values_Add ''format'' ''json'' (query_Values fs)"
  shows "\<exists>q. rq_url (http_request t ''GET'' service method version m) =
      ht_BaseURL t @ ''/'' @ service @ ''/'' @ method @ ''/v'' @ FormatInt version @ ''/?'' @ q \<and>
    rq_body (http_request t ''GET'' service method version m) = [] \<and>
    rq_url (http_request t ''POST'' service method version m) =
      ht_BaseURL t @ ''/'' @ service @ ''/'' @ method @ ''/v'' @ FormatInt version \<and>
    rq_body (http_request t ''POST'' service method version m) = q \<and>
    (\<forall>k. received k q = under k (field_pairs [] fs) @ (if k = ''format'' then [''json''] else []))"
proof -
  have "received k (values_Encode m) = values_Get k m" for k
    unfolding m_def by (rule received_encode) (auto simp: pairs_of_Add)
  then show ?thesis
    by (intro exI [of _ "values_Encode m"]) (simp add: http_request_def m_def values_Get_Add values_Get_query Let_def)
qed

text \<open>Property C37: a call returns a value exactly when the request can be built and made, the
  \<^verbatim>\<open>X-Eresult\<close> header is absent or 1, and the body is JSON that decodes to that value. The
  HTTP status plays no part, and neither does the transport's user agent, which is never
  put on a request.\<close>

theorem http_call_succeeds_iff:
  "(Call t verb service method version params decode w = (Inr r, w') \<longleftrightarrow>
     (\<exists>values req res j. (params = None \<and> values = [] \<or> params = Some (Inr values)) \<and>
        req = http_request t verb service method version (values_Add ''format'' ''json'' values) \<and>
        hc_parse (ht_HttpClient t) verb (rq_url req) = None \<and>
        hc_do (ht_HttpClient t) req w = (Inr res, w') \<and>
        rs_eresult res \<in> {'''', ''1''} \<and> rs_body res = Inr j \<and> decode j = Inr r)) \<and>
   Call (WithUserAgent a t) verb service method version params decode w =
   Call t verb service method version params decode w"
proof -
  have A: "http_request (WithUserAgent a t) = http_request t"
    by (intro ext) (simp add: http_request_def WithUserAgent_def)
  have B: "ht_HttpClient (WithUserAgent a t) = ht_HttpClient t"
    by (simp add: WithUserAgent_def)
  have "Call (WithUserAgent a t) verb service method version params decode w =
      Call t verb service method version params decode w"
    unfolding Call_def A B ..
  then show ?thesis
    by (auto simp: Call_def Let_def split: option.splits sum.splits prod.splits if_splits)
qed

end
