(* ===== verification/Api.thy ===== *)
theory Api
  imports Http
begin

text \<open>
  The web API: lazily created values (\<^verbatim>\<open>internal/lazy\<close>), Unix times (\<^verbatim>\<open>internal/unixtime\<close>),
  the five services with their parameter and response structs (\<^verbatim>\<open>api/services\<close>) and the API
  object (\<^verbatim>\<open>api/api.go\<close>). Every service calls the HTTP transport. Integers of requests keep
  their width; integers of responses are numbers whose width the decoder checks.
\<close>

section \<open>Lazy values\<close>

text \<open>
  \<^verbatim>\<open>sync.Once\<close> counts the function as run even when it panics; a later \<^verbatim>\<open>Get\<close> then returns
  the zero value, here \<open>None\<close>.
\<close>

record 'a lazy_Value =
  lz_once :: bool
  lz_init :: "unit \<Rightarrow> 'a outcome"
  lz_value :: "'a option"

definition lazy_New :: "(unit \<Rightarrow> 'a outcome) \<Rightarrow> 'a lazy_Value" where
  "lazy_New init = \<lparr>lz_once = False, lz_init = init, lz_value = None\<rparr>"

definition lazy_Get :: "'a lazy_Value \<Rightarrow> 'a option outcome \<times> 'a lazy_Value" where
  "lazy_Get v =
     (if lz_once v then (Return (lz_value v), v)
      else let v1 = v\<lparr>lz_once := True\<rparr> in
        case lz_init v () of
          Return x \<Rightarrow> (Return (Some x), v1\<lparr>lz_value := Some x\<rparr>)
        | Fail e \<Rightarrow> (Fail e, v1)
        | Panic e \<Rightarrow> (Panic e, v1)
        | Parked \<Rightarrow> (Parked, v1))"

section \<open>Unix times\<close>

text \<open>A time that is a whole number of seconds is that number.\<close>

type_synonym UnixTime = int

definition UnixTime_UnmarshalJSON :: "json \<Rightarrow> UnixTime result" where
  "UnixTime_UnmarshalJSON b = (case unmarshal_int64 (Some b) of Inl err \<Rightarrow> Inl err | Inr n \<Rightarrow> Inr n)"

definition UnixTime_MarshalJSON :: "UnixTime \<Rightarrow> json" where
  "UnixTime_MarshalJSON t = JNum (FormatInt t)"

section \<open>Responses\<close>

text \<open>Every method's body is an object whose member \<^verbatim>\<open>response\<close> holds the response.\<close>

definition decode_response :: "(json \<Rightarrow> 'r \<Rightarrow> 'r result) \<Rightarrow> 'r \<Rightarrow> json \<Rightarrow> 'r result" where
  "decode_response dec zero j = dec_struct [(''response'', dec)] j zero"

definition ErrTransportNil :: goerr where "ErrTransportNil = ErrNew ''transport is nil''"

section \<open>IAuthenticationService\<close>

datatype 'w IAuthenticationService = IAuthenticationService (auth_transport: "'w HTTPTransport")

definition NewIAuthenticationService :: "'w HTTPTransport option \<Rightarrow> 'w IAuthenticationService outcome" where
  "NewIAuthenticationService transport =
     (case transport of None \<Rightarrow> Panic ErrTransportNil | Some t \<Rightarrow> Return (IAuthenticationService t))"

record DeviceDetailsParameters =
  dd_DeviceFriendlyName :: string
  dd_PlatformType :: "32 word"
  dd_OsType :: "32 word"
  dd_GamingDeviceType :: uint32
  dd_ClientCount :: uint32
  dd_MachineID :: bytes

text \<open>The struct carries no \<^verbatim>\<open>url\<close> tags: its fields go by their Go names.\<close>

definition device_details_fields :: "DeviceDetailsParameters \<Rightarrow> (string \<times> bool \<times> qval) list" where
  "device_details_fields d =
     [(''DeviceFriendlyName'', False, QStr (dd_DeviceFriendlyName d)),
      (''PlatformType'', False, QInt (sint (dd_PlatformType d))),
      (''OsType'', False, QInt (sint (dd_OsType d))),
      (''GamingDeviceType'', False, QInt (uint (dd_GamingDeviceType d))),
      (''ClientCount'', False, QInt (uint (dd_ClientCount d))),
      (''MachineID'', False, QInts (map uint (dd_MachineID d)))]"

record BeginAuthSessionViaCredentialsParameters =
  ba_DeviceFriendlyName :: string
  ba_AccountName :: string
  ba_EncryptedPassword :: string
  ba_EncryptionTimestamp :: uint64
  ba_RememberLogin :: bool
  ba_PlatformType :: "32 word"
  ba_Persistence :: "32 word"
  ba_WebsiteID :: string
  ba_DeviceDetails :: DeviceDetailsParameters
  ba_GuardData :: string
  ba_Language :: uint32
  ba_QosLevel :: "32 word"

definition begin_auth_fields :: "BeginAuthSessionViaCredentialsParameters \<Rightarrow> (string \<times> bool \<times> qval) list" where
  "begin_auth_fields p =
     [(''device_friendly_name'', True, QStr (ba_DeviceFriendlyName p)),
      (''account_name'', True, QStr (ba_AccountName p)),
      (''encrypted_password'', True, QStr (ba_EncryptedPassword p)),
      (''encryption_timestamp'', True, QInt (uint (ba_EncryptionTimestamp p))),
      (''remember_login'', True, QBool (ba_RememberLogin p)),
      (''platform_type'', True, QInt (sint (ba_PlatformType p))),
      (''persistence'', True, QInt (sint (ba_Persistence p))),
      (''website_id'', True, QStr (ba_WebsiteID p)),
      (''device_details'', True, QStruct (device_details_fields (ba_DeviceDetails p))),
      (''guard_data'', True, QStr (ba_GuardData p)),
      (''language'', True, QInt (uint (ba_Language p))),
      (''qos_level'', True, QInt (sint (ba_QosLevel p)))]"

record AllowedConfirmation =
  ac_ConfirmationType :: EAuthSessionGuardType
  ac_AssociatedMessage :: string

record BeginAuthSessionViaCredentialsResponse =
  br_ClientID :: int
  br_RequestID :: string
  br_Interval :: int
  br_AllowedConfirmations :: "AllowedConfirmation list"
  br_SteamID :: SteamID
  br_ExtendedErrorMessage :: string

definition p_AllowedConfirmation :: "json \<Rightarrow> AllowedConfirmation result" where
  "p_AllowedConfirmation j =
     dec_struct [(''confirmation_type'', dec_with GuardType_UnmarshalJSON ac_ConfirmationType_update),
                 (''associated_message'', dec_str ac_AssociatedMessage_update)] j
       \<lparr>ac_ConfirmationType = 0, ac_AssociatedMessage = []\<rparr>"

definition begin_auth_response_fields :: "(string \<times> BeginAuthSessionViaCredentialsResponse field_decoder) list" where
  "begin_auth_response_fields =
     [(''client_id'', dec_quoted_uint br_ClientID_update),
                 (''request_id'', dec_str br_RequestID_update),
                 (''interval'', dec_int 32 br_Interval_update),
                 (''allowed_confirmations'', dec_with (p_array p_AllowedConfirmation) br_AllowedConfirmations_update),
                 (''steamid'', dec_with (\<lambda>j. SteamID_UnmarshalJSON (Some j)) br_SteamID_update),
                 (''extended_error_message'', dec_str br_ExtendedErrorMessage_update)]"

definition dec_begin_auth :: "json \<Rightarrow> BeginAuthSessionViaCredentialsResponse \<Rightarrow> BeginAuthSessionViaCredentialsResponse result" where
  "dec_begin_auth = dec_struct begin_auth_response_fields"

definition zero_begin_auth :: BeginAuthSessionViaCredentialsResponse where
  "zero_begin_auth = \<lparr>br_ClientID = 0, br_RequestID = [], br_Interval = 0, br_AllowedConfirmations = [],
     br_SteamID = 0, br_ExtendedErrorMessage = []\<rparr>"

definition BeginAuthSessionViaCredentials :: "'w IAuthenticationService \<Rightarrow> BeginAuthSessionViaCredentialsParameters \<Rightarrow>
    'w \<Rightarrow> BeginAuthSessionViaCredentialsResponse result \<times> 'w" where
  "BeginAuthSessionViaCredentials a params =
     Call (auth_transport a) ''POST'' ''IAuthenticationService'' ''BeginAuthSessionViaCredentials'' 1
       (Some (Inr (query_Values (begin_auth_fields params)))) (decode_response dec_begin_auth zero_begin_auth)"

record GenerateAccessTokenForAppParameters =
  ga_SteamID :: SteamID
  ga_RefreshToken :: string
  ga_RenewalType :: "32 word"

record GenerateAccessTokenForAppResponse =
  gr_AccessToken :: string
  gr_RefreshToken :: string

definition GenerateAccessTokenForApp :: "'w IAuthenticationService \<Rightarrow> GenerateAccessTokenForAppParameters \<Rightarrow>
    'w \<Rightarrow> GenerateAccessTokenForAppResponse result \<times> 'w" where
  "GenerateAccessTokenForApp a params =
     Call (auth_transport a) ''POST'' ''IAuthenticationService'' ''GenerateAccessTokenForApp'' 1
       (Some (Inr (query_Values
         [(''steamid'', True, QSteamID (ga_SteamID params)),
          (''refresh_token'', True, QStr (ga_RefreshToken params)),
          (''renewal_type'', True, QEnum (ga_RenewalType params))])))
       (decode_response (dec_struct [(''access_token'', dec_str gr_AccessToken_update),
          (''refresh_token'', dec_str gr_RefreshToken_update)]) \<lparr>gr_AccessToken = [], gr_RefreshToken = []\<rparr>)"

record GetPasswordRSAPublicKeyParameters =
  gp_AccountName :: string

record GetPasswordRSAPublicKeyResponse =
  gk_PublicKeyMod :: string
  gk_PublicKeyExp :: string
  gk_Timestamp :: int

definition GetPasswordRSAPublicKey :: "'w IAuthenticationService \<Rightarrow> GetPasswordRSAPublicKeyParameters \<Rightarrow>
    'w \<Rightarrow> GetPasswordRSAPublicKeyResponse result \<times> 'w" where
  "GetPasswordRSAPublicKey a params =
     Call (auth_transport a) ''GET'' ''IAuthenticationService'' ''GetPasswordRSAPublicKey'' 1
       (Some (Inr (query_Values [(''account_name'', True, QStr (gp_AccountName params))])))
       (decode_response (dec_struct [(''publickey_mod'', dec_str gk_PublicKeyMod_update),
          (''publickey_exp'', dec_str gk_PublicKeyExp_update),
          (''timestamp'', dec_quoted_uint gk_Timestamp_update)])
          \<lparr>gk_PublicKeyMod = [], gk_PublicKeyExp = [], gk_Timestamp = 0\<rparr>)"

record PollAuthSessionStatusParameters =
  pp_ClientID :: uint64
  pp_RequestID :: string
  pp_TokenToRevoke :: uint64

record PollAuthSessionStatusResponse =
  pr_NewClientID :: string
  pr_NewChallengeURL :: string
  pr_RefreshToken :: string
  pr_AccessToken :: string
  pr_HadRemoteInteraction :: bool
  pr_AccountName :: string
  pr_NewGuardData :: string
  pr_AgreementSessionURL :: string

definition zero_poll :: PollAuthSessionStatusResponse where
  "zero_poll = \<lparr>pr_NewClientID = [], pr_NewChallengeURL = [], pr_RefreshToken = [], pr_AccessToken = [],
     pr_HadRemoteInteraction = False, pr_AccountName = [], pr_NewGuardData = [], pr_AgreementSessionURL = []\<rparr>"

definition dec_poll :: "json \<Rightarrow> PollAuthSessionStatusResponse \<Rightarrow> PollAuthSessionStatusResponse result" where
  "dec_poll =
     dec_struct [(''new_client_id'', dec_str pr_NewClientID_update),
                 (''new_challenge_url'', dec_str pr_NewChallengeURL_update),
                 (''refresh_token'', dec_str pr_RefreshToken_update),
                 (''access_token'', dec_str pr_AccessToken_update),
                 (''had_remote_interaction'', dec_bool pr_HadRemoteInteraction_update),
                 (''account_name'', dec_str pr_AccountName_update),
                 (''new_guard_data'', dec_str pr_NewGuardData_update),
                 (''agreement_session_url'', dec_str pr_AgreementSessionURL_update)]"

definition PollAuthSessionStatus :: "'w IAuthenticationService \<Rightarrow> PollAuthSessionStatusParameters \<Rightarrow>
    'w \<Rightarrow> PollAuthSessionStatusResponse result \<times> 'w" where
  "PollAuthSessionStatus a params =
     Call (auth_transport a) ''POST'' ''IAuthenticationService'' ''PollAuthSessionStatus'' 1
       (Some (Inr (query_Values
         [(''client_id'', True, QInt (uint (pp_ClientID params))),
          (''request_id'', True, QStr (pp_RequestID params)),
          (''token_to_revoke'', True, QInt (uint (pp_TokenToRevoke params)))])))
       (decode_response dec_poll zero_poll)"

record RevokeTokenParameters =
  rt_Token :: string
  rt_RevokeAction :: "32 word"

text \<open>Empty response structs accept any object.\<close>

definition dec_empty :: "json \<Rightarrow> unit \<Rightarrow> unit result" where "dec_empty = dec_struct []"

definition RevokeToken :: "'w IAuthenticationService \<Rightarrow> RevokeTokenParameters \<Rightarrow> 'w \<Rightarrow> unit result \<times> 'w" where
  "RevokeToken a params =
     Call (auth_transport a) ''POST'' ''IAuthenticationService'' ''RevokeToken'' 1
       (Some (Inr (query_Values
         [(''token'', True, QStr (rt_Token params)),
          (''revoke_action'', True, QEnum (rt_RevokeAction params))])))
       (decode_response dec_empty ())"

record UpdateAuthSessionWithSteamGuardCodeParameters =
  up_ClientID :: uint64
  up_SteamID :: SteamID
  up_Code :: string
  up_CodeType :: EAuthSessionGuardType

definition UpdateAuthSessionWithSteamGuardCode :: "'w IAuthenticationService \<Rightarrow>
    UpdateAuthSessionWithSteamGuardCodeParameters \<Rightarrow> 'w \<Rightarrow> unit result \<times> 'w" where
  "UpdateAuthSessionWithSteamGuardCode a params =
     Call (auth_transport a) ''POST'' ''IAuthenticationService'' ''UpdateAuthSessionWithSteamGuardCode'' 1
       (Some (Inr (query_Values
         [(''client_id'', True, QInt (uint (up_ClientID params))),
          (''steamid'', True, QSteamID (up_SteamID params)),
          (''code'', True, QStr (up_Code params)),
          (''code_type'', True, QEnum (up_CodeType params))])))
       (decode_response dec_empty ())"

section \<open>IEconService\<close>

datatype 'w IEconService = IEconService (econ_transport: "'w HTTPTransport")

definition NewIEconService :: "'w HTTPTransport option \<Rightarrow> 'w IEconService outcome" where
  "NewIEconService transport =
     (case transport of None \<Rightarrow> Panic ErrTransportNil | Some t \<Rightarrow> Return (IEconService t))"

text \<open>The enumerations are plain 32-bit integers to the decoder; these are their named values.\<close>

type_synonym ETradeOfferConfirmationMethod = int
type_synonym ETradeOfferState = int

definition ETradeOfferConfirmationMethod_values :: "(string \<times> ETradeOfferConfirmationMethod) list" where
  "ETradeOfferConfirmationMethod_values = [(''None'', 0), (''Email'', 1), (''MobileApp'', 2)]"

definition ETradeOfferState_values :: "(string \<times> ETradeOfferState) list" where
  "ETradeOfferState_values =
     [(''Invalid'', 1), (''Active'', 2), (''Accepted'', 3), (''Countered'', 4), (''Expired'', 5),
      (''Canceled'', 6), (''Declined'', 7), (''InvalidItems'', 8), (''CreatedNeedsConfirmation'', 9),
      (''CanceledBySecondFactor'', 10), (''InEscrow'', 11)]"

record GetTradeOffersParameters =
  to_AccessToken :: string
  to_APIKey :: string
  to_Language :: string
  to_GetSentOffers :: bool
  to_GetReceivedOffers :: bool
  to_GetDescriptions :: bool
  to_ActiveOnly :: bool
  to_TimeHistoricalCutoff :: uint32
  to_HistoricalOnly :: bool

definition trade_offers_fields :: "GetTradeOffersParameters \<Rightarrow> (string \<times> bool \<times> qval) list" where
  "trade_offers_fields p =
     [(''access_token'', True, QStr (to_AccessToken p)),
      (''key'', True, QStr (to_APIKey p)),
      (''language'', True, QStr (to_Language p)),
      (''get_sent_offers'', True, QBool (to_GetSentOffers p)),
      (''get_received_offers'', True, QBool (to_GetReceivedOffers p)),
      (''get_descriptions'', True, QBool (to_GetDescriptions p)),
      (''active_only'', True, QBool (to_ActiveOnly p)),
      (''time_historical_cutoff'', True, QInt (uint (to_TimeHistoricalCutoff p))),
      (''historical_only'', True, QBool (to_HistoricalOnly p))]"

record TradeOfferItem =
  it_AppID :: int
  it_ContextID :: string
  it_AssetID :: string
  it_ClassID :: string
  it_InstanceID :: string
  it_Amount :: string
  it_Missing :: bool
  it_EstUsd :: string

definition TradeOfferItem_fields :: "(string \<times> TradeOfferItem field_decoder) list" where
  "TradeOfferItem_fields =
     [(''appid'', dec_int 64 it_AppID_update), (''contextid'', dec_str it_ContextID_update),
        (''assetid'', dec_str it_AssetID_update), (''classid'', dec_str it_ClassID_update),
        (''instanceid'', dec_str it_InstanceID_update), (''amount'', dec_str it_Amount_update),
        (''missing'', dec_bool it_Missing_update), (''est_usd'', dec_str it_EstUsd_update)]"

definition p_TradeOfferItem :: "json \<Rightarrow> TradeOfferItem result" where
  "p_TradeOfferItem j =
     dec_struct TradeOfferItem_fields j
       \<lparr>it_AppID = 0, it_ContextID = [], it_AssetID = [], it_ClassID = [], it_InstanceID = [],
        it_Amount = [], it_Missing = False, it_EstUsd = []\<rparr>"

text \<open>The zero \<^verbatim>\<open>time.Time\<close> is the year 1, in Unix seconds.\<close>

definition zero_time :: UnixTime where "zero_time = - 62135596800"

record TradeOffer =
  of_ID :: string
  of_State :: ETradeOfferState
  of_Eresult :: int
  of_Message :: string
  of_Counterparty :: SteamID
  of_ConfirmationMethod :: ETradeOfferConfirmationMethod
  of_ItemsToGive :: "TradeOfferItem list"
  of_ItemsToReceive :: "TradeOfferItem list"
  of_IsOurOffer :: bool
  of_FromRealTimeTrade :: bool
  of_CreatedAt :: UnixTime
  of_UpdatedAt :: UnixTime
  of_ExpiresAt :: UnixTime
  of_SettlesAt :: UnixTime
  of_EscrowEndsAt :: UnixTime

definition TradeOffer_fields :: "(string \<times> TradeOffer field_decoder) list" where
  "TradeOffer_fields =
     [(''tradeofferid'', dec_str of_ID_update), (''trade_offer_state'', dec_int 32 of_State_update),
        (''eresult'', dec_int 64 of_Eresult_update), (''message'', dec_str of_Message_update),
        (''accountid_other'', dec_with (\<lambda>j. SteamID_UnmarshalJSON (Some j)) of_Counterparty_update),
        (''confirmation_method'', dec_int 32 of_ConfirmationMethod_update),
        (''items_to_give'', dec_with (p_array p_TradeOfferItem) of_ItemsToGive_update),
        (''items_to_receive'', dec_with (p_array p_TradeOfferItem) of_ItemsToReceive_update),
        (''is_our_offer'', dec_bool of_IsOurOffer_update),
        (''from_real_time_trade'', dec_bool of_FromRealTimeTrade_update),
        (''time_created'', dec_with UnixTime_UnmarshalJSON of_CreatedAt_update),
        (''time_updated'', dec_with UnixTime_UnmarshalJSON of_UpdatedAt_update),
        (''expiration_time'', dec_with UnixTime_UnmarshalJSON of_ExpiresAt_update),
        (''settlement_date'', dec_with UnixTime_UnmarshalJSON of_SettlesAt_update),
        (''escrow_end_date'', dec_with UnixTime_UnmarshalJSON of_EscrowEndsAt_update)]"

definition p_TradeOffer :: "json \<Rightarrow> TradeOffer result" where
  "p_TradeOffer j =
     dec_struct TradeOffer_fields j
       \<lparr>of_ID = [], of_State = 0, of_Eresult = 0, of_Message = [], of_Counterparty = 0,
        of_ConfirmationMethod = 0, of_ItemsToGive = [], of_ItemsToReceive = [], of_IsOurOffer = False,
        of_FromRealTimeTrade = False, of_CreatedAt = zero_time, of_UpdatedAt = zero_time,
        of_ExpiresAt = zero_time, of_SettlesAt = zero_time, of_EscrowEndsAt = zero_time\<rparr>"

record GetTradeOffersResponse =
  tr_Sent :: "TradeOffer list"
  tr_Received :: "TradeOffer list"
  tr_NextCursor :: int

definition GetTradeOffersResponse_fields :: "(string \<times> GetTradeOffersResponse field_decoder) list" where
  "GetTradeOffersResponse_fields =
     [(''trade_offers_sent'', dec_with (p_array p_TradeOffer) tr_Sent_update),
                 (''trade_offers_received'', dec_with (p_array p_TradeOffer) tr_Received_update),
                 (''next_cursor'', dec_int 64 tr_NextCursor_update)]"

definition dec_trade_offers :: "json \<Rightarrow> GetTradeOffersResponse \<Rightarrow> GetTradeOffersResponse result" where
  "dec_trade_offers = dec_struct GetTradeOffersResponse_fields"

definition GetTradeOffers :: "'w IEconService \<Rightarrow> GetTradeOffersParameters \<Rightarrow> 'w \<Rightarrow> GetTradeOffersResponse result \<times> 'w" where
  "GetTradeOffers a params0 =
     (let params = (if to_Language params0 = [] then params0\<lparr>to_Language := ''en-US''\<rparr> else params0)
      in Call (econ_transport a) ''GET'' ''IEconService'' ''GetTradeOffers'' 1
           (Some (Inr (query_Values (trade_offers_fields params))))
           (decode_response dec_trade_offers \<lparr>tr_Sent = [], tr_Received = [], tr_NextCursor = 0\<rparr>))"

section \<open>IPlayerService\<close>

datatype 'w IPlayerService = IPlayerService (player_transport: "'w HTTPTransport")

definition NewIPlayerService :: "'w HTTPTransport option \<Rightarrow> 'w IPlayerService outcome" where
  "NewIPlayerService transport =
     (case transport of None \<Rightarrow> Panic ErrTransportNil | Some t \<Rightarrow> Return (IPlayerService t))"

record GetOwnedGamesParameters =
  og_APIKey :: string
  og_SteamID :: uint64
  og_IncludeAppInfo :: bool
  og_IncludePlayedFreeGames :: bool
  og_AppIDsFilter :: "uint32 list"
  og_IncludeFreeSub :: bool
  og_Language :: string

definition owned_games_fields :: "GetOwnedGamesParameters \<Rightarrow> (string \<times> bool \<times> qval) list" where
  "owned_games_fields p =
     [(''key'', True, QStr (og_APIKey p)),
      (''steamid'', False, QInt (uint (og_SteamID p))),
      (''include_appinfo'', True, QBool (og_IncludeAppInfo p)),
      (''include_played_free_games'', True, QBool (og_IncludePlayedFreeGames p)),
      (''appids_filter'', True, QInts (map uint (og_AppIDsFilter p))),
      (''include_free_sub'', True, QBool (og_IncludeFreeSub p)),
      (''language'', True, QStr (og_Language p))]"

definition iconURL :: "int \<Rightarrow> string \<Rightarrow> string" where
  "iconURL appID hash =
     ''https://media.steampowered.com/steamcommunity/public/images/apps/'' @ FormatInt appID @ ''/'' @ hash @ ''.jpg''"

definition coverURL :: "int \<Rightarrow> string" where
  "coverURL appID =
     ''https://shared.fastly.steamstatic.com/store_item_assets/steam/apps/'' @ FormatInt appID @ ''/library_hero.jpg''"

definition logoURL :: "int \<Rightarrow> string" where
  "logoURL appID =
     ''https://shared.fastly.steamstatic.com/store_item_assets/steam/apps/'' @ FormatInt appID @ ''/logo.png''"

definition buildIconURL :: "int \<Rightarrow> string \<Rightarrow> string" where
  "buildIconURL appID hash = (if hash = [] then [] else iconURL appID hash)"

record OwnedGame =
  g_AppID :: int
  g_Name :: string
  g_Playtime2Weeks :: int
  g_PlaytimeForever :: int
  g_GameIconHash :: string
  g_GameIconURL :: string
  g_GameCoverURL :: string
  g_GameLogoURL :: string
  g_HasCommunityVisibleStats :: bool
  g_PlaytimeWindowsForever :: int
  g_PlaytimeMacForever :: int
  g_PlaytimeLinuxForever :: int
  g_RTimeLastPlayed :: int
  g_CapsuleFilename :: string
  g_HasWorkshop :: bool
  g_HasMarket :: bool
  g_HasDLC :: bool
  g_HasLeaderboards :: bool
  g_ContentDescriptorIDs :: "int list"

definition OwnedGame_fields :: "(string \<times> OwnedGame field_decoder) list" where
  "OwnedGame_fields =
     [(''appid'', dec_uint 32 g_AppID_update), (''name'', dec_str g_Name_update),
        (''playtime_2weeks'', dec_int 32 g_Playtime2Weeks_update),
        (''playtime_forever'', dec_int 32 g_PlaytimeForever_update),
        (''img_icon_url'', dec_str g_GameIconHash_update),
        (''has_community_visible_stats'', dec_bool g_HasCommunityVisibleStats_update),
        (''playtime_windows_forever'', dec_int 32 g_PlaytimeWindowsForever_update),
        (''playtime_mac_forever'', dec_int 32 g_PlaytimeMacForever_update),
        (''playtime_linux_forever'', dec_int 32 g_PlaytimeLinuxForever_update),
        (''rtime_last_played'', dec_uint 32 g_RTimeLastPlayed_update),
        (''capsule_filename'', dec_str g_CapsuleFilename_update),
        (''has_workshop'', dec_bool g_HasWorkshop_update), (''has_market'', dec_bool g_HasMarket_update),
        (''has_dlc'', dec_bool g_HasDLC_update), (''has_leaderboards'', dec_bool g_HasLeaderboards_update),
        (''content_descriptorids'', dec_with (p_array (\<lambda>j. if j = JNull then Inr 0 else p_uint 32 j)) g_ContentDescriptorIDs_update)]"

definition p_OwnedGame :: "json \<Rightarrow> OwnedGame result" where
  "p_OwnedGame j =
     dec_struct OwnedGame_fields j
       \<lparr>g_AppID = 0, g_Name = [], g_Playtime2Weeks = 0, g_PlaytimeForever = 0, g_GameIconHash = [],
        g_GameIconURL = [], g_GameCoverURL = [], g_GameLogoURL = [], g_HasCommunityVisibleStats = False,
        g_PlaytimeWindowsForever = 0, g_PlaytimeMacForever = 0, g_PlaytimeLinuxForever = 0,
        g_RTimeLastPlayed = 0, g_CapsuleFilename = [], g_HasWorkshop = False, g_HasMarket = False,
        g_HasDLC = False, g_HasLeaderboards = False, g_ContentDescriptorIDs = []\<rparr>"

record GetOwnedGamesResponse =
  or_GameCount :: int
  or_Games :: "OwnedGame list"

definition GetOwnedGamesResponse_fields :: "(string \<times> GetOwnedGamesResponse field_decoder) list" where
  "GetOwnedGamesResponse_fields =
     [(''game_count'', dec_uint 32 or_GameCount_update),
                 (''games'', dec_with (p_array p_OwnedGame) or_Games_update)]"

definition dec_owned_games :: "json \<Rightarrow> GetOwnedGamesResponse \<Rightarrow> GetOwnedGamesResponse result" where
  "dec_owned_games = dec_struct GetOwnedGamesResponse_fields"

text \<open>The body of the loop over the games.\<close>

definition fill_urls :: "OwnedGame \<Rightarrow> OwnedGame" where
  "fill_urls g = g\<lparr>g_GameIconURL := buildIconURL (g_AppID g) (g_GameIconHash g),
     g_GameCoverURL := coverURL (g_AppID g), g_GameLogoURL := logoURL (g_AppID g)\<rparr>"

definition GetOwnedGames :: "'w IPlayerService \<Rightarrow> GetOwnedGamesParameters \<Rightarrow> 'w \<Rightarrow> GetOwnedGamesResponse result \<times> 'w" where
  "GetOwnedGames a params0 w =
     (let params = (if og_Language params0 = [] then params0\<lparr>og_Language := ''en-US''\<rparr> else params0)
      in case Call (player_transport a) ''GET'' ''IPlayerService'' ''GetOwnedGames'' 1
           (Some (Inr (query_Values (owned_games_fields params))))
           (decode_response dec_owned_games \<lparr>or_GameCount = 0, or_Games = []\<rparr>) w of
         (Inl err, w') \<Rightarrow> (Inl err, w')
       | (Inr r, w') \<Rightarrow> (Inr (r\<lparr>or_Games := map fill_urls (or_Games r)\<rparr>), w'))"

section \<open>ISteamDirectory\<close>

datatype 'w ISteamDirectory = ISteamDirectory (dir_transport: "'w HTTPTransport")

definition NewISteamDirectory :: "'w HTTPTransport option \<Rightarrow> 'w ISteamDirectory outcome" where
  "NewISteamDirectory transport =
     (case transport of None \<Rightarrow> Panic ErrTransportNil | Some t \<Rightarrow> Return (ISteamDirectory t))"

record GetCMListForConnectParameters =
  cm_CellID :: uint32
  cm_CMType :: string
  cm_Realm :: string
  cm_MaxCount :: uint32

text \<open>The floating-point load is kept as its literal: nothing reads it.\<close>

record CMServer =
  sv_Endpoint :: string
  sv_LegacyEndpoint :: string
  sv_Type :: string
  sv_DC :: string
  sv_Realm :: string
  sv_Load :: int
  sv_WtdLoad :: string

definition p_float :: "json \<Rightarrow> string result" where
  "p_float j = (case j of JNum l \<Rightarrow> Inr l | _ \<Rightarrow> Inl ErrJSON)"

definition CMServer_fields :: "(string \<times> CMServer field_decoder) list" where
  "CMServer_fields =
     [(''endpoint'', dec_str sv_Endpoint_update), (''legacy_endpoint'', dec_str sv_LegacyEndpoint_update),
        (''type'', dec_str sv_Type_update), (''dc'', dec_str sv_DC_update), (''realm'', dec_str sv_Realm_update),
        (''load'', dec_int 64 sv_Load_update), (''wtd_load'', dec_kept p_float sv_WtdLoad_update)]"

definition p_CMServer :: "json \<Rightarrow> CMServer result" where
  "p_CMServer j =
     dec_struct CMServer_fields j
       \<lparr>sv_Endpoint = [], sv_LegacyEndpoint = [], sv_Type = [], sv_DC = [], sv_Realm = [], sv_Load = 0,
        sv_WtdLoad = ''0''\<rparr>"

record GetCMListForConnectResponse =
  cl_Success :: bool
  cl_Message :: string
  cl_ServerList :: "CMServer list"

definition GetCMListForConnectResponse_fields :: "(string \<times> GetCMListForConnectResponse field_decoder) list" where
  "GetCMListForConnectResponse_fields =
     [(''success'', dec_bool cl_Success_update), (''message'', dec_str cl_Message_update),
                 (''serverlist'', dec_with (p_array p_CMServer) cl_ServerList_update)]"

definition dec_cm_list :: "json \<Rightarrow> GetCMListForConnectResponse \<Rightarrow> GetCMListForConnectResponse result" where
  "dec_cm_list = dec_struct GetCMListForConnectResponse_fields"

definition GetCMListForConnect :: "'w ISteamDirectory \<Rightarrow> GetCMListForConnectParameters \<Rightarrow> 'w \<Rightarrow> CMServer list result \<times> 'w" where
  "GetCMListForConnect a params w =
     (case Call (dir_transport a) ''GET'' ''ISteamDirectory'' ''GetCMListForConnect'' 1
         (Some (Inr (query_Values
           [(''cellid'', True, QInt (uint (cm_CellID params))), (''cmtype'', True, QStr (cm_CMType params)),
            (''realm'', True, QStr (cm_Realm params)), (''maxcount'', True, QInt (uint (cm_MaxCount params)))])))
         (decode_response dec_cm_list \<lparr>cl_Success = False, cl_Message = [], cl_ServerList = []\<rparr>) w of
        (Inl err, w') \<Rightarrow> (Inl err, w')
      | (Inr res, w') \<Rightarrow>
        if \<not> cl_Success res then
          (Inl (ErrNew (''failed to get CM list for connect: '' @ cl_Message res)), w')
        else (Inr (cl_ServerList res), w'))"

section \<open>ITwoFactorService\<close>

datatype 'w ITwoFactorService = ITwoFactorService (tfa_transport: "'w HTTPTransport")

definition NewITwoFactorService :: "'w HTTPTransport option \<Rightarrow> 'w ITwoFactorService outcome" where
  "NewITwoFactorService transport =
     (case transport of None \<Rightarrow> Panic ErrTransportNil | Some t \<Rightarrow> Return (ITwoFactorService t))"

record QueryTimeResponse =
  qt_ServerTime :: int

definition QueryTime :: "'w ITwoFactorService \<Rightarrow> 'w \<Rightarrow> QueryTimeResponse result \<times> 'w" where
  "QueryTime a =
     Call (tfa_transport a) ''POST'' ''ITwoFactorService'' ''QueryTime'' 1 None
       (decode_response (dec_struct [(''server_time'', dec_quoted_int qt_ServerTime_update)]) \<lparr>qt_ServerTime = 0\<rparr>)"

section \<open>The API\<close>

record 'w API =
  api_econ :: "'w IEconService lazy_Value"
  api_player :: "'w IPlayerService lazy_Value"
  api_directory :: "'w ISteamDirectory lazy_Value"
  api_authentication :: "'w IAuthenticationService lazy_Value"
  api_twofactor :: "'w ITwoFactorService lazy_Value"

definition ErrNilTransport :: goerr where "ErrNilTransport = ErrNew ''transport is nil''"

definition NewAPI :: "'w HTTPTransport option \<Rightarrow> 'w API result" where
  "NewAPI transport =
     (case transport of
        None \<Rightarrow> Inl ErrNilTransport
      | Some t \<Rightarrow>
        Inr \<lparr>api_econ = lazy_New (\<lambda>_. NewIEconService (Some t)),
             api_player = lazy_New (\<lambda>_. NewIPlayerService (Some t)),
             api_directory = lazy_New (\<lambda>_. NewISteamDirectory (Some t)),
             api_authentication = lazy_New (\<lambda>_. NewIAuthenticationService (Some t)),
             api_twofactor = lazy_New (\<lambda>_. NewITwoFactorService (Some t))\<rparr>)"

text \<open>The accessors: the service and the API with its value created.\<close>

definition get_field :: "('w API \<Rightarrow> 'a lazy_Value) \<Rightarrow> (('a lazy_Value \<Rightarrow> 'a lazy_Value) \<Rightarrow> 'w API \<Rightarrow> 'w API) \<Rightarrow>
    'w API \<Rightarrow> 'a option outcome \<times> 'w API" where
  "get_field sel upd s = (case lazy_Get (sel s) of (x, v) \<Rightarrow> (x, upd (\<lambda>_. v) s))"

definition API_IEconService :: "'w API \<Rightarrow> 'w IEconService option outcome \<times> 'w API" where
  "API_IEconService = get_field api_econ api_econ_update"
definition API_IPlayerService :: "'w API \<Rightarrow> 'w IPlayerService option outcome \<times> 'w API" where
  "API_IPlayerService = get_field api_player api_player_update"
definition API_SteamDirectory :: "'w API \<Rightarrow> 'w ISteamDirectory option outcome \<times> 'w API" where
  "API_SteamDirectory = get_field api_directory api_directory_update"
definition API_IAuthenticationService :: "'w API \<Rightarrow> 'w IAuthenticationService option outcome \<times> 'w API" where
  "API_IAuthenticationService = get_field api_authentication api_authentication_update"
definition API_ITwoFactorService :: "'w API \<Rightarrow> 'w ITwoFactorService option outcome \<times> 'w API" where
  "API_ITwoFactorService = get_field api_twofactor api_twofactor_update"

section \<open>Lemmas\<close>

text \<open>A lazy value that was never run, or was run and holds what its function returns.\<close>

definition lazy_ok :: "'a \<Rightarrow> 'a lazy_Value \<Rightarrow> bool" where
  "lazy_ok x v \<longleftrightarrow> lz_init v () = Return x \<and> (lz_once v \<longrightarrow> lz_value v = Some x)"

lemma lazy_Get_ok:
  "lazy_ok x v \<Longrightarrow> fst (lazy_Get v) = Return (Some x) \<and> lazy_ok x (snd (lazy_Get v))"
  by (auto simp: lazy_ok_def lazy_Get_def Let_def)

definition api_ok :: "'w HTTPTransport \<Rightarrow> 'w API \<Rightarrow> bool" where
  "api_ok t a \<longleftrightarrow> lazy_ok (IEconService t) (api_econ a) \<and> lazy_ok (IPlayerService t) (api_player a) \<and>
     lazy_ok (ISteamDirectory t) (api_directory a) \<and>
     lazy_ok (IAuthenticationService t) (api_authentication a) \<and> lazy_ok (ITwoFactorService t) (api_twofactor a)"

text \<open>A call of one of the accessors.\<close>

inductive api_step :: "'w API \<Rightarrow> 'w API \<Rightarrow> bool" where
  "api_step a (snd (API_IEconService a))"
| "api_step a (snd (API_IPlayerService a))"
| "api_step a (snd (API_SteamDirectory a))"
| "api_step a (snd (API_IAuthenticationService a))"
| "api_step a (snd (API_ITwoFactorService a))"

lemmas api_accessors = API_IEconService_def API_IPlayerService_def API_SteamDirectory_def
  API_IAuthenticationService_def API_ITwoFactorService_def get_field_def

lemma api_step_ok: "api_step a b \<Longrightarrow> api_ok t a \<Longrightarrow> api_ok t b"
  by (induction rule: api_step.induct)
    (auto simp: api_ok_def api_accessors case_prod_beta dest: lazy_Get_ok)

lemma api_steps_ok: "api_step\<^sup>*\<^sup>* a b \<Longrightarrow> api_ok t a \<Longrightarrow> api_ok t b"
  by (induction rule: rtranclp_induct) (auto intro: api_step_ok)

lemma NewAPI_ok: "NewAPI (Some t) = Inr a \<Longrightarrow> api_ok t a"
  by (auto simp: NewAPI_def api_ok_def lazy_ok_def lazy_New_def NewIEconService_def NewIPlayerService_def
      NewISteamDirectory_def NewIAuthenticationService_def NewITwoFactorService_def)

section \<open>Properties\<close>

text \<open>A transport whose client refuses every request, for the concrete example.\<close>

definition sample_transport :: "unit HTTPTransport" where
  "sample_transport = NewHTTPTransport \<lparr>hc_parse = \<lambda>_ _. None, hc_do = \<lambda>_ w. (Inl EOF, w)\<rparr> []"

text \<open>An API is made of every transport but nil, and after any calls of its
  accessors each accessor returns the service on that transport, without a panic: the
  lazily created values never hold anything else.\<close>

theorem api_services:
  "(NewAPI None = (Inl ErrNilTransport :: 'w API result)) \<and>
   (\<exists>a. NewAPI (Some t) = Inr a \<and>
     (\<forall>b. api_step\<^sup>*\<^sup>* a b \<longrightarrow>
        fst (API_IEconService b) = Return (Some (IEconService (t :: 'w HTTPTransport))) \<and>
        fst (API_IPlayerService b) = Return (Some (IPlayerService t)) \<and>
        fst (API_SteamDirectory b) = Return (Some (ISteamDirectory t)) \<and>
        fst (API_IAuthenticationService b) = Return (Some (IAuthenticationService t)) \<and>
        fst (API_ITwoFactorService b) = Return (Some (ITwoFactorService t))))"
proof -
  obtain a where a: "NewAPI (Some t) = Inr a" by (simp add: NewAPI_def)
  have "fst (API_IEconService b) = Return (Some (IEconService t)) \<and>
        fst (API_IPlayerService b) = Return (Some (IPlayerService t)) \<and>
        fst (API_SteamDirectory b) = Return (Some (ISteamDirectory t)) \<and>
        fst (API_IAuthenticationService b) = Return (Some (IAuthenticationService t)) \<and>
        fst (API_ITwoFactorService b) = Return (Some (ITwoFactorService t))" if "api_step\<^sup>*\<^sup>* a b" for b
    using api_steps_ok [OF that NewAPI_ok [OF a]]
    by (auto simp: api_ok_def api_accessors case_prod_beta dest: lazy_Get_ok)
  with a show ?thesis by (auto simp: NewAPI_def)
qed

theorem api_services_witness:
  "\<exists>a. NewAPI (Some sample_transport) = Inr a \<and>
     fst (API_ITwoFactorService (snd (API_ITwoFactorService a))) = Return (Some (ITwoFactorService sample_transport))"
  using api_services [where t = sample_transport] by (metis api_step.intros(5) r_into_rtranclp)

text \<open>The device details of a login request reach the server under the names of
  the Go fields, in brackets; the documented names of the details (which only the unused
  JSON tags carry) are never sent.\<close>

theorem begin_auth_device_details:
  "values_Get ''device_details[DeviceFriendlyName]'' (query_Values (begin_auth_fields p)) =
     [dd_DeviceFriendlyName (ba_DeviceDetails p)] \<and>
   values_Get ''device_details[PlatformType]'' (query_Values (begin_auth_fields p)) =
     [FormatInt (sint (dd_PlatformType (ba_DeviceDetails p)))] \<and>
   values_Get ''device_details[device_friendly_name]'' (query_Values (begin_auth_fields p)) = [] \<and>
   values_Get ''device_details[platform_type]'' (query_Values (begin_auth_fields p)) = [] \<and>
   values_Get ''device_details'' (query_Values (begin_auth_fields p)) = []"
  by (simp add: values_Get_query begin_auth_fields_def device_details_fields_def comp_def)

end
