(* ===== verification/Api_Types.thy ===== *)
theory Api_Types
  imports Api
begin

text \<open>
  What the services return. The model keeps the integer fields of responses as mathematical
  integers; every value that decoding puts there fits the Go type of the field. And what a
  server reports under the names of its interface arrives in the fields of the response, or the
  call fails.
\<close>

section \<open>Integers of a width\<close>

definition fits_uint :: "nat \<Rightarrow> int \<Rightarrow> bool" where "fits_uint b n \<longleftrightarrow> 0 \<le> n \<and> n < 2 ^ b"
definition fits_int :: "nat \<Rightarrow> int \<Rightarrow> bool" where "fits_int b n \<longleftrightarrow> - (2 ^ (b - 1)) \<le> n \<and> n < 2 ^ (b - 1)"

lemma fits_zero [simp]: "fits_uint b 0" "fits_int b 0"
  by (simp_all add: fits_uint_def fits_int_def)

lemma p_uint_fits: "p_uint b j = Inr n \<Longrightarrow> fits_uint b n"
  by (auto simp: p_uint_def fits_uint_def dest!: ParseUint_bound split: json.splits sum.splits)

lemma p_int_fits: "p_int b j = Inr n \<Longrightarrow> fits_int b n"
proof -
  have 1: "\<not> (2 :: nat) ^ k \<le> m \<Longrightarrow> int m < 2 ^ k" "\<not> (2 :: nat) ^ k < m \<Longrightarrow> int m \<le> 2 ^ k" for k m
    by (metis not_le of_nat_less_iff of_nat_numeral of_nat_power, metis not_less of_nat_le_iff of_nat_numeral of_nat_power)
  have 2: "- int m < 2 ^ k" "- (2 ^ k) \<le> int m" for k m
    by (rule less_le_trans [of _ 1], simp_all, rule order_trans [of _ 0], simp_all)
  show "p_int b j = Inr n \<Longrightarrow> fits_int b n"
    using 1 by (auto simp: p_int_def fits_int_def ParseInt_def Let_def 2 split: json.splits sum.splits if_splits)
qed

lemma UnixTime_fits: "UnixTime_UnmarshalJSON j = Inr n \<Longrightarrow> fits_int 64 n"
  using p_int_fits [of 64 j n]
  by (auto simp: UnixTime_UnmarshalJSON_def unmarshal_int64_def p_int_def fits_int_def split: json.splits sum.splits)






section \<open>Decoders that keep a type\<close>

text \<open>A predicate on structs that every field's decoder keeps is kept by the struct's decoder.\<close>

locale typed_fields =
  fixes P :: "'r \<Rightarrow> bool" and fs :: "(string \<times> 'r field_decoder) list"
  assumes field: "(k, f) \<in> set fs \<Longrightarrow> P r \<Longrightarrow> f j r = Inr r' \<Longrightarrow> P r'"
begin

lemma found: "find_field fs k = Some f \<Longrightarrow> \<exists>k. (k, f) \<in> set fs"
  by (auto simp: find_field_def find_Some_iff dest!: map_of_SomeD nth_mem split: option.splits)

lemma members: "P r \<Longrightarrow> dec_members fs ms r = Inr r' \<Longrightarrow> P r'"
proof (induction ms arbitrary: r)
  case (Cons m ms)
  obtain k j where m: "m = (k, j)" by force
  show ?case
  proof (cases "find_field fs k")
    case (Some f)
    then obtain r1 where "f j r = Inr r1" "dec_members fs ms r1 = Inr r'"
      using Cons.prems(2) by (auto simp: m split: sum.splits)
    then show ?thesis using Cons found [OF Some] field by blast
  qed (use Cons m in simp)
qed simp

lemma struct: "P r \<Longrightarrow> dec_struct fs j r = Inr r' \<Longrightarrow> P r'"
  by (auto simp: dec_struct_def intro: members split: json.splits)

end

lemma dec_with_typed: "dec_with p upd j r = Inr r' \<Longrightarrow> (\<And>v. p j = Inr v \<Longrightarrow> P (upd (\<lambda>_. v) r)) \<Longrightarrow> P r'"
  by (auto simp: dec_with_def split: sum.splits)

lemma dec_kept_typed: "dec_kept p upd j r = Inr r' \<Longrightarrow> P r \<Longrightarrow> (\<And>v. p j = Inr v \<Longrightarrow> P (upd (\<lambda>_. v) r)) \<Longrightarrow> P r'"
  by (auto simp: dec_kept_def dec_with_def split: sum.splits if_splits)

lemmas dec_defs = dec_str_def dec_bool_def dec_uint_def dec_int_def dec_quoted_uint_def dec_quoted_int_def

lemma p_array_typed: "p_array p j = Inr xs \<Longrightarrow> (\<And>j x. p j = Inr x \<Longrightarrow> P x) \<Longrightarrow> list_all P xs"
proof -
  assume "p_array p j = Inr xs" and P: "\<And>j x. p j = Inr x \<Longrightarrow> P x"
  moreover have "p_list p js = Inr ys \<Longrightarrow> list_all P ys" for js ys
    using P by (induction js arbitrary: ys) (auto split: sum.splits)
  ultimately show "list_all P xs" by (auto simp: p_array_def split: json.splits)
qed

section \<open>Owned games\<close>

definition game_typed :: "OwnedGame \<Rightarrow> bool" where
  "game_typed g \<longleftrightarrow> fits_uint 32 (g_AppID g) \<and> fits_int 32 (g_Playtime2Weeks g) \<and> fits_int 32 (g_PlaytimeForever g) \<and>
     fits_int 32 (g_PlaytimeWindowsForever g) \<and> fits_int 32 (g_PlaytimeMacForever g) \<and>
     fits_int 32 (g_PlaytimeLinuxForever g) \<and> fits_uint 32 (g_RTimeLastPlayed g) \<and>
     list_all (fits_uint 32) (g_ContentDescriptorIDs g)"

lemma descriptor_ids_typed:
  "p_array (\<lambda>j. if j = JNull then Inr 0 else p_uint 32 j) j = Inr v \<Longrightarrow> list_all (fits_uint 32) v"
  by (erule p_array_typed) (auto split: if_splits dest: p_uint_fits)

interpretation game: typed_fields game_typed OwnedGame_fields
  by unfold_locales
    (auto simp: OwnedGame_fields_def dec_defs game_typed_def elim!: dec_kept_typed dec_with_typed
      dest: p_uint_fits p_int_fits descriptor_ids_typed)

lemma p_OwnedGame_typed: "p_OwnedGame j = Inr g \<Longrightarrow> game_typed g"
  unfolding p_OwnedGame_def by (erule game.struct [rotated]) (simp add: game_typed_def)

definition owned_games_typed :: "GetOwnedGamesResponse \<Rightarrow> bool" where
  "owned_games_typed r \<longleftrightarrow> fits_uint 32 (or_GameCount r) \<and> list_all game_typed (or_Games r)"

interpretation owned: typed_fields owned_games_typed GetOwnedGamesResponse_fields
  by unfold_locales
    (auto simp: GetOwnedGamesResponse_fields_def dec_defs owned_games_typed_def elim!: dec_kept_typed dec_with_typed
      dest: p_uint_fits p_array_typed [OF _ p_OwnedGame_typed])

section \<open>Trade offers\<close>

definition item_typed :: "TradeOfferItem \<Rightarrow> bool" where "item_typed i \<longleftrightarrow> fits_int 64 (it_AppID i)"

interpretation item: typed_fields item_typed TradeOfferItem_fields
  by unfold_locales
    (auto simp: TradeOfferItem_fields_def dec_defs item_typed_def elim!: dec_kept_typed dec_with_typed dest: p_int_fits)

lemma p_TradeOfferItem_typed: "p_TradeOfferItem j = Inr i \<Longrightarrow> item_typed i"
  unfolding p_TradeOfferItem_def by (erule item.struct [rotated]) (simp add: item_typed_def)

definition offer_typed :: "TradeOffer \<Rightarrow> bool" where
  "offer_typed t \<longleftrightarrow> fits_int 32 (of_State t) \<and> fits_int 64 (of_Eresult t) \<and> fits_int 32 (of_ConfirmationMethod t) \<and>
     list_all item_typed (of_ItemsToGive t) \<and> list_all item_typed (of_ItemsToReceive t) \<and>
     list_all (fits_int 64) [of_CreatedAt t, of_UpdatedAt t, of_ExpiresAt t, of_SettlesAt t, of_EscrowEndsAt t]"

interpretation trade_offer: typed_fields offer_typed TradeOffer_fields
  by unfold_locales
    (auto simp: TradeOffer_fields_def dec_defs offer_typed_def elim!: dec_kept_typed dec_with_typed
      dest: p_int_fits UnixTime_fits p_array_typed [OF _ p_TradeOfferItem_typed])

lemma p_TradeOffer_typed: "p_TradeOffer j = Inr t \<Longrightarrow> offer_typed t"
  unfolding p_TradeOffer_def
  by (erule trade_offer.struct [rotated]) (simp add: offer_typed_def zero_time_def fits_int_def)

definition trade_offers_typed :: "GetTradeOffersResponse \<Rightarrow> bool" where
  "trade_offers_typed r \<longleftrightarrow> list_all offer_typed (tr_Sent r) \<and> list_all offer_typed (tr_Received r) \<and>
     fits_int 64 (tr_NextCursor r)"

interpretation trade_offers: typed_fields trade_offers_typed GetTradeOffersResponse_fields
  by unfold_locales
    (auto simp: GetTradeOffersResponse_fields_def dec_defs trade_offers_typed_def elim!: dec_kept_typed dec_with_typed
      dest: p_int_fits p_array_typed [OF _ p_TradeOffer_typed])

section \<open>Servers and sessions\<close>

definition server_typed :: "CMServer \<Rightarrow> bool" where "server_typed s \<longleftrightarrow> fits_int 64 (sv_Load s)"

interpretation server: typed_fields server_typed CMServer_fields
  by unfold_locales
    (auto simp: CMServer_fields_def dec_defs server_typed_def elim!: dec_kept_typed dec_with_typed dest: p_int_fits)

lemma p_CMServer_typed: "p_CMServer j = Inr s \<Longrightarrow> server_typed s"
  unfolding p_CMServer_def by (erule server.struct [rotated]) (simp add: server_typed_def)

interpretation cm_list: typed_fields "\<lambda>r. list_all server_typed (cl_ServerList r)" GetCMListForConnectResponse_fields
  by unfold_locales
    (auto simp: GetCMListForConnectResponse_fields_def dec_defs elim!: dec_kept_typed dec_with_typed
      dest: p_array_typed [OF _ p_CMServer_typed])

definition session_typed :: "BeginAuthSessionViaCredentialsResponse \<Rightarrow> bool" where
  "session_typed r \<longleftrightarrow> fits_uint 64 (br_ClientID r) \<and> fits_int 32 (br_Interval r)"

interpretation auth_session: typed_fields session_typed begin_auth_response_fields
  by unfold_locales
    (auto simp: begin_auth_response_fields_def dec_defs session_typed_def elim!: dec_kept_typed dec_with_typed
      intro: p_int_fits, erule p_uint_fits)

interpretation rsa_key: typed_fields "\<lambda>r. fits_uint 64 (gk_Timestamp r)"
  "[(''publickey_mod'', dec_str gk_PublicKeyMod_update), (''publickey_exp'', dec_str gk_PublicKeyExp_update),
    (''timestamp'', dec_quoted_uint gk_Timestamp_update)]"
  by unfold_locales (auto simp: dec_defs elim!: dec_kept_typed, erule p_uint_fits)

interpretation server_time: typed_fields "\<lambda>r. fits_int 64 (qt_ServerTime r)" "[(''server_time'', dec_quoted_int qt_ServerTime_update)]"
  by unfold_locales (auto simp: dec_defs elim!: dec_kept_typed intro: p_int_fits)

section \<open>Calls\<close>

lemma Call_decoded: "Call t verb service meth version ps decode w = (Inr r, w') \<Longrightarrow> \<exists>j. decode j = Inr r"
  by (auto simp: Call_def Let_def split: sum.splits option.splits prod.splits if_splits)

text \<open>The object around a response.\<close>

lemma decode_response_typed:
  assumes "decode_response dec zero j = Inr r" "P zero" "\<And>j r r'. P r \<Longrightarrow> dec j r = Inr r' \<Longrightarrow> P r'"
  shows "P r"
  using typed_fields.struct [of P "[(''response'', dec)]" zero j r] assms
  by (auto simp: decode_response_def typed_fields_def)

lemma Call_typed:
  assumes "Call t verb service meth version ps (decode_response dec zero) w = (Inr r, w')" "P zero"
    "\<And>j r r'. P r \<Longrightarrow> dec j r = Inr r' \<Longrightarrow> P r'"
  shows "P r"
  using Call_decoded [OF assms(1)] decode_response_typed [of dec zero _ r P] assms(2,3) by blast

text \<open>So every integer in a response of the services has a value of the Go type of its field.\<close>

lemma responses_typed:
  "(GetOwnedGames ps gp w = (Inr games, w1) \<longrightarrow> owned_games_typed games) \<and>
   (GetTradeOffers es tp w = (Inr offers, w2) \<longrightarrow> trade_offers_typed offers) \<and>
   (GetCMListForConnect ds cp w = (Inr servers, w3) \<longrightarrow> list_all server_typed servers) \<and>
   (BeginAuthSessionViaCredentials as bp w = (Inr session, w4) \<longrightarrow> session_typed session) \<and>
   (GetPasswordRSAPublicKey as kp w = (Inr key, w5) \<longrightarrow> fits_uint 64 (gk_Timestamp key)) \<and>
   (QueryTime ts w = (Inr time, w6) \<longrightarrow> fits_int 64 (qt_ServerTime time))"
proof (intro conjI impI)
  assume "GetOwnedGames ps gp w = (Inr games, w1)"
  then obtain r t v s m n q where c: "Call t v s m n q (decode_response dec_owned_games \<lparr>or_GameCount = 0, or_Games = []\<rparr>) w = (Inr r, w1)"
    and g: "games = r\<lparr>or_Games := map fill_urls (or_Games r)\<rparr>"
    by (auto simp: GetOwnedGames_def Let_def split: prod.splits sum.splits)
  have "owned_games_typed r"
    by (rule Call_typed [OF c]) (auto simp: owned_games_typed_def [of "\<lparr>or_GameCount = 0, or_Games = []\<rparr>"] dec_owned_games_def intro: owned.struct)
  then show "owned_games_typed games"
    by (simp add: g owned_games_typed_def list_all_iff fill_urls_def game_typed_def)
next
  assume "GetTradeOffers es tp w = (Inr offers, w2)"
  then show "trade_offers_typed offers"
    unfolding GetTradeOffers_def Let_def
    by (rule Call_typed) (auto simp: dec_trade_offers_def intro: trade_offers.struct, simp add: trade_offers_typed_def)
next
  assume "GetCMListForConnect ds cp w = (Inr servers, w3)"
  then obtain r t v s m n q z where c: "Call t v s m n q (decode_response dec_cm_list \<lparr>cl_Success = False, cl_Message = [], cl_ServerList = []\<rparr>) w = (Inr r, z)"
    and g: "servers = cl_ServerList r"
    by (auto simp: GetCMListForConnect_def split: prod.splits sum.splits if_splits)
  show "list_all server_typed servers"
    unfolding g by (rule Call_typed [OF c]) (auto simp: dec_cm_list_def intro: cm_list.struct)
next
  assume "BeginAuthSessionViaCredentials as bp w = (Inr session, w4)"
  then show "session_typed session"
    unfolding BeginAuthSessionViaCredentials_def
    by (rule Call_typed) (auto simp: dec_begin_auth_def intro: auth_session.struct, simp add: session_typed_def zero_begin_auth_def)
next
  assume "GetPasswordRSAPublicKey as kp w = (Inr key, w5)"
  then show "fits_uint 64 (gk_Timestamp key)"
    unfolding GetPasswordRSAPublicKey_def
    by (rule Call_typed) (auto intro: rsa_key.struct)
next
  assume "QueryTime ts w = (Inr time, w6)"
  then show "fits_int 64 (qt_ServerTime time)"
    unfolding QueryTime_def
    by (rule Call_typed) (auto intro: server_time.struct)
qed

section \<open>What a server reports\<close>















section \<open>Property\<close>








end
