(* ===== verification/AES.thy ===== *)
theory AES
  imports Prelude
begin

text \<open>
  AES with a 256-bit key as Go's \<^verbatim>\<open>crypto/aes\<close> provides it: \<open>aes_encrypt\<close> and
  \<open>aes_decrypt\<close> are \<^verbatim>\<open>(cipher.Block).Encrypt\<close> and \<^verbatim>\<open>Decrypt\<close> on one 16-byte block (the
  state is the block, column by column). The substitution is by table, the field
  multiplications by repeated doubling. The lemmas show that decryption inverts
  encryption for every key, and that both keep the block length.
\<close>

section \<open>Tables\<close>

definition sbox :: bytes where
  "sbox =
     [0x63, 0x7c, 0x77, 0x7b, 0xf2, 0x6b, 0x6f, 0xc5, 0x30, 0x01, 0x67, 0x2b, 0xfe, 0xd7, 0xab, 0x76,
      0xca, 0x82, 0xc9, 0x7d, 0xfa, 0x59, 0x47, 0xf0, 0xad, 0xd4, 0xa2, 0xaf, 0x9c, 0xa4, 0x72, 0xc0,
      0xb7, 0xfd, 0x93, 0x26, 0x36, 0x3f, 0xf7, 0xcc, 0x34, 0xa5, 0xe5, 0xf1, 0x71, 0xd8, 0x31, 0x15,
      0x04, 0xc7, 0x23, 0xc3, 0x18, 0x96, 0x05, 0x9a, 0x07, 0x12, 0x80, 0xe2, 0xeb, 0x27, 0xb2, 0x75,
      0x09, 0x83, 0x2c, 0x1a, 0x1b, 0x6e, 0x5a, 0xa0, 0x52, 0x3b, 0xd6, 0xb3, 0x29, 0xe3, 0x2f, 0x84,
      0x53, 0xd1, 0x00, 0xed, 0x20, 0xfc, 0xb1, 0x5b, 0x6a, 0xcb, 0xbe, 0x39, 0x4a, 0x4c, 0x58, 0xcf,
      0xd0, 0xef, 0xaa, 0xfb, 0x43, 0x4d, 0x33, 0x85, 0x45, 0xf9, 0x02, 0x7f, 0x50, 0x3c, 0x9f, 0xa8,
      0x51, 0xa3, 0x40, 0x8f, 0x92, 0x9d, 0x38, 0xf5, 0xbc, 0xb6, 0xda, 0x21, 0x10, 0xff, 0xf3, 0xd2,
      0xcd, 0x0c, 0x13, 0xec, 0x5f, 0x97, 0x44, 0x17, 0xc4, 0xa7, 0x7e, 0x3d, 0x64, 0x5d, 0x19, 0x73,
      0x60, 0x81, 0x4f, 0xdc, 0x22, 0x2a, 0x90, 0x88, 0x46, 0xee, 0xb8, 0x14, 0xde, 0x5e, 0x0b, 0xdb,
      0xe0, 0x32, 0x3a, 0x0a, 0x49, 0x06, 0x24, 0x5c, 0xc2, 0xd3, 0xac, 0x62, 0x91, 0x95, 0xe4, 0x79,
      0xe7, 0xc8, 0x37, 0x6d, 0x8d, 0xd5, 0x4e, 0xa9, 0x6c, 0x56, 0xf4, 0xea, 0x65, 0x7a, 0xae, 0x08,
      0xba, 0x78, 0x25, 0x2e, 0x1c, 0xa6, 0xb4, 0xc6, 0xe8, 0xdd, 0x74, 0x1f, 0x4b, 0xbd, 0x8b, 0x8a,
      0x70, 0x3e, 0xb5, 0x66, 0x48, 0x03, 0xf6, 0x0e, 0x61, 0x35, 0x57, 0xb9, 0x86, 0xc1, 0x1d, 0x9e,
      0xe1, 0xf8, 0x98, 0x11, 0x69, 0xd9, 0x8e, 0x94, 0x9b, 0x1e, 0x87, 0xe9, 0xce, 0x55, 0x28, 0xdf,
      0x8c, 0xa1, 0x89, 0x0d, 0xbf, 0xe6, 0x42, 0x68, 0x41, 0x99, 0x2d, 0x0f, 0xb0, 0x54, 0xbb, 0x16]"

definition inv_sbox :: bytes where
  "inv_sbox =
     [0x52, 0x09, 0x6a, 0xd5, 0x30, 0x36, 0xa5, 0x38, 0xbf, 0x40, 0xa3, 0x9e, 0x81, 0xf3, 0xd7, 0xfb,
      0x7c, 0xe3, 0x39, 0x82, 0x9b, 0x2f, 0xff, 0x87, 0x34, 0x8e, 0x43, 0x44, 0xc4, 0xde, 0xe9, 0xcb,
      0x54, 0x7b, 0x94, 0x32, 0xa6, 0xc2, 0x23, 0x3d, 0xee, 0x4c, 0x95, 0x0b, 0x42, 0xfa, 0xc3, 0x4e,
      0x08, 0x2e, 0xa1, 0x66, 0x28, 0xd9, 0x24, 0xb2, 0x76, 0x5b, 0xa2, 0x49, 0x6d, 0x8b, 0xd1, 0x25,
      0x72, 0xf8, 0xf6, 0x64, 0x86, 0x68, 0x98, 0x16, 0xd4, 0xa4, 0x5c, 0xcc, 0x5d, 0x65, 0xb6, 0x92,
      0x6c, 0x70, 0x48, 0x50, 0xfd, 0xed, 0xb9, 0xda, 0x5e, 0x15, 0x46, 0x57, 0xa7, 0x8d, 0x9d, 0x84,
      0x90, 0xd8, 0xab, 0x00, 0x8c, 0xbc, 0xd3, 0x0a, 0xf7, 0xe4, 0x58, 0x05, 0xb8, 0xb3, 0x45, 0x06,
      0xd0, 0x2c, 0x1e, 0x8f, 0xca, 0x3f, 0x0f, 0x02, 0xc1, 0xaf, 0xbd, 0x03, 0x01, 0x13, 0x8a, 0x6b,
      0x3a, 0x91, 0x11, 0x41, 0x4f, 0x67, 0xdc, 0xea, 0x97, 0xf2, 0xcf, 0xce, 0xf0, 0xb4, 0xe6, 0x73,
      0x96, 0xac, 0x74, 0x22, 0xe7, 0xad, 0x35, 0x85, 0xe2, 0xf9, 0x37, 0xe8, 0x1c, 0x75, 0xdf, 0x6e,
      0x47, 0xf1, 0x1a, 0x71, 0x1d, 0x29, 0xc5, 0x89, 0x6f, 0xb7, 0x62, 0x0e, 0xaa, 0x18, 0xbe, 0x1b,
      0xfc, 0x56, 0x3e, 0x4b, 0xc6, 0xd2, 0x79, 0x20, 0x9a, 0xdb, 0xc0, 0xfe, 0x78, 0xcd, 0x5a, 0xf4,
      0x1f, 0xdd, 0xa8, 0x33, 0x88, 0x07, 0xc7, 0x31, 0xb1, 0x12, 0x10, 0x59, 0x27, 0x80, 0xec, 0x5f,
      0x60, 0x51, 0x7f, 0xa9, 0x19, 0xb5, 0x4a, 0x0d, 0x2d, 0xe5, 0x7a, 0x9f, 0x93, 0xc9, 0x9c, 0xef,
      0xa0, 0xe0, 0x3b, 0x4d, 0xae, 0x2a, 0xf5, 0xb0, 0xc8, 0xeb, 0xbb, 0x3c, 0x83, 0x53, 0x99, 0x61,
      0x17, 0x2b, 0x04, 0x7e, 0xba, 0x77, 0xd6, 0x26, 0xe1, 0x69, 0x14, 0x63, 0x55, 0x21, 0x0c, 0x7d]"

definition sub_byte :: "byte \<Rightarrow> byte" where "sub_byte b = sbox ! unat b"
definition inv_sub_byte :: "byte \<Rightarrow> byte" where "inv_sub_byte b = inv_sbox ! unat b"

section \<open>The rounds\<close>

definition shift_rows :: "bytes \<Rightarrow> bytes" where
  "shift_rows s = map ((!) s) [0, 5, 10, 15, 4, 9, 14, 3, 8, 13, 2, 7, 12, 1, 6, 11]"

definition inv_shift_rows :: "bytes \<Rightarrow> bytes" where
  "inv_shift_rows s = map ((!) s) [0, 13, 10, 7, 4, 1, 14, 11, 8, 5, 2, 15, 12, 9, 6, 3]"

text \<open>Doubling in the field of the polynomial 0x11b; it commutes with exclusive or.\<close>

definition xtime :: "byte \<Rightarrow> byte" where
  "xtime b = push_bit 1 b XOR (if bit b 7 then 0x1b else 0)"

fun mix_columns :: "bytes \<Rightarrow> bytes" where
  "mix_columns (a # b # c # d # r) =
     (xtime a XOR (xtime b XOR b) XOR c XOR d) #
     (a XOR xtime b XOR (xtime c XOR c) XOR d) #
     (a XOR b XOR xtime c XOR (xtime d XOR d)) #
     ((xtime a XOR a) XOR b XOR c XOR xtime d) # mix_columns r"
| "mix_columns _ = []"

definition mul9 :: "byte \<Rightarrow> byte" where
  "mul9 b = xtime (xtime (xtime b)) XOR b"
definition mul11 :: "byte \<Rightarrow> byte" where
  "mul11 b = xtime (xtime (xtime b)) XOR xtime b XOR b"
definition mul13 :: "byte \<Rightarrow> byte" where
  "mul13 b = xtime (xtime (xtime b)) XOR xtime (xtime b) XOR b"
definition mul14 :: "byte \<Rightarrow> byte" where
  "mul14 b = xtime (xtime (xtime b)) XOR xtime (xtime b) XOR xtime b"

fun inv_mix_columns :: "bytes \<Rightarrow> bytes" where
  "inv_mix_columns (a # b # c # d # r) =
     (mul14 a XOR mul11 b XOR mul13 c XOR mul9 d) #
     (mul9 a XOR mul14 b XOR mul11 c XOR mul13 d) #
     (mul13 a XOR mul9 b XOR mul14 c XOR mul11 d) #
     (mul11 a XOR mul13 b XOR mul9 c XOR mul14 d) # inv_mix_columns r"
| "inv_mix_columns _ = []"

fun enc_rounds :: "bytes list \<Rightarrow> bytes \<Rightarrow> bytes" where
  "enc_rounds [] s = s"
| "enc_rounds [k] s = xor_bytes (shift_rows (map sub_byte s)) k"
| "enc_rounds (k # ks) s =
     enc_rounds ks (xor_bytes (mix_columns (shift_rows (map sub_byte s))) k)"

fun dec_rounds :: "bytes list \<Rightarrow> bytes \<Rightarrow> bytes" where
  "dec_rounds [] s = s"
| "dec_rounds [k] s = map inv_sub_byte (inv_shift_rows (xor_bytes s k))"
| "dec_rounds (k # ks) s =
     map inv_sub_byte (inv_shift_rows (inv_mix_columns (xor_bytes (dec_rounds ks s) k)))"

section \<open>The key schedule\<close>

text \<open>
  The 60 words of the schedule, newest first while they are produced: word \<open>i\<close> is the
  word eight places back, combined with the previous word, which every eighth step is
  rotated, substituted and given a round constant, and in between every fourth step only
  substituted.
\<close>

fun rcon :: "nat \<Rightarrow> byte" where
  "rcon n = (if n \<le> 1 then 1 else xtime (rcon (n - 1)))"

declare rcon.simps [simp del]

definition rot_word :: "bytes \<Rightarrow> bytes" where
  "rot_word w = drop 1 w @ take 1 w"

definition next_word :: "nat \<Rightarrow> bytes list \<Rightarrow> bytes" where
  "next_word i ws =
     (let prev = ws ! 0;
          t = (if i mod 8 = 0
               then xor_bytes (map sub_byte (rot_word prev)) [rcon (i div 8), 0, 0, 0]
               else if i mod 8 = 4 then map sub_byte prev else prev)
      in xor_bytes (ws ! 7) t)"

fun expand_words :: "nat \<Rightarrow> nat \<Rightarrow> bytes list \<Rightarrow> bytes list" where
  "expand_words 0 i ws = ws"
| "expand_words (Suc n) i ws = expand_words n (Suc i) (next_word i ws # ws)"

definition round_keys :: "bytes \<Rightarrow> bytes list" where
  "round_keys key = chunks 16 15 (concat (rev (expand_words 52 8 (rev (chunks 4 8 key)))))"

section \<open>One block\<close>

definition aes_encrypt :: "bytes \<Rightarrow> bytes \<Rightarrow> bytes" where
  "aes_encrypt key b =
     (let ks = round_keys key in enc_rounds (tl ks) (xor_bytes b (hd ks)))"

definition aes_decrypt :: "bytes \<Rightarrow> bytes \<Rightarrow> bytes" where
  "aes_decrypt key b =
     (let ks = round_keys key in xor_bytes (dec_rounds (tl ks) b) (hd ks))"

section \<open>Each step is undone\<close>

lemma length_boxes: "length sbox = 256" "length inv_sbox = 256"
  by (simp_all add: sbox_def inv_sbox_def)

lemma inv_sbox_sbox: "list_all (\<lambda>i. inv_sbox ! unat (sbox ! i) = of_nat i) [0..<256]"
  by code_simp

lemma inv_sub_sub [simp]: "inv_sub_byte (sub_byte b) = b"
proof -
  have "unat b \<in> set [0..<256]"
    using unat_less_pow [of b] by simp
  then show ?thesis
    using inv_sbox_sbox by (auto simp: list_all_iff inv_sub_byte_def sub_byte_def)
qed

lemma length_shift_rows [simp]: "length (shift_rows s) = 16" "length (inv_shift_rows s) = 16"
  by (simp_all add: shift_rows_def inv_shift_rows_def)

lemma list16_cases:
  assumes "length s = 16"
  obtains a b c d e f g h i j k l m n p q where "s = [a, b, c, d, e, f, g, h, i, j, k, l, m, n, p, q]"
  using assms by (auto simp: length_Suc_conv numeral_eq_Suc)

lemma inv_shift_shift [simp]: "length s = 16 \<Longrightarrow> inv_shift_rows (shift_rows s) = s"
  by (erule list16_cases) (simp add: shift_rows_def inv_shift_rows_def)

lemma xtime_xor [simp]: "xtime (a XOR b) = xtime a XOR xtime b"
  by (rule bit_word_eqI) (auto simp: xtime_def bit_simps push_bit_xor)

lemma xor_left_self: "a XOR (a XOR b) = (b :: byte)"
  by (simp flip: xor.assoc)

lemmas xor_ac = xor.assoc xor.commute xor.left_commute xor_left_self

lemma mix_column_inverse:
  "inv_mix_columns (mix_columns [a, b, c, d]) = [a, b, c, d]"
  by (simp add: mul9_def mul11_def mul13_def mul14_def xor_ac)

lemma mix_columns_append: "mix_columns (a # b # c # d # r) = mix_columns [a, b, c, d] @ mix_columns r"
  by simp

lemma inv_mix_mix_Cons:
  "inv_mix_columns (mix_columns (a # b # c # d # r)) = a # b # c # d # inv_mix_columns (mix_columns r)"
  using mix_column_inverse [of a b c d] by simp

lemma inv_mix_mix [simp]: "length s = 16 \<Longrightarrow> inv_mix_columns (mix_columns s) = s"
  by (erule list16_cases) (simp only: inv_mix_mix_Cons, simp)

lemma length_mix_columns [simp]: "length s = 16 \<Longrightarrow> length (mix_columns s) = 16"
  by (erule list16_cases) simp

lemma length_inv_mix_columns [simp]: "length s = 16 \<Longrightarrow> length (inv_mix_columns s) = 16"
  by (erule list16_cases) simp

lemma length_enc_rounds:
  "length s = 16 \<Longrightarrow> \<forall>k \<in> set ks. length k = 16 \<Longrightarrow> length (enc_rounds ks s) = 16"
  by (induction ks s rule: enc_rounds.induct) simp_all

lemma length_dec_rounds:
  "length s = 16 \<Longrightarrow> \<forall>k \<in> set ks. length k = 16 \<Longrightarrow> length (dec_rounds ks s) = 16"
  by (induction ks s rule: dec_rounds.induct) simp_all

lemma inv_sub_comp_sub [simp]: "map (inv_sub_byte \<circ> sub_byte) s = s"
  by (simp add: comp_def)

lemma dec_enc_rounds:
  "length s = 16 \<Longrightarrow> \<forall>k \<in> set ks. length k = 16 \<Longrightarrow> dec_rounds ks (enc_rounds ks s) = s"
  by (induction ks s rule: enc_rounds.induct) simp_all

section \<open>The schedule has fifteen round keys of one block\<close>

lemma next_word_length:
  assumes "8 \<le> length ws" and "\<forall>w \<in> set ws. length w = 4"
  shows "length (next_word i ws) = 4"
proof -
  have "ws ! 0 \<in> set ws" "ws ! 7 \<in> set ws"
    using assms(1) by (intro nth_mem; linarith)+
  with assms(2) have "length (ws ! 0) = 4" "length (ws ! 7) = 4"
    by blast+
  then show ?thesis
    by (auto simp: next_word_def Let_def rot_word_def)
qed

lemma expand_words_length:
  "8 \<le> length ws \<Longrightarrow> \<forall>w \<in> set ws. length w = 4 \<Longrightarrow>
     length (expand_words n i ws) = n + length ws \<and> (\<forall>w \<in> set (expand_words n i ws). length w = 4)"
proof (induction n arbitrary: i ws)
  case (Suc n)
  have "length (next_word i ws) = 4"
    using Suc.prems by (rule next_word_length)
  with Suc.prems have "length (expand_words n (Suc i) (next_word i ws # ws)) = n + Suc (length ws) \<and>
      (\<forall>w \<in> set (expand_words n (Suc i) (next_word i ws # ws)). length w = 4)"
    using Suc.IH [of "next_word i ws # ws" "Suc i"] by (metis le_SucI length_Cons set_ConsD)
  then show ?case by (metis add_Suc_shift expand_words.simps(2))
qed simp

lemma round_keys_shape:
  assumes "length key = 32"
  shows "length (round_keys key) = 15" and "\<forall>k \<in> set (round_keys key). length k = 16"
proof -
  have "\<forall>w \<in> set (rev (chunks 4 8 key)). length w = 4"
    using assms chunks_length [of key 4 8] by simp
  then have "length (concat (rev (expand_words 52 8 (rev (chunks 4 8 key))))) = 16 * 15"
    using expand_words_length [of "rev (chunks 4 8 key)" 52 8]
    by (subst length_concat_const [where n = 4]) auto
  then show "\<forall>k \<in> set (round_keys key). length k = 16"
    unfolding round_keys_def by (rule chunks_length)
  show "length (round_keys key) = 15"
    by (simp add: round_keys_def)
qed

lemma round_keys_parts:
  assumes "length key = 32"
  shows "length (hd (round_keys key)) = 16" and "\<forall>k \<in> set (tl (round_keys key)). length k = 16"
  using round_keys_shape [OF assms] by (cases "round_keys key"; simp)+

lemma aes_decrypt_encrypt [simp]:
  "length key = 32 \<Longrightarrow> length b = 16 \<Longrightarrow> aes_decrypt key (aes_encrypt key b) = b"
  by (simp add: aes_decrypt_def aes_encrypt_def Let_def dec_enc_rounds round_keys_parts)

lemma length_aes [simp]:
  assumes "length key = 32" and "length b = 16"
  shows "length (aes_encrypt key b) = 16" and "length (aes_decrypt key b) = 16"
  using assms
  by (simp_all add: aes_decrypt_def aes_encrypt_def Let_def length_enc_rounds length_dec_rounds
      round_keys_parts)

end
