(* ===== verification/Crypto.thy ===== *)
theory Crypto
  imports GoLib AES Digest
begin

text \<open>
  Package \<^verbatim>\<open>crypto\<close>: PKCS\#7 padding, symmetric encryption and decryption (CBC under an
  ECB-encrypted initialisation vector, with and without the HMAC in the vector), ECB
  decryption, session keys sealed with RSA-OAEP for Steam's public key, and signature
  verification. Randomness is an argument: what the system's random source would deliver.
  The interface a block mode needs of a block cipher is the locale \<open>block_cipher\<close>,
  interpreted for AES.
\<close>

section \<open>Randomness\<close>

text \<open>One call of \<^verbatim>\<open>rand.Read\<close>: an error, or bytes for a buffer of any length.\<close>

type_synonym entropy = "goerr + (nat \<Rightarrow> byte)"

definition rand_Read :: "entropy \<Rightarrow> nat \<Rightarrow> bytes result" where
  "rand_Read rnd n = (case rnd of Inl e \<Rightarrow> Inl e | Inr f \<Rightarrow> Inr (map f [0..<n]))"

lemma rand_Read_length: "rand_Read rnd n = Inr bs \<Longrightarrow> length bs = n"
  by (auto simp: rand_Read_def split: sum.splits)

section \<open>PKCS\#7 padding\<close>

text \<open>
  \<^verbatim>\<open>blockSize\<close> is a Go \<^verbatim>\<open>int\<close>: zero makes the remainder panic and a negative one the
  repetition. \<^verbatim>\<open>Pkcs7Unpad\<close> looks at the remainder only for non-empty data.
\<close>

definition ErrDivide :: goerr where "ErrDivide = ErrNew ''runtime error: integer divide by zero''"
definition ErrRepeat :: goerr where "ErrRepeat = ErrNew ''bytes: negative Repeat count''"

definition Pkcs7Pad :: "bytes \<Rightarrow> int \<Rightarrow> bytes outcome" where
  "Pkcs7Pad data blockSize =
     (if blockSize = 0 then Panic ErrDivide
      else if blockSize < 0 then Panic ErrRepeat
      else let pad = nat blockSize - length data mod nat blockSize
           in Return (data @ replicate pad (of_nat pad)))"

definition Pkcs7Unpad :: "bytes \<Rightarrow> int \<Rightarrow> bytes outcome" where
  "Pkcs7Unpad data blockSize =
     (if data = [] then Fail (ErrNew ''invalid padded data'')
      else if blockSize = 0 then Panic ErrDivide
      else if int (length data) mod \<bar>blockSize\<bar> \<noteq> 0 then Fail (ErrNew ''invalid padded data'')
      else let padLen = unat (data ! (length data - 1)) in
        if padLen = 0 \<or> int padLen > blockSize then Fail (ErrNew ''invalid padding'')
        else if \<not> list_all (\<lambda>i. data ! i = of_nat padLen) [length data - padLen..<length data]
        then Fail (ErrNew ''invalid padding'')
        else Return (take (length data - padLen) data))"

section \<open>Block modes\<close>

abbreviation BlockSize :: nat where "BlockSize \<equiv> 16"

definition aes_NewCipher :: "bytes \<Rightarrow> unit result" where
  "aes_NewCipher key =
     (if length key \<in> {16, 24, 32} then Inr ()
      else Inl (ErrNew (''crypto/aes: invalid key size '' @ FormatUint (length key))))"

text \<open>\<^verbatim>\<open>cipher.NewCBCEncrypter(block, iv).CryptBlocks\<close> and its inverse, block by block.\<close>

fun cbc_enc :: "(bytes \<Rightarrow> bytes) \<Rightarrow> bytes \<Rightarrow> bytes list \<Rightarrow> bytes list" where
  "cbc_enc E iv [] = []"
| "cbc_enc E iv (b # bs) = (let c = E (xor_bytes b iv) in c # cbc_enc E c bs)"

fun cbc_dec :: "(bytes \<Rightarrow> bytes) \<Rightarrow> bytes \<Rightarrow> bytes list \<Rightarrow> bytes list" where
  "cbc_dec D iv [] = []"
| "cbc_dec D iv (c # cs) = xor_bytes (D c) iv # cbc_dec D c cs"

definition blocks :: "bytes \<Rightarrow> bytes list" where
  "blocks xs = chunks BlockSize (length xs div BlockSize) xs"

section \<open>Encryption\<close>

definition SymmetricEncrypt :: "bytes \<Rightarrow> bytes \<Rightarrow> bytes option \<Rightarrow> entropy \<Rightarrow> bytes outcome" where
  "SymmetricEncrypt input key iv0 rnd =
     (if length input = 0 then Fail (ErrNew ''input cannot be empty'')
      else if length key \<noteq> 32 then Fail (ErrNew ''key must be 32 bytes'')
      else if iv0 \<noteq> None \<and> length (the iv0) \<noteq> BlockSize then Fail (ErrNew ''IV must be 16 bytes'')
      else case (case iv0 of None \<Rightarrow> rand_Read rnd BlockSize | Some iv \<Rightarrow> Inr iv) of
          Inl err \<Rightarrow> Fail (ErrWrap ''failed to generate IV'' err)
        | Inr iv \<Rightarrow>
          (case aes_NewCipher key of
             Inl err \<Rightarrow> Fail (ErrWrap ''failed to create cipher'' err)
           | Inr _ \<Rightarrow>
             let encryptedIV = aes_encrypt key iv in
             (case Pkcs7Pad input (int BlockSize) of
                Return paddedInput \<Rightarrow>
                  Return (encryptedIV @ concat (cbc_enc (aes_encrypt key) iv (blocks paddedInput)))
              | Fail e \<Rightarrow> Fail e | Panic e \<Rightarrow> Panic e | Parked \<Rightarrow> Parked)))"

definition hmac_iv :: "bytes \<Rightarrow> bytes \<Rightarrow> bytes \<Rightarrow> bytes" where
  "hmac_iv key r input = take (16 - length r) (hmac_sha1 (take 16 key) (r @ input)) @ r"

definition SymmetricEncryptWithHmacIv :: "bytes \<Rightarrow> bytes \<Rightarrow> entropy \<Rightarrow> bytes outcome" where
  "SymmetricEncryptWithHmacIv input key rnd =
     (if length input = 0 then Fail (ErrNew ''input cannot be empty'')
      else if length key < 16 then Fail (ErrNew ''key must be at least 16 bytes'')
      else case rand_Read rnd 3 of
          Inl err \<Rightarrow> Fail (ErrWrap ''failed to generate random bytes'' err)
        | Inr randomBytes \<Rightarrow>
            SymmetricEncrypt input key (Some (hmac_iv key randomBytes input)) rnd)"

section \<open>Decryption\<close>

definition SymmetricDecrypt :: "bytes \<Rightarrow> bytes \<Rightarrow> bool \<Rightarrow> bytes outcome" where
  "SymmetricDecrypt input key checkHmac =
     (if length input < BlockSize then Fail (ErrNew ''input too short'')
      else if length key \<noteq> 32 then Fail (ErrNew ''key must be 32 bytes'')
      else case aes_NewCipher key of
          Inl err \<Rightarrow> Fail (ErrWrap ''failed to create cipher'' err)
        | Inr _ \<Rightarrow>
          let iv = aes_decrypt key (take BlockSize input);
              ciphertext = drop BlockSize input in
          if length ciphertext mod BlockSize \<noteq> 0
          then Fail (ErrNew ''ciphertext is not a multiple of block size'')
          else case Pkcs7Unpad (concat (cbc_dec (aes_decrypt key) iv (blocks ciphertext))) (int BlockSize) of
              Return plaintext \<Rightarrow>
                if checkHmac then
                  (if length iv < 3 then Fail (ErrNew ''IV too short for HMAC check'')
                   else let remotePartialHmac = take (length iv - 3) iv;
                            randomPart = drop (length iv - 3) iv;
                            computedDigest = hmac_sha1 (take 16 key) (randomPart @ plaintext)
                        in if remotePartialHmac \<noteq> take (length remotePartialHmac) computedDigest
                           then Fail (ErrNew ''received invalid HMAC from remote host'')
                           else Return plaintext)
                else Return plaintext
            | Fail err \<Rightarrow> Fail (ErrWrap ''failed to unpad plaintext'' err)
            | Panic e \<Rightarrow> Panic e | Parked \<Rightarrow> Parked)"

definition SymmetricDecryptECB :: "bytes \<Rightarrow> bytes \<Rightarrow> bytes outcome" where
  "SymmetricDecryptECB input key =
     (if length input = 0 then Fail (ErrNew ''input cannot be empty'')
      else if length key \<noteq> 32 then Fail (ErrNew ''key must be 32 bytes'')
      else case aes_NewCipher key of
          Inl err \<Rightarrow> Fail (ErrWrap ''failed to create cipher'' err)
        | Inr _ \<Rightarrow>
          if length input mod BlockSize \<noteq> 0 then Fail (ErrNew ''input is not a multiple of block size'')
          else Pkcs7Unpad (concat (map (aes_decrypt key) (blocks input))) (int BlockSize))"

section \<open>RSA\<close>

text \<open>The key in \<^verbatim>\<open>public-key.pem\<close>: 1024-bit modulus and exponent 17.\<close>

record PublicKey =
  pk_N :: int
  pk_E :: nat

definition steamPublicKey :: PublicKey where
  "steamPublicKey =
     \<lparr>pk_N = 0xDFEC1AD62C10662C17353A14B07C59117F9DD3D82B7AE3E015CD191E46E87B8774A2184631A9031479828EE945A24912A923687389CF69A1B16146BDC1BEBFD6011BD881D4DC90FBFE4F527366CB9570D7C58EBA1C7A3375A1623446BB60B78068FA13A77A8A374B9EC6F45D5F3A99F99EC43AE963A2BB881928E0E714C04289,
      pk_E = 17\<rparr>"

fun int_of_be :: "int \<Rightarrow> bytes \<Rightarrow> int" where
  "int_of_be acc [] = acc"
| "int_of_be acc (b # bs) = int_of_be (acc * 256 + uint b) bs"

fun be_of_int :: "nat \<Rightarrow> int \<Rightarrow> bytes" where
  "be_of_int 0 x = []"
| "be_of_int (Suc n) x = be_of_int n (x div 256) @ [of_int x]"

definition rsa_public :: "PublicKey \<Rightarrow> bytes \<Rightarrow> bytes" where
  "rsa_public pub m = be_of_int 128 (int_of_be 0 m ^ pk_E pub mod pk_N pub)"

definition mgf1_sha1 :: "bytes \<Rightarrow> nat \<Rightarrow> bytes" where
  "mgf1_sha1 seed n =
     take n (concat (map (\<lambda>i. sha1 (seed @ be_bytes 4 (of_nat i :: uint32))) [0..<n div 20 + 1]))"

text \<open>\<^verbatim>\<open>rsa.EncryptOAEP(sha1.New(), rand.Reader, pub, msg, nil)\<close> for a 128-byte modulus.\<close>

definition EncryptOAEP :: "entropy \<Rightarrow> PublicKey \<Rightarrow> bytes \<Rightarrow> bytes result" where
  "EncryptOAEP rnd pub msg =
     (if length msg > 128 - 2 * 20 - 2 then Inl (ErrNew ''crypto/rsa: message too long for RSA key size'')
      else case rand_Read rnd 20 of
          Inl e \<Rightarrow> Inl e
        | Inr seed \<Rightarrow>
          let db = sha1 [] @ replicate (107 - 20 - 1 - length msg) 0 @ [1] @ msg;
              maskedDB = xor_bytes db (mgf1_sha1 seed 107);
              maskedSeed = xor_bytes seed (mgf1_sha1 maskedDB 20)
          in Inr (rsa_public pub ([0] @ maskedSeed @ maskedDB)))"

definition GenerateSessionKey :: "entropy \<Rightarrow> entropy \<Rightarrow> (bytes \<times> bytes) result" where
  "GenerateSessionKey rnd rnd' =
     (case rand_Read rnd 32 of
        Inl err \<Rightarrow> Inl (ErrWrap ''failed to generate session key'' err)
      | Inr plainSessionKey \<Rightarrow>
        (case EncryptOAEP rnd' steamPublicKey plainSessionKey of
           Inl err \<Rightarrow> Inl (ErrWrap ''failed to encrypt session key'' err)
         | Inr encryptedSessionKey \<Rightarrow> Inr (plainSessionKey, encryptedSessionKey)))"

section \<open>Signatures\<close>

datatype Hash = SHA1 | SHA256

fun hash_sum :: "Hash \<Rightarrow> bytes \<Rightarrow> bytes" where
  "hash_sum SHA1 m = sha1 m"
| "hash_sum SHA256 m = sha256 m"

text \<open>The DER prefixes of a digest in a PKCS\#1 v1.5 signature.\<close>

fun hash_prefix :: "Hash \<Rightarrow> bytes" where
  "hash_prefix SHA1 = [48, 33, 48, 9, 6, 5, 43, 14, 3, 2, 26, 5, 0, 4, 20]"
| "hash_prefix SHA256 = [48, 49, 48, 13, 6, 9, 96, 134, 72, 1, 101, 3, 4, 2, 1, 5, 0, 4, 32]"

definition ErrVerification :: goerr where
  "ErrVerification = ErrNew ''crypto/rsa: verification error''"

definition pkcs1v15_message :: "Hash \<Rightarrow> bytes \<Rightarrow> bytes" where
  "pkcs1v15_message h digest =
     (let t = hash_prefix h @ digest in [0, 1] @ replicate (128 - length t - 3) 0xFF @ [0] @ t)"

definition VerifyPKCS1v15 :: "PublicKey \<Rightarrow> Hash \<Rightarrow> bytes \<Rightarrow> bytes \<Rightarrow> unit result" where
  "VerifyPKCS1v15 pub h digest sig =
     (if length sig \<noteq> 128 then Inl ErrVerification
      else if int_of_be 0 sig \<ge> pk_N pub then Inl ErrVerification
      else if rsa_public pub sig \<noteq> pkcs1v15_message h digest then Inl ErrVerification
      else Inr ())"

definition VerifySignature :: "string \<Rightarrow> bytes \<Rightarrow> bytes \<Rightarrow> bool result" where
  "VerifySignature algorithm data sig =
     (if length data = 0 then Inl (ErrNew ''data cannot be empty'')
      else if length sig = 0 then Inl (ErrNew ''signature cannot be empty'')
      else case (if algorithm = '''' \<or> algorithm = ''RSA-SHA1'' then Some SHA1
                 else if algorithm = ''RSA-SHA256'' then Some SHA256 else None) of
          None \<Rightarrow> Inl (ErrNew (''unsupported algorithm: '' @ algorithm))
        | Some hasher \<Rightarrow>
          (case VerifyPKCS1v15 steamPublicKey hasher (hash_sum hasher data) sig of
             Inl err \<Rightarrow> if errors_Is err ErrVerification then Inr False
                        else Inl (ErrWrap ''failed to verify signature'' err)
           | Inr _ \<Rightarrow> Inr True))"

section \<open>Laws of padding\<close>

lemma Pkcs7Pad_eq:
  "0 < n \<Longrightarrow> Pkcs7Pad d (int n) =
     Return (d @ replicate (n - length d mod n) (of_nat (n - length d mod n)))"
  by (simp add: Pkcs7Pad_def Let_def)

lemma pad_range: "0 < n \<Longrightarrow> 0 < n - length d mod n \<and> n - length d mod n \<le> n"
  by simp

lemma length_padded: "0 < n \<Longrightarrow> (length d + (n - length d mod n)) mod n = 0"
  by (metis add.commute le_add_diff_inverse2 mod_add_right_eq mod_less_divisor mod_self nat_less_le
      add.assoc mod_add_left_eq)

lemma pad_unique:
  fixes k n len :: nat
  assumes "0 < k" "k \<le> n" "(len + k) mod n = 0"
  shows "k = n - len mod n"
proof -
  have "n dvd len mod n + k"
    using assms(3) by (metis dvd_eq_mod_eq_0 mod_add_left_eq)
  then obtain q where q: "len mod n + k = n * q" ..
  moreover have "len mod n < n" using assms by simp
  ultimately have "n * q < n * 2" "0 < n * q" using assms by linarith+
  then have "q = 1" by (metis less_2_cases mult_0_right mult_less_cancel1 less_numeral_extra(3) One_nat_def)
  with q show ?thesis by simp
qed

lemma unpad_append:
  assumes "0 < k" "k \<le> n" "n \<le> 255" "(length d + k) mod n = 0"
  shows "Pkcs7Unpad (d @ replicate k (of_nat k)) (int n) = Return d"
proof -
  let ?x = "d @ replicate k (of_nat k :: byte)"
  have last: "?x ! (length ?x - 1) = of_nat k"
    using assms(1) last_conv_nth [of ?x] by simp
  have u: "unat (of_nat k :: byte) = k"
    using assms by (simp add: unat_of_nat)
  have all: "list_all (\<lambda>i. ?x ! i = of_nat k) [length ?x - k..<length ?x]"
    by (auto simp: list_all_iff nth_append)
  have m: "int (length ?x) mod \<bar>int n\<bar> = 0"
    using assms by (simp flip: of_nat_add of_nat_mod)
  show ?thesis
    unfolding Pkcs7Unpad_def Let_def last u using all m assms by simp
qed

lemma Pkcs7Unpad_Return:
  assumes "Pkcs7Unpad x (int n) = Return d" and "0 < n"
  obtains k where "0 < k" "k \<le> n" "x = d @ replicate k (of_nat k)" "length x mod n = 0"
proof -
  define k where "k = unat (x ! (length x - 1))"
  define ok where "ok = list_all (\<lambda>i. x ! i = of_nat k) [length x - k..<length x]"
  have "x \<noteq> [] \<and> int (length x) mod \<bar>int n\<bar> = 0 \<and> k \<noteq> 0 \<and> int k \<le> int n \<and> ok \<and>
      d = take (length x - k) x"
    using assms(1) unfolding Pkcs7Unpad_def Let_def k_def [symmetric] ok_def [symmetric]
    by (simp split: if_splits)
  then have ne: "x \<noteq> []" and im: "int (length x) mod \<bar>int n\<bar> = 0" and k: "0 < k" "k \<le> n"
    and ok: ok and d: "d = take (length x - k) x"
    by simp_all
  have m: "length x mod n = 0"
    using im by (simp flip: of_nat_mod)
  have "n \<le> length x"
    using ne m by (metis length_greater_0_conv mod_less not_le nat_less_le)
  then have le: "k \<le> length x" using k by simp
  have "drop (length x - k) x = replicate k (of_nat k)"
  proof (rule nth_equalityI)
    fix i assume "i < length (drop (length x - k) x)"
    then have "i < k" using le by simp
    then have "length x - k + i \<in> set [length x - k..<length x]"
      using le by auto
    then have "x ! (length x - k + i) = of_nat k"
      using ok unfolding ok_def list_all_iff by blast
    with \<open>i < k\<close> le show "drop (length x - k) x ! i = replicate k (of_nat k) ! i"
      by simp
  qed (use le in simp)
  then have "take (length x - k) x @ drop (length x - k) x = d @ replicate k (of_nat k)"
    by (simp only: d)
  then have "x = d @ replicate k (of_nat k)"
    by (simp only: append_take_drop_id)
  from k this m show ?thesis by (rule that)
qed

section \<open>Block ciphers and the modes over them\<close>

text \<open>What the modes rely on: for good keys, decryption inverts encryption on blocks, both
  ways, and blocks stay blocks.\<close>

locale block_cipher =
  fixes E D :: "bytes \<Rightarrow> bytes \<Rightarrow> bytes" and good :: "bytes \<Rightarrow> bool"
  assumes length_E: "good k \<Longrightarrow> length b = BlockSize \<Longrightarrow> length (E k b) = BlockSize"
    and length_D: "good k \<Longrightarrow> length b = BlockSize \<Longrightarrow> length (D k b) = BlockSize"
    and D_E: "good k \<Longrightarrow> length b = BlockSize \<Longrightarrow> D k (E k b) = b"
begin

lemma E_inj: "good k \<Longrightarrow> inj_on (E k) {b. length b = BlockSize}"
  by (rule inj_on_inverseI [where g = "D k"]) (simp add: D_E)

lemma E_D:
  assumes "good k" "length c = BlockSize"
  shows "E k (D k c) = c"
proof -
  let ?B = "{b :: bytes. length b = BlockSize}"
  have "finite ?B"
    using finite_lists_length_eq [of "UNIV :: byte set" BlockSize] by simp
  then have "E k ` ?B = ?B"
    using E_inj [OF assms(1)] length_E [OF assms(1)] by (intro endo_inj_surj) auto
  then obtain b where "length b = BlockSize" "c = E k b"
    using assms(2) by auto
  then show ?thesis
    using D_E [OF assms(1)] by simp
qed

lemma cbc_enc_lengths:
  "good k \<Longrightarrow> length iv = BlockSize \<Longrightarrow> \<forall>b \<in> set bs. length b = BlockSize \<Longrightarrow>
     length (cbc_enc (E k) iv bs) = length bs \<and> (\<forall>c \<in> set (cbc_enc (E k) iv bs). length c = BlockSize)"
  by (induction "E k" iv bs rule: cbc_enc.induct) (auto simp: Let_def length_E)

lemma cbc_dec_lengths:
  "good k \<Longrightarrow> length iv = BlockSize \<Longrightarrow> \<forall>b \<in> set bs. length b = BlockSize \<Longrightarrow>
     length (cbc_dec (D k) iv bs) = length bs \<and> (\<forall>c \<in> set (cbc_dec (D k) iv bs). length c = BlockSize)"
  by (induction "D k" iv bs rule: cbc_dec.induct) (auto simp: length_D)

lemma cbc_dec_enc:
  "good k \<Longrightarrow> length iv = BlockSize \<Longrightarrow> \<forall>b \<in> set bs. length b = BlockSize \<Longrightarrow>
     cbc_dec (D k) iv (cbc_enc (E k) iv bs) = bs"
  by (induction "E k" iv bs rule: cbc_enc.induct) (auto simp: Let_def length_E D_E)

lemma cbc_enc_dec:
  "good k \<Longrightarrow> length iv = BlockSize \<Longrightarrow> \<forall>c \<in> set cs. length c = BlockSize \<Longrightarrow>
     cbc_enc (E k) iv (cbc_dec (D k) iv cs) = cs"
  by (induction "D k" iv cs rule: cbc_dec.induct) (auto simp: Let_def length_D E_D)

end

interpretation aes: block_cipher aes_encrypt aes_decrypt "\<lambda>k. length k = 32"
  by unfold_locales simp_all

lemma blocks_lengths: "length xs mod 16 = 0 \<Longrightarrow> \<forall>b \<in> set (blocks xs). length b = BlockSize"
  unfolding blocks_def by (rule chunks_length) auto

lemma concat_blocks: "length xs mod 16 = 0 \<Longrightarrow> concat (blocks xs) = xs"
  unfolding blocks_def by (rule concat_chunks) auto

lemma chunks_concat: "\<forall>b \<in> set bs. length b = sz \<Longrightarrow> chunks sz (length bs) (concat bs) = bs"
  by (induction bs) simp_all

lemma blocks_concat: "\<forall>b \<in> set bs. length b = BlockSize \<Longrightarrow> blocks (concat bs) = bs"
  unfolding blocks_def by (subst length_concat_const) (auto simp: chunks_concat)

section \<open>Decryption inverts encryption\<close>

lemma aes_NewCipher_32 [simp]: "length key = 32 \<Longrightarrow> aes_NewCipher key = Inr ()"
  by (simp add: aes_NewCipher_def)

text \<open>The ciphertext for a given vector, and what makes a byte string one.\<close>

definition padded :: "bytes \<Rightarrow> bytes" where
  "padded d = d @ replicate (16 - length d mod 16) (of_nat (16 - length d mod 16))"

definition sealed :: "bytes \<Rightarrow> bytes \<Rightarrow> bytes \<Rightarrow> bytes" where
  "sealed key iv input =
     aes_encrypt key iv @
     concat (cbc_enc (aes_encrypt key) iv (blocks (padded input)))"

lemma SymmetricEncrypt_eq:
  "input \<noteq> [] \<Longrightarrow> length key = 32 \<Longrightarrow> length iv = 16 \<Longrightarrow>
     SymmetricEncrypt input key (Some iv) rnd = Return (sealed key iv input)"
  using Pkcs7Pad_eq [of 16 input] by (simp add: SymmetricEncrypt_def sealed_def padded_def)

lemma padded_mod16: "length (padded d) mod 16 = 0"
  using length_padded [of 16 d] by (simp add: padded_def)

lemma take_drop_sealed:
  assumes "length key = 32" "length iv = 16"
  shows "take 16 (sealed key iv input) = aes_encrypt key iv"
    and "drop 16 (sealed key iv input) = concat (cbc_enc (aes_encrypt key) iv (blocks (padded input)))"
    and "16 \<le> length (sealed key iv input)"
  using assms by (simp_all add: sealed_def)

text \<open>The decrypted body, before the padding and the HMAC are looked at.\<close>

definition opened :: "bytes \<Rightarrow> bytes \<Rightarrow> bytes" where
  "opened key c =
     concat (cbc_dec (aes_decrypt key) (aes_decrypt key (take 16 c)) (blocks (drop 16 c)))"

lemma sealed_body:
  assumes "length key = 32" "length iv = 16"
  shows "length (drop 16 (sealed key iv input)) mod 16 = 0"
    and "blocks (drop 16 (sealed key iv input)) = cbc_enc (aes_encrypt key) iv (blocks (padded input))"
    and "opened key (sealed key iv input) = padded input"
proof -
  have bl: "\<forall>b \<in> set (blocks (padded input)). length b = 16"
    using padded_mod16 by (rule blocks_lengths)
  note L = aes.cbc_enc_lengths [OF assms(1,2) bl]
  have dr: "drop 16 (sealed key iv input) = concat (cbc_enc (aes_encrypt key) iv (blocks (padded input)))"
    using assms by (simp add: take_drop_sealed)
  show "length (drop 16 (sealed key iv input)) mod 16 = 0"
    unfolding dr using L by (subst length_concat_const [where n = 16]) auto
  show bs: "blocks (drop 16 (sealed key iv input)) = cbc_enc (aes_encrypt key) iv (blocks (padded input))"
    unfolding dr using L by (simp add: blocks_concat)
  have "cbc_dec (aes_decrypt key) iv (cbc_enc (aes_encrypt key) iv (blocks (padded input))) = blocks (padded input)"
    using assms(1,2) bl by (rule aes.cbc_dec_enc)
  then show "opened key (sealed key iv input) = padded input"
    unfolding opened_def bs using assms
    by (simp add: take_drop_sealed concat_blocks padded_mod16)
qed

lemma SymmetricDecrypt_cases:
  assumes "16 \<le> length c" "length key = 32" "length (drop 16 c) mod 16 = 0"
  shows "SymmetricDecrypt c key check =
    (case Pkcs7Unpad (opened key c) 16 of
       Return p \<Rightarrow>
         if check \<and> take 13 (aes_decrypt key (take 16 c)) \<noteq>
              take 13 (hmac_sha1 (take 16 key) (drop 13 (aes_decrypt key (take 16 c)) @ p))
         then Fail (ErrNew ''received invalid HMAC from remote host'') else Return p
     | Fail e \<Rightarrow> Fail (ErrWrap ''failed to unpad plaintext'' e)
     | Panic e \<Rightarrow> Panic e | Parked \<Rightarrow> Parked)"
proof -
  have "length (aes_decrypt key (take 16 c)) = 16"
    using assms by simp
  then show ?thesis
    using assms unfolding SymmetricDecrypt_def Let_def opened_def
    by (simp split: outcome.split)
qed

lemma unpad_opened_sealed:
  assumes "length key = 32" "length iv = 16"
  shows "Pkcs7Unpad (opened key (sealed key iv input)) 16 = Return input"
proof -
  have "16 - length input mod 16 \<le> 16" "0 < 16 - length input mod 16" by simp_all
  then show ?thesis
    unfolding sealed_body(3) [OF assms] padded_def
    using unpad_append [of "16 - length input mod 16" 16 input] length_padded [of 16 input] by simp
qed

lemma SymmetricDecrypt_sealed:
  assumes "length key = 32" "length iv = 16"
  shows "SymmetricDecrypt (sealed key iv input) key check =
    (if check \<and> take 13 iv \<noteq> take 13 (hmac_sha1 (take 16 key) (drop 13 iv @ input))
     then Fail (ErrNew ''received invalid HMAC from remote host'') else Return input)"
  unfolding SymmetricDecrypt_cases [OF take_drop_sealed(3) [OF assms] assms(1) sealed_body(1) [OF assms]]
  using assms by (simp add: take_drop_sealed(1) unpad_opened_sealed)

lemma hmac_iv_parts:
  "length r = 3 \<Longrightarrow> length (hmac_iv key r p) = 16"
  "length r = 3 \<Longrightarrow> take 13 (hmac_iv key r p) = take 13 (hmac_sha1 (take 16 key) (r @ p))"
  "length r = 3 \<Longrightarrow> drop 13 (hmac_iv key r p) = r"
  by (simp_all add: hmac_iv_def)

lemma pad_length_unique:
  assumes "(l + k) mod 16 = 0" "0 < k" "k \<le> (16::nat)"
  shows "k = 16 - l mod 16"
proof -
  define r where "r = l mod 16"
  have r: "r < 16" by (simp add: r_def)
  have "(r + k) mod 16 = 0"
    using assms(1) unfolding r_def by (metis mod_add_left_eq)
  then obtain q where "r + k = 16 * q" by (auto simp: mod_eq_0_iff_dvd)
  with r assms(2,3) have "q = 1" by linarith
  with \<open>r + k = 16 * q\<close> show ?thesis unfolding r_def [symmetric] by simp
qed

text \<open>Whatever decrypts is the encryption of the result.\<close>

lemma sealed_of_decrypted:
  assumes "SymmetricDecrypt c key check = Return p" and key: "length key = 32"
  shows "c = sealed key (aes_decrypt key (take 16 c)) p \<and>
    (check \<longrightarrow> take 13 (aes_decrypt key (take 16 c)) =
       take 13 (hmac_sha1 (take 16 key) (drop 13 (aes_decrypt key (take 16 c)) @ p)))"
proof -
  define iv where "iv = aes_decrypt key (take 16 c)"
  have len: "16 \<le> length c" and m: "length (drop 16 c) mod 16 = 0"
    using assms unfolding SymmetricDecrypt_def Let_def
    by (auto split: if_splits)
  have iv: "length iv = 16" using len key by (simp add: iv_def)
  have up: "Pkcs7Unpad (opened key c) (int 16) = Return p"
    and mac: "check \<longrightarrow> take 13 iv = take 13 (hmac_sha1 (take 16 key) (drop 13 iv @ p))"
    using assms(1) unfolding SymmetricDecrypt_cases [OF len key m] iv_def [symmetric]
    by (auto split: outcome.splits if_splits)
  from up obtain k where k: "0 < k" "k \<le> 16" "opened key c = p @ replicate k (of_nat k)"
      "length (opened key c) mod 16 = 0"
    by (rule Pkcs7Unpad_Return) simp
  have "(length p + k) mod 16 = 0" using k by simp
  then have kk: "k = 16 - length p mod 16"
    using k(1,2) by (rule pad_length_unique)
  have bl: "\<forall>b \<in> set (blocks (drop 16 c)). length b = 16"
    using m by (rule blocks_lengths)
  have "blocks (opened key c) = cbc_dec (aes_decrypt key) iv (blocks (drop 16 c))"
    using aes.cbc_dec_lengths [OF key iv bl] unfolding opened_def iv_def [symmetric]
    by (simp add: blocks_concat)
  then have "cbc_enc (aes_encrypt key) iv (blocks (opened key c)) = blocks (drop 16 c)"
    using aes.cbc_enc_dec [OF key iv bl] by simp
  then have "sealed key iv p = aes_encrypt key iv @ concat (blocks (drop 16 c))"
    unfolding sealed_def padded_def kk [symmetric] k(3) [symmetric] by simp
  also have "\<dots> = take 16 c @ drop 16 c"
    using m key len by (simp add: concat_blocks iv_def aes.E_D)
  finally show ?thesis
    using mac by (simp add: iv_def)
qed

lemma hmac_encrypt_eq:
  assumes "input \<noteq> []" and "length key = 32"
  shows "SymmetricEncryptWithHmacIv input key (Inr f) =
    Return (sealed key (hmac_iv key [f 0, f 1, f 2] input) input)"
proof -
  have "rand_Read (Inr f) 3 = Inr [f 0, f 1, f 2]"
    by (simp add: rand_Read_def numeral_3_eq_3 numeral_2_eq_2)
  then show ?thesis
    using assms by (simp add: SymmetricEncryptWithHmacIv_def SymmetricEncrypt_eq hmac_iv_parts)
qed

lemma length_padded_eq: "length (padded d) = 16 * (length d div 16 + 1)"
proof -
  have A: "l + (16 - r) = 16 * (q + 1)" if "r < 16" "16 * q + r = l" for l r q :: nat
    using that by simp
  have "length (padded d) = length d + (16 - length d mod 16)" by (simp add: padded_def)
  also have "\<dots> = 16 * (length d div 16 + 1)"
    by (rule A) (rule mod_less_divisor, simp, rule mult_div_mod_eq)
  finally show ?thesis .
qed

lemma length_blocks_padded: "length (blocks (padded d)) = length d div 16 + 1"
  by (simp only: blocks_def length_chunks length_padded_eq
      nonzero_mult_div_cancel_left [OF zero_neq_numeral [symmetric]])

lemma length_sealed:
  assumes "length key = 32" "length iv = 16"
  shows "length (sealed key iv d) = 16 * (length d div 16 + 2)"
proof -
  have "\<forall>b \<in> set (blocks (padded d)). length b = 16"
    using padded_mod16 by (rule blocks_lengths)
  note L = aes.cbc_enc_lengths [OF assms this]
  have "length (concat (cbc_enc (aes_encrypt key) iv (blocks (padded d)))) =
      16 * length (cbc_enc (aes_encrypt key) iv (blocks (padded d)))"
    using L by (intro length_concat_const) blast
  also have "\<dots> = 16 * (length d div 16 + 1)"
    by (simp only: L [THEN conjunct1] length_blocks_padded)
  finally show ?thesis
    unfolding sealed_def length_append length_aes(1) [OF assms] by simp
qed

text \<open>The receiver's view of an OAEP message: undo the two masks, find the 1 after the zeros.\<close>

definition oaep_open :: "bytes \<Rightarrow> bytes option" where
  "oaep_open em =
     (let maskedSeed = take 20 (drop 1 em); maskedDB = drop 21 em;
          seed = xor_bytes maskedSeed (mgf1_sha1 maskedDB 20);
          db = xor_bytes maskedDB (mgf1_sha1 seed 107)
      in if hd em = 0 \<and> take 20 db = sha1 [] then
           (case dropWhile (\<lambda>b. b = 0) (drop 20 db) of
              b # m \<Rightarrow> if b = 1 then Some m else None | [] \<Rightarrow> None)
         else None)"

lemma length_mgf1 [simp]: "length (mgf1_sha1 seed n) = n"
proof -
  have "length (concat (map (\<lambda>i. sha1 (seed @ be_bytes 4 (of_nat i :: uint32))) [0..<n div 20 + 1])) =
      20 * (n div 20 + 1)"
    by (subst length_concat_const [where n = 20]) auto
  moreover have "n \<le> 20 * (n div 20 + 1)" by presburger
  ultimately show ?thesis by (simp add: mgf1_sha1_def)
qed

lemma int_of_be_append: "int_of_be acc (xs @ ys) = int_of_be (int_of_be acc xs) ys"
  by (induction xs arbitrary: acc) simp_all

lemma int_of_be_of_int: "0 \<le> x \<Longrightarrow> x < 256 ^ n \<Longrightarrow> int_of_be 0 (be_of_int n x) = x"
proof (induction n arbitrary: x)
  case (Suc n)
  have "uint (of_int x :: byte) = x mod 256" by (simp add: unsigned_of_int take_bit_eq_mod)
  moreover have "256 * (x div 256) \<le> x" by simp
  then have "x div 256 < 256 ^ n" using Suc.prems(2) by simp
  ultimately show ?case using Suc by (simp add: int_of_be_append pos_imp_zdiv_nonneg_iff)
qed simp

lemma int_of_be_bounds: "0 \<le> acc \<Longrightarrow> 0 \<le> int_of_be acc xs \<and> int_of_be acc xs < (acc + 1) * 256 ^ length xs"
proof (induction xs arbitrary: acc)
  case (Cons b xs)
  have b: "0 \<le> uint b" "uint b < 256" using uint_bounded [of b] by simp_all
  have le: "(acc * 256 + uint b + 1) * 256 ^ length xs \<le> (acc + 1) * 256 * 256 ^ length xs"
    using b by (intro mult_right_mono) simp_all
  have "0 \<le> acc * 256 + uint b" using Cons.prems b by simp
  note ih = Cons.IH [OF this]
  show ?case using ih less_le_trans [OF conjunct2 [OF ih] le] by (simp add: algebra_simps)
qed simp

lemma length_be_of_int [simp]: "length (be_of_int n x) = n"
  by (induction n arbitrary: x) simp_all

lemma EncryptOAEP_open:
  assumes "length msg \<le> 86"
  obtains em where "EncryptOAEP (Inr f) pub msg = Inr (rsa_public pub em)"
    and "length em = 128" and "oaep_open em = Some msg"
proof -
  define seed where "seed = map f [0..<20]"
  define db where "db = sha1 [] @ replicate (107 - 20 - 1 - length msg) 0 @ [1] @ msg"
  define mdb where "mdb = xor_bytes db (mgf1_sha1 seed 107)"
  define ms where "ms = xor_bytes seed (mgf1_sha1 mdb 20)"
  have l: "length seed = 20" "length db = 107" "length mdb = 107" "length ms = 20"
    using assms by (simp_all add: seed_def db_def mdb_def ms_def)
  have 1: "EncryptOAEP (Inr f) pub msg = Inr (rsa_public pub ([0] @ ms @ mdb))"
    using assms by (simp add: EncryptOAEP_def rand_Read_def Let_def seed_def db_def mdb_def ms_def)
  have "xor_bytes ms (mgf1_sha1 mdb 20) = seed" "xor_bytes mdb (mgf1_sha1 seed 107) = db"
    using l by (simp_all add: ms_def mdb_def)
  moreover have "take 20 db = sha1 []" "dropWhile (\<lambda>b. b = 0) (drop 20 db) = 1 # msg"
    by (simp_all add: db_def dropWhile_append)
  ultimately have 2: "oaep_open ([0] @ ms @ mdb) = Some msg"
    using l by (simp add: oaep_open_def Let_def)
  have 3: "length ([0] @ ms @ mdb) = 128" using l by simp
  from 1 3 2 show ?thesis by (rule that)
qed

lemma GenerateSessionKey_ok:
  obtains em where "GenerateSessionKey (Inr f) (Inr g) = Inr (map f [0..<32], rsa_public steamPublicKey em)"
    and "length em = 128" and "oaep_open em = Some (map f [0..<32])"
proof -
  obtain em where em: "EncryptOAEP (Inr g) steamPublicKey (map f [0..<32]) = Inr (rsa_public steamPublicKey em)"
    "length em = 128" "oaep_open em = Some (map f [0..<32])"
    by (rule EncryptOAEP_open [of "map f [0..<32]" g steamPublicKey]) simp_all
  from em(1) have "GenerateSessionKey (Inr f) (Inr g) = Inr (map f [0..<32], rsa_public steamPublicKey em)"
    unfolding GenerateSessionKey_def rand_Read_def by (simp del: upt_conv_Cons)
  from this em(2,3) show ?thesis by (rule that)
qed

lemma length_rsa_public [simp]: "length (rsa_public pub m) = 128"
  by (simp add: rsa_public_def)

section \<open>Properties\<close>

text \<open>Property C29: for block sizes up to 255, \<^verbatim>\<open>Pkcs7Unpad\<close> returns \<open>d\<close> on exactly one
  input, the one \<^verbatim>\<open>Pkcs7Pad\<close> makes of \<open>d\<close>: padding is read back, and nothing else is
  accepted as padding.\<close>

theorem pkcs7_unpad_iff_pad:
  assumes "1 \<le> n" and "n \<le> 255"
  shows "Pkcs7Unpad x (int n) = Return d \<longleftrightarrow> Pkcs7Pad d (int n) = Return x"
proof
  assume u: "Pkcs7Unpad x (int n) = Return d"
  from assms have "0 < n" by simp
  with u obtain k where k: "0 < k" "k \<le> n" "x = d @ replicate k (of_nat k)" "length x mod n = 0"
    by (rule Pkcs7Unpad_Return)
  then have "k = n - length d mod n"
    by (intro pad_unique) simp_all
  with k \<open>0 < n\<close> show "Pkcs7Pad d (int n) = Return x"
    by (simp add: Pkcs7Pad_eq)
next
  assume "Pkcs7Pad d (int n) = Return x"
  with assms show "Pkcs7Unpad x (int n) = Return d"
    using unpad_append [of "n - length d mod n" n d] length_padded [of n d]
    by (simp add: Pkcs7Pad_eq)
qed

theorem pkcs7_unpad_iff_pad_witness:
  "Pkcs7Unpad [7, 7, 7, 1] 4 = Return [7, 7, 7] \<longleftrightarrow> Pkcs7Pad [7, 7, 7] 4 = Return [7, 7, 7, 1]"
  using pkcs7_unpad_iff_pad [of 4 "[7, 7, 7, 1]" "[7, 7, 7]"] by simp

text \<open>Property C28: a message encrypted with a 32-byte key and any 16-byte vector decrypts to
  itself when the HMAC is not checked, and the ciphertext has one block for the vector and
  one more than the message fills.\<close>

theorem symmetric_roundtrip:
  assumes "input \<noteq> []" and "length key = 32" and "length iv = 16"
  shows "\<exists>c. SymmetricEncrypt input key (Some iv) rnd = Return c \<and>
    length c = 16 * (length input div 16 + 2) \<and> SymmetricDecrypt c key False = Return input"
  using assms by (simp add: SymmetricEncrypt_eq SymmetricDecrypt_sealed length_sealed)

theorem symmetric_roundtrip_witness:
  "\<exists>c. SymmetricEncrypt [1, 2, 3] (replicate 32 0) (Some (replicate 16 0)) (Inl EOF) = Return c \<and>
    length c = 32 \<and> SymmetricDecrypt c (replicate 32 0) False = Return [1, 2, 3]"
  using symmetric_roundtrip [of "[1, 2, 3]" "replicate 32 0" "replicate 16 0" "Inl EOF"]
  by simp

text \<open>Property C12: with a 32-byte key, the byte strings that decrypt under the HMAC check to a
  non-empty message are exactly those that \<^verbatim>\<open>SymmetricEncryptWithHmacIv\<close> can produce for
  that message: what is sent is received, and nothing else is accepted.\<close>

theorem hmac_decrypt_iff_encrypt:
  assumes "length key = 32"
  shows "SymmetricDecrypt c key True = Return p \<and> p \<noteq> [] \<longleftrightarrow>
    (\<exists>f. SymmetricEncryptWithHmacIv p key (Inr f) = Return c)"
proof
  assume L: "SymmetricDecrypt c key True = Return p \<and> p \<noteq> []"
  define iv where "iv = aes_decrypt key (take 16 c)"
  have "16 \<le> length c"
    using L by (auto simp: SymmetricDecrypt_def split: if_splits)
  then have iv: "length iv = 16" using assms by (simp add: iv_def)
  have c: "c = sealed key iv p" and mac: "take 13 iv = take 13 (hmac_sha1 (take 16 key) (drop 13 iv @ p))"
    using sealed_of_decrypted [of c key True p] L assms by (simp_all add: iv_def)
  have r: "[iv ! 13, iv ! (13 + 1), iv ! (13 + 2)] = drop 13 iv"
    using iv by (intro nth_equalityI) (auto simp: less_Suc_eq numeral_eq_Suc)
  then have "hmac_iv key [iv ! 13, iv ! (13 + 1), iv ! (13 + 2)] p = iv"
    using mac iv by (simp add: hmac_iv_def flip: mac)
  then have "SymmetricEncryptWithHmacIv p key (Inr (\<lambda>i. iv ! (13 + i))) = Return c"
    using L assms c by (simp add: hmac_encrypt_eq)
  then show "\<exists>f. SymmetricEncryptWithHmacIv p key (Inr f) = Return c" by blast
next
  assume "\<exists>f. SymmetricEncryptWithHmacIv p key (Inr f) = Return c"
  then obtain f where f: "SymmetricEncryptWithHmacIv p key (Inr f) = Return c" by blast
  then have p: "p \<noteq> []"
    by (auto simp: SymmetricEncryptWithHmacIv_def)
  then have "c = sealed key (hmac_iv key [f 0, f 1, f 2] p) p"
    using f assms by (simp add: hmac_encrypt_eq)
  then show "SymmetricDecrypt c key True = Return p \<and> p \<noteq> []"
    using assms p by (simp add: SymmetricDecrypt_sealed hmac_iv_parts)
qed

theorem hmac_decrypt_iff_encrypt_witness:
  "\<exists>c. SymmetricEncryptWithHmacIv [1, 2, 3] (replicate 32 0) (Inr (\<lambda>_. 7)) = Return c \<and>
    SymmetricDecrypt c (replicate 32 0) True = Return [1, 2, 3]"
proof -
  have "\<exists>c. SymmetricEncryptWithHmacIv [1, 2, 3] (replicate 32 0) (Inr (\<lambda>_. 7)) = Return c"
    using hmac_encrypt_eq [of "[1, 2, 3]" "replicate 32 0"] by auto
  then show ?thesis
    using hmac_decrypt_iff_encrypt [of "replicate 32 0"] by (metis length_replicate)
qed

text \<open>\<^verbatim>\<open>SymmetricEncryptWithHmacIv\<close> succeeds exactly on non-empty input, a
  32-byte key and a working random source: keys of 16 to 31 bytes, which its own check lets
  through, are refused by the inner call; and it never panics.\<close>

theorem hmac_encrypt_succeeds_iff:
  "((\<exists>c. SymmetricEncryptWithHmacIv input key rnd = Return c) \<longleftrightarrow>
      input \<noteq> [] \<and> length key = 32 \<and> (\<exists>f. rnd = Inr f)) \<and>
   (\<forall>e. SymmetricEncryptWithHmacIv input key rnd \<noteq> Panic e) \<and>
   SymmetricEncryptWithHmacIv input key rnd \<noteq> Parked"
proof (cases "input \<noteq> [] \<and> length key = 32 \<and> (\<exists>f. rnd = Inr f)")
  case True
  then show ?thesis by (auto simp: hmac_encrypt_eq)
next
  case False
  then have "\<exists>e. SymmetricEncryptWithHmacIv input key rnd = Fail e"
    by (auto simp: SymmetricEncryptWithHmacIv_def SymmetricEncrypt_def rand_Read_def split: sum.splits)
  with False show ?thesis by auto
qed

text \<open>With a working random source a session key is always made: 32 plain
  bytes, and 128 bytes that are the RSA image, under Steam's key, of an OAEP message from
  which a receiver recovers the plain key.\<close>

theorem session_key_sealed:
  "\<exists>em. GenerateSessionKey (Inr f) (Inr g) =
      Inr (map f [0..<32], rsa_public steamPublicKey em) \<and>
    length (rsa_public steamPublicKey em) = 128 \<and> length em = 128 \<and>
    oaep_open em = Some (map f [0..<32])"
proof -
  obtain em where "GenerateSessionKey (Inr f) (Inr g) = Inr (map f [0..<32], rsa_public steamPublicKey em)"
    and "length em = 128" and "oaep_open em = Some (map f [0..<32])"
    by (rule GenerateSessionKey_ok)
  then show ?thesis using length_rsa_public by blast
qed

text \<open>Verification answers true exactly when the data are not empty, the
  algorithm is supported, and the signature is 128 bytes below the modulus whose RSA image
  is the padded digest of the data.\<close>

theorem verify_signature_iff:
  "VerifySignature alg data sig = Inr True \<longleftrightarrow>
     data \<noteq> [] \<and> alg \<in> {'''', ''RSA-SHA1'', ''RSA-SHA256''} \<and> length sig = 128 \<and>
     int_of_be 0 sig < pk_N steamPublicKey \<and>
     rsa_public steamPublicKey sig =
       (let h = (if alg = ''RSA-SHA256'' then SHA256 else SHA1) in pkcs1v15_message h (hash_sum h data))"
  by (auto simp: VerifySignature_def VerifyPKCS1v15_def Let_def split: if_splits)

end
