(* ===== verification/Identity.thy ===== *)
theory Identity
  imports Crypto Totp Api
begin

text \<open>
  Package \<^verbatim>\<open>identity\<close>: the login flow with credentials. The world it runs in is a clock
  and a server: the answer to the \<open>n\<close>-th request, the time it takes, and the choice a
  \<^verbatim>\<open>select\<close> makes when two of its cases are ready at the same moment. The mutex is not
  modelled: it only serialises the methods. The polling loop may run for ever, and is a
  partial function: not returning is \<open>None\<close>.
\<close>

section \<open>The world\<close>

record World =
  wd_now :: int
  wd_log :: "HttpRequest list"
  wd_reply :: "nat \<Rightarrow> HttpRequest \<Rightarrow> HttpResponse result"
  wd_cost :: "nat \<Rightarrow> int"
  wd_pick :: "int \<Rightarrow> bool"

definition world_client :: "(string \<Rightarrow> string \<Rightarrow> goerr option) \<Rightarrow> World HTTPClient" where
  "world_client parse =
     \<lparr>hc_parse = parse,
      hc_do = (\<lambda>req w. let n = length (wd_log w) in
        (wd_reply w n req, w\<lparr>wd_log := wd_log w @ [req], wd_now := wd_now w + wd_cost w n\<rparr>))\<rparr>"

definition Second :: int where "Second = 1000000000"
definition Hour :: int where "Hour = 3600 * Second"

text \<open>
  \<^verbatim>\<open>select\<close> on \<^verbatim>\<open>time.After(d)\<close> and the context: whether the context ended the wait, and
  the world afterwards.
\<close>

definition wait :: "goctx \<Rightarrow> int \<Rightarrow> World \<Rightarrow> bool \<times> World" where
  "wait cx d w =
     (let now = wd_now w; wake = now + max 0 d in
      case ctx_done_at cx of
        None \<Rightarrow> (False, w\<lparr>wd_now := wake\<rparr>)
      | Some t \<Rightarrow>
        if max now t < wake then (True, w\<lparr>wd_now := max now t\<rparr>)
        else if wake < max now t then (False, w\<lparr>wd_now := wake\<rparr>)
        else (wd_pick w wake, w\<lparr>wd_now := wake\<rparr>))"

section \<open>Identities\<close>

record Identity =
  id_steamID :: SteamID
  id_accessToken :: string
  id_refreshToken :: string
  id_createdAt :: int
  id_expiresAt :: int

definition Identity_SteamID :: "Identity \<Rightarrow> SteamID" where "Identity_SteamID i = id_steamID i"
definition Identity_AccessToken :: "Identity \<Rightarrow> string" where "Identity_AccessToken i = id_accessToken i"
definition Identity_RefreshToken :: "Identity \<Rightarrow> string" where "Identity_RefreshToken i = id_refreshToken i"
definition Identity_CreatedAt :: "Identity \<Rightarrow> int" where "Identity_CreatedAt i = id_createdAt i"
definition Identity_ExpiresAt :: "Identity \<Rightarrow> int" where "Identity_ExpiresAt i = id_expiresAt i"

definition NewIdentity :: "SteamID \<Rightarrow> string \<Rightarrow> int \<Rightarrow> Identity" where
  "NewIdentity steamID refreshToken now =
     \<lparr>id_steamID = steamID, id_accessToken = [], id_refreshToken = refreshToken,
      id_createdAt = now, id_expiresAt = now + Hour\<rparr>"

record AuthSession =
  as_ClientID :: uint64
  as_RequestID :: string
  as_SteamID :: SteamID
  as_Interval :: int
  as_AllowedConfirmations :: "AllowedConfirmation list"

record Credentials =
  cr_AccountName :: string
  cr_Password :: string
  cr_SharedSecret :: string

text \<open>The interface \<^verbatim>\<open>identity.API\<close>: the two services it hands out.\<close>

record identity_API =
  ia_auth :: "World IAuthenticationService"
  ia_tfa :: "World ITwoFactorService"

record CredentialsIdentityProvider =
  idp_api :: "identity_API option"
  idp_credentials :: Credentials
  idp_identity :: "Identity option"

type_synonym idp_option = "CredentialsIdentityProvider \<Rightarrow> CredentialsIdentityProvider"

definition identity_WithAPI :: "identity_API \<Rightarrow> idp_option" where
  "identity_WithAPI api idp = idp\<lparr>idp_api := Some api\<rparr>"

text \<open>The services of a new API on a transport: by the lazily created values, always these.\<close>

definition services_of :: "World HTTPTransport \<Rightarrow> identity_API" where
  "services_of t = \<lparr>ia_auth = IAuthenticationService t, ia_tfa = ITwoFactorService t\<rparr>"

definition NewCredentialsIdentityProvider ::
    "World HTTPClient \<Rightarrow> Credentials \<Rightarrow> idp_option list \<Rightarrow> CredentialsIdentityProvider result" where
  "NewCredentialsIdentityProvider DefaultClient credentials opts =
     (let idp = fold (\<lambda>opt p. opt p) opts \<lparr>idp_api = None, idp_credentials = credentials, idp_identity = None\<rparr>;
          transport = NewHTTPTransport DefaultClient []
      in if idp_api idp = None then
           (case NewAPI (Some transport) of
              Inl err \<Rightarrow> Inl (ErrWrap ''failed to create API'' err)
            | Inr _ \<Rightarrow> Inr (idp\<lparr>idp_api := Some (services_of transport)\<rparr>))
         else Inr idp)"

section \<open>Choosing a confirmation\<close>

definition pick :: "EAuthSessionGuardType list \<Rightarrow> AllowedConfirmation list \<Rightarrow> EAuthSessionGuardType option" where
  "pick priority confirmations =
     (let allowed = map ac_ConfirmationType confirmations in find (\<lambda>p. p \<in> set allowed) priority)"

definition pickCodeType :: "AllowedConfirmation list \<Rightarrow> EAuthSessionGuardType option" where
  "pickCodeType = pick [GuardType_DeviceCode, GuardType_EmailCode, GuardType_MachineToken]"

definition pickConfirmationType :: "AllowedConfirmation list \<Rightarrow> EAuthSessionGuardType option" where
  "pickConfirmationType = pick [GuardType_DeviceConfirmation, GuardType_EmailConfirmation]"

section \<open>Encrypting the password\<close>

text \<open>Hexadecimal text, with an optional sign, as \<^verbatim>\<open>big.Int.SetString\<close> and \<^verbatim>\<open>strconv.ParseInt\<close>
  read it in base 16.\<close>

definition hex_digit_val :: "char \<Rightarrow> nat option" where
  "hex_digit_val c =
     (let n = (of_char c :: nat) in
      if 48 \<le> n \<and> n \<le> 57 then Some (n - 48) else if 97 \<le> n \<and> n \<le> 102 then Some (n - 87)
      else if 65 \<le> n \<and> n \<le> 70 then Some (n - 55) else None)"

fun hex_digits :: "int \<Rightarrow> string \<Rightarrow> int option" where
  "hex_digits acc [] = Some acc"
| "hex_digits acc (c # s) =
     (case hex_digit_val c of None \<Rightarrow> None | Some d \<Rightarrow> hex_digits (16 * acc + int d) s)"

definition parse_hex :: "string \<Rightarrow> int option" where
  "parse_hex s =
     (let neg = (s \<noteq> [] \<and> hd s = CHR ''-'');
          body = (if s \<noteq> [] \<and> (hd s = CHR ''-'' \<or> hd s = CHR ''+'') then tl s else s)
      in if body = [] then None
         else map_option (\<lambda>n. if neg then - n else n) (hex_digits 0 body))"

definition ParseInt16 :: "string \<Rightarrow> int option" where
  "ParseInt16 s =
     (case parse_hex s of
        Some n \<Rightarrow> if - (2 ^ 63) \<le> n \<and> n < 2 ^ 63 then Some n else None
      | None \<Rightarrow> None)"

fun bitlen :: "nat \<Rightarrow> nat" where
  "bitlen n = (if n = 0 then 0 else Suc (bitlen (n div 2)))"

declare bitlen.simps [simp del]

text \<open>
  \<^verbatim>\<open>rsa.EncryptPKCS1v15\<close>: keys under 1024 bits, even moduli and exponents that are even or
  out of range are refused; the padding is random bytes other than zero, which the
  parameter \<open>ps\<close> provides, or the failure of the random source.
\<close>

definition ErrRSAKey :: goerr where "ErrRSAKey = ErrNew ''crypto/rsa: invalid public key''"
definition ErrMessageTooLong :: goerr where
  "ErrMessageTooLong = ErrNew ''crypto/rsa: message too long for RSA key size''"

definition EncryptPKCS1v15 :: "entropy \<Rightarrow> int \<Rightarrow> int \<Rightarrow> bytes \<Rightarrow> bytes result" where
  "EncryptPKCS1v15 ps N E msg =
     (let M = nat \<bar>N\<bar>; k = (bitlen M + 7) div 8 in
      if bitlen M < 1024 \<or> even M \<or> E < 2 \<or> even E \<or> E > 2 ^ 31 - 1 then Inl ErrRSAKey
      else if length msg > k - 11 then Inl ErrMessageTooLong
      else case rand_Read ps (k - length msg - 3) of
          Inl e \<Rightarrow> Inl e
        | Inr pad \<Rightarrow>
          let em = [0, 2] @ pad @ [0] @ msg
          in Inr (be_of_int k (int_of_be 0 em ^ nat E mod int M)))"

definition encryptPassword :: "entropy \<Rightarrow> identity_API \<Rightarrow> string \<Rightarrow> string \<Rightarrow> World \<Rightarrow> (string \<times> uint64) result \<times> World" where
  "encryptPassword ps api accountName password w =
     (case GetPasswordRSAPublicKey (ia_auth api) \<lparr>gp_AccountName = accountName\<rparr> w of
        (Inl err, w') \<Rightarrow> (Inl (ErrWrap ''failed to get RSA public key'' err), w')
      | (Inr resp, w') \<Rightarrow>
        (case parse_hex (gk_PublicKeyMod resp) of
           None \<Rightarrow> (Inl (ErrNew (''failed to parse modulus as hex: '' @ gk_PublicKeyMod resp)), w')
         | Some modulus \<Rightarrow>
           (case ParseInt16 (gk_PublicKeyExp resp) of
              None \<Rightarrow> (Inl (ErrNew (''failed to parse exponent as hex: '' @ gk_PublicKeyExp resp)), w')
            | Some exp \<Rightarrow>
              (case EncryptPKCS1v15 ps modulus exp (bytes_of_string password) of
                 Inl err \<Rightarrow> (Inl (ErrWrap ''failed to encrypt password'' err), w')
               | Inr encrypted \<Rightarrow> (Inr (b64_encode encrypted, of_int (gk_Timestamp resp)), w')))))"

section \<open>Sessions\<close>

definition beginAuthSessionViaCredentials :: "identity_API \<Rightarrow> string \<Rightarrow> string \<Rightarrow> uint64 \<Rightarrow> World \<Rightarrow>
    BeginAuthSessionViaCredentialsResponse result \<times> World" where
  "beginAuthSessionViaCredentials api accountName encryptedPassword encryptionTimestamp =
     BeginAuthSessionViaCredentials (ia_auth api)
       \<lparr>ba_DeviceFriendlyName = [], ba_AccountName = accountName, ba_EncryptedPassword = encryptedPassword,
        ba_EncryptionTimestamp = encryptionTimestamp, ba_RememberLogin = False,
        ba_PlatformType = PlatformType_SteamClient, ba_Persistence = SessionPersistence_Persistent,
        ba_WebsiteID = ''Community'',
        ba_DeviceDetails = \<lparr>dd_DeviceFriendlyName = ''go-steam'', dd_PlatformType = PlatformType_SteamClient,
          dd_OsType = 0, dd_GamingDeviceType = 0, dd_ClientCount = 0, dd_MachineID = []\<rparr>,
        ba_GuardData = [], ba_Language = 0, ba_QosLevel = 4\<rparr>"

definition ErrNilDeref :: goerr where
  "ErrNilDeref = ErrNew ''runtime error: invalid memory address or nil pointer dereference''"

definition beginSessionLocked :: "entropy \<Rightarrow> CredentialsIdentityProvider \<Rightarrow> World \<Rightarrow> AuthSession outcome \<times> World" where
  "beginSessionLocked ps idp w =
     (case idp_api idp of
        None \<Rightarrow> (Panic ErrNilDeref, w)
      | Some api \<Rightarrow>
        (case encryptPassword ps api (cr_AccountName (idp_credentials idp)) (cr_Password (idp_credentials idp)) w of
           (Inl err, w1) \<Rightarrow> (Fail (ErrWrap ''failed to encrypt password'' err), w1)
         | (Inr (encryptedPassword, timestamp), w1) \<Rightarrow>
           (case beginAuthSessionViaCredentials api (cr_AccountName (idp_credentials idp)) encryptedPassword timestamp w1 of
              (Inl err, w2) \<Rightarrow> (Fail (ErrWrap ''failed to begin auth session'' err), w2)
            | (Inr authSession, w2) \<Rightarrow>
              (Return \<lparr>as_ClientID = of_int (br_ClientID authSession), as_RequestID = br_RequestID authSession,
                 as_SteamID = br_SteamID authSession, as_Interval = br_Interval authSession * Second,
                 as_AllowedConfirmations = br_AllowedConfirmations authSession\<rparr>, w2))))"

text \<open>\<^verbatim>\<open>BeginAuthSession\<close> takes the lock around the same steps.\<close>

definition BeginAuthSession :: "entropy \<Rightarrow> CredentialsIdentityProvider \<Rightarrow> World \<Rightarrow> AuthSession outcome \<times> World" where
  "BeginAuthSession ps idp w =
     (case idp_api idp of
        None \<Rightarrow> (Panic ErrNilDeref, w)
      | Some api \<Rightarrow>
        (case encryptPassword ps api (cr_AccountName (idp_credentials idp)) (cr_Password (idp_credentials idp)) w of
           (Inl err, w1) \<Rightarrow> (Fail (ErrWrap ''failed to encrypt password'' err), w1)
         | (Inr (encryptedPassword, timestamp), w1) \<Rightarrow>
           (case beginAuthSessionViaCredentials api (cr_AccountName (idp_credentials idp)) encryptedPassword timestamp w1 of
              (Inl err, w2) \<Rightarrow> (Fail (ErrWrap ''failed to begin auth session'' err), w2)
            | (Inr authSession, w2) \<Rightarrow>
              (Return \<lparr>as_ClientID = of_int (br_ClientID authSession), as_RequestID = br_RequestID authSession,
                 as_SteamID = br_SteamID authSession, as_Interval = br_Interval authSession * Second,
                 as_AllowedConfirmations = br_AllowedConfirmations authSession\<rparr>, w2))))"

section \<open>Polling\<close>

definition poll_params :: "AuthSession \<Rightarrow> PollAuthSessionStatusParameters" where
  "poll_params session = \<lparr>pp_ClientID = as_ClientID session, pp_RequestID = as_RequestID session, pp_TokenToRevoke = 0\<rparr>"

text \<open>The loop the three flows share.\<close>

partial_function (option) poll :: "goctx \<Rightarrow> World IAuthenticationService \<Rightarrow> AuthSession \<Rightarrow> World \<Rightarrow>
    (PollAuthSessionStatusResponse outcome \<times> World) option" where
  "poll cx a session w =
     (if ctx_done cx (wd_now w) then Some (Fail (ctx_err cx), w)
      else case PollAuthSessionStatus a (poll_params session) w of
          (Inl err, w1) \<Rightarrow> Some (Fail (ErrWrap ''failed to poll auth session'' err), w1)
        | (Inr r, w1) \<Rightarrow>
          if pr_RefreshToken r \<noteq> [] then Some (Return r, w1)
          else (case wait cx (as_Interval session) w1 of
              (cancelled, w2) \<Rightarrow>
                if cancelled then Some (Fail (ctx_err cx), w2) else poll cx a session w2))"

text \<open>What follows the loop: the identity is made and kept.\<close>

definition finish_login :: "goctx \<Rightarrow> World IAuthenticationService \<Rightarrow> AuthSession \<Rightarrow> CredentialsIdentityProvider \<Rightarrow> World \<Rightarrow>
    (Identity outcome \<times> CredentialsIdentityProvider \<times> World) option" where
  "finish_login cx a session idp w =
     (case poll cx a session w of
        None \<Rightarrow> None
      | Some (Return r, w1) \<Rightarrow>
          let i = \<lparr>id_steamID = as_SteamID session, id_accessToken = pr_AccessToken r,
                   id_refreshToken = pr_RefreshToken r, id_createdAt = wd_now w1, id_expiresAt = wd_now w1 + Hour\<rparr>
          in Some (Return i, idp\<lparr>idp_identity := Some i\<rparr>, w1)
      | Some (Fail e, w1) \<Rightarrow> Some (Fail e, idp, w1)
      | Some (Panic e, w1) \<Rightarrow> Some (Panic e, idp, w1)
      | Some (Parked, w1) \<Rightarrow> Some (Parked, idp, w1))"

text \<open>The kept identity, while it is not expired.\<close>

definition fresh_identity :: "CredentialsIdentityProvider \<Rightarrow> World \<Rightarrow> Identity option" where
  "fresh_identity idp w =
     (case idp_identity idp of
        Some i \<Rightarrow> if id_expiresAt i > wd_now w then Some i else None
      | None \<Rightarrow> None)"

definition SubmitSteamGuardCode :: "goctx \<Rightarrow> AuthSession option \<Rightarrow> string \<Rightarrow> CredentialsIdentityProvider \<Rightarrow> World \<Rightarrow>
    (Identity outcome \<times> CredentialsIdentityProvider \<times> World) option" where
  "SubmitSteamGuardCode cx session code idp w =
     (case session of
        None \<Rightarrow> Some (Fail (ErrNew ''auth session is nil''), idp, w)
      | Some s \<Rightarrow>
        (case pickCodeType (as_AllowedConfirmations s) of
           None \<Rightarrow> Some (Fail (ErrNew
             ''no allowed confirmation accepts a code; use WaitForConfirmation for push or email-link approval''), idp, w)
         | Some codeType \<Rightarrow>
           (case fresh_identity idp w of
              Some i \<Rightarrow> Some (Return i, idp, w)
            | None \<Rightarrow>
              (case idp_api idp of
                 None \<Rightarrow> Some (Panic ErrNilDeref, idp, w)
               | Some api \<Rightarrow>
                 (case UpdateAuthSessionWithSteamGuardCode (ia_auth api)
                     \<lparr>up_ClientID = as_ClientID s, up_SteamID = as_SteamID s, up_Code = code, up_CodeType = codeType\<rparr> w of
                    (Inl err, w1) \<Rightarrow> Some (Fail (ErrWrap ''failed to update with Steam Guard code'' err), idp, w1)
                  | (Inr _, w1) \<Rightarrow> finish_login cx (ia_auth api) s idp w1)))))"

definition WaitForConfirmation :: "goctx \<Rightarrow> AuthSession option \<Rightarrow> CredentialsIdentityProvider \<Rightarrow> World \<Rightarrow>
    (Identity outcome \<times> CredentialsIdentityProvider \<times> World) option" where
  "WaitForConfirmation cx session idp w =
     (case session of
        None \<Rightarrow> Some (Fail (ErrNew ''auth session is nil''), idp, w)
      | Some s \<Rightarrow>
        if pickConfirmationType (as_AllowedConfirmations s) = None then
          Some (Fail (ErrNew
            ''no allowed external confirmation; use SubmitSteamGuardCode for a Steam Guard code''), idp, w)
        else
          (case fresh_identity idp w of
             Some i \<Rightarrow> Some (Return i, idp, w)
           | None \<Rightarrow>
             (case idp_api idp of
                None \<Rightarrow> Some (Panic ErrNilDeref, idp, w)
              | Some api \<Rightarrow> finish_login cx (ia_auth api) s idp w)))"

definition Identity_login :: "entropy \<Rightarrow> goctx \<Rightarrow> CredentialsIdentityProvider \<Rightarrow> World \<Rightarrow>
    (Identity outcome \<times> CredentialsIdentityProvider \<times> World) option" where
  "Identity_login ps cx idp w =
     (case fresh_identity idp w of
        Some i \<Rightarrow> Some (Return i, idp, w)
      | None \<Rightarrow>
        (case beginSessionLocked ps idp w of
           (Fail e, w1) \<Rightarrow> Some (Fail e, idp, w1)
         | (Panic e, w1) \<Rightarrow> Some (Panic e, idp, w1)
         | (Parked, w1) \<Rightarrow> Some (Parked, idp, w1)
         | (Return s, w1) \<Rightarrow>
           if cr_SharedSecret (idp_credentials idp) = [] then
             Some (Fail (ErrNew
               ''shared secret is empty; call BeginAuthSession and SubmitSteamGuardCode to provide a Steam Guard code''), idp, w1)
           else
             (case idp_api idp of
                None \<Rightarrow> Some (Panic ErrNilDeref, idp, w1)
              | Some api \<Rightarrow>
                (case QueryTime (ia_tfa api) w1 of
                   (Inl err, w2) \<Rightarrow> Some (Fail (ErrWrap ''failed to get Steam server time'' err), idp, w2)
                 | (Inr t, w2) \<Rightarrow>
                   (case CreateAuthenticationCode (cr_SharedSecret (idp_credentials idp)) (qt_ServerTime t) of
                      Inl err \<Rightarrow> Some (Fail (ErrWrap ''failed to generate TFA code'' err), idp, w2)
                    | Inr tfa \<Rightarrow>
                      (case UpdateAuthSessionWithSteamGuardCode (ia_auth api)
                          \<lparr>up_ClientID = as_ClientID s, up_SteamID = as_SteamID s, up_Code = tfa,
                           up_CodeType = GuardType_DeviceCode\<rparr> w2 of
                         (Inl err, w3) \<Rightarrow> Some (Fail (ErrWrap ''failed to update with 2FA'' err), idp, w3)
                       | (Inr _, w3) \<Rightarrow> finish_login cx (ia_auth api) s idp w3))))))"

section \<open>Lemmas\<close>

text \<open>The first type of the priority list that is allowed.\<close>

lemma pick_eq:
  "pick [] cs = None"
  "pick (p # ps) cs = (if p \<in> ac_ConfirmationType ` set cs then Some p else pick ps cs)"
  by (simp_all add: pick_def)

text \<open>The world after \<open>n\<close> polls that brought no token, with the waits between them.\<close>

primrec polled :: "nat \<Rightarrow> goctx \<Rightarrow> World IAuthenticationService \<Rightarrow> AuthSession \<Rightarrow> World \<Rightarrow> World" where
  "polled 0 cx a s w = w"
| "polled (Suc n) cx a s w = polled n cx a s (snd (wait cx (as_Interval s) (snd (PollAuthSessionStatus a (poll_params s) w))))"

text \<open>A poll without a result, during which the context is not done.\<close>

definition pending :: "goctx \<Rightarrow> World IAuthenticationService \<Rightarrow> AuthSession \<Rightarrow> World \<Rightarrow> bool" where
  "pending cx a s w \<longleftrightarrow> \<not> ctx_done cx (wd_now w) \<and>
     (\<exists>r. fst (PollAuthSessionStatus a (poll_params s) w) = Inr r \<and> pr_RefreshToken r = []) \<and>
     \<not> fst (wait cx (as_Interval s) (snd (PollAuthSessionStatus a (poll_params s) w)))"

lemma poll_pending:
  "pending cx a s w \<Longrightarrow> poll cx a s w = poll cx a s (polled 1 cx a s w)"
  by (subst poll.simps) (auto simp: pending_def case_prod_beta)

lemma poll_polled:
  "(\<And>i. i < n \<Longrightarrow> pending cx a s (polled i cx a s w)) \<Longrightarrow>
   poll cx a s w = poll cx a s (polled n cx a s w)"
proof (induction n arbitrary: w)
  case (Suc n)
  have "pending cx a s w" using Suc.prems [of 0] by simp
  moreover have "pending cx a s (polled i cx a s (polled 1 cx a s w))" if "i < n" for i
    using Suc.prems [of "Suc i"] that by simp
  ultimately show ?case
    using Suc.IH [of "polled 1 cx a s w"] poll_pending [of cx a s w] by simp
qed simp

lemma poll_token:
  assumes "\<not> ctx_done cx (wd_now w)" "PollAuthSessionStatus a (poll_params s) w = (Inr r, w1)" "pr_RefreshToken r \<noteq> []"
  shows "poll cx a s w = Some (Return r, w1)"
  using assms by (subst poll.simps) simp

text \<open>Requests take their time from the world and change nothing else of it.\<close>

lemma Call_world:
  assumes "Call t verb service method version params decode w = (x, w')"
    and "ht_HttpClient t = world_client parse"
  shows "w' = w \<or> (\<exists>req. w' = w\<lparr>wd_log := wd_log w @ [req], wd_now := wd_now w + wd_cost w (length (wd_log w))\<rparr>)"
  using assms
  by (auto simp: Call_def world_client_def Let_def split: option.splits sum.splits prod.splits if_splits)

lemma wait_time:
  assumes "wait cx d w = (b, w')"
  shows "wd_cost w' = wd_cost w" "wd_now w \<le> wd_now w'" "\<not> b \<Longrightarrow> wd_now w' = wd_now w + max 0 d"
  using assms by (auto simp: wait_def Let_def split: option.splits if_splits)

lemma Call_world_cost:
  assumes "Call t verb service method version params decode w = (x, w')"
    and "ht_HttpClient t = world_client parse" and "\<forall>n. 0 \<le> wd_cost w n"
  shows "wd_cost w' = wd_cost w" "wd_now w \<le> wd_now w'"
  using Call_world [OF assms(1,2)] assms(3) by auto

text \<open>A call with a result has made its request, and so took the time of it.\<close>

lemma Call_world_Inr:
  assumes "Call t verb service method version params decode w = (Inr r, w')"
    and "ht_HttpClient t = world_client parse"
  shows "wd_now w' = wd_now w + wd_cost w (length (wd_log w))"
  using assms
  by (auto simp: Call_def world_client_def Let_def split: option.splits sum.splits prod.splits if_splits)

text \<open>A round of the loop takes time: the interval is positive, or every request takes some.\<close>

definition takes_time :: "AuthSession \<Rightarrow> World \<Rightarrow> bool" where
  "takes_time s w \<longleftrightarrow> 0 < as_Interval s \<or> (\<forall>n. 0 < wd_cost w n)"

text \<open>A context that ends ends the loop.\<close>

lemma poll_returns:
  assumes "ctx_done_at cx = Some t" "ht_HttpClient (auth_transport a) = world_client parse"
  shows "\<forall>n. 0 \<le> wd_cost w n \<Longrightarrow> takes_time s w \<Longrightarrow> \<exists>y. poll cx a s w = Some y"
proof (induction "nat (t - wd_now w)" arbitrary: w rule: less_induct)
  case less
  obtain x w1 where p: "PollAuthSessionStatus a (poll_params s) w = (x, w1)" by force
  note w1 = Call_world_cost [OF p [unfolded PollAuthSessionStatus_def] assms(2) less.prems(1)]
  show ?case
  proof (cases "\<not> ctx_done cx (wd_now w) \<and> (\<exists>r. x = Inr r \<and> pr_RefreshToken r = []) \<and> \<not> fst (wait cx (as_Interval s) w1)")
    case False
    then show ?thesis
      by (subst poll.simps) (auto simp: p case_prod_beta split: sum.splits)
  next
    case True
    then obtain r where "PollAuthSessionStatus a (poll_params s) w = (Inr r, w1)" using p by auto
    then have t: "wd_now w1 = wd_now w + wd_cost w (length (wd_log w))"
      using assms(2) unfolding PollAuthSessionStatus_def by (rule Call_world_Inr)
    obtain w2 where w2: "wait cx (as_Interval s) w1 = (False, w2)"
      using True by (cases "wait cx (as_Interval s) w1") auto
    have "poll cx a s w = poll cx a s w2"
      using True w2 by (subst poll.simps) (auto simp: p)
    moreover have "nat (t - wd_now w2) < nat (t - wd_now w)"
    proof -
      have "0 \<le> wd_cost w (length (wd_log w))" "0 < as_Interval s \<or> 0 < wd_cost w (length (wd_log w))"
        using less.prems by (auto simp: takes_time_def)
      then have "wd_now w < wd_now w2"
        using t wait_time(3) [OF w2] by auto
      then show ?thesis using True assms(1) by (simp add: ctx_done_def)
    qed
    moreover have "\<forall>n. 0 \<le> wd_cost w2 n" "takes_time s w2"
      using less.prems w1(1) wait_time(1) [OF w2] by (simp_all add: takes_time_def)
    ultimately show ?thesis using less.hyps by metis
  qed
qed

lemma finish_login_returns:
  assumes "ctx_done_at cx = Some t" "ht_HttpClient (auth_transport a) = world_client parse"
    "\<forall>n. 0 \<le> wd_cost w n" "takes_time s w"
  shows "\<exists>y. finish_login cx a s idp w = Some y"
  using poll_returns [OF assms] by (auto simp: finish_login_def Let_def split: outcome.splits)

text \<open>The requests of a login leave the costs of requests alone.\<close>

lemma Call_cost:
  assumes "Call t verb service method version params decode w = (x, w')" "ht_HttpClient t = world_client parse"
  shows "wd_cost w' = wd_cost w"
  using Call_world [OF assms] by auto

lemma beginSession_cost:
  assumes "beginSessionLocked ps idp w = (x, w')" "idp_api idp = Some api"
    "ht_HttpClient (auth_transport (ia_auth api)) = world_client parse"
  shows "wd_cost w' = wd_cost w"
proof -
  obtain k w1 where k: "GetPasswordRSAPublicKey (ia_auth api) \<lparr>gp_AccountName = cr_AccountName (idp_credentials idp)\<rparr> w = (k, w1)"
    by force
  then have "snd (encryptPassword ps api (cr_AccountName (idp_credentials idp)) (cr_Password (idp_credentials idp)) w) = w1"
    by (simp add: encryptPassword_def split: sum.splits option.splits)
  then obtain e where e: "encryptPassword ps api (cr_AccountName (idp_credentials idp)) (cr_Password (idp_credentials idp)) w = (e, w1)"
    by (metis prod.collapse)
  have "wd_cost w1 = wd_cost w"
    using k assms(3) unfolding GetPasswordRSAPublicKey_def by (rule Call_cost)
  moreover have "wd_cost w2 = wd_cost w1" if "beginAuthSessionViaCredentials api n p ts w1 = (y, w2)" for n p ts y w2
    using that assms(3) unfolding beginAuthSessionViaCredentials_def BeginAuthSessionViaCredentials_def by (rule Call_cost)
  ultimately show ?thesis
    using assms(1,2) e by (auto simp: beginSessionLocked_def split: sum.splits prod.splits)
qed

lemma Identity_login_returns:
  assumes "idp_api idp = Some api" "\<forall>n. 0 \<le> wd_cost w n"
    "ht_HttpClient (auth_transport (ia_auth api)) = world_client parse"
    "ht_HttpClient (tfa_transport (ia_tfa api)) = world_client parse" "ctx_done_at cx = Some t"
    "\<And>s w1. beginSessionLocked ps idp w = (Return s, w1) \<Longrightarrow> takes_time s w"
  shows "\<exists>y. Identity_login ps cx idp w = Some y"
proof -
  obtain b w1 where b: "beginSessionLocked ps idp w = (b, w1)" by force
  note c1 = beginSession_cost [OF b assms(1,3)]
  obtain q w2 where q: "QueryTime (ia_tfa api) w1 = (q, w2)" by force
  have c2: "wd_cost w2 = wd_cost w" using Call_cost [OF q [unfolded QueryTime_def] assms(4)] c1 by simp
  have f: "\<exists>y. finish_login cx (ia_auth api) s idp w3 = Some y"
    if "UpdateAuthSessionWithSteamGuardCode (ia_auth api) p w2 = (u, w3)" "b = Return s" for p u w3 s
  proof -
    have "wd_cost w3 = wd_cost w"
      using Call_cost [OF that(1) [unfolded UpdateAuthSessionWithSteamGuardCode_def] assms(3)] c2 by simp
    moreover have "takes_time s w" using assms(6) b that(2) by simp
    ultimately show ?thesis
      using finish_login_returns [OF assms(5,3)] assms(2) by (simp add: takes_time_def)
  qed
  show ?thesis
    using f assms(1) b q
    by (cases b) (auto simp: Identity_login_def split: option.splits sum.splits prod.splits)
qed

section \<open>Properties\<close>

text \<open>A server for the concrete examples: it accepts the code, has no token at the first poll
  and hands out one at every later poll; each request takes a millisecond.\<close>

definition sample_reply :: "nat \<Rightarrow> HttpRequest \<Rightarrow> HttpResponse result" where
  "sample_reply n req = Inr \<lparr>rs_status = 200, rs_eresult = ''1'',
     rs_body = Inr (JObj (if n < 2 then [] else [(''response'', JObj [(''refresh_token'', JStr ''R''), (''access_token'', JStr ''A'')])]))\<rparr>"

definition sample_world :: World where
  "sample_world = \<lparr>wd_now = 0, wd_log = [], wd_reply = sample_reply, wd_cost = (\<lambda>_. 1000000), wd_pick = (\<lambda>_. False)\<rparr>"

definition sample_services :: identity_API where
  "sample_services = services_of (NewHTTPTransport (world_client (\<lambda>_ _. None)) [])"

definition sample_session :: AuthSession where
  "sample_session = \<lparr>as_ClientID = 7, as_RequestID = ''q'', as_SteamID = 76561198065346589,
     as_Interval = 5 * Second, as_AllowedConfirmations = [\<lparr>ac_ConfirmationType = 3, ac_AssociatedMessage = []\<rparr>]\<rparr>"

definition sample_idp :: CredentialsIdentityProvider where
  "sample_idp = \<lparr>idp_api = Some sample_services,
     idp_credentials = \<lparr>cr_AccountName = ''u'', cr_Password = ''p'', cr_SharedSecret = []\<rparr>, idp_identity = None\<rparr>"

definition served :: "nat \<Rightarrow> World \<Rightarrow> bool" where
  "served n w \<longleftrightarrow> length (wd_log w) = n \<and> wd_reply w = sample_reply \<and> wd_cost w = (\<lambda>_. 1000000)"

lemma sample_call:
  assumes "served n w"
  shows "\<exists>w'. served (Suc n) w' \<and>
    Call (auth_transport (ia_auth sample_services)) verb service method version (Some (Inr vs)) decode w =
      (case decode (JObj (if n < 2 then [] else [(''response'', JObj [(''refresh_token'', JStr ''R''), (''access_token'', JStr ''A'')])])) of
         Inl err \<Rightarrow> (Inl (ErrWrap ''failed to decode response'' err), w') | Inr r \<Rightarrow> (Inr r, w'))"
  using assms
  by (intro exI [of _ "w\<lparr>wd_log := wd_log w @ [http_request (auth_transport (ia_auth sample_services)) verb service method version (values_Add ''format'' ''json'' vs)],
        wd_now := wd_now w + 1000000\<rparr>"])
    (simp add: Call_def sample_services_def services_of_def NewHTTPTransport_def world_client_def
      sample_reply_def served_def Let_def split: sum.splits)

lemma sample_update:
  obtains w1 where "UpdateAuthSessionWithSteamGuardCode (ia_auth sample_services) ps sample_world = (Inr (), w1)" "served 1 w1"
proof -
  have "served 0 sample_world" by (simp add: served_def sample_world_def)
  from sample_call [OF this, of "''POST''" "''IAuthenticationService''" "''UpdateAuthSessionWithSteamGuardCode''" 1
      _ "decode_response dec_empty ()"]
  show ?thesis
    using that unfolding UpdateAuthSessionWithSteamGuardCode_def
    by (auto simp: decode_response_def dec_struct_def dec_empty_def)
qed

lemma sample_poll:
  assumes "served n w"
  shows "\<exists>w'. served (Suc n) w' \<and> PollAuthSessionStatus (ia_auth sample_services) ps w =
    (Inr (if n < 2 then zero_poll else zero_poll\<lparr>pr_RefreshToken := ''R'', pr_AccessToken := ''A''\<rparr>), w')"
proof -
  have "decode_response dec_poll zero_poll
      (JObj (if n < 2 then [] else [(''response'', JObj [(''refresh_token'', JStr ''R''), (''access_token'', JStr ''A'')])])) =
    Inr (if n < 2 then zero_poll else zero_poll\<lparr>pr_RefreshToken := ''R'', pr_AccessToken := ''A''\<rparr>)"
    by (simp add: decode_response_def dec_struct_def dec_poll_def find_field_def dec_str_def dec_kept_def dec_with_def p_str_def)
  then show ?thesis
    unfolding PollAuthSessionStatus_def
    using sample_call [OF assms, of "''POST''" "''IAuthenticationService''" "''PollAuthSessionStatus''" 1
      _ "decode_response dec_poll zero_poll"] by fastforce
qed

text \<open>Property C13: login with a code. When the session allows a code, no kept identity is
  still valid, the code is accepted, and the polls bring first \<open>n\<close> answers without a token
  and then one with a token before the context ends, \<^verbatim>\<open>SubmitSteamGuardCode\<close> returns, after
  exactly those polls, an identity of the session's account with the tokens of that answer,
  valid for an hour; and the provider keeps it, so that until it expires all three ways to
  an identity return it without a request.\<close>

theorem submit_code_logs_in:
  fixes s w1 n cx api
  defines "wn \<equiv> polled n cx (ia_auth api) s w1"
  assumes "pickCodeType (as_AllowedConfirmations s) = Some ct" and "fresh_identity idp w = None"
    and "idp_api idp = Some api"
    and "UpdateAuthSessionWithSteamGuardCode (ia_auth api)
      \<lparr>up_ClientID = as_ClientID s, up_SteamID = as_SteamID s, up_Code = code, up_CodeType = ct\<rparr> w = (Inr (), w1)"
    and "\<forall>i < n. pending cx (ia_auth api) s (polled i cx (ia_auth api) s w1)"
    and "\<not> ctx_done cx (wd_now wn)"
    and "PollAuthSessionStatus (ia_auth api) (poll_params s) wn = (Inr r, w')" and "pr_RefreshToken r \<noteq> []"
  shows "\<exists>i idp'. SubmitSteamGuardCode cx (Some s) code idp w = Some (Return i, idp', w') \<and>
    i = \<lparr>id_steamID = as_SteamID s, id_accessToken = pr_AccessToken r, id_refreshToken = pr_RefreshToken r,
         id_createdAt = wd_now w', id_expiresAt = wd_now w' + Hour\<rparr> \<and>
    (\<forall>u. wd_now u < wd_now w' + Hour \<longrightarrow>
       SubmitSteamGuardCode cx (Some s) code idp' u = Some (Return i, idp', u) \<and>
       Identity_login ps cx idp' u = Some (Return i, idp', u) \<and>
       (pickConfirmationType (as_AllowedConfirmations s) \<noteq> None \<longrightarrow>
          WaitForConfirmation cx (Some s) idp' u = Some (Return i, idp', u)))"
proof -
  define i where "i = \<lparr>id_steamID = as_SteamID s, id_accessToken = pr_AccessToken r,
    id_refreshToken = pr_RefreshToken r, id_createdAt = wd_now w', id_expiresAt = wd_now w' + Hour\<rparr>"
  have "poll cx (ia_auth api) s w1 = Some (Return r, w')"
    using poll_polled [of n cx "ia_auth api" s w1] poll_token [of cx wn "ia_auth api" s r w'] assms
    by simp
  then have "SubmitSteamGuardCode cx (Some s) code idp w = Some (Return i, idp\<lparr>idp_identity := Some i\<rparr>, w')"
    using assms by (simp add: SubmitSteamGuardCode_def finish_login_def i_def Let_def)
  moreover have "fresh_identity (idp\<lparr>idp_identity := Some i\<rparr>) u = Some i" if "wd_now u < wd_now w' + Hour" for u
    using that by (simp add: fresh_identity_def i_def)
  ultimately show ?thesis
    using assms(2)
    by (intro exI [of _ i] exI [of _ "idp\<lparr>idp_identity := Some i\<rparr>"])
      (simp add: SubmitSteamGuardCode_def Identity_login_def WaitForConfirmation_def i_def [symmetric])
qed

theorem submit_code_logs_in_witness:
  "\<exists>i idp' w'. SubmitSteamGuardCode Background (Some sample_session) ''ABCDE'' sample_idp sample_world =
     Some (Return i, idp', w') \<and> id_refreshToken i = ''R'' \<and> length (wd_log w') = 3"
proof -
  obtain w1 where u: "UpdateAuthSessionWithSteamGuardCode (ia_auth sample_services)
      \<lparr>up_ClientID = as_ClientID sample_session, up_SteamID = as_SteamID sample_session, up_Code = ''ABCDE'', up_CodeType = 3\<rparr>
      sample_world = (Inr (), w1)"
    and w1: "served 1 w1"
    by (rule sample_update)
  obtain w2 where p2: "PollAuthSessionStatus (ia_auth sample_services) (poll_params sample_session) w1 = (Inr zero_poll, w2)"
    and w2: "served 2 w2"
    using sample_poll [OF w1] by (auto simp: numeral_2_eq_2)
  define w3 where "w3 = w2\<lparr>wd_now := wd_now w2 + 5 * Second\<rparr>"
  have wt: "wait Background (as_Interval sample_session) w2 = (False, w3)"
    by (simp add: wait_def Background_def sample_session_def w3_def Second_def)
  obtain w4 where p4: "PollAuthSessionStatus (ia_auth sample_services) (poll_params sample_session) w3 =
      (Inr (zero_poll\<lparr>pr_RefreshToken := ''R'', pr_AccessToken := ''A''\<rparr>), w4)" and w4: "served 3 w4"
    using sample_poll [of 2 w3] w2 by (auto simp: served_def w3_def numeral_3_eq_3 numeral_2_eq_2)
  have d: "\<not> ctx_done Background t" for t by (simp add: ctx_done_def Background_def)
  have 3: "polled 1 Background (ia_auth sample_services) sample_session w1 = w3"
    by (simp add: p2 wt)
  have "pending Background (ia_auth sample_services) sample_session w1"
    by (simp add: pending_def d p2 wt) (simp add: zero_poll_def)
  then have pd: "\<forall>i < 1. pending Background (ia_auth sample_services) sample_session
      (polled i Background (ia_auth sample_services) sample_session w1)" by simp
  have f: "pickCodeType (as_AllowedConfirmations sample_session) = Some 3"
      "fresh_identity sample_idp sample_world = None" "idp_api sample_idp = Some sample_services"
    by (simp_all add: pickCodeType_def pick_eq guard_type_defs sample_session_def sample_idp_def fresh_identity_def)
  show ?thesis
    using submit_code_logs_in [OF f u pd d p4 [folded 3], of "Inl EOF"] w4 by (auto simp: served_def)
qed

text \<open>A context that ends after an hour.\<close>

definition hour_context :: goctx where
  "hour_context = \<lparr>ctx_deadline = Some Hour, ctx_done_at = Some Hour, ctx_err = ErrNew ''context deadline exceeded''\<rparr>"

text \<open>Property C15: no login waits for ever when its context ends at some time, the clock does not
  run backwards, and a round of polling takes time. For the flow with a code and the flow with
  an external confirmation, that is when the session's interval is positive or every request
  takes some time; for the single-shot login, when every request takes some time or the
  interval the server gives its session is positive. Then each of the three returns, whatever
  the server answers.\<close>

theorem login_returns:
  assumes "ctx_done_at cx = Some t" and "idp_api idp = Some (services_of tr)"
    and "ht_HttpClient tr = world_client parse" and "\<forall>n. 0 \<le> wd_cost w n"
  shows "((0 < as_Interval s \<or> (\<forall>n. 0 < wd_cost w n)) \<longrightarrow>
      (\<exists>y. SubmitSteamGuardCode cx (Some s) code idp w = Some y) \<and>
      (\<exists>y. WaitForConfirmation cx (Some s) idp w = Some y)) \<and>
    ((\<forall>n. 0 < wd_cost w n) \<or> (\<forall>s' w'. beginSessionLocked ps idp w = (Return s', w') \<longrightarrow> 0 < as_Interval s') \<longrightarrow>
      (\<exists>y. Identity_login ps cx idp w = Some y))"
proof (intro conjI impI)
  have a: "ht_HttpClient (auth_transport (ia_auth (services_of tr))) = world_client parse"
      "ht_HttpClient (tfa_transport (ia_tfa (services_of tr))) = world_client parse"
    using assms(3) by (simp_all add: services_of_def)
  note F = finish_login_returns [OF assms(1) a(1)]
  {
    assume "0 < as_Interval s \<or> (\<forall>n. 0 < wd_cost w n)"
    then have t: "takes_time s w" by (simp add: takes_time_def)
    show "\<exists>y. SubmitSteamGuardCode cx (Some s) code idp w = Some y"
    proof (cases "pickCodeType (as_AllowedConfirmations s) = None \<or> fresh_identity idp w \<noteq> None")
      case False
      then obtain ct where ct: "pickCodeType (as_AllowedConfirmations s) = Some ct" by auto
      obtain x w1 where u: "UpdateAuthSessionWithSteamGuardCode (ia_auth (services_of tr))
          \<lparr>up_ClientID = as_ClientID s, up_SteamID = as_SteamID s, up_Code = code, up_CodeType = ct\<rparr> w = (x, w1)"
        by force
      have "wd_cost w1 = wd_cost w"
        using u a(1) unfolding UpdateAuthSessionWithSteamGuardCode_def by (rule Call_cost)
      then show ?thesis
        using False ct u F [of w1 s idp] t assms(2,4)
        by (auto simp: SubmitSteamGuardCode_def takes_time_def split: sum.splits)
    qed (auto simp: SubmitSteamGuardCode_def split: option.splits)
    show "\<exists>y. WaitForConfirmation cx (Some s) idp w = Some y"
      using F [OF assms(4) t] assms(2) by (auto simp: WaitForConfirmation_def split: option.splits)
  }
  assume "(\<forall>n. 0 < wd_cost w n) \<or> (\<forall>s' w'. beginSessionLocked ps idp w = (Return s', w') \<longrightarrow> 0 < as_Interval s')"
  then show "\<exists>y. Identity_login ps cx idp w = Some y"
    by (intro Identity_login_returns [OF assms(2,4) a assms(1)]) (auto simp: takes_time_def)
qed

theorem login_returns_witness:
  "(\<exists>y. WaitForConfirmation hour_context (Some (sample_session\<lparr>as_Interval := 0\<rparr>)) sample_idp sample_world = Some y) \<and>
   (\<exists>y. Identity_login (Inr (\<lambda>_. 1)) hour_context sample_idp sample_world = Some y)"
  using login_returns [of hour_context Hour sample_idp "NewHTTPTransport (world_client (\<lambda>_ _. None)) []" "\<lambda>_ _. None"
      sample_world "sample_session\<lparr>as_Interval := 0\<rparr>" _ "Inr (\<lambda>_. 1)"]
  by (simp add: hour_context_def sample_idp_def sample_services_def NewHTTPTransport_def sample_world_def)

text \<open>Property C27: which confirmation is used. A code goes to the authenticator app if that
  is allowed, else to email, else to a machine token; an external confirmation goes to the
  app, else to email; no other type is ever chosen, and a session of other types only is
  refused by both flows before any request.\<close>

theorem confirmation_choice:
  fixes cs defines "T \<equiv> ac_ConfirmationType ` set cs"
  shows "pickCodeType cs =
      (if GuardType_DeviceCode \<in> T then Some GuardType_DeviceCode
       else if GuardType_EmailCode \<in> T then Some GuardType_EmailCode
       else if GuardType_MachineToken \<in> T then Some GuardType_MachineToken else None) \<and>
    pickConfirmationType cs =
      (if GuardType_DeviceConfirmation \<in> T then Some GuardType_DeviceConfirmation
       else if GuardType_EmailConfirmation \<in> T then Some GuardType_EmailConfirmation else None) \<and>
    (T \<subseteq> {GuardType_Unknown, GuardType_None, GuardType_LegacyMachineAuth} \<and> as_AllowedConfirmations s = cs \<longrightarrow>
       (\<exists>e. SubmitSteamGuardCode cx (Some s) code idp w = Some (Fail e, idp, w)) \<and>
       (\<exists>e. WaitForConfirmation cx (Some s) idp w = Some (Fail e, idp, w)))"
proof -
  have 1: "pickCodeType cs =
      (if GuardType_DeviceCode \<in> T then Some GuardType_DeviceCode
       else if GuardType_EmailCode \<in> T then Some GuardType_EmailCode
       else if GuardType_MachineToken \<in> T then Some GuardType_MachineToken else None)"
    and 2: "pickConfirmationType cs =
      (if GuardType_DeviceConfirmation \<in> T then Some GuardType_DeviceConfirmation
       else if GuardType_EmailConfirmation \<in> T then Some GuardType_EmailConfirmation else None)"
    by (simp_all add: pickCodeType_def pickConfirmationType_def pick_eq T_def)
  have "pickCodeType cs = None \<and> pickConfirmationType cs = None"
    if "T \<subseteq> {GuardType_Unknown, GuardType_None, GuardType_LegacyMachineAuth}"
    using that by (auto simp: 1 2 guard_type_defs)
  then show ?thesis
    using 1 2 by (auto simp: SubmitSteamGuardCode_def WaitForConfirmation_def)
qed

theorem confirmation_choice_witness:
  "\<exists>e. SubmitSteamGuardCode Background (Some (sample_session\<lparr>as_AllowedConfirmations := []\<rparr>)) ''ABCDE'' sample_idp sample_world =
     Some (Fail e, sample_idp, sample_world)"
  using confirmation_choice [of "[]" "sample_session\<lparr>as_AllowedConfirmations := []\<rparr>" Background "''ABCDE''" sample_idp sample_world]
  by simp

end
