(* ===== verification/Connection.thy ===== *)
theory Connection
  imports Crypto
begin

text \<open>
  Package \<^verbatim>\<open>connection\<close>: the connection states (\<^verbatim>\<open>state.go\<close>) and the TCP connection with
  Steam's framing (\<^verbatim>\<open>tcp.go\<close>): four bytes of length, four bytes of magic, and the
  payload, encrypted once a session key is set. The network underneath is the record
  \<open>netconn\<close>: the bytes that will arrive and what reading reports after them, the bytes
  written, and the failures the network will report. Another goroutine may call
  \<^verbatim>\<open>Close\<close> while a call is under way: \<open>t_close_at i\<close> says that it runs just before the
  \<open>i\<close>-th network call.
\<close>

section \<open>States\<close>

type_synonym State = uint8

definition StateDisconnecting :: State where "StateDisconnecting = 0"
definition StateConnectedUnencrypted :: State where "StateConnectedUnencrypted = 1"
definition StateConnectedEncrypted :: State where "StateConnectedEncrypted = 2"

lemmas state_defs = StateDisconnecting_def StateConnectedUnencrypted_def StateConnectedEncrypted_def

definition State_String :: "State \<Rightarrow> string" where
  "State_String s =
     (if s = StateDisconnecting then ''Disconnecting''
      else if s = StateConnectedUnencrypted then ''ConnectedUnencrypted''
      else if s = StateConnectedEncrypted then ''ConnectedEncrypted''
      else ''Unknown'')"

section \<open>Errors and constants\<close>

definition ErrNilContext :: goerr where "ErrNilContext = ErrNew ''context cannot be nil''"
definition ErrNilDialer :: goerr where "ErrNilDialer = ErrNew ''dialer cannot be nil''"
definition ErrEmptyAddress :: goerr where "ErrEmptyAddress = ErrNew ''address cannot be empty''"
definition ErrEmptyData :: goerr where "ErrEmptyData = ErrNew ''data cannot be empty''"
definition ErrConnectionClosing :: goerr where "ErrConnectionClosing = ErrNew ''connection is disconnecting''"
definition ErrInvalidState :: goerr where "ErrInvalidState = ErrNew ''invalid connection state''"
definition ErrConnectionClosed :: goerr where "ErrConnectionClosed = ErrNew ''connection closed by remote peer''"
definition ErrPacketTooLarge :: goerr where "ErrPacketTooLarge = ErrNew ''packet too large''"
definition ErrInvalidMagic :: goerr where "ErrInvalidMagic = ErrNew ''invalid magic number''"
definition ErrIncompletePacket :: goerr where "ErrIncompletePacket = ErrNew ''incomplete packet''"

text \<open>\<^verbatim>\<open>net.ErrClosed\<close>.\<close>

definition ErrClosed :: goerr where "ErrClosed = ErrNew ''use of closed network connection''"

lemma conn_errors [simp]:
  "ErrWrap s e \<noteq> ErrConnectionClosed" "errors_Is ErrUnexpectedEOF ErrConnectionClosed = False"
  "errors_Is ErrUnexpectedEOF EOF = False"
  by (simp_all add: ErrUnexpectedEOF_def ErrConnectionClosed_def EOF_def)

definition TCPMagic :: uint32 where "TCPMagic = 0x31305456"

lemma le_bytes_nonempty: "le_bytes n w = [] \<longleftrightarrow> n = 0"
  by (metis length_0_conv length_le_bytes)

section \<open>The network\<close>

record netconn =
  nc_in :: bytes
  nc_end :: goerr
  nc_out :: bytes
  nc_wfail :: "(nat \<times> goerr) option list"
  nc_dlfail :: "goerr option"
  nc_clfail :: "goerr option list"
  nc_closed :: bool
  nc_remote :: string
  nc_local :: string

text \<open>
  \<^verbatim>\<open>Write\<close>: each entry of \<open>nc_wfail\<close> is for one call that reaches the network, \<open>None\<close> for one that
  succeeds and \<open>Some (k, e)\<close> for one that fails with \<open>e\<close> after \<open>k\<close> of its bytes.
\<close>

definition net_write :: "bytes \<Rightarrow> netconn \<Rightarrow> goerr option \<times> netconn" where
  "net_write b n =
     (if nc_closed n then (Some ErrClosed, n)
      else case nc_wfail n of
          Some (k, e) # r \<Rightarrow> (Some e, n\<lparr>nc_wfail := r, nc_out := nc_out n @ take k b\<rparr>)
        | None # r \<Rightarrow> (None, n\<lparr>nc_wfail := r, nc_out := nc_out n @ b\<rparr>)
        | [] \<Rightarrow> (None, n\<lparr>nc_out := nc_out n @ b\<rparr>))"

text \<open>
  \<^verbatim>\<open>io.ReadFull\<close> on the connection: the stream ends with \<open>nc_end\<close>, which becomes
  \<^verbatim>\<open>io.ErrUnexpectedEOF\<close> when it is \<^verbatim>\<open>io.EOF\<close> after some of the bytes. No network call is
  made for zero bytes.
\<close>

definition net_ReadFull :: "nat \<Rightarrow> netconn \<Rightarrow> bytes result \<times> netconn" where
  "net_ReadFull k n =
     (if k = 0 then (Inr [], n)
      else if nc_closed n then (Inl ErrClosed, n)
      else if k \<le> length (nc_in n) then (Inr (take k (nc_in n)), n\<lparr>nc_in := drop k (nc_in n)\<rparr>)
      else (Inl (if nc_end n = EOF \<and> nc_in n \<noteq> [] then ErrUnexpectedEOF else nc_end n), n\<lparr>nc_in := []\<rparr>))"

definition net_SetDeadline :: "netconn \<Rightarrow> goerr option \<times> netconn" where
  "net_SetDeadline n = ((if nc_closed n then Some ErrClosed else nc_dlfail n), n)"

text \<open>
  \<^verbatim>\<open>Close\<close>: the connection is closed after it, and \<open>nc_clfail\<close> says what the calls report, first
  and later ones alike (a TCP socket reports \<^verbatim>\<open>net.ErrClosed\<close> from the second on; other
  connections may report nothing).
\<close>

definition net_Close :: "netconn \<Rightarrow> goerr option \<times> netconn" where
  "net_Close n =
     (case nc_clfail n of
        [] \<Rightarrow> (None, n\<lparr>nc_closed := True\<rparr>)
      | x # r \<Rightarrow> (x, n\<lparr>nc_closed := True, nc_clfail := r\<rparr>))"

section \<open>The connection\<close>

record TCPConnection =
  t_state :: State
  t_conn :: netconn
  t_key :: bytes
  t_rand :: "nat \<Rightarrow> entropy"
  t_draws :: nat
  t_close_at :: "nat \<Rightarrow> bool"
  t_calls :: nat

type_synonym dialer = "string \<Rightarrow> string \<Rightarrow> netconn result"

definition NewTCPConnection ::
  "(nat \<Rightarrow> entropy) \<Rightarrow> (nat \<Rightarrow> bool) \<Rightarrow> goctx option \<Rightarrow> dialer option \<Rightarrow> string \<Rightarrow> TCPConnection result" where
  "NewTCPConnection rnd cl ctx dialer addr =
     (if ctx = None then Inl ErrNilContext
      else case dialer of
          None \<Rightarrow> Inl ErrNilDialer
        | Some dial \<Rightarrow>
          if addr = [] then Inl ErrEmptyAddress
          else case dial ''tcp'' addr of
              Inl err \<Rightarrow> Inl (ErrWrap (''failed to dial '' @ addr) err)
            | Inr conn \<Rightarrow>
                Inr \<lparr>t_state = StateConnectedUnencrypted, t_conn = conn, t_key = [],
                     t_rand = rnd, t_draws = 0, t_close_at = cl, t_calls = 0\<rparr>)"

definition GetState :: "TCPConnection \<Rightarrow> State" where "GetState c = t_state c"

definition SetSessionKey :: "bytes \<Rightarrow> TCPConnection \<Rightarrow> TCPConnection" where
  "SetSessionKey sessionKey c =
     (if length sessionKey = 0 then c
      else let c1 = (if t_state c = StateConnectedUnencrypted
                     then c\<lparr>t_state := StateConnectedEncrypted\<rparr> else c)
           in c1\<lparr>t_key := sessionKey\<rparr>)"

definition GetSessionKey :: "TCPConnection \<Rightarrow> bytes" where "GetSessionKey c = t_key c"

definition Close :: "TCPConnection \<Rightarrow> unit outcome \<times> TCPConnection" where
  "Close c =
     (let c1 = (if t_state c \<noteq> StateDisconnecting then c\<lparr>t_state := StateDisconnecting\<rparr> else c)
      in case net_Close (t_conn c1) of
           (Some err, n) \<Rightarrow> (Fail (ErrWrap ''failed to close connection'' err), c1\<lparr>t_conn := n\<rparr>)
         | (None, n) \<Rightarrow> (Return (), c1\<lparr>t_conn := n\<rparr>))"

definition IsConnected :: "TCPConnection \<Rightarrow> bool" where
  "IsConnected c \<longleftrightarrow>
     (let state = GetState c in state = StateConnectedUnencrypted \<or> state = StateConnectedEncrypted)"

definition IsEncrypted :: "TCPConnection \<Rightarrow> bool" where
  "IsEncrypted c \<longleftrightarrow> GetState c = StateConnectedEncrypted"

definition RemoteAddr :: "TCPConnection \<Rightarrow> string" where "RemoteAddr c = nc_remote (t_conn c)"
definition LocalAddr :: "TCPConnection \<Rightarrow> string" where "LocalAddr c = nc_local (t_conn c)"

text \<open>A network call: the other goroutine may close first.\<close>

definition netcall :: "(netconn \<Rightarrow> 'a \<times> netconn) \<Rightarrow> TCPConnection \<Rightarrow> 'a \<times> TCPConnection" where
  "netcall f c =
     (let c1 = (if t_close_at c (t_calls c) then snd (Close c) else c)\<lparr>t_calls := Suc (t_calls c)\<rparr>
      in case f (t_conn c1) of (x, n) \<Rightarrow> (x, c1\<lparr>t_conn := n\<rparr>))"

text \<open>The deadline of the context, when it has one, is put on the connection.\<close>

definition set_deadline :: "goctx \<Rightarrow> TCPConnection \<Rightarrow> goerr option \<times> TCPConnection" where
  "set_deadline cx c =
     (case ctx_deadline cx of None \<Rightarrow> (None, c) | Some d \<Rightarrow> netcall net_SetDeadline c)"

text \<open>A closed connection is a graceful end when this side is disconnecting.\<close>

definition graceful :: "goerr \<Rightarrow> TCPConnection \<Rightarrow> bool" where
  "graceful err c \<longleftrightarrow> errors_Is err ErrClosed \<and> GetState c = StateDisconnecting"

section \<open>Send\<close>

text \<open>The three writes of a packet, in order; the first failure ends them.\<close>

fun write_parts :: "(bytes \<times> string) list \<Rightarrow> TCPConnection \<Rightarrow> unit outcome \<times> TCPConnection" where
  "write_parts [] c = (Return (), c)"
| "write_parts ((b, msg) # r) c =
     (case netcall (net_write b) c of
        (None, c') \<Rightarrow> write_parts r c'
      | (Some err, c') \<Rightarrow>
          if graceful err c' then (Return (), c')
          else (Fail (ErrWrap (''failed to write '' @ msg) err), c'))"

definition Send :: "goctx option \<Rightarrow> bytes \<Rightarrow> TCPConnection \<Rightarrow> unit outcome \<times> TCPConnection" where
  "Send ctx data0 c =
     (case ctx of
        None \<Rightarrow> (Fail ErrNilContext, c)
      | Some cx \<Rightarrow>
        if length data0 = 0 then (Fail ErrEmptyData, c)
        else if GetState c = StateDisconnecting then (Fail ErrConnectionClosing, c)
        else
          let sessionKey = GetSessionKey c;
              enc = (if length sessionKey \<noteq> 0
                     then SymmetricEncryptWithHmacIv data0 sessionKey (t_rand c (t_draws c))
                     else Return data0);
              c1 = (if length sessionKey \<noteq> 0 then c\<lparr>t_draws := Suc (t_draws c)\<rparr> else c)
          in case enc of
               Fail err \<Rightarrow> (Fail (ErrWrap ''failed to encrypt data'' err), c1)
             | Panic e \<Rightarrow> (Panic e, c1)
             | Parked \<Rightarrow> (Parked, c1)
             | Return data \<Rightarrow>
               (case set_deadline cx c1 of
                  (Some err, c2) \<Rightarrow> (Fail (ErrWrap ''failed to set write deadline'' err), c2)
                | (None, c2) \<Rightarrow>
                    write_parts
                      [(le_bytes 4 (of_nat (length data) :: uint32), ''packet length''),
                       (le_bytes 4 TCPMagic, ''magic number''),
                       (data, ''data'')] c2))"

section \<open>Read\<close>

definition read_part :: "nat \<Rightarrow> string \<Rightarrow> TCPConnection \<Rightarrow> (bytes option outcome + bytes) \<times> TCPConnection" where
  "read_part k msg c =
     (case netcall (net_ReadFull k) c of
        (Inr b, c') \<Rightarrow> (Inr b, c')
      | (Inl err, c') \<Rightarrow>
          (Inl (if graceful err c' then Return None
                else if errors_Is err EOF then Fail (ErrBoth ErrConnectionClosed err)
                else Fail (ErrWrap (''failed to read '' @ msg) err)), c'))"

definition max_packet :: nat where "max_packet = 1024 * 1024"

definition too_large :: "uint32 \<Rightarrow> goerr" where
  "too_large n = ErrNote ErrPacketTooLarge
     (FormatUint (unat n) @ '' bytes (max: '' @ FormatUint max_packet @ '')'')"

fun FormatHex :: "nat \<Rightarrow> string" where
  "FormatHex n = (if n < 16 then [hex_digit n] else FormatHex (n div 16) @ [hex_digit (n mod 16)])"

declare FormatHex.simps [simp del]

definition bad_magic :: "uint32 \<Rightarrow> goerr" where
  "bad_magic m = ErrNote ErrInvalidMagic
     (''got 0x'' @ FormatHex (unat m) @ '', expected 0x31305456 (connection out of sync)'')"

definition Read :: "goctx option \<Rightarrow> TCPConnection \<Rightarrow> bytes option outcome \<times> TCPConnection" where
  "Read ctx c =
     (case ctx of
        None \<Rightarrow> (Fail ErrNilContext, c)
      | Some cx \<Rightarrow>
        if GetState c = StateDisconnecting then (Return None, c)
        else case set_deadline cx c of
            (Some err, c0) \<Rightarrow> (Fail (ErrWrap ''failed to set read deadline'' err), c0)
          | (None, c0) \<Rightarrow>
            (case read_part 4 ''packet length'' c0 of
               (Inl r, c1) \<Rightarrow> (r, c1)
             | (Inr lb, c1) \<Rightarrow>
               let packetLength = (le_word lb :: uint32) in
               if packetLength > 1024 * 1024 then (Fail (too_large packetLength), c1)
               else
                 (case read_part 4 ''magic'' c1 of
                    (Inl r, c2) \<Rightarrow> (r, c2)
                  | (Inr mb, c2) \<Rightarrow>
                    let packetMagic = (le_word mb :: uint32) in
                    if packetMagic \<noteq> TCPMagic then (Fail (bad_magic packetMagic), c2)
                    else
                      (case read_part (unat packetLength) ''packet body'' c2 of
                         (Inl r, c3) \<Rightarrow> (r, c3)
                       | (Inr bodyBytes, c3) \<Rightarrow>
                         let sessionKey = GetSessionKey c3 in
                         if length sessionKey \<noteq> 0 then
                           (case SymmetricDecrypt bodyBytes sessionKey True of
                              Return decrypted \<Rightarrow> (Return (Some decrypted), c3)
                            | Fail err \<Rightarrow> (Fail (ErrWrap ''failed to decrypt packet'' err), c3)
                            | Panic e \<Rightarrow> (Panic e, c3)
                            | Parked \<Rightarrow> (Parked, c3))
                         else (Return (Some bodyBytes), c3)))))"

section \<open>Healthy connections and frames\<close>

text \<open>A packet on the wire.\<close>

definition frame :: "bytes \<Rightarrow> bytes" where
  "frame body = le_bytes 4 (of_nat (length body) :: uint32) @ le_bytes 4 TCPMagic @ body"

text \<open>A connected, unclosed connection whose network reports no failure and that nobody
  closes meanwhile; and one whose random source works and whose key, if set, is whole.\<close>

definition healthy :: "TCPConnection \<Rightarrow> bool" where
  "healthy c \<longleftrightarrow> IsConnected c \<and> \<not> nc_closed (t_conn c) \<and> nc_wfail (t_conn c) = [] \<and>
     nc_dlfail (t_conn c) = None \<and> (\<forall>i. \<not> t_close_at c i)"

definition armed :: "TCPConnection \<Rightarrow> bool" where
  "armed c \<longleftrightarrow> (t_key c = [] \<or> length (t_key c) = 32) \<and> (\<forall>i. \<not> isl (t_rand c i))"

lemma length_frame [simp, wire_simps]: "length (frame b) = 8 + length b"
  by (simp add: frame_def)

lemma healthy_netcall:
  assumes "healthy c"
  shows "netcall f c = (let (x, n) = f (t_conn c) in (x, c\<lparr>t_calls := Suc (t_calls c), t_conn := n\<rparr>))"
  using assms by (simp add: netcall_def healthy_def split: prod.splits)

lemma healthy_open:
  "healthy c \<Longrightarrow> \<not> nc_closed (t_conn c)" "healthy c \<Longrightarrow> nc_wfail (t_conn c) = []"
  "healthy c \<Longrightarrow> nc_dlfail (t_conn c) = None" "healthy c \<Longrightarrow> t_state c \<noteq> StateDisconnecting"
  by (auto simp: healthy_def IsConnected_def GetState_def Let_def state_defs)

lemma healthy_update [simp]:
  "healthy (c\<lparr>t_calls := k, t_conn := n\<rparr>) \<longleftrightarrow>
     healthy (c\<lparr>t_conn := n\<rparr>)"
  "healthy (c\<lparr>t_draws := d\<rparr>) \<longleftrightarrow> healthy c"
  "healthy (c\<lparr>t_calls := k\<rparr>) \<longleftrightarrow> healthy c"
  "healthy c \<Longrightarrow> healthy (c\<lparr>t_conn := t_conn c\<lparr>nc_out := b\<rparr>\<rparr>)"
  "healthy c \<Longrightarrow> healthy (c\<lparr>t_conn := t_conn c\<lparr>nc_in := b\<rparr>\<rparr>)"
  by (auto simp: healthy_def IsConnected_def GetState_def)

text \<open>What a network call leaves alone, whoever closes meanwhile.\<close>

lemma Close_keeps [simp]:
  "t_key (snd (Close c)) = t_key c" "nc_in (t_conn (snd (Close c))) = nc_in (t_conn c)"
  "t_state (snd (Close c)) = StateDisconnecting" "nc_closed (t_conn (snd (Close c)))"
  "t_draws (snd (Close c)) = t_draws c" "t_rand (snd (Close c)) = t_rand c"
  "nc_out (t_conn (snd (Close c))) = nc_out (t_conn c)"
  "t_calls (snd (Close c)) = t_calls c" "t_close_at (snd (Close c)) = t_close_at c"
  by (auto simp: Close_def net_Close_def Let_def split: prod.splits option.splits list.splits)

lemma netcall_key [simp]: "netcall f c = (x, c') \<Longrightarrow> t_key c' = t_key c"
  by (auto simp: netcall_def Let_def split: prod.splits if_splits)

section \<open>Sending and reading on a healthy connection\<close>

lemma set_deadline_healthy:
  assumes "healthy c"
  obtains k where "set_deadline cx c = (None, c\<lparr>t_calls := k\<rparr>)"
proof (cases "ctx_deadline cx")
  case None
  then have "set_deadline cx c = (None, c\<lparr>t_calls := t_calls c\<rparr>)" by (simp add: set_deadline_def)
  then show ?thesis by (rule that)
next
  case (Some d)
  then have "set_deadline cx c = (None, c\<lparr>t_calls := Suc (t_calls c)\<rparr>)"
    using assms healthy_open [OF assms]
    by (simp add: set_deadline_def healthy_netcall net_SetDeadline_def Let_def)
  then show ?thesis by (rule that)
qed

lemma write_parts_healthy:
  "healthy c \<Longrightarrow> write_parts ps c =
     (Return (), c\<lparr>t_calls := t_calls c + length ps,
       t_conn := t_conn c\<lparr>nc_out := nc_out (t_conn c) @ concat (map fst ps)\<rparr>\<rparr>)"
proof (induction ps arbitrary: c)
  case (Cons p ps)
  obtain b msg where p: "p = (b, msg)" by force
  show ?case
    using Cons healthy_open [OF Cons.prems]
    by (simp add: p healthy_netcall net_write_def Let_def)
qed simp

text \<open>What a payload becomes before it is framed.\<close>

definition payload :: "bytes \<Rightarrow> bytes \<Rightarrow> entropy \<Rightarrow> bytes outcome" where
  "payload key data rnd =
     (if length key \<noteq> 0 then SymmetricEncryptWithHmacIv data key rnd else Return data)"

lemma armed_payload:
  assumes "armed c" "data \<noteq> []"
  obtains body where "payload (t_key c) data (t_rand c i) = Return body"
    and "length body \<le> length data + 32" and "body \<noteq> []"
    and "t_key c \<noteq> [] \<longrightarrow> SymmetricDecrypt body (t_key c) True = Return data"
    and "t_key c = [] \<longrightarrow> body = data"
proof (cases "t_key c = []")
  case True
  then show ?thesis using assms that [of data] by (simp add: payload_def)
next
  case False
  then have k: "length (t_key c) = 32" using assms by (simp add: armed_def)
  obtain f where f: "t_rand c i = Inr f" using assms by (cases "t_rand c i") (auto simp: armed_def dest: spec [of _ i])
  define body where "body = sealed (t_key c) (hmac_iv (t_key c) [f 0, f 1, f 2] data) data"
  have 1: "payload (t_key c) data (t_rand c i) = Return body"
    using False k f assms by (simp add: payload_def hmac_encrypt_eq body_def)
  have l: "length body = 16 * (length data div 16 + 2)"
    by (simp only: body_def, intro length_sealed k hmac_iv_parts) simp
  have 2: "length body \<le> length data + 32" unfolding l by simp
  have 3: "body \<noteq> []" using l by auto
  have 4: "SymmetricDecrypt body (t_key c) True = Return data"
    using k by (simp add: body_def SymmetricDecrypt_sealed hmac_iv_parts)
  show ?thesis using 1 2 3 4 False by (intro that) auto
qed

lemma Send_healthy:
  assumes "healthy c" "data \<noteq> []" "payload (t_key c) data (t_rand c (t_draws c)) = Return body"
  obtains k d where "Send (Some cx) data c =
    (Return (), c\<lparr>t_draws := d, t_calls := k,
       t_conn := t_conn c\<lparr>nc_out := nc_out (t_conn c) @ frame body\<rparr>\<rparr>)"
proof -
  define d where "d = (if length (t_key c) \<noteq> 0 then Suc (t_draws c) else t_draws c)"
  have h: "healthy (c\<lparr>t_draws := d\<rparr>)" using assms by simp
  obtain k where k: "set_deadline cx (c\<lparr>t_draws := d\<rparr>) = (None, c\<lparr>t_draws := d, t_calls := k\<rparr>)"
    by (rule set_deadline_healthy [OF h, of cx]) auto
  have d': "(if length (t_key c) \<noteq> 0 then c\<lparr>t_draws := Suc (t_draws c)\<rparr> else c) = c\<lparr>t_draws := d\<rparr>"
    by (simp add: d_def)
  have "Send (Some cx) data c =
    (Return (), c\<lparr>t_draws := d, t_calls := k + 3,
       t_conn := t_conn c\<lparr>nc_out := nc_out (t_conn c) @ frame body\<rparr>\<rparr>)"
    using assms healthy_open(4) [OF assms(1)] h
    unfolding Send_def payload_def [symmetric] GetSessionKey_def GetState_def Let_def d'
    by (simp add: k write_parts_healthy frame_def numeral_3_eq_3 del: write_parts.simps)
  then show ?thesis by (rule that)
qed

lemma read_part_healthy:
  assumes "healthy c"
  shows "read_part k msg c =
    (case net_ReadFull k (t_conn c) of
       (Inr b, n) \<Rightarrow> (Inr b, c\<lparr>t_calls := Suc (t_calls c), t_conn := n\<rparr>)
     | (Inl err, n) \<Rightarrow>
         (Inl (if errors_Is err EOF then Fail (ErrBoth ErrConnectionClosed err)
               else Fail (ErrWrap (''failed to read '' @ msg) err)),
          c\<lparr>t_calls := Suc (t_calls c), t_conn := n\<rparr>))"
  using assms healthy_open(4) [OF assms]
  by (simp add: read_part_def healthy_netcall graceful_def GetState_def split: prod.splits sum.splits)

lemma net_ReadFull_append [simp]:
  "\<not> nc_closed n \<Longrightarrow> nc_in n = b @ r \<Longrightarrow> length b = k \<Longrightarrow> net_ReadFull k n = (Inr b, n\<lparr>nc_in := r\<rparr>)"
  by (auto simp: net_ReadFull_def)

lemma unat_small: "n \<le> max_packet \<Longrightarrow> unat (of_nat n :: uint32) = n"
  by (simp add: max_packet_def unat_of_nat)

lemma packet_limit: "n \<le> max_packet \<Longrightarrow> \<not> 1048576 < (of_nat n :: uint32)"
proof -
  assume "n \<le> max_packet"
  then have "unat (of_nat n :: uint32) \<le> unat (1048576 :: uint32)"
    by (simp add: unat_small max_packet_def)
  then show ?thesis by (simp add: word_less_nat_alt)
qed

text \<open>The end of \<^verbatim>\<open>Read\<close>: decryption when a key is set.\<close>

definition unwrap :: "bytes \<Rightarrow> bytes \<Rightarrow> bytes option outcome" where
  "unwrap key body =
     (if length key \<noteq> 0 then
        (case SymmetricDecrypt body key True of
           Return d \<Rightarrow> Return (Some d)
         | Fail err \<Rightarrow> Fail (ErrWrap ''failed to decrypt packet'' err)
         | Panic e \<Rightarrow> Panic e | Parked \<Rightarrow> Parked)
      else Return (Some body))"

lemma Read_end:
  "(let sessionKey = GetSessionKey c in
      if length sessionKey \<noteq> 0 then
        (case SymmetricDecrypt body sessionKey True of
           Return decrypted \<Rightarrow> (Return (Some decrypted), c)
         | Fail err \<Rightarrow> (Fail (ErrWrap ''failed to decrypt packet'' err), c)
         | Panic e \<Rightarrow> (Panic e, c) | Parked \<Rightarrow> (Parked, c))
      else (Return (Some body), c)) = (unwrap (t_key c) body, c)"
  by (simp add: unwrap_def GetSessionKey_def split: outcome.splits)

lemma Read_frame:
  assumes "healthy c" "length body \<le> max_packet" "nc_in (t_conn c) = frame body @ rest"
  obtains k where "Read (Some cx) c =
    (unwrap (t_key c) body, c\<lparr>t_calls := k, t_conn := t_conn c\<lparr>nc_in := rest\<rparr>\<rparr>)"
proof -
  obtain k where k: "set_deadline cx c = (None, c\<lparr>t_calls := k\<rparr>)"
    by (rule set_deadline_healthy [OF assms(1), of cx])
  note h = healthy_open [OF assms(1)]
  have "Read (Some cx) c =
    (unwrap (t_key c) body, c\<lparr>t_calls := Suc (Suc (Suc k)), t_conn := t_conn c\<lparr>nc_in := rest\<rparr>\<rparr>)"
    using assms h(1,4)
    unfolding Read_def Read_end
    by (simp add: GetState_def k read_part_healthy frame_def packet_limit unat_small Let_def)
  then show ?thesis by (rule that)
qed

text \<open>A sequence of calls, with their results.\<close>

fun send_all :: "goctx \<Rightarrow> bytes list \<Rightarrow> TCPConnection \<Rightarrow> unit outcome list \<times> TCPConnection" where
  "send_all cx [] c = ([], c)"
| "send_all cx (m # ms) c =
     (case Send (Some cx) m c of (x, c1) \<Rightarrow> case send_all cx ms c1 of (xs, c2) \<Rightarrow> (x # xs, c2))"

fun read_all :: "goctx \<Rightarrow> nat \<Rightarrow> TCPConnection \<Rightarrow> bytes option outcome list \<times> TCPConnection" where
  "read_all cx 0 c = ([], c)"
| "read_all cx (Suc n) c =
     (case Read (Some cx) c of (x, c1) \<Rightarrow> case read_all cx n c1 of (xs, c2) \<Rightarrow> (x # xs, c2))"

text \<open>Bodies that carry the messages under a key, and a reader taking them one by one.\<close>

definition carries :: "bytes \<Rightarrow> bytes \<Rightarrow> bytes \<Rightarrow> bool" where
  "carries key body m \<longleftrightarrow> length body \<le> max_packet \<and> unwrap key body = Return (Some m)"

lemma send_all_healthy:
  "healthy c \<Longrightarrow> armed c \<Longrightarrow> \<forall>m \<in> set ms. m \<noteq> [] \<and> length m \<le> max_packet - 32 \<Longrightarrow>
   \<exists>bodies c'. send_all cx ms c = (map (\<lambda>_. Return ()) ms, c') \<and>
     list_all2 (carries (t_key c)) bodies ms \<and>
     nc_out (t_conn c') = nc_out (t_conn c) @ concat (map frame bodies)"
proof (induction ms arbitrary: c)
  case (Cons m ms)
  then have m: "m \<noteq> []" "length m + 32 \<le> max_packet" by (auto simp: max_packet_def)
  obtain body where b: "payload (t_key c) m (t_rand c (t_draws c)) = Return body"
      "length body \<le> length m + 32"
      "t_key c \<noteq> [] \<longrightarrow> SymmetricDecrypt body (t_key c) True = Return m" "t_key c = [] \<longrightarrow> body = m"
    by (rule armed_payload [OF Cons.prems(2) m(1), of "t_draws c"])
  obtain k d where s: "Send (Some cx) m c = (Return (), c\<lparr>t_draws := d, t_calls := k,
       t_conn := t_conn c\<lparr>nc_out := nc_out (t_conn c) @ frame body\<rparr>\<rparr>)" (is "_ = (_, ?c1)")
    by (rule Send_healthy [OF Cons.prems(1) m(1) b(1), of cx])
  have "healthy ?c1" "armed ?c1"
    using Cons.prems(1,2) by (simp_all add: healthy_def armed_def IsConnected_def GetState_def)
  then obtain bodies c' where "send_all cx ms ?c1 = (map (\<lambda>_. Return ()) ms, c')"
      "list_all2 (carries (t_key c)) bodies ms"
      "nc_out (t_conn c') = nc_out (t_conn c) @ frame body @ concat (map frame bodies)"
    using Cons.IH [of ?c1] Cons.prems(3) by auto
  moreover have "carries (t_key c) body m"
    using b m by (auto simp: carries_def unwrap_def)
  ultimately show ?case
    using s by (intro exI [of _ "body # bodies"] exI [of _ c']) simp
qed simp

lemma read_all_frames:
  "healthy c \<Longrightarrow> list_all2 (carries (t_key c)) bodies ms \<Longrightarrow>
   nc_in (t_conn c) = concat (map frame bodies) @ rest \<Longrightarrow>
   fst (read_all cx (length ms) c) = map (\<lambda>m. Return (Some m)) ms \<and>
   nc_in (t_conn (snd (read_all cx (length ms) c))) = rest"
proof (induction ms arbitrary: bodies c)
  case (Cons m ms)
  then obtain body bs where b: "bodies = body # bs" "carries (t_key c) body m"
      "list_all2 (carries (t_key c)) bs ms"
    by (auto simp: list_all2_Cons2)
  then have l: "length body \<le> max_packet" and u: "unwrap (t_key c) body = Return (Some m)"
    by (simp_all add: carries_def)
  have i: "nc_in (t_conn c) = frame body @ (concat (map frame bs) @ rest)"
    using Cons.prems b by simp
  obtain k where r: "Read (Some cx) c = (unwrap (t_key c) body,
      c\<lparr>t_calls := k, t_conn := t_conn c\<lparr>nc_in := concat (map frame bs) @ rest\<rparr>\<rparr>)" (is "_ = (_, ?c1)")
    by (rule Read_frame [OF Cons.prems(1) l i, of cx])
  have "fst (read_all cx (length ms) ?c1) = map (\<lambda>m. Return (Some m)) ms \<and>
      nc_in (t_conn (snd (read_all cx (length ms) ?c1))) = rest"
    using Cons.prems b by (intro Cons.IH [of _ bs]) simp_all
  then show ?case
    using r u by (simp add: case_prod_beta)
qed simp

text \<open>Whatever the network and the other goroutine do, \<^verbatim>\<open>Read\<close> takes only whole frames.\<close>

lemma netcall_ReadFull_Inr:
  assumes "netcall (net_ReadFull k) c = (Inr b, c')"
  shows "length b = k \<and> nc_in (t_conn c) = b @ nc_in (t_conn c') \<and> t_key c' = t_key c"
  using assms
  by (auto simp: netcall_def net_ReadFull_def Let_def split: if_splits prod.splits)

lemma read_part_Inr:
  "read_part k msg c = (Inr b, c') \<Longrightarrow>
     length b = k \<and> nc_in (t_conn c) = b @ nc_in (t_conn c') \<and> t_key c' = t_key c"
  by (auto simp: read_part_def dest!: netcall_ReadFull_Inr split: prod.splits sum.splits)

lemma read_part_not_some: "read_part k msg c = (Inl r, c') \<Longrightarrow> r \<noteq> Return (Some x)"
  by (auto simp: read_part_def split: prod.splits sum.splits if_splits)

lemma set_deadline_keeps:
  "set_deadline cx c = (x, c') \<Longrightarrow> t_key c' = t_key c \<and> nc_in (t_conn c') = nc_in (t_conn c)"
  by (auto simp: set_deadline_def netcall_def net_SetDeadline_def Let_def
      split: option.splits prod.splits if_splits)

lemma Read_SomeE:
  assumes "Read ctx c = (Return (Some p), c')"
  obtains body where "length body \<le> max_packet" and "nc_in (t_conn c) = frame body @ nc_in (t_conn c')"
    and "unwrap (t_key c) body = Return (Some p)"
proof -
  obtain cx where cx: "ctx = Some cx" using assms by (cases ctx) (auto simp: Read_def)
  obtain c0 where c0: "set_deadline cx c = (None, c0)"
    using assms by (auto simp: Read_def cx split: if_splits prod.splits option.splits)
  obtain lb c1 where r1: "read_part 4 ''packet length'' c0 = (Inr lb, c1)"
    using assms read_part_not_some [of _ _ c0]
    by (cases "read_part 4 ''packet length'' c0" rule: prod.exhaust)
      (auto simp: Read_def cx c0 split: if_splits sum.splits)
  have n1: "\<not> 1024 * 1024 < (le_word lb :: uint32)"
    using assms by (auto simp: Read_def cx c0 r1 Let_def split: if_splits)
  obtain mb c2 where r2: "read_part 4 ''magic'' c1 = (Inr mb, c2)"
    using assms n1 read_part_not_some [of _ _ c1]
    by (cases "read_part 4 ''magic'' c1" rule: prod.exhaust)
      (auto simp: Read_def cx c0 r1 Let_def split: if_splits sum.splits)
  have m: "le_word mb = TCPMagic"
    using assms n1 by (auto simp: Read_def cx c0 r1 r2 Let_def split: if_splits)
  obtain body c3 where r3: "read_part (unat (le_word lb :: uint32)) ''packet body'' c2 = (Inr body, c3)"
    using assms n1 m read_part_not_some [of _ _ c2]
    by (cases "read_part (unat (le_word lb :: uint32)) ''packet body'' c2" rule: prod.exhaust)
      (auto simp: Read_def cx c0 r1 r2 Let_def split: if_splits sum.splits)
  have u: "unwrap (t_key c3) body = Return (Some p)" "c' = c3"
    using assms n1 m unfolding Read_def Read_end
    by (auto simp: cx c0 r1 r2 r3 Let_def [of "le_word _"] split: if_splits)
  note P = read_part_Inr [OF r1] read_part_Inr [OF r2] read_part_Inr [OF r3] set_deadline_keeps [OF c0]
  have len: "of_nat (length body) = (le_word lb :: uint32)" "length body = unat (le_word lb :: uint32)"
    using P by simp_all
  have "le_bytes 4 (le_word lb :: uint32) = lb" "le_bytes 4 (le_word mb :: uint32) = mb"
    using P by (simp_all add: le_bytes_le_word)
  then have "frame body = lb @ mb @ body"
    using len m by (simp add: frame_def)
  moreover have "length body \<le> max_packet"
    using n1 len(2) by (simp add: word_less_nat_alt max_packet_def)
  ultimately show ?thesis
    using P u by (intro that) simp_all
qed

section \<open>The state machine\<close>

text \<open>One call of a method that can change the connection.\<close>

inductive tcp_step :: "TCPConnection \<Rightarrow> TCPConnection \<Rightarrow> bool" where
  step_key: "tcp_step c (SetSessionKey k c)"
| step_send: "tcp_step c (snd (Send ctx d c))"
| step_read: "tcp_step c (snd (Read ctx c))"
| step_close: "tcp_step c (snd (Close c))"

inductive tcp_reachable :: "TCPConnection \<Rightarrow> bool" where
  reach_new: "NewTCPConnection rnd cl ctx (Some dial) addr = Inr c \<Longrightarrow>
    \<not> nc_closed (t_conn c) \<Longrightarrow> tcp_reachable c"
| reach_step: "tcp_reachable c \<Longrightarrow> tcp_step c c' \<Longrightarrow> tcp_reachable c'"

inductive_cases tcp_stepE: "tcp_step c c'"

text \<open>The states in which a connection can be.\<close>

definition tcp_inv :: "TCPConnection \<Rightarrow> bool" where
  "tcp_inv c \<longleftrightarrow>
     (t_state c = StateDisconnecting \<longleftrightarrow> nc_closed (t_conn c)) \<and>
     (t_state c = StateConnectedEncrypted \<longleftrightarrow> t_key c \<noteq> [] \<and> \<not> nc_closed (t_conn c)) \<and>
     (t_state c = StateConnectedUnencrypted \<longleftrightarrow> t_key c = [] \<and> \<not> nc_closed (t_conn c))"

text \<open>A predicate that closing keeps and that does not look at buffers and counters is kept
  by \<^verbatim>\<open>Send\<close> and \<^verbatim>\<open>Read\<close>.\<close>

locale close_stable =
  fixes P :: "TCPConnection \<Rightarrow> bool"
  assumes P_close: "P c \<Longrightarrow> P (snd (Close c))"
    and P_net: "P c \<Longrightarrow> nc_closed n = nc_closed (t_conn c) \<Longrightarrow> P (c\<lparr>t_conn := n\<rparr>)"
    and P_calls: "P c \<Longrightarrow> P (c\<lparr>t_calls := k\<rparr>)"
    and P_draws: "P c \<Longrightarrow> P (c\<lparr>t_draws := d\<rparr>)"
begin

lemma netcall_P:
  assumes "P c" "netcall f c = (x, c')" "\<And>n. nc_closed (snd (f n)) = nc_closed n"
  shows "P c'"
proof -
  define c1 where "c1 = (if t_close_at c (t_calls c) then snd (Close c) else c)\<lparr>t_calls := Suc (t_calls c)\<rparr>"
  have "P c1" using assms(1) by (simp add: c1_def P_close P_calls)
  then have "P (c1\<lparr>t_conn := snd (f (t_conn c1))\<rparr>)" using assms(3) by (rule P_net)
  then show ?thesis using assms(2) by (simp add: netcall_def c1_def [symmetric] case_prod_beta)
qed

lemma write_parts_P: "P c \<Longrightarrow> P (snd (write_parts ps c))"
proof (induction ps c rule: write_parts.induct)
  case (2 b msg r c)
  obtain x c' where n: "netcall (net_write b) c = (x, c')" by force
  have "P c'"
    by (rule netcall_P [OF "2.prems" n]) (auto simp: net_write_def split: list.splits option.splits)
  then show ?case using "2.IH" n by (auto split: option.splits)
qed simp

lemma set_deadline_P: "P c \<Longrightarrow> set_deadline cx c = (x, c') \<Longrightarrow> P c'"
  by (auto simp: set_deadline_def net_SetDeadline_def elim: netcall_P split: option.splits)

lemma read_part_P:
  assumes "P c" "read_part k msg c = (x, c')" shows "P c'"
proof -
  obtain y d where n: "netcall (net_ReadFull k) c = (y, d)" by force
  have "P d"
    by (rule netcall_P [OF assms(1) n]) (auto simp: net_ReadFull_def)
  then show ?thesis using assms(2) n by (auto simp: read_part_def split: sum.splits)
qed

lemma Send_P: "P c \<Longrightarrow> P (snd (Send ctx d c))"
  by (auto simp: Send_def Let_def P_draws simp del: write_parts.simps
      intro!: write_parts_P dest: set_deadline_P [rotated] split: option.splits outcome.splits prod.splits)

lemma Read_P: "P c \<Longrightarrow> P (snd (Read ctx c))"
  by (auto simp: Read_def Let_def dest!: read_part_P [rotated] dest: set_deadline_P [rotated]
      split: option.splits outcome.splits prod.splits sum.splits)

lemma step_P:
  assumes "\<And>c k. P c \<Longrightarrow> P (SetSessionKey k c)"
  shows "tcp_step c c' \<Longrightarrow> P c \<Longrightarrow> P c'"
  by (erule tcp_stepE) (simp_all add: assms Send_P Read_P P_close)

end

interpretation sm: close_stable tcp_inv
  by unfold_locales (auto simp: tcp_inv_def state_defs)

interpretation down: close_stable "\<lambda>c. t_state c = StateDisconnecting"
  by unfold_locales (auto simp: state_defs)

lemma SetSessionKey_inv: "tcp_inv c \<Longrightarrow> tcp_inv (SetSessionKey k c)"
  by (auto simp: tcp_inv_def SetSessionKey_def Let_def state_defs)

lemma SetSessionKey_down: "t_state c = StateDisconnecting \<Longrightarrow> t_state (SetSessionKey k c) = StateDisconnecting"
  by (auto simp: SetSessionKey_def Let_def state_defs)

lemma reachable_inv: "tcp_reachable c \<Longrightarrow> tcp_inv c"
proof (induction rule: tcp_reachable.induct)
  case (reach_new rnd cl ctx dial addr c)
  then show ?case
    by (auto simp: NewTCPConnection_def tcp_inv_def state_defs split: if_splits sum.splits)
next
  case (reach_step c c')
  then show ?case using sm.step_P [OF SetSessionKey_inv] by blast
qed

lemma steps_down:
  assumes "tcp_step\<^sup>*\<^sup>* c c'" "t_state c = StateDisconnecting"
  shows "t_state c' = StateDisconnecting"
  using assms down.step_P [OF SetSessionKey_down] by (induction rule: rtranclp_induct) blast+

section \<open>The contract of a connection\<close>

text \<open>
  The interface \<^verbatim>\<open>protocol.Connection\<close>: the four methods the protocol calls. Its laws are what
  the protocol relies on: closing is final, a set key stays set, and a closed connection
  neither delivers nor accepts anything.
\<close>

record 'c Connection =
  cClose :: "'c \<Rightarrow> unit outcome \<times> 'c"
  cSetSessionKey :: "bytes \<Rightarrow> 'c \<Rightarrow> 'c"
  cSend :: "goctx option \<Rightarrow> bytes \<Rightarrow> 'c \<Rightarrow> unit outcome \<times> 'c"
  cRead :: "goctx option \<Rightarrow> 'c \<Rightarrow> bytes option outcome \<times> 'c"

definition tcp_ops :: "TCPConnection Connection" where
  "tcp_ops = \<lparr>cClose = Close, cSetSessionKey = SetSessionKey, cSend = Send, cRead = Read\<rparr>"

lemma tcp_ops_simps [simp]:
  "cClose tcp_ops = Close" "cSetSessionKey tcp_ops = SetSessionKey"
  "cSend tcp_ops = Send" "cRead tcp_ops = Read"
  by (simp_all add: tcp_ops_def)

locale connection =
  fixes ops :: "'c Connection" and closed :: "'c \<Rightarrow> bool" and key :: "'c \<Rightarrow> bytes"
  assumes closes: "closed (snd (cClose ops c))"
    and close_key: "key (snd (cClose ops c)) = key c"
    and set_key: "key (cSetSessionKey ops k c) = (if k = [] then key c else k)"
    and set_key_closed: "closed (cSetSessionKey ops k c) = closed c"
    and send_key: "key (snd (cSend ops ctx d c)) = key c"
    and send_closed: "closed c \<Longrightarrow> cSend ops (Some cx) d c = (r, c') \<Longrightarrow> c' = c \<and> (\<exists>e. r = Fail e)"
    and read_key: "key (snd (cRead ops ctx c)) = key c"
    and read_closed: "closed c \<Longrightarrow> cRead ops (Some cx) c = (Return None, c)"
    and stays_closed: "closed c \<Longrightarrow> closed (snd (cSend ops ctx d c))"

lemma write_parts_key [simp]: "t_key (snd (write_parts ps c)) = t_key c"
  by (induction ps c rule: write_parts.induct) (auto split: prod.splits option.splits)

lemma Send_key [simp]: "t_key (snd (Send ctx d c)) = t_key c"
  by (auto simp: Send_def Let_def simp del: write_parts.simps dest!: set_deadline_keeps
      split: option.splits outcome.splits prod.splits)

lemma read_part_key: "read_part k msg c = (x, c') \<Longrightarrow> t_key c' = t_key c"
  by (auto simp: read_part_def split: prod.splits sum.splits)

lemma Read_key [simp]: "t_key (snd (Read ctx c)) = t_key c"
  by (auto simp: Read_def Let_def dest!: read_part_key set_deadline_keeps
      split: option.splits outcome.splits prod.splits sum.splits)

lemma Send_down:
  "t_state c = StateDisconnecting \<Longrightarrow>
     Send (Some cx) d c = (Fail (if d = [] then ErrEmptyData else ErrConnectionClosing), c)"
  by (simp add: Send_def GetState_def)

lemma Read_down: "t_state c = StateDisconnecting \<Longrightarrow> Read (Some cx) c = (Return None, c)"
  by (simp add: Read_def GetState_def)

lemma SetSessionKey_parts:
  "t_key (SetSessionKey k c) = (if k = [] then t_key c else k)"
  "t_state (SetSessionKey k c) = StateDisconnecting \<longleftrightarrow> t_state c = StateDisconnecting"
  by (auto simp: SetSessionKey_def Let_def state_defs)

interpretation tcp: connection tcp_ops "\<lambda>c. t_state c = StateDisconnecting" t_key
  by unfold_locales (auto simp: SetSessionKey_parts Send_down Read_down intro: down.Send_P)

section \<open>Repeated closing\<close>

text \<open>Calls of \<^verbatim>\<open>Close\<close> one after the other, each with its result and the connection after it.\<close>

primrec closes :: "nat \<Rightarrow> TCPConnection \<Rightarrow> (unit outcome \<times> TCPConnection) list" where
  "closes 0 c = []"
| "closes (Suc n) c = Close c # closes n (snd (Close c))"

text \<open>What \<^verbatim>\<open>Close\<close> makes of the network's answer.\<close>

definition close_report :: "goerr option \<Rightarrow> unit outcome" where
  "close_report x = (case x of None \<Rightarrow> Return () | Some e \<Rightarrow> Fail (ErrWrap ''failed to close connection'' e))"

lemma Close_down:
  assumes "t_state c = StateDisconnecting" "nc_closed (t_conn c)"
  shows "Close c = (close_report (case nc_clfail (t_conn c) of [] \<Rightarrow> None | x # r \<Rightarrow> x),
    c\<lparr>t_conn := (t_conn c)\<lparr>nc_clfail := tl (nc_clfail (t_conn c))\<rparr>\<rparr>)"
proof -
  have "(t_conn c)\<lparr>nc_closed := True\<rparr> = t_conn c" using assms(2) by (cases "t_conn c") simp
  then show ?thesis
    using assms(1) by (auto simp: Close_def net_Close_def close_report_def split: list.splits option.splits)
qed

lemma closes_down:
  assumes "t_state c = StateDisconnecting" "nc_closed (t_conn c)"
  shows "map fst (closes n c) = map close_report (take n (nc_clfail (t_conn c))) @
      replicate (n - length (nc_clfail (t_conn c))) (Return ()) \<and>
    (\<forall>x \<in> set (closes n c). \<exists>r. snd x = c\<lparr>t_conn := (t_conn c)\<lparr>nc_clfail := r\<rparr>\<rparr>)"
  using assms
proof (induction n arbitrary: c)
  case (Suc n)
  let ?d = "c\<lparr>t_conn := (t_conn c)\<lparr>nc_clfail := tl (nc_clfail (t_conn c))\<rparr>\<rparr>"
  have "t_state ?d = StateDisconnecting" "nc_closed (t_conn ?d)" using Suc.prems by simp_all
  note IH = Suc.IH [OF this]
  show ?case
  proof (intro conjI ballI)
    show "map fst (closes (Suc n) c) = map close_report (take (Suc n) (nc_clfail (t_conn c))) @
        replicate (Suc n - length (nc_clfail (t_conn c))) (Return ())"
      using IH Close_down [OF Suc.prems]
      by (cases "nc_clfail (t_conn c)") (simp_all add: close_report_def)
  next
    fix x assume "x \<in> set (closes (Suc n) c)"
    then consider "x = Close c" | "x \<in> set (closes n ?d)" using Close_down [OF Suc.prems] by auto
    then show "\<exists>r. snd x = c\<lparr>t_conn := (t_conn c)\<lparr>nc_clfail := r\<rparr>\<rparr>"
      using IH Close_down [OF Suc.prems] by cases auto
  qed
qed simp

section \<open>Properties\<close>

text \<open>A fresh connection with the given key and input, for the concrete examples.\<close>

definition sample_conn :: "bytes \<Rightarrow> bytes \<Rightarrow> TCPConnection" where
  "sample_conn k inp =
     \<lparr>t_state = (if k = [] then StateConnectedUnencrypted else StateConnectedEncrypted),
      t_conn = \<lparr>nc_in = inp, nc_end = EOF, nc_out = [], nc_wfail = [], nc_dlfail = None,
        nc_clfail = [], nc_closed = False, nc_remote = ''r'', nc_local = ''l''\<rparr>,
      t_key = k, t_rand = (\<lambda>_. Inr (\<lambda>_. 0)), t_draws = 0, t_close_at = (\<lambda>_. False), t_calls = 0\<rparr>"

lemma sample_conn_simps [simp]:
  "healthy (sample_conn k inp)" "armed (sample_conn k inp) \<longleftrightarrow> k = [] \<or> length k = 32"
  "t_key (sample_conn k inp) = k" "nc_in (t_conn (sample_conn k inp)) = inp"
  "nc_out (t_conn (sample_conn k inp)) = []"
  by (simp_all add: sample_conn_def healthy_def armed_def IsConnected_def GetState_def Let_def)

text \<open>The same on a socket that reports \<^verbatim>\<open>net.ErrClosed\<close> when it is closed again.\<close>

definition socket_conn :: "bytes \<Rightarrow> bytes \<Rightarrow> TCPConnection" where
  "socket_conn k inp = (sample_conn k inp)\<lparr>t_conn := (t_conn (sample_conn k inp))\<lparr>nc_clfail := [None, Some ErrClosed]\<rparr>\<rparr>"

text \<open>Property C3: what is sent arrives. On a healthy connection every \<^verbatim>\<open>Send\<close> of a non-empty
  message of at most 1 MiB less 32 bytes succeeds, in plain and with a 32-byte key, and a
  healthy peer with the same key whose input starts with the bytes written reads the
  messages back, whole and in order, and leaves what follows them.\<close>

theorem tcp_roundtrip:
  assumes "healthy s" and "armed s" and "\<forall>m \<in> set ms. m \<noteq> [] \<and> length m \<le> max_packet - 32"
  shows "\<exists>s' stream. send_all cx ms s = (map (\<lambda>_. Return ()) ms, s') \<and>
    nc_out (t_conn s') = nc_out (t_conn s) @ stream \<and>
    (\<forall>r rest. healthy r \<and> t_key r = t_key s \<and> nc_in (t_conn r) = stream @ rest \<longrightarrow>
       fst (read_all cx (length ms) r) = map (\<lambda>m. Return (Some m)) ms \<and>
       nc_in (t_conn (snd (read_all cx (length ms) r))) = rest)"
proof -
  obtain bodies s' where "send_all cx ms s = (map (\<lambda>_. Return ()) ms, s')"
    and b: "list_all2 (carries (t_key s)) bodies ms"
    and "nc_out (t_conn s') = nc_out (t_conn s) @ concat (map frame bodies)"
    using send_all_healthy [OF assms, of cx] by blast
  then show ?thesis
    using read_all_frames [of _ bodies ms _ cx]
    by (intro exI [of _ s'] exI [of _ "concat (map frame bodies)"]) simp
qed

theorem tcp_roundtrip_witness:
  "\<exists>s' stream. send_all Background [[1], [2, 3]] (sample_conn (replicate 32 5) []) = ([Return (), Return ()], s') \<and>
    fst (read_all Background 2 (sample_conn (replicate 32 5) stream)) = [Return (Some [1]), Return (Some [2, 3])]"
proof -
  obtain s' stream where "send_all Background [[1], [2, 3]] (sample_conn (replicate 32 5) []) = ([Return (), Return ()], s')"
    and r: "\<forall>r rest. healthy r \<and> t_key r = t_key (sample_conn (replicate 32 5) []) \<and>
         nc_in (t_conn r) = stream @ rest \<longrightarrow>
       fst (read_all Background (length [[1], [2, 3 :: byte]]) r) = map (\<lambda>m. Return (Some m)) [[1], [2, 3]]"
    using tcp_roundtrip [of "sample_conn (replicate 32 5) []" "[[1], [2, 3]]" Background]
    by (auto simp: max_packet_def)
  moreover have "fst (read_all Background 2 (sample_conn (replicate 32 5) stream)) =
      [Return (Some [1]), Return (Some [2, 3])]"
    using r [rule_format, of "sample_conn (replicate 32 5) stream" "[]"]
    by (simp add: numeral_2_eq_2 del: read_all.simps)
  ultimately show ?thesis by blast
qed

text \<open>Property C10: whatever the network does, and whoever closes meanwhile, a packet that
  \<^verbatim>\<open>Read\<close> delivers is one whole frame of at most 1 MiB at the front of the input, which is
  all it consumes; in plain it is the frame's body, and with a key it is what the body
  decrypts to under the HMAC check.\<close>

theorem tcp_read_sound:
  assumes "Read ctx c = (Return (Some p), c')"
  shows "\<exists>body. length body \<le> 1048576 \<and> nc_in (t_conn c) = frame body @ nc_in (t_conn c') \<and>
    (if t_key c = [] then p = body else SymmetricDecrypt body (t_key c) True = Return p)"
  using assms
  by (rule Read_SomeE) (auto simp: unwrap_def max_packet_def split: outcome.splits if_splits)

theorem tcp_read_sound_witness:
  "\<exists>c'. Read (Some Background) (sample_conn [] (frame [7, 8] @ [9])) = (Return (Some [7, 8]), c') \<and>
     (\<exists>body. frame [7, 8] @ [9] = frame body @ nc_in (t_conn c') \<and> length body \<le> 1048576)"
proof -
  obtain k where "Read (Some Background) (sample_conn [] (frame [7, 8] @ [9])) =
      (unwrap [] [7, 8], (sample_conn [] (frame [7, 8] @ [9]))\<lparr>t_calls := k,
        t_conn := t_conn (sample_conn [] (frame [7, 8] @ [9]))\<lparr>nc_in := [9]\<rparr>\<rparr>)"
    by (rule Read_frame [of "sample_conn [] (frame [7, 8] @ [9])" "[7, 8]" "[9]" Background])
      (simp_all add: max_packet_def)
  then obtain c' where r: "Read (Some Background) (sample_conn [] (frame [7, 8] @ [9])) = (Return (Some [7, 8]), c')"
    by (simp add: unwrap_def)
  from tcp_read_sound [OF r] r show ?thesis by auto
qed

text \<open>Property C11: the states of a connection. In every state reached by calls of its methods,
  with closes from other goroutines in between, the connection is disconnecting exactly
  when its socket is closed, and otherwise encrypted exactly when a session key is set, so
  that data leave in plain only before the key exchange; and disconnecting is final.\<close>

theorem tcp_states:
  assumes "tcp_reachable c"
  shows "(GetState c = StateDisconnecting \<longleftrightarrow> nc_closed (t_conn c)) \<and>
    (IsEncrypted c \<longleftrightarrow> GetSessionKey c \<noteq> [] \<and> IsConnected c) \<and>
    (\<forall>c'. tcp_step\<^sup>*\<^sup>* c c' \<longrightarrow> \<not> IsConnected c \<longrightarrow> \<not> IsConnected c')"
proof -
  have d: "\<not> IsConnected x \<longleftrightarrow> t_state x = StateDisconnecting" if "tcp_inv x" for x
    using that by (auto simp: tcp_inv_def IsConnected_def GetState_def Let_def state_defs)
  have r: "tcp_reachable c'" if "tcp_step\<^sup>*\<^sup>* c c'" for c'
    using that assms by (induction rule: rtranclp_induct) (auto intro: reach_step)
  have 1: "GetState c = StateDisconnecting \<longleftrightarrow> nc_closed (t_conn c)"
    and 2: "IsEncrypted c \<longleftrightarrow> GetSessionKey c \<noteq> [] \<and> IsConnected c"
    using reachable_inv [OF assms]
    by (auto simp: tcp_inv_def IsEncrypted_def IsConnected_def GetState_def GetSessionKey_def Let_def)
  have 3: "\<forall>c'. tcp_step\<^sup>*\<^sup>* c c' \<longrightarrow> \<not> IsConnected c \<longrightarrow> \<not> IsConnected c'"
    using d reachable_inv r assms steps_down by metis
  from 1 2 3 show ?thesis by blast
qed

theorem tcp_states_witness:
  "tcp_reachable (SetSessionKey [1] (sample_conn [] [])) \<and> IsEncrypted (SetSessionKey [1] (sample_conn [] []))"
proof -
  have "tcp_reachable (sample_conn [] [])"
    by (rule reach_new [of "\<lambda>_. Inr (\<lambda>_. 0)" "\<lambda>_. False" "Some Background"
          "\<lambda>_ _. Inr (t_conn (sample_conn [] []))" "''a''"])
      (simp_all add: NewTCPConnection_def sample_conn_def)
  then have "tcp_reachable (SetSessionKey [1] (sample_conn [] []))"
    by (rule reach_step) (rule step_key)
  then show ?thesis
    using tcp_states [of "SetSessionKey [1] (sample_conn [] [])"]
    by (simp add: SetSessionKey_def sample_conn_def GetSessionKey_def GetState_def IsConnected_def Let_def)
qed

text \<open>Property C30: a stream that ends inside a packet never yields one. \<^verbatim>\<open>Read\<close> fails, and
  the failure is reported as \<^verbatim>\<open>ErrConnectionClosed\<close> exactly when the stream ends at one of
  the boundaries the reads stop at (before the length, before the magic, before a body);
  elsewhere it is another error.\<close>

theorem tcp_truncated:
  assumes "healthy c" and "length body \<le> max_packet" and "n < length (frame body)"
    and "nc_in (t_conn c) = take n (frame body)" and "nc_end (t_conn c) = EOF"
  shows "\<exists>e. fst (Read (Some cx) c) = Fail e \<and> (errors_Is e ErrConnectionClosed \<longleftrightarrow> n \<in> {0, 4, 8})"
proof -
  obtain k where k: "set_deadline cx c = (None, c\<lparr>t_calls := k\<rparr>)"
    by (rule set_deadline_healthy [OF assms(1), of cx])
  note h = healthy_open [OF assms(1)]
  note R = le_bytes_nonempty read_part_healthy net_ReadFull_def Read_def GetState_def k h conn_errors assms(1,5)
  consider "n < 4" | "4 \<le> n" "n < 8" | "8 \<le> n" by linarith
  then show ?thesis
  proof cases
    case 1
    then show ?thesis
      using assms(4) by (auto simp: R frame_def)
  next
    case 2
    then have "nc_in (t_conn c) = le_bytes 4 (of_nat (length body) :: uint32) @ take (n - 4) (le_bytes 4 TCPMagic)"
      using assms(4) by (simp add: frame_def)
    then show ?thesis
      using 2 assms(2) by (auto simp: R packet_limit Let_def)
  next
    case 3
    then have "nc_in (t_conn c) = le_bytes 4 (of_nat (length body) :: uint32) @ le_bytes 4 TCPMagic @ take (n - 8) body"
      using assms(4) by (simp add: frame_def)
    then show ?thesis
      using 3 assms(2,3) by (auto simp: R packet_limit unat_small Let_def)
  qed
qed

theorem tcp_truncated_witness:
  "\<exists>e. fst (Read (Some Background) (sample_conn [] (take 6 (frame [1, 2])))) = Fail e \<and>
     \<not> errors_Is e ErrConnectionClosed"
  using tcp_truncated [of "sample_conn [] (take 6 (frame [1, 2]))" "[1, 2]" 6 Background]
  by (auto simp: sample_conn_def max_packet_def healthy_def IsConnected_def GetState_def Let_def)

text \<open>Property C31: after \<^verbatim>\<open>Close\<close>, whatever calls come next, the connection is at rest: \<^verbatim>\<open>Send\<close> is
  refused without touching the network, \<^verbatim>\<open>Read\<close> answers nil without an error, and setting a
  key does not reopen it. \<^verbatim>\<open>Close\<close> may be repeated: each call asks the network to close once
  more and changes nothing else, and its error is exactly the one the network then reports,
  so \<open>n\<close> further calls report the network's next \<open>n\<close> results in order. They are all nil when
  the network has no error to report, and errors when it reports \<^verbatim>\<open>net.ErrClosed\<close>, as a TCP
  socket does.\<close>

theorem tcp_after_close:
  assumes "tcp_reachable c" and "tcp_step\<^sup>*\<^sup>* (snd (Close c)) c'"
  shows "Send (Some cx) m c' = (Fail (if m = [] then ErrEmptyData else ErrConnectionClosing), c') \<and>
    Read (Some cx) c' = (Return None, c') \<and> \<not> IsConnected (SetSessionKey k c') \<and>
    map fst (closes n c') = map close_report (take n (nc_clfail (t_conn c'))) @
      replicate (n - length (nc_clfail (t_conn c'))) (Return ()) \<and>
    (\<forall>x \<in> set (closes n c'). \<exists>r. snd x = c'\<lparr>t_conn := (t_conn c')\<lparr>nc_clfail := r\<rparr>\<rparr>)"
proof -
  have s: "t_state c' = StateDisconnecting"
    using assms(2) by (rule steps_down) simp
  have "tcp_reachable c'"
    using assms(2,1) by (induction rule: rtranclp_induct) (auto intro: reach_step step_close)
  then have "nc_closed (t_conn c')"
    using s reachable_inv by (auto simp: tcp_inv_def)
  from closes_down [OF s this, of n] s show ?thesis
    by (auto simp: Send_down Read_down IsConnected_def GetState_def SetSessionKey_def state_defs)
qed

theorem tcp_after_close_witness:
  "map fst (closes 2 (sample_conn [] [])) = [Return (), Return ()] \<and>
   map fst (closes 2 (socket_conn [] [])) = [Return (), Fail (ErrWrap ''failed to close connection'' ErrClosed)]"
proof -
  have r: "tcp_reachable (sample_conn [] [])" "tcp_reachable (socket_conn [] [])"
    by (rule reach_new [of "\<lambda>_. Inr (\<lambda>_. 0)" "\<lambda>_. False" "Some Background"
          "\<lambda>_ _. Inr (t_conn (sample_conn [] []))" "''a''"],
        simp_all add: NewTCPConnection_def sample_conn_def)
      (rule reach_new [of "\<lambda>_. Inr (\<lambda>_. 0)" "\<lambda>_. False" "Some Background"
          "\<lambda>_ _. Inr (t_conn (socket_conn [] []))" "''a''"],
        simp_all add: NewTCPConnection_def sample_conn_def socket_conn_def)
  have c: "fst (Close (sample_conn [] [])) = Return ()" "fst (Close (socket_conn [] [])) = Return ()"
      "nc_clfail (t_conn (snd (Close (sample_conn [] [])))) = []"
      "nc_clfail (t_conn (snd (Close (socket_conn [] [])))) = [Some ErrClosed]"
    by (simp_all add: Close_def net_Close_def sample_conn_def socket_conn_def state_defs)
  have "map fst (closes 1 (snd (Close (sample_conn [] [])))) = [Return ()]"
    using tcp_after_close [OF r(1) rtranclp.rtrancl_refl, of Background "[]" "[]" 1] c(3) by simp
  moreover have "map fst (closes 1 (snd (Close (socket_conn [] [])))) = [close_report (Some ErrClosed)]"
    using tcp_after_close [OF r(2) rtranclp.rtrancl_refl, of Background "[]" "[]" 1] c(4) by simp
  ultimately show ?thesis
    using c(1,2) by (simp add: numeral_2_eq_2 close_report_def)
qed

text \<open>Property C32: \<^verbatim>\<open>Send\<close> has no size limit although \<^verbatim>\<open>Read\<close> has one: a plain message of
  more than 1 MiB and less than 4 GiB is sent without an error, and every healthy peer
  refuses it with \<^verbatim>\<open>ErrPacketTooLarge\<close>.\<close>

theorem tcp_send_oversize:
  assumes "healthy s" and "t_key s = []" and "max_packet < length m" and "length m < 2 ^ 32"
  shows "\<exists>s'. Send (Some cx) m s = (Return (), s') \<and>
    (\<forall>r rest. healthy r \<and> nc_in (t_conn r) = drop (length (nc_out (t_conn s))) (nc_out (t_conn s')) @ rest \<longrightarrow>
       (\<exists>e. fst (Read (Some cx) r) = Fail e \<and> errors_Is e ErrPacketTooLarge))"
proof -
  have m: "m \<noteq> []" using assms by auto
  have p: "payload (t_key s) m (t_rand s (t_draws s)) = Return m" using assms by (simp add: payload_def)
  obtain k d where S: "Send (Some cx) m s =
    (Return (), s\<lparr>t_draws := d, t_calls := k, t_conn := t_conn s\<lparr>nc_out := nc_out (t_conn s) @ frame m\<rparr>\<rparr>)"
    by (rule Send_healthy [OF assms(1) m p, of cx])
  have big: "1048576 < (of_nat (length m) :: uint32)"
    using assms(3,4) by (simp add: word_less_nat_alt unat_of_nat max_packet_def)
  have "\<exists>e. fst (Read (Some cx) r) = Fail e \<and> errors_Is e ErrPacketTooLarge"
    if r: "healthy r" "nc_in (t_conn r) = frame m @ rest" for r rest
  proof -
    obtain j where "set_deadline cx r = (None, r\<lparr>t_calls := j\<rparr>)"
      by (rule set_deadline_healthy [OF r(1), of cx])
    then show ?thesis
      using r healthy_open [OF r(1)] big
      by (simp add: Read_def GetState_def read_part_healthy frame_def Let_def too_large_def)
  qed
  then show ?thesis by (auto simp: S)
qed

theorem tcp_send_oversize_witness:
  "\<exists>s'. Send (Some Background) (replicate 1048577 0) (sample_conn [] []) = (Return (), s')"
  using tcp_send_oversize [of "sample_conn [] []" "replicate 1048577 0" Background]
  by (auto simp: max_packet_def)

end
