(* ===== verification/Pipe.thy ===== *)
theory Pipe
  imports Connection
begin

text \<open>
  The contract of a pair of connections: an unbounded first-in first-out queue of messages,
  which may change its key while it is empty. The abstract queue, the two TCP connections
  with a network that delivers what one end writes to the other, and the simulation.
\<close>

section \<open>The abstract queue\<close>

datatype pipe_op = Put bytes | Get | Rekey bytes

definition sendable :: "bytes \<Rightarrow> bool" where
  "sendable m \<longleftrightarrow> m \<noteq> [] \<and> length m \<le> max_packet - 32"

text \<open>The messages taken out, or \<open>None\<close> where the contract says nothing: a message that is
  empty or too long, taking from the empty queue, a key that is not whole or a key change
  while messages are under way.\<close>

fun queue_run :: "pipe_op list \<Rightarrow> bytes list \<Rightarrow> bytes list option" where
  "queue_run [] q = Some []"
| "queue_run (Put m # ops) q = (if sendable m then queue_run ops (q @ [m]) else None)"
| "queue_run (Get # ops) q =
     (case q of [] \<Rightarrow> None | m # q' \<Rightarrow> map_option (\<lambda>outs. m # outs) (queue_run ops q'))"
| "queue_run (Rekey k # ops) q = (if q = [] \<and> length k = 32 then queue_run ops q else None)"

section \<open>Implementations\<close>

fun impl_run :: "(bytes \<Rightarrow> 's \<Rightarrow> 's option) \<Rightarrow> ('s \<Rightarrow> (bytes \<times> 's) option) \<Rightarrow> (bytes \<Rightarrow> 's \<Rightarrow> 's) \<Rightarrow>
    pipe_op list \<Rightarrow> 's \<Rightarrow> bytes list option" where
  "impl_run put get rekey [] s = Some []"
| "impl_run put get rekey (Put m # ops) s =
     (case put m s of None \<Rightarrow> None | Some s' \<Rightarrow> impl_run put get rekey ops s')"
| "impl_run put get rekey (Get # ops) s =
     (case get s of
        None \<Rightarrow> None
      | Some (m, s') \<Rightarrow> map_option (\<lambda>outs. m # outs) (impl_run put get rekey ops s'))"
| "impl_run put get rekey (Rekey k # ops) s = impl_run put get rekey ops (rekey k s)"

locale fifo_refinement =
  fixes R :: "bytes list \<Rightarrow> 's \<Rightarrow> bool"
    and put :: "bytes \<Rightarrow> 's \<Rightarrow> 's option"
    and get :: "'s \<Rightarrow> (bytes \<times> 's) option"
    and rekey :: "bytes \<Rightarrow> 's \<Rightarrow> 's"
  assumes R_put: "R q s \<Longrightarrow> sendable m \<Longrightarrow> \<exists>s'. put m s = Some s' \<and> R (q @ [m]) s'"
    and R_get: "R (m # q) s \<Longrightarrow> \<exists>s'. get s = Some (m, s') \<and> R q s'"
    and R_rekey: "R [] s \<Longrightarrow> length k = 32 \<Longrightarrow> R [] (rekey k s)"
begin

lemma simulates: "R q s \<Longrightarrow> queue_run ops q = Some outs \<Longrightarrow> impl_run put get rekey ops s = Some outs"
proof (induction ops q arbitrary: s outs rule: queue_run.induct)
  case (2 m ops q)
  then obtain s' where "put m s = Some s'" "R (q @ [m]) s'"
    using R_put [of q s m] by (auto split: if_splits)
  with 2 show ?case by (simp split: if_splits)
next
  case (3 ops q)
  then obtain m q' o' where q: "q = m # q'" "queue_run ops q' = Some o'" "outs = m # o'"
    by (auto split: list.splits)
  obtain s' where "get s = Some (m, s')" "R q' s'" using R_get 3(2) q(1) by blast
  with 3(1) [OF q(1)] q show ?case by simp
next
  case (4 k ops q)
  then show ?case using R_rekey by (simp split: if_splits)
qed simp

end

section \<open>Two TCP connections\<close>

type_synonym pipe = "TCPConnection \<times> TCPConnection"

text \<open>The network: what the sender has written is the receiver's input.\<close>

definition deliver :: "pipe \<Rightarrow> pipe" where
  "deliver p = (case p of (s, r) \<Rightarrow>
     (s\<lparr>t_conn := (t_conn s)\<lparr>nc_out := []\<rparr>\<rparr>,
      r\<lparr>t_conn := (t_conn r)\<lparr>nc_in := nc_in (t_conn r) @ nc_out (t_conn s)\<rparr>\<rparr>))"

definition pipe_put :: "goctx \<Rightarrow> bytes \<Rightarrow> pipe \<Rightarrow> pipe option" where
  "pipe_put cx m p =
     (case Send (Some cx) m (fst p) of
        (Return _, s) \<Rightarrow> Some (deliver (s, snd p))
      | _ \<Rightarrow> None)"

definition pipe_get :: "goctx \<Rightarrow> pipe \<Rightarrow> (bytes \<times> pipe) option" where
  "pipe_get cx p =
     (case Read (Some cx) (snd p) of
        (Return (Some m), r) \<Rightarrow> Some (m, (fst p, r))
      | _ \<Rightarrow> None)"

definition pipe_rekey :: "bytes \<Rightarrow> pipe \<Rightarrow> pipe" where
  "pipe_rekey k p = (SetSessionKey k (fst p), SetSessionKey k (snd p))"

text \<open>The messages under way, as the receiver's input carries them.\<close>

definition pipe_rel :: "bytes list \<Rightarrow> pipe \<Rightarrow> bool" where
  "pipe_rel q p \<longleftrightarrow> healthy (fst p) \<and> armed (fst p) \<and> healthy (snd p) \<and> t_key (snd p) = t_key (fst p) \<and>
     nc_out (t_conn (fst p)) = [] \<and>
     (\<exists>bodies. list_all2 (carries (t_key (fst p))) bodies q \<and> nc_in (t_conn (snd p)) = concat (map frame bodies))"

text \<open>One message through a healthy connection, and read from one.\<close>

lemma Send_carries:
  assumes "healthy s" "armed s" "sendable m"
  obtains body k d where "Send (Some cx) m s = (Return (), s\<lparr>t_draws := d, t_calls := k,
      t_conn := (t_conn s)\<lparr>nc_out := nc_out (t_conn s) @ frame body\<rparr>\<rparr>)" and "carries (t_key s) body m"
proof -
  have m: "m \<noteq> []" "length m + 32 \<le> max_packet" using assms(3) by (auto simp: sendable_def max_packet_def)
  obtain body where b: "payload (t_key s) m (t_rand s (t_draws s)) = Return body" "length body \<le> length m + 32"
      "t_key s \<noteq> [] \<longrightarrow> SymmetricDecrypt body (t_key s) True = Return m" "t_key s = [] \<longrightarrow> body = m"
    by (rule armed_payload [OF assms(2) m(1), of "t_draws s"])
  obtain k d where "Send (Some cx) m s = (Return (), s\<lparr>t_draws := d, t_calls := k,
       t_conn := (t_conn s)\<lparr>nc_out := nc_out (t_conn s) @ frame body\<rparr>\<rparr>)"
    by (rule Send_healthy [OF assms(1) m(1) b(1), of cx])
  moreover have "carries (t_key s) body m"
    using b m by (auto simp: carries_def unwrap_def)
  ultimately show ?thesis by (rule that)
qed

lemma Read_carries:
  assumes "healthy r" "carries (t_key r) body m" "nc_in (t_conn r) = frame body @ rest"
  obtains k where "Read (Some cx) r = (Return (Some m), r\<lparr>t_calls := k, t_conn := (t_conn r)\<lparr>nc_in := rest\<rparr>\<rparr>)"
proof -
  have l: "length body \<le> max_packet" and u: "unwrap (t_key r) body = Return (Some m)"
    using assms(2) by (simp_all add: carries_def)
  show ?thesis
    by (rule Read_frame [OF assms(1) l assms(3), of cx]) (use u that in simp)
qed

lemma pipe_rel_put:
  assumes "pipe_rel q p" "sendable m"
  shows "\<exists>p'. pipe_put cx m p = Some p' \<and> pipe_rel (q @ [m]) p'"
proof -
  obtain s r where p: "p = (s, r)" by force
  from assms(1) obtain bodies where R: "healthy s" "armed s" "healthy r" "t_key r = t_key s" "nc_out (t_conn s) = []"
      "list_all2 (carries (t_key s)) bodies q" "nc_in (t_conn r) = concat (map frame bodies)"
    by (auto simp: pipe_rel_def p)
  obtain body k d where "Send (Some cx) m s = (Return (), s\<lparr>t_draws := d, t_calls := k,
       t_conn := (t_conn s)\<lparr>nc_out := nc_out (t_conn s) @ frame body\<rparr>\<rparr>)" "carries (t_key s) body m"
    by (rule Send_carries [OF R(1,2) assms(2), of cx])
  with R show ?thesis
    unfolding p pipe_put_def deliver_def pipe_rel_def
    by (auto simp: healthy_def armed_def IsConnected_def GetState_def intro!: exI [of _ "bodies @ [body]"]
        list_all2_appendI)
qed

lemma pipe_rel_get:
  assumes "pipe_rel (m # q) p"
  shows "\<exists>p'. pipe_get cx p = Some (m, p') \<and> pipe_rel q p'"
proof -
  obtain s r where p: "p = (s, r)" by force
  from assms obtain body bs where R: "healthy s" "armed s" "healthy r" "t_key r = t_key s" "nc_out (t_conn s) = []"
      "carries (t_key r) body m" "list_all2 (carries (t_key s)) bs q" "nc_in (t_conn r) = frame body @ concat (map frame bs)"
    by (auto simp: pipe_rel_def p list_all2_Cons2)
  obtain k where "Read (Some cx) r =
      (Return (Some m), r\<lparr>t_calls := k, t_conn := (t_conn r)\<lparr>nc_in := concat (map frame bs)\<rparr>\<rparr>)"
    by (rule Read_carries [OF R(3,6,8), of cx])
  with R show ?thesis
    unfolding p pipe_get_def pipe_rel_def by auto
qed

lemma pipe_rel_rekey:
  assumes "pipe_rel [] p" "length k = 32"
  shows "pipe_rel [] (pipe_rekey k p)"
  using assms
  by (auto simp: pipe_rel_def pipe_rekey_def SetSessionKey_def healthy_def armed_def IsConnected_def GetState_def
      state_defs Let_def)

interpretation pipe: fifo_refinement pipe_rel "pipe_put cx" "pipe_get cx" pipe_rekey for cx
  by unfold_locales (rule pipe_rel_put pipe_rel_get pipe_rel_rekey; assumption)+

section \<open>Property\<close>

text \<open>Property C9: two healthy TCP connections refine a message queue. Whatever the order of
  sending, reading and changing both ends' keys, as long as it is one the queue's contract
  covers, every message read is the one the queue gives out.\<close>

theorem tcp_refines_queue:
  assumes "healthy s" and "armed s" and "healthy r" and "t_key r = t_key s"
    and "nc_out (t_conn s) = []" and "nc_in (t_conn r) = []" and "queue_run ops [] = Some outs"
  shows "impl_run (pipe_put cx) (pipe_get cx) pipe_rekey ops (s, r) = Some outs"
  by (rule pipe.simulates [OF _ assms(7)]) (use assms in \<open>simp add: pipe_rel_def\<close>)

theorem tcp_refines_queue_witness:
  "impl_run (pipe_put Background) (pipe_get Background) pipe_rekey
     [Put [1], Put [2, 3], Get, Get, Rekey (replicate 32 7), Put [4], Get] (sample_conn [] [], sample_conn [] []) =
   Some [[1], [2, 3], [4]]"
  by (rule tcp_refines_queue) (simp_all add: sendable_def max_packet_def)

end
