(* ===== verification/Concurrent.thy ===== *)
theory Concurrent
  imports Pipe
begin

text \<open>
  Calls of \<^verbatim>\<open>Send\<close> by several goroutines on one connection. Nothing holds a lock from the first
  of a packet's three writes to the last: a call is a sequence of turns, one for everything
  before the writes, one for each write and one to return, and a schedule says whose turn it
  is. Uninterrupted turns are the sequential calls; other schedules mix the packets.
\<close>

section \<open>A call in turns\<close>

datatype sender = Called "goctx option" bytes | Writing "(bytes \<times> string) list" | Done "unit outcome"

definition packet_parts :: "bytes \<Rightarrow> (bytes \<times> string) list" where
  "packet_parts data =
     [(le_bytes 4 (of_nat (length data) :: uint32), ''packet length''), (le_bytes 4 TCPMagic, ''magic number''), (data, ''data'')]"

definition begin_send :: "goctx option \<Rightarrow> bytes \<Rightarrow> TCPConnection \<Rightarrow> sender \<times> TCPConnection" where
  "begin_send ctx data0 c =
     (case ctx of
        None \<Rightarrow> (Done (Fail ErrNilContext), c)
      | Some cx \<Rightarrow>
        if length data0 = 0 then (Done (Fail ErrEmptyData), c)
        else if GetState c = StateDisconnecting then (Done (Fail ErrConnectionClosing), c)
        else
          let sessionKey = GetSessionKey c;
              c1 = (if length sessionKey \<noteq> 0 then c\<lparr>t_draws := Suc (t_draws c)\<rparr> else c)
          in case payload sessionKey data0 (t_rand c (t_draws c)) of
               Fail err \<Rightarrow> (Done (Fail (ErrWrap ''failed to encrypt data'' err)), c1)
             | Panic e \<Rightarrow> (Done (Panic e), c1)
             | Parked \<Rightarrow> (Done Parked, c1)
             | Return data \<Rightarrow>
               (case set_deadline cx c1 of
                  (Some err, c2) \<Rightarrow> (Done (Fail (ErrWrap ''failed to set write deadline'' err)), c2)
                | (None, c2) \<Rightarrow> (Writing (packet_parts data), c2)))"

fun send_turn :: "sender \<Rightarrow> TCPConnection \<Rightarrow> sender \<times> TCPConnection" where
  "send_turn (Called ctx data) c = begin_send ctx data c"
| "send_turn (Writing []) c = (Done (Return ()), c)"
| "send_turn (Writing ((b, msg) # r)) c =
     (case netcall (net_write b) c of
        (None, c') \<Rightarrow> (Writing r, c')
      | (Some err, c') \<Rightarrow>
          (Done (if graceful err c' then Return () else Fail (ErrWrap (''failed to write '' @ msg) err)), c'))"
| "send_turn (Done r) c = (Done r, c)"

text \<open>A schedule: whose turn it is, in order.\<close>

fun turns :: "nat list \<Rightarrow> sender list \<times> TCPConnection \<Rightarrow> sender list \<times> TCPConnection" where
  "turns [] s = s"
| "turns (i # is) (ts, c) =
     (if i < length ts then case send_turn (ts ! i) c of (t, c') \<Rightarrow> turns is (ts[i := t], c') else turns is (ts, c))"

lemma turns_append: "turns (is @ js) s = turns js (turns is s)"
  by (induction "is" s rule: turns.induct) (auto split: prod.splits)

section \<open>Uninterrupted turns\<close>

lemma turns_done: "i < length ts \<Longrightarrow> ts ! i = Done r \<Longrightarrow> turns (replicate n i) (ts, c) = (ts, c)"
proof (induction n)
  case (Suc n)
  moreover have "ts[i := Done r] = ts" using Suc.prems by (metis list_update_id)
  ultimately show ?case by simp
qed simp

lemma turns_writing:
  assumes "i < length ts" "ts ! i = Writing ps" "length ps < n"
  shows "turns (replicate n i) (ts, c) = (case write_parts ps c of (r, c') \<Rightarrow> (ts[i := Done r], c'))"
  using assms
proof (induction n arbitrary: ts ps c)
  case (Suc n)
  show ?case
  proof (cases ps)
    case Nil
    then show ?thesis using Suc.prems by (simp add: turns_done)
  next
    case (Cons p r)
    obtain b msg where p: "p = (b, msg)" by force
    show ?thesis
      using Suc Cons p by (auto simp: turns_done split: prod.splits option.splits)
  qed
qed simp

text \<open>\<^verbatim>\<open>Send\<close> is its beginning followed by the writes.\<close>

lemma begin_send_cases:
  obtains (early) r c1 where "begin_send ctx data c = (Done r, c1)" "Send ctx data c = (r, c1)"
  | (parts) d c1 where "begin_send ctx data c = (Writing (packet_parts d), c1)" "Send ctx data c = write_parts (packet_parts d) c1"
proof (cases ctx)
  case None
  then show ?thesis using early by (simp add: begin_send_def Send_def)
next
  case (Some cx)
  define c1 where "c1 = (if length (GetSessionKey c) \<noteq> 0 then c\<lparr>t_draws := Suc (t_draws c)\<rparr> else c)"
  note defs = begin_send_def Send_def payload_def [symmetric] packet_parts_def [symmetric] Let_def c1_def [symmetric]
  show ?thesis
  proof (cases "length data = 0 \<or> GetState c = StateDisconnecting")
    case True
    then show ?thesis using early Some unfolding defs by (cases "length data = 0") simp_all
  next
    case False
    show ?thesis
    proof (cases "payload (GetSessionKey c) data (t_rand c (t_draws c))")
      case (Return d)
      obtain x c2 where "set_deadline cx c1 = (x, c2)" by force
      then show ?thesis using early parts Some False Return unfolding defs by (cases x) (simp_all del: write_parts.simps)
    next
      case (Fail e)
      then show ?thesis using early Some False unfolding defs by (simp del: write_parts.simps)
    next
      case (Panic e)
      then show ?thesis using early Some False unfolding defs by (simp del: write_parts.simps)
    next
      case Parked
      then show ?thesis using early Some False unfolding defs by (simp del: write_parts.simps)
    qed
  qed
qed

lemma send_is_five_turns:
  assumes "i < length ts" "ts ! i = Called ctx data"
  shows "turns (replicate 5 i) (ts, c) = (case Send ctx data c of (r, c') \<Rightarrow> (ts[i := Done r], c'))"
proof -
  have "turns (replicate (Suc 4) i) (ts, c) = (case Send ctx data c of (r, c') \<Rightarrow> (ts[i := Done r], c'))"
  proof (cases rule: begin_send_cases [of ctx data c])
    case (early r c1)
    with assms show ?thesis by (simp only: replicate_Suc turns.simps send_turn.simps if_True) (simp add: turns_done)
  next
    case (parts d c1)
    with assms show ?thesis
      by (simp only: replicate_Suc turns.simps send_turn.simps if_True)
        (simp add: turns_writing packet_parts_def del: write_parts.simps replicate_Suc split: prod.splits)
  qed
  then show ?thesis by simp
qed

text \<open>Whole calls one after the other, in any order of the senders, are the calls in that order.\<close>

lemma serial_turns:
  assumes "distinct is" "\<forall>i \<in> set is. i < length ts \<and> ts ! i = Called (Some cx) (ds ! i)"
  shows "\<exists>ts'. turns (concat (map (replicate 5) is)) (ts, c) = (ts', snd (send_all cx (map ((!) ds) is) c)) \<and>
    length ts' = length ts \<and> map ((!) ts') is = map Done (fst (send_all cx (map ((!) ds) is) c)) \<and>
    (\<forall>j. j \<notin> set is \<longrightarrow> ts' ! j = ts ! j)"
  using assms
proof (induction "is" arbitrary: ts c)
  case (Cons i "is")
  obtain r c1 where s: "Send (Some cx) (ds ! i) c = (r, c1)" by force
  have 1: "turns (replicate 5 i) (ts, c) = (ts[i := Done r], c1)"
    using send_is_five_turns [of i ts] Cons.prems s by simp
  have "\<forall>j \<in> set is. j < length (ts[i := Done r]) \<and> ts[i := Done r] ! j = Called (Some cx) (ds ! j)"
    using Cons.prems by (auto simp: nth_list_update)
  then obtain ts' where ih: "turns (concat (map (replicate 5) is)) (ts[i := Done r], c1) = (ts', snd (send_all cx (map ((!) ds) is) c1))"
    "length ts' = length (ts[i := Done r])" "map ((!) ts') is = map Done (fst (send_all cx (map ((!) ds) is) c1))"
    "\<forall>j. j \<notin> set is \<longrightarrow> ts' ! j = ts[i := Done r] ! j"
    using Cons.IH [of "ts[i := Done r]" c1] Cons.prems(1) by auto
  have "ts' ! i = Done r" using ih(4) Cons.prems by simp
  moreover have "ts' ! j = ts ! j" if "j \<notin> set (i # is)" for j using ih(4) that by simp
  moreover have "turns (concat (map (replicate 5) (i # is))) (ts, c) = (ts', snd (send_all cx (map ((!) ds) is) c1))"
    by (simp only: list.map concat.simps turns_append 1 ih(1))
  moreover obtain xs c2 where "send_all cx (map ((!) ds) is) c1 = (xs, c2)" by force
  ultimately show ?case using s ih(2,3) by (intro exI [of _ ts']) simp
qed simp

section \<open>Interrupted turns\<close>

lemma begin_send_healthy:
  assumes "healthy c" "armed c" "sendable m"
  obtains body d k where "begin_send (Some cx) m c = (Writing (packet_parts body), c\<lparr>t_draws := d, t_calls := k\<rparr>)"
    and "carries (t_key c) body m"
proof -
  have m: "m \<noteq> []" "length m + 32 \<le> max_packet" using assms(3) by (auto simp: sendable_def max_packet_def)
  obtain body where b: "payload (t_key c) m (t_rand c (t_draws c)) = Return body" "length body \<le> length m + 32"
      "t_key c \<noteq> [] \<longrightarrow> SymmetricDecrypt body (t_key c) True = Return m" "t_key c = [] \<longrightarrow> body = m"
    by (rule armed_payload [OF assms(2) m(1), of "t_draws c"])
  define d where "d = (if length (t_key c) \<noteq> 0 then Suc (t_draws c) else t_draws c)"
  have d': "(if length (t_key c) \<noteq> 0 then c\<lparr>t_draws := Suc (t_draws c)\<rparr> else c) = c\<lparr>t_draws := d\<rparr>" by (simp add: d_def)
  have "healthy (c\<lparr>t_draws := d\<rparr>)" using assms(1) by simp
  then obtain k where k: "set_deadline cx (c\<lparr>t_draws := d\<rparr>) = (None, c\<lparr>t_draws := d, t_calls := k\<rparr>)"
    by (rule set_deadline_healthy [of _ cx]) auto
  have "begin_send (Some cx) m c = (Writing (packet_parts body), c\<lparr>t_draws := d, t_calls := k\<rparr>)"
    using m(1) healthy_open(4) [OF assms(1)] b(1)
    unfolding begin_send_def GetSessionKey_def GetState_def Let_def d' by (simp add: k)
  moreover have "carries (t_key c) body m" using b m by (auto simp: carries_def unwrap_def)
  ultimately show ?thesis by (rule that)
qed

lemma send_turn_write:
  "healthy c \<Longrightarrow> send_turn (Writing ((b, msg) # r)) c =
     (Writing r, c\<lparr>t_calls := Suc (t_calls c), t_conn := (t_conn c)\<lparr>nc_out := nc_out (t_conn c) @ b\<rparr>\<rparr>)"
  using healthy_open [of c] by (simp add: healthy_netcall net_write_def Let_def)

text \<open>A stream whose second four bytes are not the magic.\<close>

lemma Read_bad_magic:
  assumes "healthy p" "nc_in (t_conn p) = le_bytes 4 (of_nat n :: uint32) @ le_bytes 4 (m :: uint32) @ rest" "n \<le> max_packet" "m \<noteq> TCPMagic"
  shows "fst (Read (Some cx) p) = Fail (bad_magic m)"
proof -
  obtain k where k: "set_deadline cx p = (None, p\<lparr>t_calls := k\<rparr>)"
    by (rule set_deadline_healthy [OF assms(1), of cx])
  show ?thesis
    using assms healthy_open [OF assms(1)] unfolding Read_def Read_end
    by (simp add: GetState_def k read_part_healthy packet_limit Let_def)
qed

lemma small_not_magic: "n \<le> max_packet \<Longrightarrow> (of_nat n :: uint32) \<noteq> TCPMagic"
proof
  assume "n \<le> max_packet" "(of_nat n :: uint32) = TCPMagic"
  then have "unat TCPMagic \<le> max_packet" using unat_small [of n] by simp
  then show False by (simp add: TCPMagic_def max_packet_def)
qed

lemma interleaved_writes:
  assumes "healthy c"
  shows "\<exists>k. turns [0, 1, 0, 1, 0, 1, 0, 1] ([Writing (packet_parts a), Writing (packet_parts b)], c) =
    ([Done (Return ()), Done (Return ())], c\<lparr>t_calls := k, t_conn := (t_conn c)\<lparr>nc_out := nc_out (t_conn c) @
       le_bytes 4 (of_nat (length a) :: uint32) @ le_bytes 4 (of_nat (length b) :: uint32) @
       le_bytes 4 TCPMagic @ le_bytes 4 TCPMagic @ a @ b\<rparr>\<rparr>)"
  by (rule exI [of _ "t_calls c + 6"]) (use assms in \<open>simp add: packet_parts_def send_turn_write del: send_turn.simps(3) le_bytes.simps\<close>)

section \<open>Property\<close>

text \<open>The other end of the connection, with what has been written as its input.\<close>

definition fed :: "TCPConnection \<Rightarrow> TCPConnection \<Rightarrow> TCPConnection" where
  "fed c p = p\<lparr>t_conn := (t_conn p)\<lparr>nc_in := nc_out (t_conn c)\<rparr>\<rparr>"

text \<open>Property C5: concurrent calls of \<^verbatim>\<open>Send\<close>. When the calls follow one another, in whatever order
  the goroutines get their turn, all succeed and the peer reads the messages in that order. But
  nothing keeps the three writes of a packet together: of any two messages there is a schedule
  in which both calls succeed and the peer finds the length of the second packet where the magic of
  the first should be, and fails.\<close>

theorem concurrent_sends:
  assumes "healthy c" and "armed c" and "nc_out (t_conn c) = []" and "\<forall>m \<in> set ms. sendable m"
    and "healthy p" and "t_key p = t_key c"
  shows "(\<forall>order. distinct order \<and> set order = {..<length ms} \<longrightarrow>
      (\<exists>c'. turns (concat (map (replicate 5) order)) (map (Called (Some cx)) ms, c) = (replicate (length ms) (Done (Return ())), c') \<and>
         fst (read_all cx' (length ms) (fed c' p)) = map (\<lambda>i. Return (Some (ms ! i))) order)) \<and>
    (\<forall>a b. ms = [a, b] \<longrightarrow>
      (\<exists>c' n. turns [0, 1, 0, 1, 0, 1, 0, 1, 0, 1] (map (Called (Some cx)) ms, c) = ([Done (Return ()), Done (Return ())], c') \<and>
         fst (Read (Some cx') (fed c' p)) = Fail (bad_magic n)))"
proof (intro conjI allI impI)
  fix order :: "nat list"
  assume o: "distinct order \<and> set order = {..<length ms}"
  then have l: "length order = length ms" using distinct_card [of order] by simp
  let ?os = "map ((!) ms) order"
  obtain ts' where t: "turns (concat (map (replicate 5) order)) (map (Called (Some cx)) ms, c) = (ts', snd (send_all cx ?os c))"
    and ts': "length ts' = length ms" "map ((!) ts') order = map Done (fst (send_all cx ?os c))"
    using serial_turns [of order "map (Called (Some cx)) ms" cx ms c] o by auto
  have "\<forall>m \<in> set ?os. m \<noteq> [] \<and> length m \<le> max_packet - 32" using assms(4) o by (auto simp: sendable_def)
  with send_all_healthy [OF assms(1,2), of ?os cx] assms(3)
  obtain bodies c' where s: "send_all cx ?os c = (map (\<lambda>_. Return ()) ?os, c')"
    and b: "list_all2 (carries (t_key c)) bodies ?os" "nc_out (t_conn c') = concat (map frame bodies)" by auto
  have "ts' ! i = Done (Return ())" if "i < length ms" for i
    using ts'(2) o that s by (auto simp: map_eq_conv comp_def)
  then have "ts' = replicate (length ms) (Done (Return ()))" using ts'(1) by (intro nth_equalityI) simp_all
  moreover have "fst (read_all cx' (length ?os) (fed c' p)) = map (\<lambda>m. Return (Some m)) ?os"
    using assms(5,6) b by (intro conjunct1 [OF read_all_frames [where rest = "[]"]]) (simp_all add: fed_def)
  ultimately show "\<exists>c'. turns (concat (map (replicate 5) order)) (map (Called (Some cx)) ms, c) = (replicate (length ms) (Done (Return ())), c') \<and>
      fst (read_all cx' (length ms) (fed c' p)) = map (\<lambda>i. Return (Some (ms ! i))) order"
    using t s l by (simp add: comp_def)
next
  fix a b assume ms: "ms = [a, b]"
  obtain A d k where A: "begin_send (Some cx) a c = (Writing (packet_parts A), c\<lparr>t_draws := d, t_calls := k\<rparr>)" "carries (t_key c) A a"
    by (rule begin_send_healthy [OF assms(1,2), of a cx]) (use assms(4) ms in auto)
  let ?c1 = "c\<lparr>t_draws := d, t_calls := k\<rparr>"
  have h: "healthy ?c1" "armed ?c1" using assms(1,2) by (simp_all add: armed_def)
  obtain B d' k' where B: "begin_send (Some cx) b ?c1 = (Writing (packet_parts B), ?c1\<lparr>t_draws := d', t_calls := k'\<rparr>)" "carries (t_key ?c1) B b"
    by (rule begin_send_healthy [OF h, of b cx]) (use assms(4) ms in auto)
  let ?c2 = "?c1\<lparr>t_draws := d', t_calls := k'\<rparr>"
  have "healthy ?c2" using assms(1) by simp
  from interleaved_writes [OF this, of A B] obtain k2 where
    "turns [0, 1, 0, 1, 0, 1, 0, 1] ([Writing (packet_parts A), Writing (packet_parts B)], ?c2) =
      ([Done (Return ()), Done (Return ())], ?c2\<lparr>t_calls := k2, t_conn := (t_conn ?c2)\<lparr>nc_out := nc_out (t_conn ?c2) @
       le_bytes 4 (of_nat (length A) :: uint32) @ le_bytes 4 (of_nat (length B) :: uint32) @
       le_bytes 4 TCPMagic @ le_bytes 4 TCPMagic @ A @ B\<rparr>\<rparr>)" (is "_ = (_, ?c3)") by blast
  then have "turns [0, 1, 0, 1, 0, 1, 0, 1, 0, 1] (map (Called (Some cx)) ms, c) = ([Done (Return ()), Done (Return ())], ?c3)"
    using A(1) B(1) by (simp add: ms)
  moreover have "fst (Read (Some cx') (fed ?c3 p)) = Fail (bad_magic (of_nat (length B)))"
    by (rule Read_bad_magic [where n = "length A"])
      (use assms(3,5) A(2) B(2) in \<open>simp_all add: fed_def carries_def small_not_magic del: le_bytes.simps\<close>)
  ultimately show "\<exists>c' n. turns [0, 1, 0, 1, 0, 1, 0, 1, 0, 1] (map (Called (Some cx)) ms, c) = ([Done (Return ()), Done (Return ())], c') \<and>
      fst (Read (Some cx') (fed c' p)) = Fail (bad_magic n)" by blast
qed

theorem concurrent_sends_witness:
  "(\<exists>c'. turns (concat (map (replicate 5) [1, 0])) (map (Called (Some Background)) [[1], [2, 3]], sample_conn (replicate 32 5) []) =
        (replicate 2 (Done (Return ())), c') \<and>
      fst (read_all Background 2 (fed c' (sample_conn (replicate 32 5) []))) = [Return (Some [2, 3]), Return (Some [1])]) \<and>
   (\<exists>c' n. turns [0, 1, 0, 1, 0, 1, 0, 1, 0, 1] (map (Called (Some Background)) [[1], [2, 3]], sample_conn (replicate 32 5) []) =
        ([Done (Return ()), Done (Return ())], c') \<and>
      fst (Read (Some Background) (fed c' (sample_conn (replicate 32 5) []))) = Fail (bad_magic n))"
proof -
  let ?c = "sample_conn (replicate 32 5) []"
  have h: "healthy ?c" "armed ?c" "nc_out (t_conn ?c) = []" "\<forall>m \<in> set [[1], [2, 3 :: byte]]. sendable m"
    by (simp_all add: sendable_def max_packet_def)
  note t = concurrent_sends [OF h h(1) refl, of Background Background]
  have "distinct [1, 0 :: nat] \<and> set [1, 0 :: nat] = {..<length [[1], [2, 3 :: byte]]}" by auto
  with conjunct1 [OF t] have "\<exists>c'. turns (concat (map (replicate 5) [1, 0])) (map (Called (Some Background)) [[1], [2, 3]], ?c) =
        (replicate (length [[1], [2, 3 :: byte]]) (Done (Return ())), c') \<and>
      fst (read_all Background (length [[1], [2, 3 :: byte]]) (fed c' ?c)) = map (\<lambda>i. Return (Some ([[1], [2, 3]] ! i))) [1, 0]"
    by blast
  moreover have "length [[1], [2, 3 :: byte]] = 2" "map (\<lambda>i. Return (Some ([[1], [2, 3 :: byte]] ! i))) [1, 0] = [Return (Some [2, 3]), Return (Some [1])]"
    by simp_all
  ultimately show ?thesis using conjunct2 [OF t] by metis
qed

end
