(* ===== verification/Protocol.thy ===== *)
theory Protocol
  imports Connection Identity
begin

text \<open>
  Package \<^verbatim>\<open>protocol\<close>: message headers and their wire forms (\<^verbatim>\<open>read.go\<close>, \<^verbatim>\<open>write.go\<close>), the
  handlers (\<^verbatim>\<open>handlers.go\<close>), the heartbeat (\<^verbatim>\<open>heartbeat.go\<close>), and the run loop
  (\<^verbatim>\<open>protocol.go\<close>), over any connection with the operations of \<open>Connection\<close>.

  A call returns how it ends and the new state. A plain send on the events channel parks
  the goroutine when the buffer is full. Messages nest without a bound (a compressed
  message may unpack to a larger one), so reading takes fuel, and running out of it is
  \<open>None\<close>; the run loop takes fuel for the packets it reads.
\<close>

section \<open>Headers, events and state\<close>

definition JOBID_NONE :: uint64 where "JOBID_NONE = 18446744073709551615"
definition PROTO_MASK :: uint32 where "PROTO_MASK = 0x80000000"

record Header =
  h_EMsg :: EMsg
  h_Proto :: "CMsgProtoBufHeader option"
  h_TargetJobID :: uint64
  h_SourceJobID :: uint64
  h_SteamID :: uint64
  h_SessionID :: "32 word"

definition new_Header :: "EMsg \<Rightarrow> Header" where
  "new_Header e = \<lparr>h_EMsg = e, h_Proto = None, h_TargetJobID = 0, h_SourceJobID = 0, h_SteamID = 0, h_SessionID = 0\<rparr>"

record env = codec +
  json_header :: "Header \<Rightarrow> string result"

datatype Event =
    EventMessageSent EMsg string string
  | EventMessageReceived EMsg string
  | EventConnected
  | EventLoggedOn SteamID "32 word"
  | EventError goerr
  | EventItemAnnouncements uint32
  | EventUserNotification uint32 uint32
  | EventSteamGuardChallenge AuthSession "AllowedConfirmation list"

text \<open>
  A heartbeat goroutine, with its interval: started, waiting in its \<^verbatim>\<open>select\<close> on the stop
  channel it read from the protocol when it entered (\<open>None\<close> for nil), or sending.
\<close>

datatype beat = Starting int | Waiting int "nat option" | Ticking int

record 'c Protocol =
  p_events :: "Event channel"
  p_connection :: 'c
  p_sessionKey :: bytes
  p_stopHeartbeat :: "nat option"
  p_steamID :: SteamID
  p_sessionID :: "32 word"
  p_channels :: nat
  p_closed :: "nat list"
  p_beats :: "beat list"
  p_random :: "nat \<Rightarrow> entropy \<times> entropy"
  p_drawn :: nat

definition ErrEmptyConnection :: goerr where "ErrEmptyConnection = ErrNew ''empty connection''"

definition NewProtocol :: "(nat \<Rightarrow> entropy \<times> entropy) \<Rightarrow> 'c option \<Rightarrow> Event channel \<Rightarrow> 'c Protocol result" where
  "NewProtocol rnd conn events =
     (case conn of
        None \<Rightarrow> Inl ErrEmptyConnection
      | Some c \<Rightarrow>
        Inr \<lparr>p_events = events, p_connection = c, p_sessionKey = [], p_stopHeartbeat = None, p_steamID = 0,
             p_sessionID = 0, p_channels = 0, p_closed = [], p_beats = [], p_random = rnd, p_drawn = 0\<rparr>)"

definition Protocol_Events :: "'c Protocol \<Rightarrow> Event channel" where "Protocol_Events h = p_events h"

text \<open>Sends on the events channel: dropped when full, or parked.\<close>

definition offer :: "Event \<Rightarrow> 'c Protocol \<Rightarrow> 'c Protocol" where
  "offer e h = h\<lparr>p_events := try_send e (p_events h)\<rparr>"

definition emit :: "Event \<Rightarrow> 'c Protocol \<Rightarrow> unit outcome \<times> 'c Protocol" where
  "emit e h =
     (if chan_full (p_events h) then (Parked, h)
      else (Return (), h\<lparr>p_events := chan_push e (p_events h)\<rparr>))"

section \<open>Writing\<close>

text \<open>The header as it is sent, and the header struct, which the call completes in place.\<close>

definition fill_proto :: "Header \<Rightarrow> Header" where
  "fill_proto header =
     (case h_Proto header of
        None \<Rightarrow> header
      | Some ph \<Rightarrow>
        if h_EMsg header = EMsg_ClientHello \<or> h_EMsg header = EMsg_ServiceMethodCallFromClientNonAuthed then header
        else
          let ph1 = (if ph_ClientSessionid ph = None then ph\<lparr>ph_ClientSessionid := Some 0\<rparr> else ph);
              ph2 = (if ph_Steamid ph1 = None then ph1\<lparr>ph_Steamid := Some 0\<rparr> else ph1)
          in header\<lparr>h_Proto := Some ph2\<rparr>)"

definition header_bytes :: "env \<Rightarrow> Header \<Rightarrow> bytes result \<times> Header" where
  "header_bytes en header =
     (if h_EMsg header = EMsg_ChannelEncryptResponse then
        (Inr (le_bytes 4 (h_EMsg header) @ le_bytes 8 (h_TargetJobID header) @ le_bytes 8 (h_SourceJobID header)), header)
      else if h_Proto header \<noteq> None then
        let header1 = fill_proto header in
        (case pb_header en (the (h_Proto header1)) of
           Inl err \<Rightarrow> (Inl (ErrWrap ''failed to marshal protobuf'' err), header1)
         | Inr b \<Rightarrow>
             (Inr (le_bytes 4 (h_EMsg header1 OR PROTO_MASK) @ le_bytes 4 (of_nat (length b) :: uint32) @ b), header1))
      else
        (Inr (le_bytes 4 (h_EMsg header) @ le_bytes 4 (36 :: uint32) @ le_bytes 2 (2 :: uint16) @
           le_bytes 8 (h_TargetJobID header) @ le_bytes 8 (h_SourceJobID header) @ le_bytes 1 (239 :: uint8) @
           le_bytes 8 (h_SteamID header) @ le_bytes 4 (h_SessionID header)), header))"

definition Write :: "env \<Rightarrow> 'c Connection \<Rightarrow> goctx option \<Rightarrow> Header option \<Rightarrow> bytes \<Rightarrow> 'c Protocol \<Rightarrow>
    unit outcome \<times> Header option \<times> 'c Protocol" where
  "Write en ops ctx header body h =
     (case header of
        None \<Rightarrow> (Panic ErrNilDeref, None, h)
      | Some hdr \<Rightarrow>
        (case header_bytes en hdr of
           (Inl err, hdr1) \<Rightarrow> (Fail err, Some hdr1, h)
         | (Inr headerBuf, hdr1) \<Rightarrow>
           (case cSend ops ctx (headerBuf @ body) (p_connection h) of
              (Return _, c) \<Rightarrow> (Return (), Some hdr1, h\<lparr>p_connection := c\<rparr>)
            | (Fail err, c) \<Rightarrow> (Fail (ErrWrap ''failed to send'' err), Some hdr1, h\<lparr>p_connection := c\<rparr>)
            | (Panic e, c) \<Rightarrow> (Panic e, Some hdr1, h\<lparr>p_connection := c\<rparr>)
            | (Parked, c) \<Rightarrow> (Parked, Some hdr1, h\<lparr>p_connection := c\<rparr>))))"

definition wrap :: "string \<Rightarrow> 'a outcome \<Rightarrow> 'a outcome" where
  "wrap msg r = (case r of Fail e \<Rightarrow> Fail (ErrWrap msg e) | x \<Rightarrow> x)"

lemma wrap_simps [simp]:
  "wrap m (Return x) = Return x" "wrap m (Fail e) = Fail (ErrWrap m e)" "wrap m (Panic e) = Panic e"
  "wrap m Parked = Parked" "(\<exists>e. wrap m r = Fail e) \<longleftrightarrow> (\<exists>e. r = Fail e)"
  by (simp_all add: wrap_def split: outcome.splits)

text \<open>A nil header passes the JSON step but not the event, which reads its EMsg. A nil body is
  sent as no bytes.\<close>

definition Protocol_Send :: "env \<Rightarrow> 'c Connection \<Rightarrow> goctx option \<Rightarrow> Header option \<Rightarrow> message option \<Rightarrow> 'c Protocol \<Rightarrow>
    unit outcome \<times> 'c Protocol" where
  "Protocol_Send en ops ctx header body h =
     (case (case header of None \<Rightarrow> Inr [] | Some hdr \<Rightarrow> json_header en hdr) of
        Inl err \<Rightarrow> (Fail (ErrWrap ''failed to marshal header'' err), h)
      | Inr headerJSON \<Rightarrow>
        (case (case body of None \<Rightarrow> Inr [] | Some m \<Rightarrow> json_message en m) of
           Inl err \<Rightarrow> (Fail (ErrWrap ''failed to marshal body'' err), h)
         | Inr bodyJSON \<Rightarrow>
           (case header of
              None \<Rightarrow> (Panic ErrNilDeref, h)
            | Some hdr \<Rightarrow>
              let h1 = offer (EventMessageSent (h_EMsg hdr) headerJSON bodyJSON) h in
              (case (case body of None \<Rightarrow> Inr [] | Some m \<Rightarrow> pb_message en m) of
                 Inl err \<Rightarrow> (Fail (ErrWrap ''failed to marshal protobuf'' err), h1)
               | Inr b \<Rightarrow>
                 (case Write en ops ctx header b h1 of
                    (r, _, h2) \<Rightarrow> (wrap ''failed to write response'' r, h2))))))"

section \<open>Reading headers\<close>

definition bad_header_read :: "uint32 \<Rightarrow> nat \<Rightarrow> goerr" where
  "bad_header_read len n = ErrNew (''incomplete protobuf header read: expected '' @ FormatUint (unat len) @
     '' bytes, got '' @ FormatUint n)"

definition readProtobufHeader :: "env \<Rightarrow> Header \<Rightarrow> bytes \<Rightarrow> (Header \<times> bytes) result" where
  "readProtobufHeader en header r =
     (case read_u32 r of
        Inl err \<Rightarrow> Inl (ErrWrap ''failed to read header length'' err)
      | Inr (headerLength, r1) \<Rightarrow>
        (case reader_Read (unat headerLength) r1 of
           Inl err \<Rightarrow> Inl (ErrWrap ''failed to read protobuf header data'' err)
         | Inr (headerBytes, r2) \<Rightarrow>
           if length headerBytes \<noteq> unat headerLength then Inl (bad_header_read headerLength (length headerBytes))
           else
             (case pb_to_header en headerBytes of
                Inl err \<Rightarrow> Inl (ErrWrap ''failed to unmarshal protobuf header'' err)
              | Inr ph \<Rightarrow>
                Inr (header\<lparr>h_Proto := Some ph, h_TargetJobID := GetJobidTarget (Some ph),
                       h_SourceJobID := GetJobidSource (Some ph), h_SteamID := GetSteamid (Some ph),
                       h_SessionID := GetClientSessionid (Some ph)\<rparr>, r2))))"

definition readStandardHeader :: "Header \<Rightarrow> bytes \<Rightarrow> (Header \<times> bytes) result" where
  "readStandardHeader header r =
     (if length r < 16 then
        Inl (ErrNew (''insufficient data for standard header: need 16 bytes, have '' @ FormatUint (length r)))
      else
        (case read_u64 r of
           Inl err \<Rightarrow> Inl (ErrWrap ''failed to read TargetJobID'' err)
         | Inr (target, r1) \<Rightarrow>
           (case read_u64 r1 of
              Inl err \<Rightarrow> Inl (ErrWrap ''failed to read SourceJobID'' err)
            | Inr (src, r2) \<Rightarrow> Inr (header\<lparr>h_TargetJobID := target, h_SourceJobID := src\<rparr>, r2))))"

text \<open>The job numbers and the canary, which both extended forms start with.\<close>

definition read_jobs :: "Header \<Rightarrow> bytes \<Rightarrow> (Header \<times> bytes) result" where
  "read_jobs header r =
     (case read_u64 r of
        Inl err \<Rightarrow> Inl (ErrWrap ''failed to read TargetJobID'' err)
      | Inr (target, r1) \<Rightarrow>
        (case read_u64 r1 of
           Inl err \<Rightarrow> Inl (ErrWrap ''failed to read SourceJobID'' err)
         | Inr (src, r2) \<Rightarrow>
           (case read_u8 r2 of
              Inl err \<Rightarrow> Inl (ErrWrap ''failed to read canary'' err)
            | Inr (canary, r3) \<Rightarrow> Inr (header\<lparr>h_TargetJobID := target, h_SourceJobID := src\<rparr>, r3))))"

definition readExtendedHeader :: "Header \<Rightarrow> bytes \<Rightarrow> (Header \<times> bytes) result" where
  "readExtendedHeader header r =
     (case read_u8 r of
        Inl err \<Rightarrow> Inl (ErrWrap ''failed to read header size'' err)
      | Inr (headerSize, r1) \<Rightarrow>
        (case read_u16 r1 of
           Inl err \<Rightarrow> Inl (ErrWrap ''failed to read header version'' err)
         | Inr (headerVersion, r2) \<Rightarrow>
           if headerSize = 0 then Inr (header, r2)
           else if headerSize = 20 then
             (case read_jobs header r2 of
                Inl err \<Rightarrow> Inl err
              | Inr (header1, r3) \<Rightarrow>
                (case read_u8 r3 of
                   Inl err \<Rightarrow> Inl (ErrWrap ''failed to read padding'' err)
                 | Inr (padding, r4) \<Rightarrow> Inr (header1, r4)))
           else if headerSize = 36 then
             (case read_jobs header r2 of
                Inl err \<Rightarrow> Inl err
              | Inr (header1, r3) \<Rightarrow>
                (case read_u64 r3 of
                   Inl err \<Rightarrow> Inl (ErrWrap ''failed to read SteamID'' err)
                 | Inr (sid, r4) \<Rightarrow>
                   (case read_u32 r4 of
                      Inl err \<Rightarrow> Inl (ErrWrap ''failed to read SessionID'' err)
                    | Inr (session, r5) \<Rightarrow>
                      (case ReadFull 3 r5 of
                         Inl err \<Rightarrow> Inl (ErrWrap ''failed to read padding'' err)
                       | Inr (padding, r6) \<Rightarrow>
                         Inr (header1\<lparr>h_SteamID := sid, h_SessionID := session\<rparr>, r6)))))
           else Inl (ErrNew (''unsupported header size: '' @ FormatUint (unat headerSize)))))"

definition readHeader :: "env \<Rightarrow> Header \<Rightarrow> bytes \<Rightarrow> bool \<Rightarrow> (Header \<times> bytes) result" where
  "readHeader en header r isProtobuf =
     (if isProtobuf then readProtobufHeader en header r
      else if h_EMsg header = EMsg_ChannelEncryptRequest \<or> h_EMsg header = EMsg_ChannelEncryptResult
      then readStandardHeader header r
      else readExtendedHeader header r)"

section \<open>Heartbeat\<close>

definition heartbeat_header :: "'c Protocol \<Rightarrow> Header" where
  "heartbeat_header h =
     (new_Header EMsg_ClientHeartBeat)\<lparr>h_Proto := Some (new_ProtoBufHeader
        \<lparr>ph_Steamid := Some (Uint64 (p_steamID h)), ph_ClientSessionid := Some (p_sessionID h),
         ph_JobidSource := Some JOBID_NONE, ph_JobidTarget := Some JOBID_NONE\<rparr>)\<rparr>"

text \<open>The channel of a running heartbeat is closed, a new one made, and a goroutine started.\<close>

definition startHeartbeat :: "int \<Rightarrow> 'c Protocol \<Rightarrow> 'c Protocol" where
  "startHeartbeat interval h =
     (let h1 = (case p_stopHeartbeat h of None \<Rightarrow> h | Some ch \<Rightarrow> h\<lparr>p_closed := ch # p_closed h\<rparr>)
      in h1\<lparr>p_stopHeartbeat := Some (p_channels h), p_channels := Suc (p_channels h),
            p_beats := p_beats h @ [Starting interval]\<rparr>)"

text \<open>
  The steps of the goroutines. Making the ticker panics for an interval that is not
  positive, which ends the program: such a goroutine has no step, and \<open>crashes\<close> tells.
\<close>

definition crashes :: "'c Protocol \<Rightarrow> bool" where
  "crashes h \<longleftrightarrow> list_ex (\<lambda>b. case b of Starting d \<Rightarrow> d \<le> 0 | _ \<Rightarrow> False) (p_beats h)"

definition heartbeat_send :: "env \<Rightarrow> 'c Connection \<Rightarrow> goctx \<Rightarrow> 'c Protocol \<Rightarrow> unit outcome \<times> 'c Protocol" where
  "heartbeat_send en ops cx h =
     (case Protocol_Send en ops (Some cx) (Some (heartbeat_header h)) (Some ClientHeartBeat) h of
        (Fail err, h1) \<Rightarrow> emit (EventError err) h1
      | (r, h1) \<Rightarrow> (r, h1))"

inductive hb_step :: "env \<Rightarrow> 'c Connection \<Rightarrow> goctx \<Rightarrow> 'c Protocol \<Rightarrow> 'c Protocol \<Rightarrow> bool"
  for en :: env and ops :: "'c Connection" and cx :: goctx where
  hb_begin: "p_beats h = xs @ Starting d # ys \<Longrightarrow> 0 < d \<Longrightarrow>
     hb_step en ops cx h (h\<lparr>p_beats := xs @ Waiting d (p_stopHeartbeat h) # ys\<rparr>)"
| hb_stop: "p_beats h = xs @ Waiting d (Some ch) # ys \<Longrightarrow> ch \<in> set (p_closed h) \<Longrightarrow>
     hb_step en ops cx h (h\<lparr>p_beats := xs @ ys\<rparr>)"
| hb_cancel: "p_beats h = xs @ Waiting d c # ys \<Longrightarrow> ctx_done_at cx \<noteq> None \<Longrightarrow>
     hb_step en ops cx h (h\<lparr>p_beats := xs @ ys\<rparr>)"
| hb_tick: "p_beats h = xs @ Waiting d c # ys \<Longrightarrow>
     hb_step en ops cx h (h\<lparr>p_beats := xs @ Ticking d # ys\<rparr>)"
| hb_beat: "p_beats h = xs @ Ticking d # ys \<Longrightarrow> heartbeat_send en ops cx h = (Return (), h1) \<Longrightarrow>
     hb_step en ops cx h (h1\<lparr>p_beats := xs @ Waiting d (p_stopHeartbeat h1) # ys\<rparr>)"

inductive_cases hb_stepE: "hb_step en ops cx h h'"

section \<open>Handlers\<close>

definition read_all_body :: "(bytes \<Rightarrow> 'm result) \<Rightarrow> bytes \<Rightarrow> ('m \<Rightarrow> 'c Protocol \<Rightarrow> unit outcome \<times> 'c Protocol) \<Rightarrow>
    'c Protocol \<Rightarrow> unit outcome \<times> 'c Protocol" where
  "read_all_body unmarshal body k h =
     (case unmarshal body of
        Inl err \<Rightarrow> (Fail (ErrWrap ''failed to unmarshal body'' err), h)
      | Inr m \<Rightarrow> k m h)"

definition response_body :: "uint32 \<Rightarrow> bytes \<Rightarrow> bytes \<Rightarrow> bytes" where
  "response_body protocol encrypted nonce =
     le_bytes 4 protocol @ le_bytes 4 (of_nat (length encrypted) :: uint32) @ encrypted @
     le_bytes 4 (ChecksumIEEE encrypted) @ nonce"

definition handleChannelEncryptRequest :: "env \<Rightarrow> 'c Connection \<Rightarrow> goctx \<Rightarrow> Header \<Rightarrow> bytes \<Rightarrow> 'c Protocol \<Rightarrow>
    unit outcome \<times> 'c Protocol" where
  "handleChannelEncryptRequest en ops cx header body h =
     (case read_u32 body of
        Inl err \<Rightarrow> (Fail (ErrWrap ''failed to read protocol'' err), h)
      | Inr (protocol, r1) \<Rightarrow>
        if protocol \<noteq> 1 then (Fail (ErrNew (''unsupported protocol: '' @ FormatUint (unat protocol))), h)
        else
          (case read_u32 r1 of
             Inl err \<Rightarrow> (Fail (ErrWrap ''failed to read universe'' err), h)
           | Inr (universe, r2) \<Rightarrow>
             if universe \<noteq> 1 then (Fail (ErrNew (''unsupported universe: '' @ FormatUint (unat universe))), h)
             else
               (case reader_Read 16 r2 of
                  Inl err \<Rightarrow> (Fail (ErrWrap ''failed to read nonce'' err), h)
                | Inr (got, r3) \<Rightarrow>
                  let nonce = got @ replicate (16 - length got) 0;
                      h1 = h\<lparr>p_drawn := Suc (p_drawn h)\<rparr>
                  in (case GenerateSessionKey (fst (p_random h (p_drawn h))) (snd (p_random h (p_drawn h))) of
                        Inl err \<Rightarrow> (Fail (ErrWrap ''failed to generate session key'' err), h1)
                      | Inr (plain, encrypted) \<Rightarrow>
                        let h2 = h1\<lparr>p_sessionKey := plain\<rparr>;
                            hdr = (new_Header EMsg_ChannelEncryptResponse)
                              \<lparr>h_TargetJobID := h_TargetJobID header, h_SourceJobID := h_SourceJobID header\<rparr>
                        in (case Write en ops (Some cx) (Some hdr) (response_body protocol encrypted nonce) h2 of
                              (r, _, h3) \<Rightarrow> (wrap ''failed to write response'' r, h3))))))"

definition handleChannelEncryptResult :: "'c Connection \<Rightarrow> bytes \<Rightarrow> 'c Protocol \<Rightarrow> unit outcome \<times> 'c Protocol" where
  "handleChannelEncryptResult ops body h =
     (case read_u32 body of
        Inl err \<Rightarrow> (Fail (ErrWrap ''failed to read eresult'' err), h)
      | Inr (eresult, r) \<Rightarrow>
        if eresult \<noteq> 1 then (Fail (ErrNew (''failed to encrypt channel: '' @ FormatUint (unat eresult))), h)
        else emit EventConnected
               (h\<lparr>p_connection := cSetSessionKey ops (p_sessionKey h) (p_connection h), p_sessionKey := []\<rparr>))"

definition logged_on_header :: "'c Protocol \<Rightarrow> Header" where
  "logged_on_header h =
     (new_Header EMsg_ClientRequestItemAnnouncements)\<lparr>h_Proto := Some (new_ProtoBufHeader
        \<lparr>ph_Steamid := Some (Uint64 (p_steamID h)), ph_ClientSessionid := Some (p_sessionID h)\<rparr>)\<rparr>"

definition handleClientLogOnResponse :: "env \<Rightarrow> 'c Connection \<Rightarrow> goctx \<Rightarrow> Header \<Rightarrow> bytes \<Rightarrow> 'c Protocol \<Rightarrow>
    unit outcome \<times> 'c Protocol" where
  "handleClientLogOnResponse en ops cx header =
     (\<lambda>body. read_all_body (pb_to_logon_response en) body (\<lambda>resp h.
        if GetEresult resp \<noteq> 1 then (Fail (ErrNew (''failed to log in: '' @ FormatInt (sint (GetEresult resp)))), h)
        else case lr_HeartbeatSeconds resp of
            None \<Rightarrow> (Panic ErrNilDeref, h)
          | Some secs \<Rightarrow>
            let h1 = (startHeartbeat (sint secs * Second) h)
                  \<lparr>p_steamID := FromUint64 (GetSteamid (h_Proto header)),
                   p_sessionID := GetClientSessionid (h_Proto header)\<rparr>
            in (case emit (EventLoggedOn (p_steamID h1) (p_sessionID h1)) h1 of
                  (Return _, h2) \<Rightarrow>
                    (case Protocol_Send en ops (Some cx) (Some (logged_on_header h2)) (Some ClientRequestItemAnnouncements) h2 of
                       (r, h3) \<Rightarrow> (wrap ''failed to send item announcements request'' r, h3))
                | (r, h2) \<Rightarrow> (r, h2))))"

definition handleClientItemAnnouncements :: "env \<Rightarrow> bytes \<Rightarrow> 'c Protocol \<Rightarrow> unit outcome \<times> 'c Protocol" where
  "handleClientItemAnnouncements en body =
     read_all_body (pb_to_item_announcements en) body
       (\<lambda>resp h. (Return (), offer (EventItemAnnouncements (GetCountNewItems resp)) h))"

definition handleClientUserNotifications :: "env \<Rightarrow> bytes \<Rightarrow> 'c Protocol \<Rightarrow> unit outcome \<times> 'c Protocol" where
  "handleClientUserNotifications en body =
     read_all_body (pb_to_notifications en) body
       (\<lambda>ns h. (Return (), fold (\<lambda>n. offer (EventUserNotification (GetUserNotificationType n) (GetCount n))) ns h))"

section \<open>Messages within messages\<close>

text \<open>
  The loop over the sub-messages of a multi message. The reader of a sub-message is a
  parameter, which is \<open>readMessage\<close> with less fuel.
\<close>

type_synonym 'c reader = "bytes \<Rightarrow> 'c Protocol \<Rightarrow> (unit outcome \<times> 'c Protocol) option"

function multi_loop :: "'c reader \<Rightarrow> 'c reader" where
  "multi_loop rd data h =
     (if data = [] then Some (Return (), h)
     else
       (case read_u32 data of
          Inl err \<Rightarrow>
            if errors_Is err EOF then
              (case rd [] h of
                 Some (Return _, h1) \<Rightarrow> Some (Return (), h1)
               | Some (r, h1) \<Rightarrow> Some (wrap ''failed to read sub-message'' r, h1)
               | None \<Rightarrow> None)
            else Some (Fail (ErrWrap ''failed to read sub-message size'' err), h)
        | Inr (sz, r1) \<Rightarrow>
          if sz < 4 then Some (Fail (ErrNew (''invalid sub-message size: '' @ FormatUint (unat sz))), h)
          else if (of_nat (length r1) :: uint32) < sz then
            Some (Fail (ErrNew (''insufficient data for sub-message: need '' @ FormatUint (unat sz) @
              '' bytes, have '' @ FormatUint (length r1))), h)
          else
            (case ReadFull (unat sz) r1 of
               Inl err \<Rightarrow> Some (Fail (ErrWrap ''failed to read sub-message data'' err), h)
             | Inr (sub, r2) \<Rightarrow>
               (case rd sub h of
                  Some (Return _, h1) \<Rightarrow> multi_loop rd r2 h1
                | Some (r, h1) \<Rightarrow> Some (wrap ''failed to read sub-message'' r, h1)
                | None \<Rightarrow> None))))"
  by pat_completeness auto
termination
  by (relation "measure (\<lambda>(rd, d, h). length d)") (auto simp: read_le_Inr ReadFull_Inr)

declare multi_loop.simps [simp del]

definition size_mismatch :: "uint32 \<Rightarrow> nat \<Rightarrow> goerr" where
  "size_mismatch expected got = ErrNew (''decompressed size mismatch: expected '' @ FormatUint (unat expected) @
     '', got '' @ FormatUint got)"

text \<open>The data of a multi message: its body, decompressed when a size is given.\<close>

definition multi_data :: "env \<Rightarrow> CMsgMulti \<Rightarrow> bytes result" where
  "multi_data en resp =
     (if length (mu_MessageBody resp) = 0 then Inl (ErrNew ''CMsgMulti contains empty message body'')
      else if GetSizeUnzipped resp \<noteq> 0 then
        (case gzip_NewReader en (mu_MessageBody resp) of
           Inl err \<Rightarrow> Inl (ErrWrap ''failed to create gzip reader'' err)
         | Inr _ \<Rightarrow>
           (case gzip_ReadAll en (mu_MessageBody resp) of
              Inl err \<Rightarrow> Inl (ErrWrap ''failed to create gzip reader'' err)
            | Inr data \<Rightarrow>
              if (of_nat (length data) :: uint32) \<noteq> GetSizeUnzipped resp
              then Inl (size_mismatch (GetSizeUnzipped resp) (length data)) else Inr data))
      else Inr (mu_MessageBody resp))"

definition handleMulti :: "env \<Rightarrow> 'c reader \<Rightarrow> 'c reader" where
  "handleMulti en rd body h =
     (case pb_to_multi en body of
        Inl err \<Rightarrow> Some (Fail (ErrWrap ''failed to unmarshal body'' err), h)
      | Inr resp \<Rightarrow>
        (case multi_data en resp of
           Inl err \<Rightarrow> Some (Fail err, h)
         | Inr data \<Rightarrow> multi_loop rd data h))"

definition handleMessage :: "env \<Rightarrow> 'c Connection \<Rightarrow> goctx \<Rightarrow> 'c reader \<Rightarrow> Header \<Rightarrow> 'c reader" where
  "handleMessage en ops cx rd header body h =
     (case json_header en header of
        Inl err \<Rightarrow> Some (Fail (ErrWrap ''failed to marshal header'' err), h)
      | Inr headerJSON \<Rightarrow>
        let h1 = offer (EventMessageReceived (h_EMsg header) headerJSON) h in
        if h_EMsg header = EMsg_ChannelEncryptRequest then Some (handleChannelEncryptRequest en ops cx header body h1)
        else if h_EMsg header = EMsg_ChannelEncryptResult then Some (handleChannelEncryptResult ops body h1)
        else if h_EMsg header = EMsg_ClientLogOnResponse then Some (handleClientLogOnResponse en ops cx header body h1)
        else if h_EMsg header = EMsg_Multi then handleMulti en rd body h1
        else if h_EMsg header = EMsg_ClientItemAnnouncements then Some (handleClientItemAnnouncements en body h1)
        else if h_EMsg header = EMsg_ClientUserNotifications then Some (handleClientUserNotifications en body h1)
        else Some (Return (), h1))"

fun readMessage :: "nat \<Rightarrow> env \<Rightarrow> 'c Connection \<Rightarrow> goctx \<Rightarrow> 'c reader" where
  "readMessage 0 en ops cx r h = None"
| "readMessage (Suc n) en ops cx r h =
     (case read_u32 r of
        Inl err \<Rightarrow> Some (Fail (ErrWrap ''failed to read message type'' err), h)
      | Inr (rawEMsg, r1) \<Rightarrow>
        (case readHeader en (new_Header (rawEMsg AND NOT PROTO_MASK)) r1 (rawEMsg AND PROTO_MASK \<noteq> 0) of
           Inl err \<Rightarrow> Some (Fail (ErrWrap ''failed to read message header'' err), h)
         | Inr (header, r2) \<Rightarrow>
           map_option (map_prod (wrap ''failed to handle message'') id)
             (handleMessage en ops cx (readMessage n en ops cx) header r2 h)))"

section \<open>The run loop\<close>

fun Run :: "nat \<Rightarrow> nat \<Rightarrow> env \<Rightarrow> 'c Connection \<Rightarrow> goctx \<Rightarrow> 'c Protocol \<Rightarrow> (unit outcome \<times> 'c Protocol) option" where
  "Run 0 depth en ops cx h = None"
| "Run (Suc n) depth en ops cx h =
     (case cRead ops (Some cx) (p_connection h) of
        (Fail err, c) \<Rightarrow> Some (Fail (ErrWrap ''failed to read packet'' err), h\<lparr>p_connection := c\<rparr>)
      | (Panic e, c) \<Rightarrow> Some (Panic e, h\<lparr>p_connection := c\<rparr>)
      | (Parked, c) \<Rightarrow> Some (Parked, h\<lparr>p_connection := c\<rparr>)
      | (Return None, c) \<Rightarrow> Some (Return (), h\<lparr>p_connection := c\<rparr>)
      | (Return (Some packet), c) \<Rightarrow>
        (case readMessage depth en ops cx packet (h\<lparr>p_connection := c\<rparr>) of
           None \<Rightarrow> None
         | Some (Return _, h1) \<Rightarrow> Run n depth en ops cx h1
         | Some (r, h1) \<Rightarrow> Some (wrap ''failed to read message'' r, h1)))"

definition Protocol_Close :: "'c Connection \<Rightarrow> 'c Protocol \<Rightarrow> unit outcome \<times> 'c Protocol" where
  "Protocol_Close ops h =
     (let h1 = (case p_stopHeartbeat h of
                  None \<Rightarrow> h
                | Some ch \<Rightarrow> h\<lparr>p_closed := ch # p_closed h, p_stopHeartbeat := None\<rparr>)
      in case cClose ops (p_connection h1) of (r, c) \<Rightarrow> (r, h1\<lparr>p_connection := c\<rparr>))"

section \<open>Headers read back\<close>

lemma PROTO_MASK_nonzero [simp]: "PROTO_MASK \<noteq> 0"
  by (simp add: PROTO_MASK_def)

lemma emsg_mask:
  "h AND PROTO_MASK = 0 \<Longrightarrow> (h OR PROTO_MASK) AND NOT PROTO_MASK = h"
  "(h OR PROTO_MASK) AND PROTO_MASK \<noteq> 0"
  "h AND PROTO_MASK = 0 \<Longrightarrow> h AND NOT PROTO_MASK = h"
proof -
  have *: "x AND NOT PROTO_MASK = x" if "x AND PROTO_MASK = 0" for x
  proof -
    have "x = (x AND PROTO_MASK) OR (x AND NOT PROTO_MASK)"
      by (metis bit.conj_cancel_right bit.conj_disj_distrib bit.conj_one_right bit.disj_cancel_right)
    with that show ?thesis by simp
  qed
  then show "h AND PROTO_MASK = 0 \<Longrightarrow> h AND NOT PROTO_MASK = h" .
  show "h AND PROTO_MASK = 0 \<Longrightarrow> (h OR PROTO_MASK) AND NOT PROTO_MASK = h"
    using * by (simp add: bit.conj_disj_distrib2)
  have "(h OR PROTO_MASK) AND PROTO_MASK = PROTO_MASK"
    by (rule bit_word_eqI) (auto simp: bit_simps)
  then show "(h OR PROTO_MASK) AND PROTO_MASK \<noteq> 0" by (simp add: PROTO_MASK_def)
qed

text \<open>What the third-party protobuf package promises about headers: unmarshalling gives back
  what was marshalled, and no message reaches 4 GiB.\<close>

definition header_codec :: "env \<Rightarrow> bool" where
  "header_codec en \<longleftrightarrow>
     (\<forall>ph b. pb_header en ph = Inr b \<longrightarrow> pb_to_header en b = Inr ph \<and> length b < 2 ^ 32)"

text \<open>The header a receiver builds from the protobuf header.\<close>

definition received_header :: "EMsg \<Rightarrow> CMsgProtoBufHeader \<Rightarrow> Header" where
  "received_header e ph =
     \<lparr>h_EMsg = e, h_Proto = Some ph, h_TargetJobID = GetJobidTarget (Some ph), h_SourceJobID = GetJobidSource (Some ph),
      h_SteamID = GetSteamid (Some ph), h_SessionID = GetClientSessionid (Some ph)\<rparr>"

lemma readProtobufHeader_append:
  assumes "pb_to_header en b = Inr ph" "length b < 2 ^ 32" "b @ body \<noteq> []"
  shows "readProtobufHeader en (new_Header e) (le_bytes 4 (of_nat (length b) :: uint32) @ b @ body) =
    Inr (received_header e ph, body)"
  using assms by (simp add: readProtobufHeader_def reader_Read_def unat_of_nat received_header_def new_Header_def)

text \<open>The two directions of a message: what \<open>readMessage\<close> does with a written one.\<close>

lemma readMessage_proto:
  assumes "e AND PROTO_MASK = 0" "pb_to_header en b = Inr ph" "length b < 2 ^ 32" "b @ body \<noteq> []"
  shows "readMessage (Suc n) en ops cx
      (le_bytes 4 (e OR PROTO_MASK) @ le_bytes 4 (of_nat (length b) :: uint32) @ b @ body) h =
    map_option (map_prod (wrap ''failed to handle message'') id)
      (handleMessage en ops cx (readMessage n en ops cx) (received_header e ph) body h)"
  using assms by (simp add: readHeader_def emsg_mask readProtobufHeader_append)

lemma readMessage_standard:
  assumes "e = EMsg_ChannelEncryptRequest \<or> e = EMsg_ChannelEncryptResult"
  shows "readMessage (Suc n) en ops cx (le_bytes 4 e @ le_bytes 8 t @ le_bytes 8 s @ body) h =
    map_option (map_prod (wrap ''failed to handle message'') id)
      (handleMessage en ops cx (readMessage n en ops cx)
        ((new_Header e)\<lparr>h_TargetJobID := t, h_SourceJobID := s\<rparr>) body h)"
proof -
  have e: "e AND PROTO_MASK = 0" using assms by (auto simp: emsg_defs PROTO_MASK_def)
  then have "e AND NOT PROTO_MASK = e" by (rule emsg_mask)
  moreover have "readHeader en (new_Header e) (le_bytes 8 t @ le_bytes 8 s @ body) False =
      Inr ((new_Header e)\<lparr>h_TargetJobID := t, h_SourceJobID := s\<rparr>, body)"
    using assms by (auto simp: readHeader_def readStandardHeader_def new_Header_def)
  ultimately show ?thesis using e by simp
qed

section \<open>Sub-messages\<close>

text \<open>The reference: the sub-messages one after the other, until one does not succeed.\<close>

fun read_each :: "'c reader \<Rightarrow> bytes list \<Rightarrow> 'c Protocol \<Rightarrow> (unit outcome \<times> 'c Protocol) option" where
  "read_each rd [] h = Some (Return (), h)"
| "read_each rd (m # ms) h =
     (case rd m h of
        Some (Return _, h1) \<Rightarrow> read_each rd ms h1
      | Some (r, h1) \<Rightarrow> Some (wrap ''failed to read sub-message'' r, h1)
      | None \<Rightarrow> None)"

definition pack :: "bytes list \<Rightarrow> bytes" where
  "pack ms = concat (map (\<lambda>m. le_bytes 4 (of_nat (length m) :: uint32) @ m) ms)"

lemma multi_loop_step:
  assumes "4 \<le> length m" "length m + length r < 2 ^ 32"
  shows "multi_loop rd (le_bytes 4 (of_nat (length m) :: uint32) @ m @ r) h =
    (case rd m h of
       Some (Return _, h1) \<Rightarrow> multi_loop rd r h1
     | Some (x, h1) \<Rightarrow> Some (wrap ''failed to read sub-message'' x, h1)
     | None \<Rightarrow> None)"
proof -
  have U: "unat (of_nat k :: uint32) = k" if "k < 2 ^ 32" for k
    using that by (simp add: unat_of_nat)
  have u: "unat (of_nat (length m) :: uint32) = length m"
    using assms(2) by (intro U) linarith
  note u2 = U [OF assms(2)]
  have "\<not> (of_nat (length m) :: uint32) < 4"
    using assms(1) u by (simp add: word_less_nat_alt)
  moreover have "\<not> (of_nat (length m + length r) :: uint32) < of_nat (length m)"
    unfolding word_less_nat_alt u u2 by simp
  ultimately show ?thesis
    using u by (subst multi_loop.simps) (simp add: le_bytes_nonempty cong: if_cong)
qed

lemma multi_loop_pack:
  "\<forall>m \<in> set ms. 4 \<le> length m \<Longrightarrow> length (pack ms) < 2 ^ 32 \<Longrightarrow> multi_loop rd (pack ms) h = read_each rd ms h"
proof (induction ms arbitrary: h)
  case Nil
  then show ?case by (subst multi_loop.simps) (simp add: pack_def)
next
  case (Cons m ms)
  have p: "pack (m # ms) = le_bytes 4 (of_nat (length m) :: uint32) @ m @ pack ms" by (simp add: pack_def)
  have l: "length m + length (pack ms) < 2 ^ 32" using Cons.prems(2) by (simp add: p)
  then have "multi_loop rd (pack ms) h' = read_each rd ms h'" for h'
    using Cons by simp
  with Cons.prems(1) l show ?case
    unfolding p by (simp add: multi_loop_step del: le_bytes.simps split: option.splits outcome.splits)
qed

section \<open>Fuel\<close>

text \<open>The parsing half of the loop: the next sub-message and what follows it.\<close>

definition next_sub :: "bytes \<Rightarrow> (bytes \<times> bytes) result" where
  "next_sub data =
     (case read_u32 data of
        Inl err \<Rightarrow> Inl (ErrWrap ''failed to read sub-message size'' err)
      | Inr (sz, r1) \<Rightarrow>
        if sz < 4 then Inl (ErrNew (''invalid sub-message size: '' @ FormatUint (unat sz)))
        else if (of_nat (length r1) :: uint32) < sz then
          Inl (ErrNew (''insufficient data for sub-message: need '' @ FormatUint (unat sz) @
            '' bytes, have '' @ FormatUint (length r1)))
        else (case ReadFull (unat sz) r1 of
            Inl err \<Rightarrow> Inl (ErrWrap ''failed to read sub-message data'' err)
          | Inr x \<Rightarrow> Inr x))"

lemma next_sub_length: "next_sub d = Inr (sub, r) \<Longrightarrow> length d = 4 + length sub + length r"
  by (auto simp: next_sub_def read_le_Inr ReadFull_Inr split: sum.splits if_splits)

lemma read_le_not_EOF: "d \<noteq> [] \<Longrightarrow> read_le n d = Inl e \<Longrightarrow> \<not> errors_Is e EOF"
  by (auto simp: read_le_def ReadFull_def split: if_splits)

lemma multi_loop_next:
  "multi_loop rd d h =
     (if d = [] then Some (Return (), h)
      else case next_sub d of
          Inl e \<Rightarrow> Some (Fail e, h)
        | Inr (sub, r2) \<Rightarrow>
          (case rd sub h of
             Some (Return _, h1) \<Rightarrow> multi_loop rd r2 h1
           | Some (r, h1) \<Rightarrow> Some (wrap ''failed to read sub-message'' r, h1)
           | None \<Rightarrow> None))"
proof (cases "d = []")
  case False
  then show ?thesis
    using read_le_not_EOF [OF False]
    by (subst multi_loop.simps) (auto simp: next_sub_def split: sum.splits)
qed (subst multi_loop.simps, simp)

text \<open>More fuel gives the same result.\<close>

lemma multi_loop_mono:
  assumes "\<And>m h x. rd m h = Some x \<Longrightarrow> rd' m h = Some x" "multi_loop rd d h = Some x"
  shows "multi_loop rd' d h = Some x"
  using assms(2)
proof (induction "length d" arbitrary: d h rule: less_induct)
  case less
  show ?case
  proof (cases "\<exists>sub r2 y. d \<noteq> [] \<and> next_sub d = Inr (sub, r2) \<and> rd sub h = Some y")
    case True
    then obtain sub r2 o1 h1 where p: "d \<noteq> []" "next_sub d = Inr (sub, r2)" "rd sub h = Some (o1, h1)" by auto
    have l: "length r2 < length d" using next_sub_length [OF p(2)] by simp
    show ?thesis
      using p assms(1) [OF p(3)] less.prems less.hyps [OF l, of h1]
      by (cases o1) (auto simp: multi_loop_next [of _ d])
  next
    case False
    then show ?thesis
      using less.prems by (auto simp: multi_loop_next [of _ d] split: sum.splits option.splits if_splits)
  qed
qed

lemma handleMessage_mono:
  assumes "\<And>m h x. rd m h = Some x \<Longrightarrow> rd' m h = Some x"
    "handleMessage en ops cx rd hdr body h = Some x"
  shows "handleMessage en ops cx rd' hdr body h = Some x"
proof -
  have M: "multi_loop rd' d k = Some y" if "multi_loop rd d k = Some y" for d k y
    using assms(1) that by (rule multi_loop_mono)
  obtain a b where x: "x = (a, b)" by force
  show ?thesis
    using M assms(2) by (auto simp: x handleMessage_def handleMulti_def Let_def split: sum.splits if_splits)
qed

lemma readMessage_mono: "readMessage n en ops cx r h = Some x \<Longrightarrow> readMessage (n + k) en ops cx r h = Some x"
proof (induction n arbitrary: r h x)
  case (Suc n)
  have M: "handleMessage en ops cx (readMessage (n + k) en ops cx) hdr body g = Some y"
    if "handleMessage en ops cx (readMessage n en ops cx) hdr body g = Some y" for hdr body g y
    using Suc.IH that by (rule handleMessage_mono)
  show ?case
    using Suc.prems M by (fastforce split: sum.splits)
qed simp

section \<open>Nesting\<close>

text \<open>What a packet holds: the multi message it is, if it is one, the data of that message, and
  the sub-messages in the data.\<close>

definition packet_multi :: "env \<Rightarrow> bytes \<Rightarrow> CMsgMulti option" where
  "packet_multi en r =
     (case read_u32 r of
        Inl _ \<Rightarrow> None
      | Inr (raw, r1) \<Rightarrow>
        (case readHeader en (new_Header (raw AND NOT PROTO_MASK)) r1 (raw AND PROTO_MASK \<noteq> 0) of
           Inl _ \<Rightarrow> None
         | Inr (hdr, body) \<Rightarrow>
           if h_EMsg hdr = EMsg_Multi then (case pb_to_multi en body of Inl _ \<Rightarrow> None | Inr m \<Rightarrow> Some m) else None))"

definition compressed :: "env \<Rightarrow> bytes \<Rightarrow> bool" where
  "compressed en r \<longleftrightarrow> (case packet_multi en r of None \<Rightarrow> False | Some m \<Rightarrow> GetSizeUnzipped m \<noteq> 0)"

definition unpacked :: "env \<Rightarrow> bytes \<Rightarrow> bytes" where
  "unpacked en r =
     (case packet_multi en r of None \<Rightarrow> [] | Some m \<Rightarrow> (case multi_data en m of Inl _ \<Rightarrow> [] | Inr d \<Rightarrow> d))"

function split_subs :: "bytes \<Rightarrow> bytes list" where
  "split_subs d =
     (if d = [] then [] else case next_sub d of Inl _ \<Rightarrow> [] | Inr (sub, r) \<Rightarrow> sub # split_subs r)"
  by pat_completeness auto
termination
  by (relation "measure length") (auto dest: next_sub_length)

declare split_subs.simps [simp del]

definition sub_messages :: "env \<Rightarrow> bytes \<Rightarrow> bytes list" where "sub_messages en r = split_subs (unpacked en r)"

text \<open>One packet directly within another, and within it at any depth.\<close>

definition within :: "env \<Rightarrow> bytes \<Rightarrow> bytes \<Rightarrow> bool" where "within en s r \<longleftrightarrow> s \<in> set (sub_messages en r)"

abbreviation nested :: "env \<Rightarrow> bytes \<Rightarrow> bytes \<Rightarrow> bool" where "nested en \<equiv> (within en)\<^sup>+\<^sup>+"

lemma split_subs_length: "s \<in> set (split_subs d) \<Longrightarrow> length s < length d"
proof (induction d rule: split_subs.induct)
  case (1 d)
  from "1.prems" obtain sub r where p: "d \<noteq> []" "next_sub d = Inr (sub, r)" and s: "s = sub \<or> s \<in> set (split_subs r)"
    by (cases "next_sub d") (auto simp: split_subs.simps [of d] split: if_splits)
  then show ?case using "1.IH" [OF p refl] next_sub_length [OF p(2)] by auto
qed

lemma within_length: "within en s r \<Longrightarrow> length s < length (unpacked en r)"
  by (auto simp: within_def sub_messages_def intro: split_subs_length)

text \<open>What the protobuf package promises of a multi message: its payload, a field of bytes, is no
  longer than the message it was read from.\<close>

definition multi_field :: "env \<Rightarrow> bool" where
  "multi_field en \<longleftrightarrow> (\<forall>b m. pb_to_multi en b = Inr m \<longrightarrow> length (mu_MessageBody m) \<le> length b)"

lemma readHeader_length: "readHeader en hdr r p = Inr (hdr', r') \<Longrightarrow> length r' \<le> length r"
  by (auto simp: readHeader_def readProtobufHeader_def readStandardHeader_def readExtendedHeader_def read_jobs_def
      reader_Read_def ReadFull_Inr read_le_Inr split: if_splits sum.splits)

lemma unpacked_length:
  assumes "multi_field en" "\<not> compressed en r"
  shows "length (unpacked en r) \<le> length r"
proof (cases "packet_multi en r")
  case (Some m)
  obtain raw r1 hdr body where p: "read_u32 r = Inr (raw, r1)" "pb_to_multi en body = Inr m"
    "readHeader en (new_Header (raw AND NOT PROTO_MASK)) r1 (raw AND PROTO_MASK \<noteq> 0) = Inr (hdr, body)"
    using Some by (auto simp: packet_multi_def split: sum.splits if_splits)
  have "length (mu_MessageBody m) \<le> length body" using assms(1) p(2) by (simp add: multi_field_def)
  also have "\<dots> \<le> length r" using readHeader_length [OF p(3)] read_le_length [OF p(1)] by simp
  finally show ?thesis
    using Some assms(2) by (auto simp: unpacked_def compressed_def multi_data_def split: sum.splits)
qed (simp add: unpacked_def)

text \<open>Reading a packet ends when reading each of its sub-messages does.\<close>

lemma multi_loop_total:
  assumes "\<And>m h. m \<in> set (split_subs d) \<Longrightarrow> \<exists>x. rd m h = Some x"
  shows "\<exists>x. multi_loop rd d h = Some x"
  using assms
proof (induction d arbitrary: h rule: split_subs.induct)
  case (1 d)
  show ?case
  proof (cases "\<exists>sub r2. d \<noteq> [] \<and> next_sub d = Inr (sub, r2)")
    case True
    then obtain sub r2 where p: "d \<noteq> []" "next_sub d = Inr (sub, r2)" by auto
    then have s: "split_subs d = sub # split_subs r2" by (subst split_subs.simps) simp
    obtain o1 h1 where rd: "rd sub h = Some (o1, h1)" using "1.prems" s by (metis list.set_intros(1) surj_pair)
    have "\<exists>x. multi_loop rd r2 h1 = Some x"
      using p "1.prems" s by (intro "1.IH") auto
    then show ?thesis
      using p rd by (cases o1) (simp_all add: multi_loop_next [of _ d])
  next
    case False
    then show ?thesis by (auto simp: multi_loop_next [of _ d] split: sum.splits)
  qed
qed

lemma readMessage_within:
  assumes "\<And>s h. within en s r \<Longrightarrow> \<exists>x. readMessage n en ops cx s h = Some x"
  shows "\<exists>x. readMessage (Suc n) en ops cx r h = Some x"
proof (cases "\<exists>raw r1 hdr body. read_u32 r = Inr (raw, r1) \<and>
    readHeader en (new_Header (raw AND NOT PROTO_MASK)) r1 (raw AND PROTO_MASK \<noteq> 0) = Inr (hdr, body)")
  case True
  then obtain raw r1 hdr body where p: "read_u32 r = Inr (raw, r1)"
    "readHeader en (new_Header (raw AND NOT PROTO_MASK)) r1 (raw AND PROTO_MASK \<noteq> 0) = Inr (hdr, body)" by auto
  have "\<exists>x. handleMulti en (readMessage n en ops cx) body g = Some x" if e: "h_EMsg hdr = EMsg_Multi" for g
  proof (cases "\<exists>m d. pb_to_multi en body = Inr m \<and> multi_data en m = Inr d")
    case True
    then obtain m d where m: "pb_to_multi en body = Inr m" "multi_data en m = Inr d" by auto
    have "sub_messages en r = split_subs d"
      using p m e by (simp add: sub_messages_def unpacked_def packet_multi_def)
    then have "\<exists>x. multi_loop (readMessage n en ops cx) d g = Some x"
      using assms by (intro multi_loop_total) (simp add: within_def)
    with m show ?thesis by (simp add: handleMulti_def)
  qed (auto simp: handleMulti_def split: sum.splits)
  then have "\<exists>x. handleMessage en ops cx (readMessage n en ops cx) hdr body h = Some x"
    by (auto simp: handleMessage_def Let_def split: sum.splits)
  with p show ?thesis by auto
qed (auto split: sum.splits)

text \<open>So it ends when the nesting is finite, and, when nothing within the packet is compressed,
  with one level per byte of the packet's own data.\<close>

lemma readMessage_finite:
  assumes "Wellfounded.accp (within en) r"
  shows "\<exists>n. \<forall>h. \<exists>x. readMessage n en ops cx r h = Some x"
  using assms
proof (induction rule: accp.induct)
  case (accI r)
  then obtain f where f: "\<And>s h. within en s r \<Longrightarrow> \<exists>x. readMessage (f s) en ops cx s h = Some x" by metis
  define n where "n = sum_list (map f (sub_messages en r))"
  have "\<exists>x. readMessage n en ops cx s h = Some x" if s: "within en s r" for s h
  proof -
    have "f s \<le> n" using s unfolding n_def within_def by (intro member_le_sum_list) auto
    then obtain k where "n = f s + k" using le_Suc_ex by blast
    moreover obtain x where "readMessage (f s) en ops cx s h = Some x" using f [OF s] by blast
    ultimately show ?thesis using readMessage_mono [of "f s" en ops cx s h x k] by (simp del: readMessage.simps)
  qed
  then show ?case using readMessage_within by blast
qed

lemma readMessage_plain:
  assumes "multi_field en"
  shows "(\<And>s. nested en s r \<Longrightarrow> \<not> compressed en s) \<Longrightarrow> length (unpacked en r) < n \<Longrightarrow>
    \<exists>x. readMessage n en ops cx r h = Some x"
proof (induction n arbitrary: r h)
  case (Suc n)
  show ?case
  proof (rule readMessage_within)
    fix s g assume s: "within en s r"
    have "\<not> compressed en t" if "nested en t s" for t
      using that s Suc.prems(1) by (meson tranclp.trancl_into_trancl)
    moreover have "length (unpacked en s) < n"
      using unpacked_length [OF assms] Suc.prems within_length [OF s] s by (meson le_less_trans less_Suc_eq_le order_less_le_trans tranclp.r_into_trancl)
    ultimately show "\<exists>x. readMessage n en ops cx s g = Some x" by (rule Suc.IH)
  qed
qed simp

section \<open>What every operation keeps\<close>

text \<open>
  A preorder on the protocol's states that holds across its elementary changes holds across
  every operation, however a call ends. The changes of the connection are those its
  operations make.
\<close>

locale handler_refines =
  fixes ops :: "'c Connection" and R :: "'c Protocol \<Rightarrow> 'c Protocol \<Rightarrow> bool"
  assumes R_refl: "R h h"
    and R_trans: "R h1 h2 \<Longrightarrow> R h2 h3 \<Longrightarrow> R h1 h3"
    and R_offer: "R h (offer e h)"
    and R_emit: "R h (snd (emit e h))"
    and R_send: "R h (h\<lparr>p_connection := snd (cSend ops ctx b (p_connection h))\<rparr>)"
    and R_read: "R h (h\<lparr>p_connection := snd (cRead ops ctx (p_connection h))\<rparr>)"
    and R_draw: "R h (h\<lparr>p_drawn := Suc (p_drawn h)\<rparr>)"
    and R_key: "GenerateSessionKey (fst (p_random h (p_drawn h))) (snd (p_random h (p_drawn h))) = Inr (k, sealed_key) \<Longrightarrow>
      R h (h\<lparr>p_drawn := Suc (p_drawn h), p_sessionKey := k\<rparr>)"
    and R_accept: "R h (h\<lparr>p_connection := cSetSessionKey ops (p_sessionKey h) (p_connection h), p_sessionKey := []\<rparr>)"
    and R_login: "R h ((startHeartbeat d h)\<lparr>p_steamID := s, p_sessionID := i\<rparr>)"
begin

lemma Write_R: "R h (snd (snd (Write en ops ctx hdr body h)))"
proof (cases hdr)
  case (Some hd)
  obtain x hd1 where x: "header_bytes en hd = (x, hd1)" by force
  show ?thesis
  proof (cases x)
    case (Inr buf)
    obtain r c where s: "cSend ops ctx (buf @ body) (p_connection h) = (r, c)" by force
    with R_send [of h ctx "buf @ body"] x Inr Some show ?thesis
      by (cases r) (simp_all add: Write_def)
  qed (simp add: Write_def Some x R_refl)
qed (simp add: Write_def R_refl)

lemma Send_R: "R h (snd (Protocol_Send en ops ctx hdr body h))"
  using R_trans [OF R_offer Write_R]
  by (auto simp: Protocol_Send_def Let_def case_prod_beta R_refl R_offer split: option.splits sum.splits)

lemma read_all_body_R: "(\<And>m. R h (snd (k m h))) \<Longrightarrow> R h (snd (read_all_body u body k h))"
  by (auto simp: read_all_body_def R_refl split: sum.splits)

lemma request_R: "R h (snd (handleChannelEncryptRequest en ops cx hdr body h))"
  using R_trans [OF R_key Write_R]
  by (auto simp: handleChannelEncryptRequest_def Let_def case_prod_beta R_refl R_draw split: sum.splits)

lemma result_R: "R h (snd (handleChannelEncryptResult ops body h))"
  using R_trans [OF R_accept R_emit]
  by (auto simp: handleChannelEncryptResult_def R_refl split: sum.splits)

lemma logon_R: "R h (snd (handleClientLogOnResponse en ops cx hdr body h))"
proof -
  have "R g (snd (case emit e g of
        (Return _, h2) \<Rightarrow> (case Protocol_Send en ops ctx (hd2 h2) b h2 of (r, h3) \<Rightarrow> (wrap m r, h3))
      | (r, h2) \<Rightarrow> (r, h2)))" for e g ctx hd2 b m
    using R_emit [of g e] R_trans [OF R_emit [of g e] Send_R]
    by (cases "emit e g" rule: prod.exhaust) (auto simp: case_prod_beta split: outcome.splits)
  from R_trans [OF R_login this] show ?thesis
    unfolding handleClientLogOnResponse_def
    by (intro read_all_body_R) (auto simp: Let_def R_refl split: option.splits)
qed

lemma announcements_R: "R h (snd (handleClientItemAnnouncements en body h))"
  unfolding handleClientItemAnnouncements_def by (rule read_all_body_R) (simp add: R_offer)

lemma notifications_R: "R h (snd (handleClientUserNotifications en body h))"
proof -
  have "R g (fold (\<lambda>n. offer (f n)) ns g)" for g f and ns :: "Notification list"
    by (induction ns arbitrary: g) (auto intro: R_refl R_trans [OF R_offer])
  then show ?thesis
    unfolding handleClientUserNotifications_def by (intro read_all_body_R) simp
qed

lemma multi_loop_R:
  assumes "\<And>m h x. rd m h = Some x \<Longrightarrow> R h (snd x)"
  shows "multi_loop rd d h = Some x \<Longrightarrow> R h (snd x)"
proof (induction "length d" arbitrary: d h rule: less_induct)
  case less
  show ?case
  proof (cases "\<exists>sub r2 y. d \<noteq> [] \<and> next_sub d = Inr (sub, r2) \<and> rd sub h = Some y")
    case True
    then obtain sub r2 o1 h1 where p: "d \<noteq> []" "next_sub d = Inr (sub, r2)" "rd sub h = Some (o1, h1)" by auto
    have l: "length r2 < length d" using next_sub_length [OF p(2)] by simp
    have 1: "R h h1" using assms [OF p(3)] by simp
    show ?thesis
      using p less.prems R_trans [OF 1 less.hyps [OF l, of h1]] 1
      by (cases o1) (auto simp: multi_loop_next [of _ d])
  next
    case False
    then show ?thesis
      using less.prems by (auto simp: multi_loop_next [of _ d] R_refl split: sum.splits option.splits if_splits)
  qed
qed

lemma handleMessage_R:
  assumes "\<And>m h x. rd m h = Some x \<Longrightarrow> R h (snd x)" and "handleMessage en ops cx rd hdr body h = Some x"
  shows "R h (snd x)"
proof (cases "json_header en hdr")
  case (Inl e)
  with assms(2) show ?thesis by (auto simp: handleMessage_def R_refl)
next
  case (Inr j)
  define h1 where "h1 = offer (EventMessageReceived (h_EMsg hdr) j) h"
  have h1: "R h h1" by (simp add: h1_def R_offer)
  have M: "R h1 (snd y)" if "handleMulti en rd body h1 = Some y" for y
    using that multi_loop_R [OF assms(1)] by (auto simp: handleMulti_def R_refl split: sum.splits)
  note K = request_R [of h1 en cx hdr body] result_R [of h1 body]
    logon_R [of h1 en cx hdr body] announcements_R [of h1 en body] notifications_R [of h1 en body]
  have "R h1 (snd x)"
    using assms(2) unfolding handleMessage_def Inr sum.case Let_def h1_def [symmetric]
    by (auto split: if_splits intro: K M R_refl simp: K)
  with h1 show ?thesis by (rule R_trans)
qed

lemma readMessage_R: "readMessage n en ops cx r h = Some x \<Longrightarrow> R h (snd x)"
proof (induction n arbitrary: r h x)
  case (Suc n)
  have "R h (snd y)" if "handleMessage en ops cx (readMessage n en ops cx) hdr b h = Some y" for hdr b y
    using Suc.IH that by (rule handleMessage_R)
  then show ?case using Suc.prems by (fastforce simp: R_refl split: sum.splits)
qed simp

lemma Run_R: "Run n depth en ops cx h = Some x \<Longrightarrow> R h (snd x)"
proof (induction n arbitrary: h)
  case (Suc n)
  obtain r c where c: "cRead ops (Some cx) (p_connection h) = (r, c)" by force
  then have 1: "R h (h\<lparr>p_connection := c\<rparr>)" using R_read [of h "Some cx"] by simp
  have 2: "R h (snd y)" if "readMessage depth en ops cx b (h\<lparr>p_connection := c\<rparr>) = Some y" for b y
    using 1 readMessage_R [OF that] by (rule R_trans)
  have 3: "R h (snd x)" if "R h h1" "Run n depth en ops cx h1 = Some x" for h1
    using that(1) Suc.IH [OF that(2)] by (rule R_trans)
  show ?case
    using Suc.prems c 1 2 3
    by (fastforce split: prod.splits outcome.splits option.splits)
qed simp

lemma heartbeat_send_R: "R h (snd (heartbeat_send en ops cx h))"
proof -
  obtain r h1 where s: "Protocol_Send en ops (Some cx) (Some (heartbeat_header h)) (Some ClientHeartBeat) h = (r, h1)" by force
  have "R h h1" using Send_R [of h en "Some cx" "Some (heartbeat_header h)" "Some ClientHeartBeat"] s by simp
  with R_trans [OF this R_emit] s show ?thesis by (cases r) (auto simp: heartbeat_send_def)
qed

end

text \<open>A predicate that does not depend on the connection or the keys.\<close>

locale handler_stable =
  fixes P :: "'c Protocol \<Rightarrow> bool"
  assumes P_offer: "P h \<Longrightarrow> P (offer e h)"
    and P_emit: "P h \<Longrightarrow> P (snd (emit e h))"
    and P_frame: "P h \<Longrightarrow> P (h\<lparr>p_connection := c, p_sessionKey := k, p_drawn := n\<rparr>)"
    and P_login: "P h \<Longrightarrow> P ((startHeartbeat d h)\<lparr>p_steamID := s, p_sessionID := i\<rparr>)"

sublocale handler_stable \<subseteq> step: handler_refines ops "\<lambda>h h'. P h \<longrightarrow> P h'" for ops
proof unfold_locales
  fix h :: "'c Protocol" and ctx b k
  have swap: "h\<lparr>p_drawn := n, p_sessionKey := k\<rparr> = h\<lparr>p_sessionKey := k, p_drawn := n\<rparr>" for n k by simp
  have F: "P h \<Longrightarrow> P (h\<lparr>p_connection := c\<rparr>)" "P h \<Longrightarrow> P (h\<lparr>p_drawn := n\<rparr>)"
    "P h \<Longrightarrow> P (h\<lparr>p_drawn := n, p_sessionKey := k\<rparr>)" "P h \<Longrightarrow> P (h\<lparr>p_connection := c, p_sessionKey := k\<rparr>)"
    for c n k
    using P_frame [where h = h and c = c and k = "p_sessionKey h" and n = "p_drawn h"]
      P_frame [where h = h and c = "p_connection h" and k = "p_sessionKey h" and n = n]
      P_frame [where h = h and c = "p_connection h" and k = k and n = n]
      P_frame [where h = h and c = c and k = k and n = "p_drawn h"] by (simp_all add: swap)
  show "P h \<longrightarrow> P (h\<lparr>p_connection := snd (cSend ops ctx b (p_connection h))\<rparr>)"
    "P h \<longrightarrow> P (h\<lparr>p_connection := snd (cRead ops ctx (p_connection h))\<rparr>)"
    "P h \<longrightarrow> P (h\<lparr>p_drawn := Suc (p_drawn h)\<rparr>)"
    "P h \<longrightarrow> P (h\<lparr>p_drawn := Suc (p_drawn h), p_sessionKey := k\<rparr>)"
    "P h \<longrightarrow> P (h\<lparr>p_connection := cSetSessionKey ops (p_sessionKey h) (p_connection h), p_sessionKey := []\<rparr>)"
    using F by blast+
qed (auto intro: P_offer P_emit P_login)

context handler_stable
begin

lemma Send_P: "P h \<Longrightarrow> P (snd (Protocol_Send en ops ctx hdr body h))"
  using step.Send_R by blast

lemma Run_P: "P h \<Longrightarrow> Run n depth en ops cx h = Some x \<Longrightarrow> P (snd x)"
  using step.Run_R by blast

lemma heartbeat_send_P: "P h \<Longrightarrow> P (snd (heartbeat_send en ops cx h))"
  using step.heartbeat_send_R by blast

end

text \<open>The events buffer is within its capacity, and no stop channel is closed twice: the
  current one is open and every channel made so far has a number below the counter.\<close>

definition proto_inv :: "'c Protocol \<Rightarrow> bool" where
  "proto_inv h \<longleftrightarrow> wf_chan (p_events h) \<and> distinct (p_closed h) \<and>
     (\<forall>ch \<in> set (p_closed h). ch < p_channels h) \<and>
     (\<forall>ch. p_stopHeartbeat h = Some ch \<longrightarrow> ch < p_channels h \<and> ch \<notin> set (p_closed h))"

interpretation inv: handler_stable proto_inv
proof unfold_locales
  fix h :: "'a Protocol" and d :: int and s i
  assume "proto_inv h"
  then show "proto_inv ((startHeartbeat d h)\<lparr>p_steamID := s, p_sessionID := i\<rparr>)"
    by (auto simp: proto_inv_def startHeartbeat_def Let_def less_Suc_eq split: option.splits)
qed (auto simp: proto_inv_def offer_def emit_def intro: chan_push_wf)

interpretation cap: handler_stable "\<lambda>h. chcap (p_events h) = k" for k
  by unfold_locales (auto simp: offer_def emit_def startHeartbeat_def chan_push_def Let_def split: option.splits)

lemma NewProtocol_inv: "NewProtocol rnd c ev = Inr h \<Longrightarrow> wf_chan ev \<Longrightarrow> proto_inv h"
  by (auto simp: NewProtocol_def proto_inv_def split: option.splits)

lemma Protocol_Close_inv: "proto_inv h \<Longrightarrow> proto_inv (snd (Protocol_Close ops h))"
  by (auto simp: proto_inv_def Protocol_Close_def Let_def case_prod_beta split: option.splits)

lemma hb_step_inv: "hb_step en ops cx h h' \<Longrightarrow> proto_inv h \<Longrightarrow> proto_inv h'"
proof (induction rule: hb_step.induct)
  case (hb_beat h xs d ys h1)
  then have "proto_inv h1" using inv.heartbeat_send_P [of h en ops cx] by simp
  then show ?case by (simp add: proto_inv_def)
qed (simp_all add: proto_inv_def)

text \<open>One call or goroutine step of a running protocol.\<close>

inductive proto_step :: "env \<Rightarrow> 'c Connection \<Rightarrow> goctx \<Rightarrow> 'c Protocol \<Rightarrow> 'c Protocol \<Rightarrow> bool"
  for en :: env and ops :: "'c Connection" and cx :: goctx where
  ps_run: "Run n depth en ops cx h = Some (r, h') \<Longrightarrow> proto_step en ops cx h h'"
| ps_send: "Protocol_Send en ops ctx hdr body h = (r, h') \<Longrightarrow> proto_step en ops cx h h'"
| ps_close: "Protocol_Close ops h = (r, h') \<Longrightarrow> proto_step en ops cx h h'"
| ps_beat: "hb_step en ops cx h h' \<Longrightarrow> proto_step en ops cx h h'"
| ps_consume: "chbuf (p_events h) = e # es \<Longrightarrow>
    proto_step en ops cx h (h\<lparr>p_events := (p_events h)\<lparr>chbuf := es\<rparr>\<rparr>)"

lemma proto_step_inv: "proto_step en ops cx h h' \<Longrightarrow> proto_inv h \<Longrightarrow> proto_inv h'"
proof (induction rule: proto_step.induct)
  case (ps_run n depth h r h')
  then show ?case using inv.Run_P [of h n depth en ops cx "(r, h')"] by simp
next
  case (ps_send ctx hdr body h r h')
  then show ?case using inv.Send_P [of h en ops ctx hdr body] by simp
next
  case (ps_close h r h')
  then show ?case using Protocol_Close_inv [of h ops] by simp
next
  case (ps_beat h h')
  then show ?case using hb_step_inv by blast
next
  case (ps_consume h e es)
  then show ?case by (auto simp: proto_inv_def wf_chan_def)
qed

text \<open>The protocol over any connection that keeps the contract.\<close>

context connection
begin

lemma run_after_close:
  "Run (Suc n) depth en ops cx (snd (Protocol_Close ops h)) = Some (Return (), snd (Protocol_Close ops h))"
  by (simp add: Protocol_Close_def Let_def case_prod_beta closes read_closed)

lemma write_closed:
  assumes "closed (p_connection h)"
  shows "\<exists>e. fst (Write en ops (Some cx) (Some hdr) b h) = Fail e \<and>
    p_connection (snd (snd (Write en ops (Some cx) (Some hdr) b h))) = p_connection h"
proof -
  obtain x hdr1 where x: "header_bytes en hdr = (x, hdr1)" by force
  show ?thesis
  proof (cases x)
    case (Inr buf)
    obtain r c where s: "cSend ops (Some cx) (buf @ b) (p_connection h) = (r, c)" by force
    from send_closed [OF assms s] obtain e where "c = p_connection h" "r = Fail e" by auto
    with s x Inr show ?thesis by (simp add: Write_def)
  qed (simp add: Write_def x)
qed

lemma send_after_close:
  "\<exists>e. fst (Protocol_Send en ops (Some cx) (Some hdr) body (snd (Protocol_Close ops h))) = Fail e"
proof -
  have c: "closed (p_connection (offer ev (snd (Protocol_Close ops h))))" for ev
    by (simp add: offer_def Protocol_Close_def Let_def case_prod_beta closes)
  show ?thesis
    using write_closed [OF c]
    by (auto simp: Protocol_Send_def Let_def case_prod_beta split: sum.splits)
qed

end

end
