(* ===== verification/Client.thy ===== *)
theory Client
  imports Protocol
begin

text \<open>
  Package \<^verbatim>\<open>client\<close>: the Steam client, which joins the login flow of \<open>Identity\<close>, the server
  directory of \<open>Api\<close>, the TCP connection of \<open>Connection\<close> and the protocol of \<open>Protocol\<close>.

  What comes from outside is the record \<open>Host\<close>: the default HTTP client and dialer, the
  library's sort, and the random sources and concurrent closes of the connections by number.
  A dialer answers by the number of the dial. \<open>c_opened\<close> records the connections made, which
  the program itself does not keep. A call of the run loop takes the two fuels of \<open>Run\<close>; the
  goroutine that forwards events is the step \<open>forward\<close>. Mutexes are left out.
\<close>

section \<open>State\<close>

record Host =
  hs_DefaultClient :: "World HTTPClient"
  hs_netDialer :: "nat \<Rightarrow> dialer"
  hs_SortFunc :: "(CMServer \<Rightarrow> CMServer \<Rightarrow> int) \<Rightarrow> CMServer list \<Rightarrow> CMServer list"
  hs_connRand :: "nat \<Rightarrow> nat \<Rightarrow> entropy"
  hs_connClose :: "nat \<Rightarrow> nat \<Rightarrow> bool"
  hs_protoRand :: "nat \<Rightarrow> nat \<Rightarrow> entropy \<times> entropy"

record Client =
  c_api :: "World ISteamDirectory option"
  c_dialer :: "(nat \<Rightarrow> dialer) option"
  c_events :: "Event channel option"
  c_protocol :: "TCPConnection Protocol option"
  c_reconnect :: bool
  c_authIDP :: "CredentialsIdentityProvider option"
  c_authIdentity :: "Identity option"
  c_authAPI :: "identity_API option"
  c_dials :: nat
  c_opened :: "TCPConnection list"

type_synonym ClientOption = "Client \<Rightarrow> Client"

definition client_WithAPI :: "World ISteamDirectory option \<Rightarrow> ClientOption" where
  "client_WithAPI api c = c\<lparr>c_api := api\<rparr>"

definition WithAuthAPI :: "identity_API option \<Rightarrow> ClientOption" where
  "WithAuthAPI api c = c\<lparr>c_authAPI := api\<rparr>"

definition WithDialer :: "(nat \<Rightarrow> dialer) option \<Rightarrow> ClientOption" where
  "WithDialer dialer c = c\<lparr>c_dialer := dialer\<rparr>"

definition WithReconnect :: "bool \<Rightarrow> ClientOption" where
  "WithReconnect reconnect c = c\<lparr>c_reconnect := reconnect\<rparr>"

definition zero_client :: Client where
  "zero_client = \<lparr>c_api = None, c_dialer = None, c_events = None, c_protocol = None, c_reconnect = False,
     c_authIDP = None, c_authIdentity = None, c_authAPI = None, c_dials = 0, c_opened = []\<rparr>"

definition NewClient :: "Host \<Rightarrow> ClientOption list \<Rightarrow> Client result" where
  "NewClient hs opts =
     (let c = fold (\<lambda>opt x. opt x) opts zero_client;
          transport = NewHTTPTransport (hs_DefaultClient hs) [];
          with_api = (if c_api c = None then
              (case NewAPI (Some transport) of
                 Inl err \<Rightarrow> Inl (ErrWrap ''failed to create API'' err)
               | Inr _ \<Rightarrow> Inr (c\<lparr>c_api := Some (ISteamDirectory transport)\<rparr>))
            else Inr c)
      in case with_api of
           Inl err \<Rightarrow> Inl err
         | Inr c1 \<Rightarrow>
           let c2 = (if c_dialer c1 = None then c1\<lparr>c_dialer := Some (hs_netDialer hs)\<rparr> else c1);
               c3 = (if c_events c2 = None then c2\<lparr>c_events := Some \<lparr>chbuf = [], chcap = 512\<rparr>\<rparr> else c2)
           in Inr c3)"

definition Events :: "Client \<Rightarrow> Event channel option" where "Events c = c_events c"

text \<open>Sends on the client's events channel: a nil channel is never ready.\<close>

definition offer_event :: "Event \<Rightarrow> Client \<Rightarrow> Client" where
  "offer_event e c = c\<lparr>c_events := map_option (try_send e) (c_events c)\<rparr>"

definition emit_event :: "Event \<Rightarrow> Client \<Rightarrow> unit outcome \<times> Client" where
  "emit_event e c =
     (case c_events c of
        None \<Rightarrow> (Parked, c)
      | Some ch \<Rightarrow> if chan_full ch then (Parked, c) else (Return (), c\<lparr>c_events := Some (chan_push e ch)\<rparr>))"

section \<open>Authentication\<close>

record client_Credentials =
  cc_Username :: string
  cc_Password :: string
  cc_SharedSecret :: string

text \<open>The provider of the client, made at the first use.\<close>

definition auth_provider :: "Host \<Rightarrow> client_Credentials \<Rightarrow> Client \<Rightarrow> CredentialsIdentityProvider result" where
  "auth_provider hs credentials c =
     (case c_authIDP c of
        Some idp \<Rightarrow> Inr idp
      | None \<Rightarrow>
        (case NewCredentialsIdentityProvider (hs_DefaultClient hs)
            \<lparr>cr_AccountName = cc_Username credentials, cr_Password = cc_Password credentials,
             cr_SharedSecret = cc_SharedSecret credentials\<rparr>
            (case c_authAPI c of None \<Rightarrow> [] | Some api \<Rightarrow> [identity_WithAPI api]) of
           Inl err \<Rightarrow> Inl (ErrWrap ''failed to create identity provider'' err)
         | Inr idp \<Rightarrow> Inr idp))"

definition Client_BeginAuthSession :: "Host \<Rightarrow> entropy \<Rightarrow> client_Credentials option \<Rightarrow> Client \<Rightarrow> World \<Rightarrow>
    AuthSession outcome \<times> Client \<times> World" where
  "Client_BeginAuthSession hs ps credentials c w =
     (case credentials of
        None \<Rightarrow> (Fail (ErrNew ''credentials are required''), c, w)
      | Some cr \<Rightarrow>
        (case auth_provider hs cr c of
           Inl err \<Rightarrow> (Fail err, c, w)
         | Inr idp \<Rightarrow>
           let c1 = c\<lparr>c_authIDP := Some idp\<rparr> in
           (case BeginAuthSession ps idp w of
              (Return session, w1) \<Rightarrow>
                (Return session, offer_event (EventSteamGuardChallenge session (as_AllowedConfirmations session)) c1, w1)
            | (r, w1) \<Rightarrow> (r, c1, w1))))"

definition ErrNoProvider :: goerr where
  "ErrNoProvider = ErrNew ''identity provider not initialized; call BeginAuthSession first''"

text \<open>What both second halves of the login do with the provider's answer.\<close>

definition keep_identity :: "Client \<Rightarrow> (Identity outcome \<times> CredentialsIdentityProvider \<times> World) option \<Rightarrow>
    (Identity outcome \<times> Client \<times> World) option" where
  "keep_identity c = map_option (\<lambda>(r, idp, w).
     let c1 = c\<lparr>c_authIDP := Some idp\<rparr> in
     (r, (case r of Return i \<Rightarrow> c1\<lparr>c_authIdentity := Some i\<rparr> | _ \<Rightarrow> c1), w))"

definition Client_SubmitSteamGuardCode :: "goctx \<Rightarrow> AuthSession option \<Rightarrow> string \<Rightarrow> Client \<Rightarrow> World \<Rightarrow>
    (Identity outcome \<times> Client \<times> World) option" where
  "Client_SubmitSteamGuardCode cx session code c w =
     (case c_authIDP c of
        None \<Rightarrow> Some (Fail ErrNoProvider, c, w)
      | Some idp \<Rightarrow> keep_identity c (SubmitSteamGuardCode cx session code idp w))"

definition Client_WaitForConfirmation :: "goctx \<Rightarrow> AuthSession option \<Rightarrow> Client \<Rightarrow> World \<Rightarrow>
    (Identity outcome \<times> Client \<times> World) option" where
  "Client_WaitForConfirmation cx session c w =
     (case c_authIDP c of
        None \<Rightarrow> Some (Fail ErrNoProvider, c, w)
      | Some idp \<Rightarrow> keep_identity c (WaitForConfirmation cx session idp w))"

definition Client_Identity :: "Client \<Rightarrow> Identity result" where
  "Client_Identity c =
     (case c_authIdentity c of
        None \<Rightarrow> Inl (ErrNew
          ''identity not set; call BeginAuthSession and SubmitSteamGuardCode, or SetIdentity, first'')
      | Some i \<Rightarrow> Inr i)"

definition SetIdentity :: "SteamID \<Rightarrow> string \<Rightarrow> int \<Rightarrow> Client \<Rightarrow> Identity result \<times> Client" where
  "SetIdentity steamID refreshToken now c =
     (if \<not> IsValid steamID then (Inl (ErrNew ''steamID is invalid''), c)
      else if refreshToken = [] then (Inl (ErrNew ''refresh token is empty''), c)
      else let i = NewIdentity steamID refreshToken now in (Inr i, c\<lparr>c_authIdentity := Some i\<rparr>))"

section \<open>Connecting\<close>

text \<open>The order of the servers: a difference of two 64-bit integers, which wraps around.\<close>

definition by_load :: "CMServer \<Rightarrow> CMServer \<Rightarrow> int" where
  "by_load a b = sint (word_of_int (sv_Load a - sv_Load b) :: 64 word)"

text \<open>
  One round of the loop over the servers. The connection is an interface value: \<open>None\<close> is
  nil, and \<open>Some None\<close> holds a nil pointer, which a failed dial leaves in it.
\<close>

definition try_server :: "Host \<Rightarrow> goctx \<Rightarrow> CMServer \<Rightarrow> TCPConnection option option \<times> goerr option \<times> Client \<Rightarrow>
    TCPConnection option option \<times> goerr option \<times> Client" where
  "try_server hs cx server = (\<lambda>(conn, err, c).
     if sv_Type server = ''netfilter'' then
       let c1 = c\<lparr>c_dials := Suc (c_dials c)\<rparr> in
       (case NewTCPConnection (hs_connRand hs (c_dials c)) (hs_connClose hs (c_dials c)) (Some cx)
           (map_option (\<lambda>d. d (c_dials c)) (c_dialer c)) (sv_Endpoint server) of
          Inl e \<Rightarrow> (Some None, Some e, c1)
        | Inr t \<Rightarrow> (Some (Some t), None, c1\<lparr>c_opened := c_opened c @ [t]\<rparr>))
     else (conn, Some (ErrNew (''unsupported server type: '' @ sv_Type server)), c))"

definition open_servers :: "Host \<Rightarrow> goctx \<Rightarrow> CMServer list \<Rightarrow> Client \<Rightarrow> TCPConnection option option \<times> goerr option \<times> Client" where
  "open_servers hs cx servers c = fold (try_server hs cx) servers (None, None, c)"

text \<open>The protocol on the new connection, and its run.\<close>

definition run_protocol :: "nat \<Rightarrow> nat \<Rightarrow> env \<Rightarrow> Host \<Rightarrow> goctx \<Rightarrow> TCPConnection option option \<Rightarrow> Client \<Rightarrow>
    (unit outcome \<times> Client) option" where
  "run_protocol n depth en hs cx conn c =
     (if conn = Some None then Some (Panic ErrNilDeref, c)
      else
        (case NewProtocol (hs_protoRand hs (c_dials c)) (Option.bind conn id) \<lparr>chbuf = [], chcap = 128\<rparr> of
           Inl err \<Rightarrow> Some (Fail (ErrWrap ''failed to create protocol'' err), c\<lparr>c_protocol := None\<rparr>)
         | Inr h \<Rightarrow>
           map_option (\<lambda>(r, h1). (r, c\<lparr>c_protocol := Some h1\<rparr>)) (Run n depth en tcp_ops cx h)))"

definition cm_params :: GetCMListForConnectParameters where
  "cm_params = \<lparr>cm_CellID = 0, cm_CMType = ''netfilter'', cm_Realm = ''steamglobal'', cm_MaxCount = 0\<rparr>"

definition connect :: "nat \<Rightarrow> nat \<Rightarrow> env \<Rightarrow> Host \<Rightarrow> goctx \<Rightarrow> Client \<Rightarrow> World \<Rightarrow> (unit outcome \<times> Client \<times> World) option" where
  "connect n depth en hs cx c w =
     (case Client_Identity c of
        Inl err \<Rightarrow> Some (Fail (ErrWrap ''failed to get identity'' err), c, w)
      | Inr _ \<Rightarrow>
        (case c_api c of
           None \<Rightarrow> Some (Panic ErrNilDeref, c, w)
         | Some directory \<Rightarrow>
           (case GetCMListForConnect directory cm_params w of
              (Inl err, w1) \<Rightarrow> Some (Fail (ErrWrap ''failed to get CM list for connect'' err), c, w1)
            | (Inr servers, w1) \<Rightarrow>
              if length servers = 0 then Some (Fail (ErrNew ''no servers found''), c, w1)
              else
                (case open_servers hs cx (hs_SortFunc hs by_load servers) c of
                   (conn, Some err, c1) \<Rightarrow> Some (Fail (ErrWrap ''failed to create connection'' err), c1, w1)
                 | (conn, None, c1) \<Rightarrow>
                   map_option (\<lambda>(r, c2). (r, c2, w1)) (run_protocol n depth en hs cx conn c1)))))"

text \<open>The goroutine that moves an event of the protocol to the client's channel, or drops it.\<close>

definition forward :: "Client \<Rightarrow> Client" where
  "forward c =
     (case c_protocol c of
        None \<Rightarrow> c
      | Some h \<Rightarrow>
        (case chbuf (p_events h) of
           [] \<Rightarrow> c
         | e # es \<Rightarrow> offer_event e (c\<lparr>c_protocol := Some (h\<lparr>p_events := (p_events h)\<lparr>chbuf := es\<rparr>\<rparr>)\<rparr>)))"

fun Connect :: "nat \<Rightarrow> nat \<Rightarrow> nat \<Rightarrow> env \<Rightarrow> Host \<Rightarrow> goctx \<Rightarrow> Client \<Rightarrow> World \<Rightarrow> (unit outcome \<times> Client \<times> World) option" where
  "Connect 0 n depth en hs cx c w = None"
| "Connect (Suc k) n depth en hs cx c w =
     (case connect n depth en hs cx c w of
        None \<Rightarrow> None
      | Some (Panic e, c1, w1) \<Rightarrow> Some (Panic e, c1, w1)
      | Some (Parked, c1, w1) \<Rightarrow> Some (Parked, c1, w1)
      | Some (Return _, c1, w1) \<Rightarrow>
        if \<not> c_reconnect c1 then Some (Return (), c1, w1) else Connect k n depth en hs cx c1 w1
      | Some (Fail err, c1, w1) \<Rightarrow>
        if \<not> c_reconnect c1 then Some (Fail err, c1, w1)
        else (case emit_event (EventError err) c1 of
            (Return _, c2) \<Rightarrow> Connect k n depth en hs cx c2 w1
          | (r, c2) \<Rightarrow> Some (r, c2, w1)))"

definition Disconnect :: "Client \<Rightarrow> unit outcome \<times> Client" where
  "Disconnect c =
     (case c_protocol c of
        None \<Rightarrow> (Return (), c)
      | Some h \<Rightarrow>
        (case Protocol_Close tcp_ops h of
           (r, h1) \<Rightarrow> (wrap ''failed to close connection'' r, c\<lparr>c_reconnect := False, c_protocol := Some h1\<rparr>)))"

section \<open>Logging on\<close>

definition machine_id :: bytes where
  "machine_id = 0 # bytes_of_string ''MessageObject'' @ [0, 1] @ bytes_of_string ''BB3'' @ [0] @
     bytes_of_string ''go-steam-client-machine-id-hexadecimal'' @ [0, 1] @ bytes_of_string ''FF2'' @ [0] @
     bytes_of_string ''86e5bb3015a9daeae91890bd954d84786af3dcc1'' @ [0, 1] @ bytes_of_string ''3B3'' @ [0] @
     bytes_of_string ''go-steam-uuid-hex-value-for-machine'' @ [0, 8, 8]"

definition logon_header :: "Identity \<Rightarrow> Header" where
  "logon_header i =
     (new_Header EMsg_ClientLogon)\<lparr>h_Proto := Some (new_ProtoBufHeader
        \<lparr>ph_Steamid := Some (Uint64 (Identity_SteamID i)), ph_JobidSource := Some JOBID_NONE,
         ph_JobidTarget := Some JOBID_NONE\<rparr>)\<rparr>"

definition logon_message :: "Identity \<Rightarrow> message" where
  "logon_message i = ClientLogon
     \<lparr>lo_ProtocolVersion = 65580, lo_AccessToken = Identity_RefreshToken i, lo_SupportsRateLimitResponse = True,
      lo_MachineName = [], lo_ObfuscatedPrivateIp_V4 = 0, lo_ClientLanguage = ''english'', lo_ClientOsType = 4294967093,
      lo_ChatMode = 2, lo_CellId = 85, lo_MachineId = machine_id\<rparr>"

text \<open>On a client that never connected, the header and the body are still turned into JSON before
  the nil protocol is used.\<close>

definition Logon :: "env \<Rightarrow> goctx \<Rightarrow> Client \<Rightarrow> unit outcome \<times> Client" where
  "Logon en cx c =
     (case Client_Identity c of
        Inl err \<Rightarrow> (Fail (ErrWrap ''failed to get identity'' err), c)
      | Inr i \<Rightarrow>
        (case c_protocol c of
           None \<Rightarrow>
             (case json_header en (logon_header i) of
                Inl err \<Rightarrow> (Fail (ErrWrap ''failed to marshal header'' err), c)
              | Inr _ \<Rightarrow>
                (case json_message en (logon_message i) of
                   Inl err \<Rightarrow> (Fail (ErrWrap ''failed to marshal body'' err), c)
                 | Inr _ \<Rightarrow> (Panic ErrNilDeref, c)))
         | Some h \<Rightarrow>
           (case Protocol_Send en tcp_ops (Some cx) (Some (logon_header i)) (Some (logon_message i)) h of
              (r, h1) \<Rightarrow> (r, c\<lparr>c_protocol := Some h1\<rparr>))))"

end
