(* ===== verification/Protocol_Laws.thy ===== *)
theory Protocol_Laws
  imports Protocol Pipe
begin

text \<open>
  What the protocol of \<open>Protocol\<close> guarantees: the key exchange with the server, the wire form
  of messages, messages within messages, logging on, and closing.
\<close>

section \<open>The key exchange\<close>

definition room :: "nat \<Rightarrow> 'c Protocol \<Rightarrow> bool" where
  "room k h \<longleftrightarrow> length (chbuf (p_events h)) + k \<le> chcap (p_events h)"

lemma offer_room: "room (Suc k) h \<Longrightarrow> room k (offer e h)" "p_connection (offer e h) = p_connection h"
  "p_random (offer e h) = p_random h" "p_drawn (offer e h) = p_drawn h" "p_sessionKey (offer e h) = p_sessionKey h"
  by (auto simp: room_def offer_def try_send_def chan_push_def)

lemma emit_room:
  "room (Suc k) h \<Longrightarrow> emit e h = (Return (), h\<lparr>p_events := chan_push e (p_events h)\<rparr>)"
  by (simp add: emit_def room_def chan_full_def)

lemma room_frame [simp]:
  "room k (h\<lparr>p_connection := c\<rparr>) = room k h" "room k (h\<lparr>p_sessionKey := s\<rparr>) = room k h"
  "room k (h\<lparr>p_drawn := n\<rparr>) = room k h"
  by (simp_all add: room_def)

definition request_packet :: "uint64 \<Rightarrow> uint64 \<Rightarrow> bytes \<Rightarrow> bytes" where
  "request_packet t s nonce =
     le_bytes 4 EMsg_ChannelEncryptRequest @ le_bytes 8 t @ le_bytes 8 s @
     le_bytes 4 (1 :: uint32) @ le_bytes 4 (1 :: uint32) @ nonce"

definition response_packet :: "uint64 \<Rightarrow> uint64 \<Rightarrow> bytes \<Rightarrow> bytes \<Rightarrow> bytes" where
  "response_packet t s encrypted nonce =
     le_bytes 4 EMsg_ChannelEncryptResponse @ le_bytes 8 t @ le_bytes 8 s @ response_body 1 encrypted nonce"

definition result_packet :: "uint64 \<Rightarrow> uint64 \<Rightarrow> bytes" where
  "result_packet t s =
     le_bytes 4 EMsg_ChannelEncryptResult @ le_bytes 8 t @ le_bytes 8 s @ le_bytes 4 (1 :: uint32)"

text \<open>JSON of headers, which only the events carry, does not fail.\<close>

definition json_total :: "env \<Rightarrow> bool" where "json_total en \<longleftrightarrow> (\<forall>hdr. \<exists>s. json_header en hdr = Inr s)"

lemma handleMessage_encrypt:
  assumes "json_header en hdr = Inr j"
  shows "h_EMsg hdr = EMsg_ChannelEncryptRequest \<Longrightarrow> handleMessage en ops cx rd hdr body h =
      Some (handleChannelEncryptRequest en ops cx hdr body (offer (EventMessageReceived EMsg_ChannelEncryptRequest j) h))"
    and "h_EMsg hdr = EMsg_ChannelEncryptResult \<Longrightarrow> handleMessage en ops cx rd hdr body h =
      Some (handleChannelEncryptResult ops body (offer (EventMessageReceived EMsg_ChannelEncryptResult j) h))"
  using assms by (simp_all add: handleMessage_def) (simp add: emsg_defs)

lemma handle_request:
  assumes "healthy (p_connection h)" "t_key (p_connection h) = []" "length nonce = 16"
    "p_random h (p_drawn h) = (Inr f, Inr g)"
  obtains em k d where "handleChannelEncryptRequest en tcp_ops cx hdr
      (le_bytes 4 (1 :: uint32) @ le_bytes 4 (1 :: uint32) @ nonce) h =
    (Return (), h\<lparr>p_drawn := Suc (p_drawn h), p_sessionKey := map f [0..<32],
       p_connection := (p_connection h)\<lparr>t_draws := d, t_calls := k,
         t_conn := (t_conn (p_connection h))\<lparr>nc_out := nc_out (t_conn (p_connection h)) @
           frame (response_packet (h_TargetJobID hdr) (h_SourceJobID hdr) (rsa_public steamPublicKey em) nonce)\<rparr>\<rparr>\<rparr>)"
    and "length em = 128" and "oaep_open em = Some (map f [0..<32])"
proof -
  obtain em where em: "GenerateSessionKey (Inr f) (Inr g) = Inr (map f [0..<32], rsa_public steamPublicKey em)"
    "length em = 128" "oaep_open em = Some (map f [0..<32])"
    by (rule GenerateSessionKey_ok)
  let ?m = "response_packet (h_TargetJobID hdr) (h_SourceJobID hdr) (rsa_public steamPublicKey em) nonce"
  have m: "?m \<noteq> []" by (simp add: response_packet_def le_bytes_nonempty)
  have p: "payload (t_key (p_connection h)) ?m (t_rand (p_connection h) (t_draws (p_connection h))) = Return ?m"
    using assms(2) by (simp add: payload_def)
  obtain k d where s: "Send (Some cx) ?m (p_connection h) = (Return (), (p_connection h)\<lparr>t_draws := d, t_calls := k,
      t_conn := (t_conn (p_connection h))\<lparr>nc_out := nc_out (t_conn (p_connection h)) @ frame ?m\<rparr>\<rparr>)"
    by (rule Send_healthy [OF assms(1) m p, of cx])
  have n: "reader_Read 16 nonce = Inr (nonce, [])"
    using assms(3) by (auto simp: reader_Read_def)
  have "handleChannelEncryptRequest en tcp_ops cx hdr
      (le_bytes 4 (1 :: uint32) @ le_bytes 4 (1 :: uint32) @ nonce) h =
    (Return (), h\<lparr>p_drawn := Suc (p_drawn h), p_sessionKey := map f [0..<32],
       p_connection := (p_connection h)\<lparr>t_draws := d, t_calls := k,
         t_conn := (t_conn (p_connection h))\<lparr>nc_out := nc_out (t_conn (p_connection h)) @ frame ?m\<rparr>\<rparr>\<rparr>)"
    using s unfolding handleChannelEncryptRequest_def
    by (simp add: n assms(3,4) em(1) Write_def header_bytes_def new_Header_def response_packet_def Let_def del: upt_conv_Cons)
  from this em(2,3) show ?thesis by (rule that)
qed

text \<open>The two messages of the exchange, as a packet each.\<close>

lemma request_step:
  assumes "healthy (p_connection h)" "t_key (p_connection h) = []" "length nonce = 16"
    "p_random h (p_drawn h) = (Inr f, Inr g)" "room (Suc k) h" "json_total en"
  obtains em h1 j d m where "readMessage (Suc n) en tcp_ops cx (request_packet t s nonce) h = Some (Return (), h1)"
    and "p_connection h1 = (p_connection h)\<lparr>t_draws := d, t_calls := m,
         t_conn := (t_conn (p_connection h))\<lparr>nc_out := nc_out (t_conn (p_connection h)) @
           frame (response_packet t s (rsa_public steamPublicKey em) nonce)\<rparr>\<rparr>"
    and "p_sessionKey h1 = map f [0..<32]" and "oaep_open em = Some (map f [0..<32])"
    and "p_events h1 = chan_push (EventMessageReceived EMsg_ChannelEncryptRequest j) (p_events h)"
    and "p_beats h1 = p_beats h"
proof -
  let ?hdr = "(new_Header EMsg_ChannelEncryptRequest)\<lparr>h_TargetJobID := t, h_SourceJobID := s\<rparr>"
  obtain j where j: "json_header en ?hdr = Inr j" using assms(6) unfolding json_total_def by blast
  define g0 where "g0 = offer (EventMessageReceived EMsg_ChannelEncryptRequest j) h"
  have g0: "healthy (p_connection g0)" "t_key (p_connection g0) = []" "p_random g0 (p_drawn g0) = (Inr f, Inr g)"
      "p_events g0 = chan_push (EventMessageReceived EMsg_ChannelEncryptRequest j) (p_events h)" "p_beats g0 = p_beats h"
      "p_connection g0 = p_connection h"
    using assms by (simp_all add: g0_def offer_def try_send_def room_def chan_full_def)
  obtain em m d where r: "handleChannelEncryptRequest en tcp_ops cx ?hdr
      (le_bytes 4 (1 :: uint32) @ le_bytes 4 (1 :: uint32) @ nonce) g0 =
    (Return (), g0\<lparr>p_drawn := Suc (p_drawn g0), p_sessionKey := map f [0..<32],
       p_connection := (p_connection g0)\<lparr>t_draws := d, t_calls := m,
         t_conn := (t_conn (p_connection g0))\<lparr>nc_out := nc_out (t_conn (p_connection g0)) @
           frame (response_packet (h_TargetJobID ?hdr) (h_SourceJobID ?hdr) (rsa_public steamPublicKey em) nonce)\<rparr>\<rparr>\<rparr>)"
      (is "_ = (_, ?h1)") and em: "oaep_open em = Some (map f [0..<32])"
    by (rule handle_request [OF g0(1,2) assms(3) g0(3)])
  have e: "h_EMsg ?hdr = EMsg_ChannelEncryptRequest" "h_TargetJobID ?hdr = t" "h_SourceJobID ?hdr = s"
    by (simp_all add: new_Header_def)
  have "readMessage (Suc n) en tcp_ops cx (request_packet t s nonce) h = Some (Return (), ?h1)"
    unfolding request_packet_def readMessage_standard [OF disjI1 [OF refl]] handleMessage_encrypt(1) [OF j e(1)]
      g0_def [symmetric] r by simp
  then show ?thesis
    using em g0 e by (intro that [where ?h1.0 = ?h1 and d = d and m = m and em = em and j = j]) (simp_all del: upt_conv_Cons readMessage.simps)
qed

lemma result_step:
  assumes "room (Suc (Suc k)) h" "json_total en"
  obtains h1 j where "readMessage (Suc n) en tcp_ops cx (result_packet t s) h = Some (Return (), h1)"
    and "p_connection h1 = SetSessionKey (p_sessionKey h) (p_connection h)" and "p_sessionKey h1 = []"
    and "p_events h1 = chan_push EventConnected (chan_push (EventMessageReceived EMsg_ChannelEncryptResult j) (p_events h))"
    and "p_beats h1 = p_beats h"
proof -
  let ?hdr = "(new_Header EMsg_ChannelEncryptResult)\<lparr>h_TargetJobID := t, h_SourceJobID := s\<rparr>"
  obtain j where j: "json_header en ?hdr = Inr j" using assms(2) unfolding json_total_def by blast
  have e: "h_EMsg ?hdr = EMsg_ChannelEncryptResult" by (simp add: new_Header_def)
  define g1 where "g1 = offer (EventMessageReceived EMsg_ChannelEncryptResult j) h"
  have g1: "p_events g1 = chan_push (EventMessageReceived EMsg_ChannelEncryptResult j) (p_events h)"
      "p_connection g1 = p_connection h" "p_sessionKey g1 = p_sessionKey h" "p_beats g1 = p_beats h"
    using assms(1) by (simp_all add: g1_def offer_def try_send_def room_def chan_full_def)
  let ?g2 = "g1\<lparr>p_connection := SetSessionKey (p_sessionKey h) (p_connection h), p_sessionKey := []\<rparr>"
  let ?h1 = "?g2\<lparr>p_events := chan_push EventConnected (p_events g1)\<rparr>"
  have "emit EventConnected ?g2 = (Return (), ?h1)"
    using assms(1) g1(1) emit_room [of 0 ?g2] by (simp add: room_def chan_push_def)
  then have "handleChannelEncryptResult tcp_ops (le_bytes 4 (1 :: uint32)) g1 = (Return (), ?h1)"
    using g1 read_le_append [of 4 "1 :: uint32" "[]"] by (simp add: handleChannelEncryptResult_def)
  then have "readMessage (Suc n) en tcp_ops cx (result_packet t s) h = Some (Return (), ?h1)"
    unfolding result_packet_def readMessage_standard [OF disjI2 [OF refl]] handleMessage_encrypt(2) [OF j e]
      g1_def [symmetric] by simp
  then show ?thesis using g1 by (intro that [where ?h1.0 = ?h1 and j = j]) (simp_all del: readMessage.simps)
qed

section \<open>Messages with a protobuf header\<close>

definition proto_packet :: "EMsg \<Rightarrow> bytes \<Rightarrow> bytes \<Rightarrow> bytes" where
  "proto_packet e hb b = le_bytes 4 (e OR PROTO_MASK) @ le_bytes 4 (of_nat (length hb) :: uint32) @ hb @ b"

text \<open>What the peer sees of a stream: a healthy reader with the key takes the message from its front.\<close>

definition delivers :: "bytes \<Rightarrow> bytes \<Rightarrow> bytes \<Rightarrow> bool" where
  "delivers key stream m \<longleftrightarrow>
     (\<forall>cx r rest. healthy r \<and> t_key r = key \<and> nc_in (t_conn r) = stream @ rest \<longrightarrow>
        (\<exists>k. Read (Some cx) r = (Return (Some m), r\<lparr>t_calls := k, t_conn := (t_conn r)\<lparr>nc_in := rest\<rparr>\<rparr>)))"

lemma carries_delivers: "carries key body m \<Longrightarrow> delivers key (frame body) m"
  unfolding delivers_def by (metis Read_carries)

lemma fill_proto_keeps: "h_EMsg (fill_proto hdr) = h_EMsg hdr" "h_Proto (fill_proto hdr) = None \<longleftrightarrow> h_Proto hdr = None"
  by (auto simp: fill_proto_def Let_def split: option.splits)

lemma Protocol_Send_healthy:
  assumes "healthy (p_connection h)" "armed (p_connection h)"
    "h_Proto hdr \<noteq> None" "h_EMsg hdr \<noteq> EMsg_ChannelEncryptResponse"
    "json_header en hdr = Inr j" "json_message en m = Inr j'"
    "pb_header en (the (h_Proto (fill_proto hdr))) = Inr hb" "pb_message en m = Inr b"
    "length hb + length b + 40 \<le> max_packet"
  obtains body k d where "Protocol_Send en tcp_ops (Some cx) (Some hdr) (Some m) h =
      (Return (), (offer (EventMessageSent (h_EMsg hdr) j j') h)\<lparr>p_connection := (p_connection h)\<lparr>t_draws := d, t_calls := k,
         t_conn := (t_conn (p_connection h))\<lparr>nc_out := nc_out (t_conn (p_connection h)) @ frame body\<rparr>\<rparr>\<rparr>)"
    and "carries (t_key (p_connection h)) body (proto_packet (h_EMsg hdr) hb b)"
proof -
  let ?m = "proto_packet (h_EMsg hdr) hb b"
  define g where "g = offer (EventMessageSent (h_EMsg hdr) j j') h"
  have g: "p_connection g = p_connection h" by (simp add: g_def offer_room)
  have m: "sendable ?m" using assms(9) by (simp add: sendable_def max_packet_def proto_packet_def le_bytes_nonempty)
  obtain body k d where s: "Send (Some cx) ?m (p_connection h) = (Return (), (p_connection h)\<lparr>t_draws := d, t_calls := k,
      t_conn := (t_conn (p_connection h))\<lparr>nc_out := nc_out (t_conn (p_connection h)) @ frame body\<rparr>\<rparr>)" (is "_ = (_, ?t)")
    and c: "carries (t_key (p_connection h)) body ?m"
    by (rule Send_carries [OF assms(1,2) m, of cx])
  have "header_bytes en hdr = (Inr (le_bytes 4 (h_EMsg hdr OR PROTO_MASK) @
      le_bytes 4 (of_nat (length hb) :: uint32) @ hb), fill_proto hdr)"
    using assms(3,4,7) by (simp add: header_bytes_def fill_proto_keeps)
  then have "fst (Write en tcp_ops (Some cx) (Some hdr) b g) = Return ()"
      "snd (snd (Write en tcp_ops (Some cx) (Some hdr) b g)) = g\<lparr>p_connection := ?t\<rparr>"
    using s by (simp_all add: Write_def g proto_packet_def)
  then have "Protocol_Send en tcp_ops (Some cx) (Some hdr) (Some m) h = (Return (), g\<lparr>p_connection := ?t\<rparr>)"
    using assms(5,6,8) by (simp add: Protocol_Send_def g_def [symmetric] case_prod_beta Let_def)
  from this c show ?thesis unfolding g_def by (rule that)
qed

text \<open>A positive logon response with a heartbeat interval, up to the request it sends.\<close>

definition logged_on :: "Header \<Rightarrow> 32 word \<Rightarrow> 'c Protocol \<Rightarrow> 'c Protocol" where
  "logged_on hdr secs h =
     (let h1 = (startHeartbeat (sint secs * Second) h)\<lparr>p_steamID := GetSteamid (h_Proto hdr),
            p_sessionID := GetClientSessionid (h_Proto hdr)\<rparr>
      in h1\<lparr>p_events := chan_push (EventLoggedOn (p_steamID h1) (p_sessionID h1)) (p_events h)\<rparr>)"

lemma logged_on_simps [simp]:
  "p_steamID (logged_on hdr secs h) = GetSteamid (h_Proto hdr)"
  "p_sessionID (logged_on hdr secs h) = GetClientSessionid (h_Proto hdr)"
  "p_beats (logged_on hdr secs h) = p_beats h @ [Starting (sint secs * Second)]"
  "p_stopHeartbeat (logged_on hdr secs h) \<noteq> None" "p_connection (logged_on hdr secs h) = p_connection h"
  "p_events (logged_on hdr secs h) =
     chan_push (EventLoggedOn (GetSteamid (h_Proto hdr)) (GetClientSessionid (h_Proto hdr))) (p_events h)"
  by (simp_all add: logged_on_def startHeartbeat_def Let_def split: option.splits)

lemma logon_accepted:
  assumes "pb_to_logon_response en body = Inr resp" "GetEresult resp = 1" "lr_HeartbeatSeconds resp = Some secs" "room 1 h"
  shows "handleClientLogOnResponse en ops cx hdr body h =
    map_prod (wrap ''failed to send item announcements request'') id
      (Protocol_Send en ops (Some cx) (Some (logged_on_header (logged_on hdr secs h)))
        (Some ClientRequestItemAnnouncements) (logged_on hdr secs h))"
proof -
  define h1 where "h1 = (startHeartbeat (sint secs * Second) h)\<lparr>p_steamID := FromUint64 (GetSteamid (h_Proto hdr)),
    p_sessionID := GetClientSessionid (h_Proto hdr)\<rparr>"
  have h1: "room (Suc 0) h1" "p_events h1 = p_events h"
    using assms(4) by (simp_all add: h1_def startHeartbeat_def room_def Let_def split: option.splits)
  have "emit (EventLoggedOn (p_steamID h1) (p_sessionID h1)) h1 = (Return (), logged_on hdr secs h)"
    using emit_room [OF h1(1)] h1(2) by (simp add: logged_on_def h1_def FromUint64_def Let_def)
  then show ?thesis
    using assms(1-3)
    by (simp add: handleClientLogOnResponse_def read_all_body_def h1_def [symmetric] Let_def map_prod_def case_prod_beta)
qed

text \<open>What the response leaves behind once it is taken: the account and the session of its header,
  the old stop channel closed and a new one made, one more goroutine, and no other change
  outside the events and the connection.\<close>

definition session_set :: "Header \<Rightarrow> 32 word \<Rightarrow> 'c Protocol \<Rightarrow> 'c Protocol \<Rightarrow> bool" where
  "session_set hdr secs h h' \<longleftrightarrow>
     p_steamID h' = GetSteamid (h_Proto hdr) \<and> p_sessionID h' = GetClientSessionid (h_Proto hdr) \<and>
     p_beats h' = p_beats h @ [Starting (sint secs * Second)] \<and> p_stopHeartbeat h' = Some (p_channels h) \<and>
     p_closed h' = (case p_stopHeartbeat h of None \<Rightarrow> [] | Some ch \<Rightarrow> [ch]) @ p_closed h \<and>
     p_sessionKey h' = p_sessionKey h \<and> p_drawn h' = p_drawn h"

lemma logged_on_set: "session_set hdr secs h (logged_on hdr secs h)"
  by (simp add: session_set_def logged_on_def startHeartbeat_def Let_def split: option.splits)

lemma Protocol_Send_keeps:
  "p_steamID (snd (Protocol_Send en ops ctx hdr m g)) = p_steamID g"
  "p_sessionID (snd (Protocol_Send en ops ctx hdr m g)) = p_sessionID g"
  "p_beats (snd (Protocol_Send en ops ctx hdr m g)) = p_beats g"
  "p_stopHeartbeat (snd (Protocol_Send en ops ctx hdr m g)) = p_stopHeartbeat g"
  "p_closed (snd (Protocol_Send en ops ctx hdr m g)) = p_closed g"
  "p_sessionKey (snd (Protocol_Send en ops ctx hdr m g)) = p_sessionKey g"
  "p_drawn (snd (Protocol_Send en ops ctx hdr m g)) = p_drawn g"
  "\<exists>es. chbuf (p_events (snd (Protocol_Send en ops ctx hdr m g))) = chbuf (p_events g) @ es \<and> length es \<le> 1"
  by (auto simp: Protocol_Send_def Write_def offer_def try_send_def chan_push_def Let_def
      split: option.splits sum.splits prod.splits outcome.splits)

lemma logon_full:
  assumes "pb_to_logon_response en body = Inr resp" "GetEresult resp = 1" "lr_HeartbeatSeconds resp = Some secs"
    "chan_full (p_events h)"
  shows "fst (handleClientLogOnResponse en ops cx hdr body h) = Parked \<and>
    session_set hdr secs h (snd (handleClientLogOnResponse en ops cx hdr body h)) \<and>
    p_events (snd (handleClientLogOnResponse en ops cx hdr body h)) = p_events h \<and>
    p_connection (snd (handleClientLogOnResponse en ops cx hdr body h)) = p_connection h"
  using assms
  by (cases "p_stopHeartbeat h")
    (simp_all add: handleClientLogOnResponse_def read_all_body_def emit_def startHeartbeat_def session_set_def FromUint64_def Let_def)

lemma logon_taken:
  fixes h :: "'c Protocol" and ops :: "'c Connection" and hdr cx
  assumes "pb_to_logon_response en body = Inr resp" "GetEresult resp = 1" "lr_HeartbeatSeconds resp = Some secs"
  defines "H \<equiv> handleClientLogOnResponse en ops cx hdr body h"
  shows "session_set hdr secs h (snd H)"
    and "\<not> chan_full (p_events h) \<Longrightarrow> \<exists>es. chbuf (p_events (snd H)) = chbuf (p_events h) @
      EventLoggedOn (GetSteamid (h_Proto hdr)) (GetClientSessionid (h_Proto hdr)) # es \<and> length es \<le> 1"
proof -
  let ?g = "logged_on hdr secs h"
  have a: "snd H = snd (Protocol_Send en ops (Some cx) (Some (logged_on_header ?g)) (Some ClientRequestItemAnnouncements) ?g)"
    if "\<not> chan_full (p_events h)"
    using logon_accepted [OF assms(1-3), of h ops cx hdr] that by (simp add: H_def room_def chan_full_def)
  show "session_set hdr secs h (snd H)"
  proof (cases "chan_full (p_events h)")
    case False
    then show ?thesis using a logged_on_set [of hdr secs h] by (simp add: session_set_def Protocol_Send_keeps)
  next
    case True
    then show ?thesis unfolding H_def using logon_full [OF assms(1-3)] by blast
  qed
  show "\<exists>es. chbuf (p_events (snd H)) = chbuf (p_events h) @
      EventLoggedOn (GetSteamid (h_Proto hdr)) (GetClientSessionid (h_Proto hdr)) # es \<and> length es \<le> 1"
    if "\<not> chan_full (p_events h)"
    using Protocol_Send_keeps(8) [of en ops "Some cx" "Some (logged_on_header ?g)" "Some ClientRequestItemAnnouncements" ?g] a [OF that]
    by (auto simp: chan_push_def)
qed

lemma logon_sent:
  fixes h :: "TCPConnection Protocol"
  assumes "pb_to_logon_response en body = Inr resp" "GetEresult resp = 1" "lr_HeartbeatSeconds resp = Some secs" "room 1 h"
    "healthy (p_connection h)" "armed (p_connection h)" "json_total en" "json_message en ClientRequestItemAnnouncements = Inr j"
    "pb_header en (new_ProtoBufHeader\<lparr>ph_Steamid := Some (GetSteamid (h_Proto hdr)),
       ph_ClientSessionid := Some (GetClientSessionid (h_Proto hdr))\<rparr>) = Inr hb"
    "pb_message en ClientRequestItemAnnouncements = Inr b" "length hb + length b + 40 \<le> max_packet"
  shows "fst (handleClientLogOnResponse en tcp_ops cx hdr body h) = Return () \<and>
    (\<exists>f. nc_out (t_conn (p_connection (snd (handleClientLogOnResponse en tcp_ops cx hdr body h)))) =
       nc_out (t_conn (p_connection h)) @ f \<and>
     delivers (t_key (p_connection h)) f (proto_packet EMsg_ClientRequestItemAnnouncements hb b))"
proof -
  let ?g = "logged_on hdr secs h"
  have hd: "h_Proto (logged_on_header ?g) \<noteq> None" "h_EMsg (logged_on_header ?g) \<noteq> EMsg_ChannelEncryptResponse"
      "h_EMsg (logged_on_header ?g) = EMsg_ClientRequestItemAnnouncements"
      "pb_header en (the (h_Proto (fill_proto (logged_on_header ?g)))) = Inr hb"
    using assms(9) by (simp_all add: logged_on_header_def new_Header_def fill_proto_def Uint64_def Let_def emsg_defs)
  obtain jh where jh: "json_header en (logged_on_header ?g) = Inr jh" using assms(7) unfolding json_total_def by blast
  have g: "healthy (p_connection ?g)" "armed (p_connection ?g)" using assms(5,6) by simp_all
  obtain f k d where S: "Protocol_Send en tcp_ops (Some cx) (Some (logged_on_header ?g)) (Some ClientRequestItemAnnouncements) ?g =
      (Return (), (offer (EventMessageSent (h_EMsg (logged_on_header ?g)) jh j) ?g)\<lparr>p_connection := (p_connection ?g)\<lparr>t_draws := d, t_calls := k,
         t_conn := (t_conn (p_connection ?g))\<lparr>nc_out := nc_out (t_conn (p_connection ?g)) @ frame f\<rparr>\<rparr>\<rparr>)"
    and c: "carries (t_key (p_connection ?g)) f (proto_packet (h_EMsg (logged_on_header ?g)) hb b)"
    by (rule Protocol_Send_healthy [OF g hd(1,2) jh assms(8) hd(4) assms(10,11)])
  have "handleClientLogOnResponse en tcp_ops cx hdr body h =
      (Return (), snd (Protocol_Send en tcp_ops (Some cx) (Some (logged_on_header ?g)) (Some ClientRequestItemAnnouncements) ?g))"
    using logon_accepted [OF assms(1-4), of tcp_ops cx hdr] S by simp
  then show ?thesis
    using S carries_delivers [OF c] hd(3) by auto
qed

lemma logon_down:
  fixes h :: "TCPConnection Protocol"
  assumes "pb_to_logon_response en body = Inr resp" "GetEresult resp = 1" "lr_HeartbeatSeconds resp = Some secs" "room 1 h"
    "t_state (p_connection h) = StateDisconnecting"
  shows "(\<exists>e. fst (handleClientLogOnResponse en tcp_ops cx hdr body h) = Fail e) \<and>
    p_connection (snd (handleClientLogOnResponse en tcp_ops cx hdr body h)) = p_connection h"
proof -
  let ?g = "logged_on hdr secs h"
  have w: "\<exists>e. fst (Write en tcp_ops (Some cx) (Some hd1) b (offer ev ?g)) = Fail e \<and>
      p_connection (snd (snd (Write en tcp_ops (Some cx) (Some hd1) b (offer ev ?g)))) = p_connection h" for hd1 b ev
    using tcp.write_closed [of "offer ev ?g" en cx hd1 b] assms(5) by (simp add: offer_room)
  have "(\<exists>e. fst (Protocol_Send en tcp_ops (Some cx) (Some hd1) (Some m) ?g) = Fail e) \<and>
      p_connection (snd (Protocol_Send en tcp_ops (Some cx) (Some hd1) (Some m) ?g)) = p_connection h" for hd1 m
    using w by (auto simp: Protocol_Send_def Let_def case_prod_beta offer_room split: sum.splits)
  then show ?thesis
    using logon_accepted [OF assms(1-4), of tcp_ops cx hdr] by simp
qed

section \<open>The extended header on the wire\<close>

lemma take_le_bytes: "m \<le> n \<Longrightarrow> take m (le_bytes n w) = le_bytes m w"
  by (rule nth_equalityI) (simp_all add: nth_le_bytes)

lemma le_word_shifted: "le_word ([0, 2, 0] @ le_bytes 5 t) = push_bit 24 t OR (512 :: uint64)"
proof -
  have "le_word ([0, 2, 0] @ le_bytes 5 t) = (push_bit 8 2 OR push_bit 24 (take_bit 40 t) :: uint64)"
    by (simp add: le_word_le_bytes push_bit_push_bit [symmetric] del: le_bytes.simps push_bit_push_bit)
      (rule bit_word_eqI, auto simp: bit_simps)
  also have "push_bit 24 (take_bit 40 t) = push_bit 24 t"
    by (rule bit_word_eqI) (auto simp: bit_simps)
  finally show ?thesis by (simp add: or.commute)
qed

lemma readExtendedHeader_36:
  assumes "length x = 32"
  shows "readExtendedHeader hdr ((36 # a # b # x) @ body) =
    Inr (hdr\<lparr>h_TargetJobID := le_word (take 8 x), h_SourceJobID := le_word (take 8 (drop 8 x)),
           h_SteamID := le_word (take 8 (drop 17 x)), h_SessionID := le_word (take 4 (drop 25 x))\<rparr>, body)"
proof -
  have r: "read_le n y = Inr (le_word (take n y), drop n y)" if "n \<le> length y" for n y
    using that by (simp add: read_le_Inr)
  have "read_u8 (36 # y) = Inr (36, y)" "read_u16 (a # b # y) = Inr (le_word [a, b], y)" for y
    by (simp_all add: read_le_Inr)
  then show ?thesis
    using assms by (simp add: readExtendedHeader_def read_jobs_def r ReadFull_def)
qed

section \<open>Chains\<close>

lemma no_chain_accp:
  assumes "\<not> (\<exists>f. f 0 = x \<and> (\<forall>i. R (f (Suc i)) (f i)))"
  shows "Wellfounded.accp R x"
proof (rule ccontr)
  assume x: "\<not> Wellfounded.accp R x"
  have "\<exists>f. \<forall>i. (\<not> Wellfounded.accp R (f i) \<and> (i = 0 \<longrightarrow> f i = x)) \<and> R (f (Suc i)) (f i)"
  proof (rule dependent_nat_choice)
    fix y and i :: nat assume "\<not> Wellfounded.accp R y \<and> (i = 0 \<longrightarrow> y = x)"
    then show "\<exists>z. (\<not> Wellfounded.accp R z \<and> (Suc i = 0 \<longrightarrow> z = x)) \<and> R z y" by (metis accp.accI nat.distinct(1))
  qed (use x in auto)
  then show False using assms by metis
qed

section \<open>A concrete environment\<close>

text \<open>For the examples: a codec with fixed-width headers, messages that are their own bodies, and a
  protocol on a fresh connection with an empty events buffer.\<close>

definition enc_opt :: "nat \<Rightarrow> 'a::len word option \<Rightarrow> bytes" where
  "enc_opt n x = (case x of None \<Rightarrow> replicate (Suc n) 0 | Some v \<Rightarrow> 1 # le_bytes n v)"

definition dec_opt :: "nat \<Rightarrow> bytes \<Rightarrow> 'a::len word option" where
  "dec_opt n b = (if take 1 b = [1] then Some (le_word (take n (drop 1 b))) else None)"

lemma dec_enc_opt [simp]: "LENGTH('a::len) \<le> 8 * n \<Longrightarrow> dec_opt n (enc_opt n x @ r) = (x :: 'a word option)"
  by (cases x) (simp_all add: dec_opt_def enc_opt_def)

lemma length_enc_opt [simp]: "length (enc_opt n x) = Suc n"
  by (cases x) (simp_all add: enc_opt_def)

definition sample_env :: env where
  "sample_env =
     \<lparr>pb_header = \<lambda>ph. if ph_others ph = [] then Inr (enc_opt 8 (ph_Steamid ph) @ enc_opt 4 (ph_ClientSessionid ph) @
          enc_opt 8 (ph_JobidSource ph) @ enc_opt 8 (ph_JobidTarget ph)) else Inl EOF,
      pb_message = \<lambda>m. Inr [],
      pb_to_header = \<lambda>b. if length b = 32 then Inr \<lparr>ph_Steamid = dec_opt 8 b, ph_ClientSessionid = dec_opt 4 (drop 9 b),
          ph_JobidSource = dec_opt 8 (drop 14 b), ph_JobidTarget = dec_opt 8 (drop 23 b), ph_others = []\<rparr> else Inl EOF,
      pb_to_multi = \<lambda>b. Inr \<lparr>mu_SizeUnzipped = None, mu_MessageBody = b\<rparr>,
      pb_to_logon_response = \<lambda>b. Inr \<lparr>lr_Eresult = Some 1,
          lr_HeartbeatSeconds = (case b of [] \<Rightarrow> None | x # _ \<Rightarrow> Some (ucast x)), lr_others = []\<rparr>,
      pb_to_item_announcements = \<lambda>b. Inr \<lparr>ia_CountNewItems = None, ia_others = []\<rparr>,
      pb_to_notifications = \<lambda>b. Inr [],
      json_message = \<lambda>m. Inr [], gzip_NewReader = \<lambda>b. Inr (), gzip_ReadAll = \<lambda>b. Inr b,
      json_header = \<lambda>hdr. Inr []\<rparr>"

definition sample_protocol :: "TCPConnection Protocol" where
  "sample_protocol =
     \<lparr>p_events = \<lparr>chbuf = [], chcap = 128\<rparr>, p_connection = sample_conn [] [], p_sessionKey = [], p_stopHeartbeat = None,
      p_steamID = 0, p_sessionID = 0, p_channels = 0, p_closed = [], p_beats = [],
      p_random = (\<lambda>_. (Inr (\<lambda>_. 7), Inr (\<lambda>_. 9))), p_drawn = 0\<rparr>"

lemma sample_env_laws: "header_codec sample_env" "json_total sample_env" "multi_field sample_env"
proof -
  have d: "dec_opt 8 (enc_opt 8 x) = (x :: uint64 option)" for x using dec_enc_opt [of 8 x "[]"] by simp
  have "\<lparr>ph_Steamid = ph_Steamid ph, ph_ClientSessionid = ph_ClientSessionid ph, ph_JobidSource = ph_JobidSource ph,
      ph_JobidTarget = ph_JobidTarget ph, ph_others = []\<rparr> = ph" if "ph_others ph = []" for ph
    using that by (cases ph) simp
  then show "header_codec sample_env"
    by (auto simp: header_codec_def sample_env_def d split: if_splits)
qed (auto simp: json_total_def multi_field_def sample_env_def)

section \<open>Properties\<close>

text \<open>Property C4: the key exchange. On a healthy, unencrypted connection with a working random
  source and room for the events, a request with a 16-byte nonce is answered with the
  response packet for the request's jobs: the RSA image of an OAEP message from which the
  server recovers the 32-byte key, its checksum, and the nonce; the connection stays in
  plain. The server's positive result then sets exactly that key on the connection, which
  becomes encrypted, forgets the key in the protocol, and announces the connection.\<close>

theorem key_exchange:
  assumes "healthy (p_connection h)" and "t_state (p_connection h) = StateConnectedUnencrypted"
    and "t_key (p_connection h) = []" and "length nonce = 16" and "p_random h (p_drawn h) = (Inr f, Inr g)"
    and "room 3 h" and "json_total en"
  shows "\<exists>em h1 h2. readMessage (Suc n) en tcp_ops cx (request_packet t s nonce) h = Some (Return (), h1) \<and>
    nc_out (t_conn (p_connection h1)) = nc_out (t_conn (p_connection h)) @
      frame (response_packet t s (rsa_public steamPublicKey em) nonce) \<and>
    oaep_open em = Some (map f [0..<32]) \<and> \<not> IsEncrypted (p_connection h1) \<and>
    readMessage (Suc n) en tcp_ops cx (result_packet t' s') h1 = Some (Return (), h2) \<and>
    IsEncrypted (p_connection h2) \<and> GetSessionKey (p_connection h2) = map f [0..<32] \<and>
    p_sessionKey h2 = [] \<and> last (chbuf (p_events h2)) = EventConnected"
proof -
  have r3: "room (Suc 2) h" using assms(6) by (simp add: eval_nat_numeral)
  obtain em h1 j d m where m1: "readMessage (Suc n) en tcp_ops cx (request_packet t s nonce) h = Some (Return (), h1)"
    and h1: "p_connection h1 = (p_connection h)\<lparr>t_draws := d, t_calls := m,
         t_conn := (t_conn (p_connection h))\<lparr>nc_out := nc_out (t_conn (p_connection h)) @
           frame (response_packet t s (rsa_public steamPublicKey em) nonce)\<rparr>\<rparr>"
      "p_sessionKey h1 = map f [0..<32]" "oaep_open em = Some (map f [0..<32])"
      "p_events h1 = chan_push (EventMessageReceived EMsg_ChannelEncryptRequest j) (p_events h)"
    by (rule request_step [OF assms(1,3,4,5) r3 assms(7)])
  have r2: "room (Suc (Suc 0)) h1" using assms(6) h1(4) by (simp add: room_def chan_push_def)
  obtain h2 j' where m2: "readMessage (Suc n) en tcp_ops cx (result_packet t' s') h1 = Some (Return (), h2)"
    and h2: "p_connection h2 = SetSessionKey (p_sessionKey h1) (p_connection h1)" "p_sessionKey h2 = []"
      "p_events h2 = chan_push EventConnected (chan_push (EventMessageReceived EMsg_ChannelEncryptResult j') (p_events h1))"
    by (rule result_step [OF r2 assms(7)])
  have len: "length (map f [0..<32]) = 32" by simp
  show ?thesis
    by (rule exI [of _ em], rule exI [of _ h1], rule exI [of _ h2])
      (use m1 m2 h1 h2 assms(2) len in \<open>simp add: IsEncrypted_def GetState_def GetSessionKey_def SetSessionKey_def state_defs
        chan_push_def Let_def del: upt_conv_Cons readMessage.simps\<close>)
qed

theorem key_exchange_witness:
  "\<exists>h1 h2. readMessage 1 sample_env tcp_ops Background (request_packet 5 6 (replicate 16 1)) sample_protocol = Some (Return (), h1) \<and>
    readMessage 1 sample_env tcp_ops Background (result_packet 5 6) h1 = Some (Return (), h2) \<and>
    GetSessionKey (p_connection h2) = replicate 32 7"
  using key_exchange [of sample_protocol "replicate 16 1" "\<lambda>_. 7" "\<lambda>_. 9" sample_env 0 Background 5 6 5 6]
  by (simp add: sample_protocol_def sample_env_laws room_def sample_conn_def healthy_def IsConnected_def GetState_def
      map_replicate_const del: upt_conv_Cons readMessage.simps) (metis One_nat_def)

text \<open>Property C17: what is written is read. With a codec that reads back what it marshals, any
  message with a protobuf header, written by this side, is dispatched by a reader to its
  handler with the same message number and the header's protobuf part (session and account
  filled in), the job, account and session numbers taken from it, and exactly the body
  that was written.\<close>

theorem written_is_dispatched:
  assumes "header_codec en" and "h_Proto hdr \<noteq> None" and "h_EMsg hdr \<noteq> EMsg_ChannelEncryptResponse"
    and "h_EMsg hdr AND PROTO_MASK = 0" and "header_bytes en hdr = (Inr b, hdr1)" and "length b + length body > 8"
  shows "\<exists>ph. h_Proto hdr1 = Some ph \<and> ph = the (h_Proto (fill_proto hdr)) \<and>
    readMessage (Suc n) en ops cx (b @ body) h =
      map_option (map_prod (wrap ''failed to handle message'') id)
        (handleMessage en ops cx (readMessage n en ops cx) (received_header (h_EMsg hdr) ph) body h)"
proof -
  obtain ph where ph: "h_Proto (fill_proto hdr) = Some ph"
    using assms(2) by (cases "h_Proto (fill_proto hdr)") (auto simp: fill_proto_def Let_def split: if_splits)
  have e: "h_EMsg (fill_proto hdr) = h_EMsg hdr"
    by (simp add: fill_proto_def Let_def split: option.splits)
  obtain pb where pb: "pb_header en ph = Inr pb"
      "b = le_bytes 4 (h_EMsg hdr OR PROTO_MASK) @ le_bytes 4 (of_nat (length pb) :: uint32) @ pb" "hdr1 = fill_proto hdr"
    using assms(2,3,5) ph e by (auto simp: header_bytes_def Let_def split: sum.splits)
  have c: "pb_to_header en pb = Inr ph" "length pb < 2 ^ 32" "pb @ body \<noteq> []"
    using assms(1,6) pb by (auto simp: header_codec_def)
  show ?thesis
    using readMessage_proto [OF assms(4) c] pb ph by simp
qed

theorem written_is_dispatched_witness:
  "\<exists>b hdr1. header_bytes sample_env (heartbeat_header sample_protocol) = (Inr b, hdr1) \<and>
    readMessage 1 sample_env tcp_ops Background b sample_protocol =
      Some (Return (), offer (EventMessageReceived EMsg_ClientHeartBeat []) sample_protocol)"
proof -
  obtain b hdr1 where b: "header_bytes sample_env (heartbeat_header sample_protocol) = (Inr b, hdr1)" "length b = 40"
    by (simp add: header_bytes_def heartbeat_header_def new_Header_def new_ProtoBufHeader_def sample_env_def
        fill_proto_def emsg_defs Let_def)
  from written_is_dispatched [OF sample_env_laws(1) _ _ _ b(1), of "[]" 0 tcp_ops Background sample_protocol] b
  show ?thesis
    by (auto simp: heartbeat_header_def new_Header_def emsg_defs PROTO_MASK_def handleMessage_def received_header_def
        sample_env_def simp del: readMessage.simps)
qed

text \<open>Property C39: the extended header that \<^verbatim>\<open>Write\<close> makes for messages without a protobuf
  header is not the one the reader expects: the length field is four bytes wide instead of
  one, so a reader takes the target job shifted by three bytes over the version number.\<close>

theorem extended_header_mismatch:
  assumes "h_Proto hdr = None" and "h_EMsg hdr \<noteq> EMsg_ChannelEncryptResponse"
  shows "\<exists>b r. header_bytes en hdr = (Inr b, hdr) \<and> read_u32 b = Inr (h_EMsg hdr, r) \<and>
    (\<exists>hdr'. readExtendedHeader (new_Header (h_EMsg hdr)) (r @ body) = Inr (hdr', body) \<and>
       h_TargetJobID hdr' = push_bit 24 (h_TargetJobID hdr) OR 512)"
proof -
  let ?x = "[0, 2, 0] @ le_bytes 8 (h_TargetJobID hdr) @ le_bytes 8 (h_SourceJobID hdr) @ [239] @
    le_bytes 8 (h_SteamID hdr) @ le_bytes 4 (h_SessionID hdr)"
  have c: "le_bytes 4 (36 :: uint32) = [36, 0, 0, 0]" "le_bytes 2 (2 :: uint16) = [2, 0]" "le_bytes (Suc 0) (239 :: uint8) = [239]"
    by code_simp+
  have b: "header_bytes en hdr = (Inr (le_bytes 4 (h_EMsg hdr) @ 36 # 0 # 0 # ?x), hdr)"
    using assms by (simp add: header_bytes_def c del: le_bytes.simps)
  have t: "take 8 ?x = [0, 2, 0] @ le_bytes 5 (h_TargetJobID hdr)"
    by (simp add: take_le_bytes del: le_bytes.simps)
  have "le_word (take 8 ?x) = push_bit 24 (h_TargetJobID hdr) OR (512 :: uint64)"
    unfolding t by (rule le_word_shifted)
  then have "\<exists>hdr'. readExtendedHeader (new_Header (h_EMsg hdr)) ((36 # 0 # 0 # ?x) @ body) = Inr (hdr', body) \<and>
       h_TargetJobID hdr' = push_bit 24 (h_TargetJobID hdr) OR 512"
    using readExtendedHeader_36 [of ?x "new_Header (h_EMsg hdr)" 0 0 body] by simp
  with b show ?thesis by (auto simp del: le_bytes.simps)
qed

theorem extended_header_mismatch_witness:
  "\<exists>b r hdr'. header_bytes sample_env ((new_Header EMsg_ClientLogon)\<lparr>h_TargetJobID := 1\<rparr>) = (Inr b, (new_Header EMsg_ClientLogon)\<lparr>h_TargetJobID := 1\<rparr>) \<and>
     read_u32 b = Inr (EMsg_ClientLogon, r) \<and> readExtendedHeader (new_Header EMsg_ClientLogon) (r @ [9]) = Inr (hdr', [9]) \<and>
     h_TargetJobID hdr' = 16777728"
  using extended_header_mismatch [of "(new_Header EMsg_ClientLogon)\<lparr>h_TargetJobID := 1\<rparr>" sample_env "[9]"]
  by (simp add: new_Header_def emsg_defs)

text \<open>Property C18: a multi message is exactly its sub-messages, read one after the other until one
  does not succeed: none is lost, reordered or cut, as long as each has the four bytes of a
  message number and all fit 4 GiB. This holds for a plain message, and for a compressed one
  whose body expands to them and whose size says so.\<close>

theorem multi_in_order:
  assumes "pb_to_multi en body = Inr m" and "ms \<noteq> []"
    and "GetSizeUnzipped m = 0 \<and> mu_MessageBody m = pack ms \<or>
      GetSizeUnzipped m = of_nat (length (pack ms)) \<and> mu_MessageBody m \<noteq> [] \<and>
      gzip_NewReader en (mu_MessageBody m) = Inr () \<and> gzip_ReadAll en (mu_MessageBody m) = Inr (pack ms)"
    and "\<forall>x \<in> set ms. 4 \<le> length x" and "length (pack ms) < 2 ^ 32"
  shows "handleMulti en rd body h = read_each rd ms h"
proof -
  have l: "0 < length (pack ms)" using assms(2) by (cases ms) (auto simp: pack_def)
  then have "(of_nat (length (pack ms)) :: uint32) \<noteq> 0"
    using assms(5) by (auto simp: word_unat_eq_iff unat_of_nat simp del: unsigned_of_nat)
  with l have "multi_data en m = Inr (pack ms)"
    using assms(3) by (auto simp: multi_data_def)
  then show ?thesis
    using assms(1,4,5) by (simp add: handleMulti_def multi_loop_pack)
qed

theorem multi_in_order_witness:
  "handleMulti sample_env (readMessage 1 sample_env tcp_ops Background) (pack [[1, 0, 0, 0, 9], [2, 0, 0, 0]]) sample_protocol =
   read_each (readMessage 1 sample_env tcp_ops Background) [[1, 0, 0, 0, 9], [2, 0, 0, 0]] sample_protocol"
  by (rule multi_in_order [of _ _ "\<lparr>mu_SizeUnzipped = None, mu_MessageBody = pack [[1, 0, 0, 0, 9], [2, 0, 0, 0]]\<rparr>"])
    (simp_all add: sample_env_def GetSizeUnzipped_def pack_def)

text \<open>Property C19: nested messages end. A packet that does not hold an endless chain of messages
  within messages is read to the end, and more levels of nesting than it needs do not change
  the result. When no message within the packet is compressed, and the packet itself may be,
  one level more than its unpacked data has bytes is enough. (A compressed message may be
  larger than what it came in, and nothing bounds the nesting; see the next property.)\<close>

theorem nested_messages_end:
  assumes "multi_field en"
  shows "(\<not> (\<exists>f. f 0 = r \<and> (\<forall>i. f (Suc i) \<in> set (sub_messages en (f i)))) \<longrightarrow>
      (\<exists>n x. \<forall>m \<ge> n. readMessage m en ops cx r h = Some x)) \<and>
    ((\<forall>s. nested en s r \<longrightarrow> \<not> compressed en s) \<and> length (unpacked en r) < n \<longrightarrow>
      (\<exists>x. \<forall>m \<ge> n. readMessage m en ops cx r h = Some x))"
proof (intro conjI impI)
  assume "\<not> (\<exists>f. f 0 = r \<and> (\<forall>i. f (Suc i) \<in> set (sub_messages en (f i))))"
  then have "Wellfounded.accp (within en) r"
    using no_chain_accp [of r "within en"] by (auto simp: within_def)
  then obtain n x where "readMessage n en ops cx r h = Some x" using readMessage_finite by blast
  then show "\<exists>n x. \<forall>m \<ge> n. readMessage m en ops cx r h = Some x" using readMessage_mono by (metis le_Suc_ex)
next
  assume "(\<forall>s. nested en s r \<longrightarrow> \<not> compressed en s) \<and> length (unpacked en r) < n"
  then obtain x where "readMessage n en ops cx r h = Some x" using readMessage_plain [OF assms] by blast
  then show "\<exists>x. \<forall>m \<ge> n. readMessage m en ops cx r h = Some x" using readMessage_mono by (metis le_Suc_ex)
qed

text \<open>A codec for which a body that starts with 9 is compressed (by doing nothing), and a
  compressed packet with one plain message in it.\<close>

definition zip_env :: env where
  "zip_env = sample_env\<lparr>pb_to_multi := (\<lambda>b. Inr (if take 1 b = [9]
     then \<lparr>mu_SizeUnzipped = Some (of_nat (length b - 1)), mu_MessageBody = drop 1 b\<rparr>
     else \<lparr>mu_SizeUnzipped = None, mu_MessageBody = b\<rparr>))\<rparr>"

definition zip_packet :: bytes where
  "zip_packet = proto_packet EMsg_Multi (replicate 32 0) (9 # pack [[1, 0, 0, 0]])"

theorem nested_messages_end_witness:
  "compressed zip_env zip_packet \<and>
   (\<exists>x. \<forall>m \<ge> 9. readMessage m zip_env tcp_ops Background zip_packet sample_protocol = Some x)"
proof -
  have c: "multi_field zip_env" by (auto simp: multi_field_def zip_env_def)
  have z: "compressed zip_env zip_packet" "sub_messages zip_env zip_packet = [[1, 0, 0, 0]]"
      "length (unpacked zip_env zip_packet) = 8" "sub_messages zip_env [1, 0, 0, 0] = []" "\<not> compressed zip_env [1, 0, 0, 0]"
    by code_simp+
  have "s = [1, 0, 0, 0]" if "nested zip_env s zip_packet" for s
    using that z by (induction rule: converse_tranclp_induct) (auto simp: within_def)
  then have n: "\<forall>s. nested zip_env s zip_packet \<longrightarrow> \<not> compressed zip_env s" using z(5) by blast
  moreover have "length (unpacked zip_env zip_packet) < 9" using z(3) by simp
  ultimately show ?thesis
    using nested_messages_end [OF c, of zip_packet tcp_ops Background sample_protocol 9] z(1) by blast
qed

text \<open>Property C20: compressed messages need not end. A multi message whose compressed body expands
  to data that start with the message itself is read for ever: no number of levels is enough,
  so neither \<^verbatim>\<open>readMessage\<close> nor the run loop that gets it returns.\<close>

theorem self_nesting_never_ends:
  assumes "packet = proto_packet EMsg_Multi hb b" and "pb_to_header en hb = Inr ph" and "hb @ b \<noteq> []"
    and "pb_to_multi en b = Inr m" and "mu_MessageBody m \<noteq> []" and "GetSizeUnzipped m \<noteq> 0"
    and "gzip_NewReader en (mu_MessageBody m) = Inr ()" and "gzip_ReadAll en (mu_MessageBody m) = Inr (pack [packet] @ rest)"
    and "GetSizeUnzipped m = of_nat (length (pack [packet] @ rest))" and "length (pack [packet] @ rest) < 2 ^ 32"
    and "json_total en"
  shows "readMessage n en ops cx packet h = None \<and>
    (cRead ops (Some cx) (p_connection h) = (Return (Some packet), c) \<longrightarrow> Run k depth en ops cx h = None)"
proof -
  have z: "EMsg_Multi AND PROTO_MASK = 0" by (simp add: emsg_defs PROTO_MASK_def)
  have l: "length hb < 2 ^ 32" "4 \<le> length packet" "length packet + length rest < 2 ^ 32"
    using assms(1,10) by (simp_all add: pack_def proto_packet_def)
  have data: "multi_data en m = Inr (le_bytes 4 (of_nat (length packet) :: uint32) @ packet @ rest)"
    using assms(5-10) by (simp add: multi_data_def pack_def)
  obtain j where j: "json_header en (received_header EMsg_Multi ph) = Inr j"
    using assms(11) unfolding json_total_def by blast
  have step: "handleMessage en ops cx rd (received_header EMsg_Multi ph) b g = None" if "\<And>x. rd packet x = None" for rd g
    using that j assms(4) data
    by (simp add: handleMessage_def handleMulti_def multi_loop_step [OF l(2,3)] received_header_def Let_def)
      (simp add: emsg_defs)
  have r: "readMessage n en ops cx packet h = None" for n h
  proof (induction n arbitrary: h)
    case (Suc n)
    show ?case
      unfolding assms(1) proto_packet_def readMessage_proto [OF z assms(2) l(1) assms(3)]
      using step [of "readMessage n en ops cx"] Suc.IH by simp
  qed simp
  then show ?thesis by (cases k) auto
qed

definition nesting_packet :: bytes where "nesting_packet = proto_packet EMsg_Multi (replicate 32 0) []"

definition nesting_env :: env where
  "nesting_env = sample_env\<lparr>pb_to_multi := (\<lambda>b. Inr \<lparr>mu_SizeUnzipped = Some 44, mu_MessageBody = [1]\<rparr>),
     gzip_ReadAll := (\<lambda>b. Inr (pack [nesting_packet]))\<rparr>"

theorem self_nesting_never_ends_witness:
  "readMessage 1000 nesting_env tcp_ops Background nesting_packet sample_protocol = None"
proof -
  have p: "length (pack [nesting_packet]) = 44" by (simp add: pack_def nesting_packet_def proto_packet_def)
  have h: "pb_to_header nesting_env (replicate 32 0) =
      Inr \<lparr>ph_Steamid = None, ph_ClientSessionid = None, ph_JobidSource = None, ph_JobidTarget = None, ph_others = []\<rparr>"
    by (simp add: nesting_env_def sample_env_def dec_opt_def)
  show ?thesis
    using self_nesting_never_ends [of nesting_packet "replicate 32 0" "[]" nesting_env _
        "\<lparr>mu_SizeUnzipped = Some 44, mu_MessageBody = [1]\<rparr>" "[]" 1000 tcp_ops Background sample_protocol, OF nesting_packet_def h] p
    by (simp add: nesting_env_def sample_env_def GetSizeUnzipped_def json_total_def del: readMessage.simps)
qed

text \<open>Property C21: in every state reached from a new protocol by running, sending, closing,
  heartbeat steps and consumed events, in any order, the events buffer is within its
  capacity and no stop channel is closed twice, so that no close can panic.\<close>

theorem protocol_invariant:
  assumes "NewProtocol rnd (Some c) ev = Inr h0" and "wf_chan ev" and "(proto_step en ops cx)\<^sup>*\<^sup>* h0 h"
  shows "length (chbuf (p_events h)) \<le> chcap (p_events h) \<and> distinct (p_closed h) \<and>
    (\<forall>ch. p_stopHeartbeat h = Some ch \<longrightarrow> ch \<notin> set (p_closed h))"
proof -
  have "proto_inv h"
    using assms(3) NewProtocol_inv [OF assms(1,2)] by (induction rule: rtranclp_induct) (auto intro: proto_step_inv)
  then show ?thesis by (auto simp: proto_inv_def wf_chan_def)
qed

theorem protocol_invariant_witness:
  "distinct (p_closed (snd (Protocol_Close tcp_ops sample_protocol)))"
proof -
  have n: "NewProtocol (p_random sample_protocol) (Some (sample_conn [] [])) \<lparr>chbuf = [], chcap = 128\<rparr> = Inr sample_protocol"
    by (simp add: NewProtocol_def sample_protocol_def)
  have "(proto_step sample_env tcp_ops Background)\<^sup>*\<^sup>* sample_protocol (snd (Protocol_Close tcp_ops sample_protocol))"
    by (rule r_into_rtranclp, rule ps_close [of _ _ "fst (Protocol_Close tcp_ops sample_protocol)"]) simp
  from protocol_invariant [OF n _ this] show ?thesis by (simp add: wf_chan_def)
qed

text \<open>Closing ends the protocol on a TCP connection. After \<^verbatim>\<open>Close\<close>, the run loop
  returns nil at its next packet and every \<^verbatim>\<open>Send\<close> fails.\<close>

theorem closed_protocol_stops:
  "Run (Suc n) depth en tcp_ops cx (snd (Protocol_Close tcp_ops h)) = Some (Return (), snd (Protocol_Close tcp_ops h)) \<and>
   (\<exists>e. fst (Protocol_Send en tcp_ops (Some cx) (Some hdr) body (snd (Protocol_Close tcp_ops h))) = Fail e)"
  using tcp.run_after_close tcp.send_after_close by blast

text \<open>A positive encryption result that no request preceded is taken for a finished
  key exchange: the connection is announced although no key is set and it stays in plain.\<close>

theorem unrequested_encrypt_result:
  assumes "p_sessionKey h = []" and "room 1 h"
  shows "handleChannelEncryptResult tcp_ops (le_bytes 4 (1 :: uint32)) h =
    (Return (), h\<lparr>p_events := chan_push EventConnected (p_events h)\<rparr>)"
proof -
  have "SetSessionKey [] (p_connection h) = p_connection h" by (simp add: SetSessionKey_def)
  moreover have k: "h\<lparr>p_sessionKey := []\<rparr> = h" using assms(1) by (cases h) simp
  ultimately show ?thesis
    using assms emit_room [of 0 h EventConnected] read_le_append [of 4 "1 :: uint32" "[]"]
    by (simp add: handleChannelEncryptResult_def k)
qed

theorem unrequested_encrypt_result_witness:
  "\<exists>h. handleChannelEncryptResult tcp_ops (le_bytes 4 (1 :: uint32)) sample_protocol = (Return (), h) \<and>
     chbuf (p_events h) = [EventConnected] \<and> \<not> IsEncrypted (p_connection h)"
  using unrequested_encrypt_result [of sample_protocol]
  by (simp add: sample_protocol_def sample_conn_def room_def chan_push_def IsEncrypted_def GetState_def state_defs)

text \<open>Property C22: the logon response, on every branch. A body that does not unmarshal is an error,
  and so is a result other than 1; both leave the protocol as it was, as does a positive result
  without a heartbeat interval, which panics. A positive one with an interval always sets the
  account and the session of its header, closes the old stop channel and starts one more
  heartbeat goroutine (which crashes the program for an interval that is not positive). With
  the events channel full the call then hangs, with nothing announced or sent. Otherwise it
  announces the logon, and asks for the item announcements: on a healthy connection with a
  codec that marshals, it succeeds, and exactly one more frame goes out, in which the server
  finds that request with the account and the session of the response; and when the connection
  is disconnecting, it fails and nothing is sent, but the session stays set and the heartbeat on.\<close>

theorem logon_response:
  fixes h :: "TCPConnection Protocol" and hdr en cx body
  defines "H \<equiv> handleClientLogOnResponse en tcp_ops cx hdr body h"
    and "ph \<equiv> new_ProtoBufHeader\<lparr>ph_Steamid := Some (GetSteamid (h_Proto hdr)),
      ph_ClientSessionid := Some (GetClientSessionid (h_Proto hdr))\<rparr>"
  shows "(\<forall>err. pb_to_logon_response en body = Inl err \<longrightarrow> H = (Fail (ErrWrap ''failed to unmarshal body'' err), h)) \<and>
    (\<forall>resp. pb_to_logon_response en body = Inr resp \<longrightarrow>
      (GetEresult resp \<noteq> 1 \<longrightarrow> H = (Fail (ErrNew (''failed to log in: '' @ FormatInt (sint (GetEresult resp)))), h)) \<and>
      (GetEresult resp = 1 \<and> lr_HeartbeatSeconds resp = None \<longrightarrow> H = (Panic ErrNilDeref, h)) \<and>
      (\<forall>secs. GetEresult resp = 1 \<and> lr_HeartbeatSeconds resp = Some secs \<longrightarrow>
        session_set hdr secs h (snd H) \<and> (sint secs \<le> 0 \<longrightarrow> crashes (snd H)) \<and>
        (chan_full (p_events h) \<longrightarrow> fst H = Parked \<and> p_events (snd H) = p_events h \<and> p_connection (snd H) = p_connection h) \<and>
        (\<not> chan_full (p_events h) \<longrightarrow>
          (\<exists>es. chbuf (p_events (snd H)) = chbuf (p_events h) @
             EventLoggedOn (GetSteamid (h_Proto hdr)) (GetClientSessionid (h_Proto hdr)) # es \<and> length es \<le> 1) \<and>
          (\<forall>hb b. healthy (p_connection h) \<and> armed (p_connection h) \<and> json_total en \<and>
             (\<exists>j. json_message en ClientRequestItemAnnouncements = Inr j) \<and> pb_header en ph = Inr hb \<and>
             pb_message en ClientRequestItemAnnouncements = Inr b \<and> length hb + length b + 40 \<le> max_packet \<longrightarrow>
             fst H = Return () \<and>
             (\<exists>f. nc_out (t_conn (p_connection (snd H))) = nc_out (t_conn (p_connection h)) @ f \<and>
                delivers (t_key (p_connection h)) f (proto_packet EMsg_ClientRequestItemAnnouncements hb b))) \<and>
          (t_state (p_connection h) = StateDisconnecting \<longrightarrow>
             (\<exists>e. fst H = Fail e) \<and> p_connection (snd H) = p_connection h))))"
proof (intro conjI allI impI)
  fix err assume "pb_to_logon_response en body = Inl err"
  then show "H = (Fail (ErrWrap ''failed to unmarshal body'' err), h)"
    by (simp add: H_def handleClientLogOnResponse_def read_all_body_def)
next
  fix resp assume r: "pb_to_logon_response en body = Inr resp"
  show "H = (Fail (ErrNew (''failed to log in: '' @ FormatInt (sint (GetEresult resp)))), h)" if "GetEresult resp \<noteq> 1"
    using r that by (simp add: H_def handleClientLogOnResponse_def read_all_body_def)
  show "H = (Panic ErrNilDeref, h)" if "GetEresult resp = 1 \<and> lr_HeartbeatSeconds resp = None"
    using r that by (simp add: H_def handleClientLogOnResponse_def read_all_body_def)
  fix secs assume p: "GetEresult resp = 1 \<and> lr_HeartbeatSeconds resp = Some secs"
  note A = logon_taken [OF r conjunct1 [OF p] conjunct2 [OF p], where h = h and ops = tcp_ops and cx = cx and hdr = hdr, folded H_def]
  show "session_set hdr secs h (snd H)" by (rule A(1))
  then show "crashes (snd H)" if "sint secs \<le> 0"
    using that by (simp add: session_set_def crashes_def Second_def)
  show "fst H = Parked" "p_events (snd H) = p_events h" "p_connection (snd H) = p_connection h" if "chan_full (p_events h)"
    using logon_full [OF r _ _ that] p by (simp_all add: H_def)
  assume f: "\<not> chan_full (p_events h)"
  show "\<exists>es. chbuf (p_events (snd H)) = chbuf (p_events h) @
      EventLoggedOn (GetSteamid (h_Proto hdr)) (GetClientSessionid (h_Proto hdr)) # es \<and> length es \<le> 1"
    by (rule A(2) [OF f])
  have room: "room 1 h" using f by (simp add: room_def chan_full_def)
  note p1 = conjunct1 [OF p] and p2 = conjunct2 [OF p]
  show "fst H = Return ()" "\<exists>f. nc_out (t_conn (p_connection (snd H))) = nc_out (t_conn (p_connection h)) @ f \<and>
      delivers (t_key (p_connection h)) f (proto_packet EMsg_ClientRequestItemAnnouncements hb b)"
    if "healthy (p_connection h) \<and> armed (p_connection h) \<and> json_total en \<and>
       (\<exists>j. json_message en ClientRequestItemAnnouncements = Inr j) \<and> pb_header en ph = Inr hb \<and>
       pb_message en ClientRequestItemAnnouncements = Inr b \<and> length hb + length b + 40 \<le> max_packet" for hb b
    using logon_sent [OF r p1 p2 room, of _ hdr hb b cx] that unfolding H_def ph_def by blast+
  show "\<exists>e. fst H = Fail e" "p_connection (snd H) = p_connection h" if "t_state (p_connection h) = StateDisconnecting"
    using logon_down [OF r p1 p2 room that, of cx hdr] by (simp_all add: H_def)
qed

text \<open>The response of the concrete codec is positive, with the first byte as its interval: an empty
  body panics, a full channel hangs, and 30 seconds on a fresh connection log on.\<close>

theorem logon_response_witness:
  "handleClientLogOnResponse sample_env tcp_ops Background (new_Header EMsg_ClientLogOnResponse) [] sample_protocol =
     (Panic ErrNilDeref, sample_protocol) \<and>
   fst (handleClientLogOnResponse sample_env tcp_ops Background (new_Header EMsg_ClientLogOnResponse) [30]
     (sample_protocol\<lparr>p_events := \<lparr>chbuf = [], chcap = 0\<rparr>\<rparr>)) = Parked \<and>
   (\<exists>h1 f. handleClientLogOnResponse sample_env tcp_ops Background (new_Header EMsg_ClientLogOnResponse) [30] sample_protocol =
      (Return (), h1) \<and> p_beats h1 = [Starting (30 * Second)] \<and> p_stopHeartbeat h1 = Some 0 \<and>
      delivers [] f (proto_packet EMsg_ClientRequestItemAnnouncements
        (1 # le_bytes 8 (0 :: uint64) @ 1 # le_bytes 4 (0 :: uint32) @ replicate 18 0) []))"
proof -
  let ?r = "\<lambda>b :: bytes. \<lparr>lr_Eresult = Some 1, lr_HeartbeatSeconds = (case b of [] \<Rightarrow> None | x # _ \<Rightarrow> Some (ucast x)), lr_others = []\<rparr>"
  let ?h = "new_Header EMsg_ClientLogOnResponse"
  let ?H = "handleClientLogOnResponse sample_env tcp_ops Background ?h [30] sample_protocol"
  have r: "pb_to_logon_response sample_env b = Inr (?r b)" "GetEresult (?r b) = 1" for b
    by (simp_all add: sample_env_def GetEresult_def)
  have s: "lr_HeartbeatSeconds (?r [30]) = Some 30" "h_Proto ?h = None" by (simp_all add: new_Header_def)
  note E = logon_response [of sample_env]
  have 1: "handleClientLogOnResponse sample_env tcp_ops Background ?h [] sample_protocol = (Panic ErrNilDeref, sample_protocol)"
    using E [of "[]" Background ?h sample_protocol] r [of "[]"] by simp
  have 2: "fst (handleClientLogOnResponse sample_env tcp_ops Background ?h [30] (sample_protocol\<lparr>p_events := \<lparr>chbuf = [], chcap = 0\<rparr>\<rparr>)) = Parked"
    using E [of "[30]" Background ?h "sample_protocol\<lparr>p_events := \<lparr>chbuf = [], chcap = 0\<rparr>\<rparr>"] r [of "[30]"] s
    by (simp add: chan_full_def)
  have pb: "pb_header sample_env (new_ProtoBufHeader\<lparr>ph_Steamid := Some (GetSteamid None), ph_ClientSessionid := Some (GetClientSessionid None)\<rparr>) =
      Inr (1 # le_bytes 8 (0 :: uint64) @ 1 # le_bytes 4 (0 :: uint32) @ replicate 18 0)"
    by code_simp
  have c: "\<not> chan_full (p_events sample_protocol)" "healthy (p_connection sample_protocol)" "armed (p_connection sample_protocol)"
      "t_key (p_connection sample_protocol) = []" "p_beats sample_protocol = []" "p_channels sample_protocol = 0"
      "json_message sample_env ClientRequestItemAnnouncements = Inr []" "pb_message sample_env ClientRequestItemAnnouncements = Inr []"
    by (simp_all add: chan_full_def sample_protocol_def sample_env_def)
  have l: "length (1 # le_bytes 8 (0 :: uint64) @ 1 # le_bytes 4 (0 :: uint32) @ replicate 18 0) + length ([] :: bytes) + 40 \<le> max_packet"
    by (simp add: max_packet_def)
  note T = E [of "[30]" Background ?h sample_protocol, THEN conjunct2, rule_format, OF r(1), THEN conjunct2, THEN conjunct2,
      THEN spec [of _ 30], rule_format, OF conjI [OF r(2) s(1)]]
  have "session_set ?h 30 sample_protocol (snd ?H)" by (rule T [THEN conjunct1])
  moreover have "fst ?H = Return () \<and> (\<exists>f. nc_out (t_conn (p_connection (snd ?H))) = nc_out (t_conn (p_connection sample_protocol)) @ f \<and>
      delivers (t_key (p_connection sample_protocol)) f (proto_packet EMsg_ClientRequestItemAnnouncements
        (1 # le_bytes 8 (0 :: uint64) @ 1 # le_bytes 4 (0 :: uint32) @ replicate 18 0) []))"
    by (rule T [THEN conjunct2, THEN conjunct2, THEN conjunct2, rule_format, OF c(1), THEN conjunct2, THEN conjunct1, rule_format])
      (intro conjI c sample_env_laws(2) l exI [of _ "[]"], unfold s(2), rule pb)
  ultimately have "session_set ?h 30 sample_protocol (snd ?H)" "fst ?H = Return ()"
      "\<exists>f. delivers [] f (proto_packet EMsg_ClientRequestItemAnnouncements
        (1 # le_bytes 8 (0 :: uint64) @ 1 # le_bytes 4 (0 :: uint32) @ replicate 18 0) [])"
    using c(4) by auto
  then have "\<exists>h1 f. ?H = (Return (), h1) \<and> p_beats h1 = [Starting (30 * Second)] \<and> p_stopHeartbeat h1 = Some 0 \<and>
      delivers [] f (proto_packet EMsg_ClientRequestItemAnnouncements
        (1 # le_bytes 8 (0 :: uint64) @ 1 # le_bytes 4 (0 :: uint32) @ replicate 18 0) [])"
    using c by (intro exI [of _ "snd ?H"]) (simp add: session_set_def prod_eq_iff)
  with 1 2 show ?thesis by blast
qed

end
