(* ===== verification/Client_Laws.thy ===== *)
theory Client_Laws
  imports Client Protocol_Laws Pipe "HOL-Library.Multiset"
begin

text \<open>
  What the client of \<open>Client\<close> guarantees: which server it connects to, what the login state
  holds, what logging on sends, and how connecting ends.
\<close>

section \<open>Sorting\<close>

text \<open>The documented contract of \<^verbatim>\<open>slices.SortFunc\<close>: a permutation, in ascending order when the
  comparison is a weak order on the elements.\<close>

definition weak_order :: "('a \<Rightarrow> 'a \<Rightarrow> int) \<Rightarrow> 'a set \<Rightarrow> bool" where
  "weak_order cmp S \<longleftrightarrow>
     (\<forall>a \<in> S. \<forall>b \<in> S. cmp a b < 0 \<longleftrightarrow> \<not> cmp b a \<le> 0) \<and>
     (\<forall>a \<in> S. \<forall>b \<in> S. \<forall>c \<in> S. cmp a b \<le> 0 \<longrightarrow> cmp b c \<le> 0 \<longrightarrow> cmp a c \<le> 0)"

lemma weak_order_subset: "weak_order cmp T \<Longrightarrow> S \<subseteq> T \<Longrightarrow> weak_order cmp S"
  unfolding weak_order_def by (meson subsetD)

locale sort_func =
  fixes srt :: "('a \<Rightarrow> 'a \<Rightarrow> int) \<Rightarrow> 'a list \<Rightarrow> 'a list"
  assumes mset_srt: "mset (srt cmp xs) = mset xs"
    and sorted_srt: "weak_order cmp (set xs) \<Longrightarrow> sorted_wrt (\<lambda>a b. cmp a b \<le> 0) (srt cmp xs)"
begin

lemma set_srt: "set (srt cmp xs) = set xs"
  using mset_srt by (metis set_mset_mset)

lemma srt_nonempty: "srt cmp xs = [] \<longleftrightarrow> xs = []"
  by (metis mset_srt mset_zero_iff)

lemma last_srt:
  assumes "weak_order cmp (set xs)" "xs \<noteq> []"
  shows "last (srt cmp xs) \<in> set xs \<and> (\<forall>x \<in> set xs. cmp x (last (srt cmp xs)) \<le> 0)"
proof -
  obtain ys y where y: "srt cmp xs = ys @ [y]"
    using assms(2) srt_nonempty by (metis rev_exhaust)
  have "cmp x y \<le> 0" if "x \<in> set xs" for x
  proof (cases "x = y")
    case True
    have "y \<in> set xs" using set_srt [of cmp xs] y by auto
    then show ?thesis using assms(1) True unfolding weak_order_def by (meson linorder_not_le order_less_imp_le)
  next
    case False
    then have "x \<in> set ys" using that set_srt [of cmp xs] y by auto
    then show ?thesis using sorted_srt [OF assms(1)] y by (simp add: sorted_wrt_append)
  qed
  then show ?thesis using y set_srt [of cmp xs] by auto
qed

end

text \<open>The insertion sort the library uses for at most twelve elements: each element moves left
  past the greater ones of the part already sorted, which is kept reversed here.\<close>

fun insert_back :: "('a \<Rightarrow> 'a \<Rightarrow> int) \<Rightarrow> 'a \<Rightarrow> 'a list \<Rightarrow> 'a list" where
  "insert_back cmp x [] = [x]"
| "insert_back cmp x (y # ys) = (if cmp x y < 0 then y # insert_back cmp x ys else x # y # ys)"

definition insertionSortCmpFunc :: "('a \<Rightarrow> 'a \<Rightarrow> int) \<Rightarrow> 'a list \<Rightarrow> 'a list" where
  "insertionSortCmpFunc cmp xs = rev (fold (insert_back cmp) xs [])"

lemma mset_insert_back: "mset (insert_back cmp x ys) = add_mset x (mset ys)"
  by (induction ys) auto

lemma set_insert_back: "set (insert_back cmp x ys) = insert x (set ys)"
  using mset_insert_back by (metis set_mset_add_mset_insert set_mset_mset)

lemma insert_back_sorted:
  "weak_order cmp (insert x (set ys)) \<Longrightarrow> sorted_wrt (\<lambda>a b. cmp b a \<le> 0) ys \<Longrightarrow>
   sorted_wrt (\<lambda>a b. cmp b a \<le> 0) (insert_back cmp x ys)"
proof (induction ys)
  case (Cons y ys)
  have w: "weak_order cmp (insert x (set ys))" using Cons.prems(1) by (rule weak_order_subset) auto
  show ?case
  proof (cases "cmp x y < 0")
    case True
    then show ?thesis using Cons.IH [OF w] Cons.prems(2) by (auto simp: set_insert_back)
  next
    case False
    have yx: "cmp y x \<le> 0"
      using Cons.prems(1) False unfolding weak_order_def by (meson insertCI list.set_intros(1))
    have "cmp z x \<le> 0" if "z \<in> set ys" for z
    proof -
      have "cmp z y \<le> 0" using Cons.prems(2) that by simp
      with yx that Cons.prems(1) show ?thesis unfolding weak_order_def by (meson insertCI list.set_intros)
    qed
    with yx False Cons.prems(2) show ?thesis by simp
  qed
qed simp

lemma fold_insert_back:
  "weak_order cmp (set xs \<union> set acc) \<Longrightarrow> sorted_wrt (\<lambda>a b. cmp b a \<le> 0) acc \<Longrightarrow>
   sorted_wrt (\<lambda>a b. cmp b a \<le> 0) (fold (insert_back cmp) xs acc)"
proof (induction xs arbitrary: acc)
  case (Cons x xs)
  have "weak_order cmp (insert x (set acc))" using Cons.prems(1) by (rule weak_order_subset) auto
  with Cons show ?case by (simp add: set_insert_back insert_back_sorted)
qed simp

interpretation isort: sort_func insertionSortCmpFunc
proof unfold_locales
  fix cmp :: "'a \<Rightarrow> 'a \<Rightarrow> int" and xs
  have "mset (fold (insert_back cmp) xs acc) = mset xs + mset acc" for acc
    by (induction xs arbitrary: acc) (simp_all add: mset_insert_back)
  then show "mset (insertionSortCmpFunc cmp xs) = mset xs" by (simp add: insertionSortCmpFunc_def)
  assume "weak_order cmp (set xs)"
  then show "sorted_wrt (\<lambda>a b. cmp a b \<le> 0) (insertionSortCmpFunc cmp xs)"
    using fold_insert_back [of cmp xs "[]"] by (simp add: insertionSortCmpFunc_def sorted_wrt_rev)
qed

text \<open>Loads of half the range of an integer or less are compared without wrapping around.\<close>

lemma sint_of_int64: "- (2 ^ 63) \<le> k \<Longrightarrow> k < 2 ^ 63 \<Longrightarrow> sint (word_of_int k :: 64 word) = k"
  by (simp add: sint_sbintrunc' signed_take_bit_int_eq_self)

lemma by_load_exact:
  "\<bar>sv_Load a\<bar> < 2 ^ 62 \<Longrightarrow> \<bar>sv_Load b\<bar> < 2 ^ 62 \<Longrightarrow> by_load a b = sv_Load a - sv_Load b"
  unfolding by_load_def by (rule sint_of_int64) (auto simp: abs_less_iff)

lemma by_load_order: "\<forall>s \<in> S. \<bar>sv_Load s\<bar> < 2 ^ 62 \<Longrightarrow> weak_order by_load S"
  unfolding weak_order_def by (auto simp: by_load_exact)

section \<open>Connecting\<close>

text \<open>The connection a server gets at the dial of that number.\<close>

definition dialled :: "Host \<Rightarrow> goctx \<Rightarrow> Client \<Rightarrow> nat \<Rightarrow> CMServer \<Rightarrow> TCPConnection result" where
  "dialled hs cx c k s =
     (if sv_Type s = ''netfilter''
      then NewTCPConnection (hs_connRand hs k) (hs_connClose hs k) (Some cx) (map_option (\<lambda>d. d k) (c_dialer c)) (sv_Endpoint s)
      else Inl (ErrNew (''unsupported server type: '' @ sv_Type s)))"

abbreviation netfilter :: "CMServer \<Rightarrow> bool" where "netfilter s \<equiv> sv_Type s = ''netfilter''"

lemma open_servers_simps:
  "open_servers hs cx [] c = (None, None, c)"
  "open_servers hs cx (xs @ [s]) c = try_server hs cx s (open_servers hs cx xs c)"
  by (simp_all add: open_servers_def)

text \<open>What the loop changes of the client.\<close>

lemma open_servers_client:
  assumes "open_servers hs cx xs c = (conn, err, c')"
  shows "c_dialer c' = c_dialer c \<and> c_dials c' = c_dials c + length (filter netfilter xs) \<and>
    c_reconnect c' = c_reconnect c \<and> c_events c' = c_events c \<and> c_protocol c' = c_protocol c \<and>
    c_authIdentity c' = c_authIdentity c \<and> c_authIDP c' = c_authIDP c \<and> c_api c' = c_api c"
  using assms
proof (induction xs arbitrary: conn err c' rule: rev_induct)
  case (snoc s xs)
  obtain a b d where "open_servers hs cx xs c = (a, b, d)" by (metis prod_cases3)
  with snoc show ?case
    by (fastforce simp: open_servers_simps try_server_def Let_def split: if_splits sum.splits)
qed (simp add: open_servers_simps)

text \<open>Only the last server counts.\<close>

lemma open_servers_last:
  assumes "open_servers hs cx (xs @ [s]) c = (conn, err, c')"
  shows "(case dialled hs cx c (c_dials c + length (filter netfilter xs)) s of
            Inl e \<Rightarrow> err = Some e
          | Inr t \<Rightarrow> err = None \<and> conn = Some (Some t) \<and> last (c_opened c') = t)"
proof -
  obtain a b d where o: "open_servers hs cx xs c = (a, b, d)" by (metis prod_cases3)
  from open_servers_client [OF o] assms show ?thesis
    by (auto simp: open_servers_simps o try_server_def dialled_def Let_def split: if_splits sum.splits)
qed

lemma open_servers_opened:
  assumes "open_servers hs cx xs c = (conn, err, c')" and "\<forall>s \<in> set xs. \<forall>k. \<not> isl (dialled hs cx c k s)"
  shows "length (c_opened c') = length (c_opened c) + length xs"
  using assms
proof (induction xs arbitrary: conn err c' rule: rev_induct)
  case (snoc s xs)
  obtain a b d where o: "open_servers hs cx xs c = (a, b, d)" by (metis prod_cases3)
  obtain t where t: "dialled hs cx c (c_dials d) s = Inr t"
    using snoc.prems(2) by (metis in_set_conv_decomp isl_def old.sum.exhaust)
  have "c_dialer d = c_dialer c" using open_servers_client [OF o] by simp
  with t have "c' = d\<lparr>c_dials := Suc (c_dials d), c_opened := c_opened d @ [t]\<rparr>"
    using snoc.prems(1) by (simp add: open_servers_simps o try_server_def dialled_def Let_def split: if_splits)
  then show ?case using snoc.IH [OF o] snoc.prems(2) by simp
qed (simp add: open_servers_simps)

section \<open>A concrete client\<close>

text \<open>For the examples: a directory of two servers, of which only the one with the lower load can be
  dialled, and a client with an identity.\<close>

definition directory_reply :: json where
  "directory_reply = JObj [(''response'', JObj [(''success'', JBool True), (''serverlist'', JArr
     [JObj [(''endpoint'', JStr ''a:1''), (''type'', JStr ''netfilter''), (''load'', JNum ''10'')],
      JObj [(''endpoint'', JStr ''b:2''), (''type'', JStr ''netfilter''), (''load'', JNum ''90'')]])])]"

definition listed :: "string \<Rightarrow> int \<Rightarrow> CMServer" where
  "listed endpoint load = \<lparr>sv_Endpoint = endpoint, sv_LegacyEndpoint = [], sv_Type = ''netfilter'', sv_DC = [],
     sv_Realm = [], sv_Load = load, sv_WtdLoad = ''0''\<rparr>"

definition directory_world :: World where
  "directory_world = \<lparr>wd_now = 0, wd_log = [],
     wd_reply = (\<lambda>_ _. Inr \<lparr>rs_status = 200, rs_eresult = ''1'', rs_body = Inr directory_reply\<rparr>),
     wd_cost = (\<lambda>_. 1), wd_pick = (\<lambda>_. False)\<rparr>"

definition sample_host :: Host where
  "sample_host = \<lparr>hs_DefaultClient = world_client (\<lambda>_ _. None),
     hs_netDialer = (\<lambda>_ _ addr. if addr = ''a:1'' then Inr (t_conn (sample_conn [] [])) else Inl EOF),
     hs_SortFunc = insertionSortCmpFunc, hs_connRand = (\<lambda>_ _. Inr (\<lambda>_. 0)), hs_connClose = (\<lambda>_ _. False),
     hs_protoRand = (\<lambda>_ _. (Inr (\<lambda>_. 7), Inr (\<lambda>_. 9)))\<rparr>"

definition sample_client :: Client where
  "sample_client = zero_client\<lparr>c_api := Some (ISteamDirectory (NewHTTPTransport (hs_DefaultClient sample_host) [])),
     c_dialer := Some (hs_netDialer sample_host), c_events := Some \<lparr>chbuf = [], chcap = 512\<rparr>\<rparr>"

definition sample_identity :: Identity where "sample_identity = NewIdentity 76561198065346589 ''R'' 0"

lemma sample_NewClient: "NewClient sample_host [] = Inr sample_client"
  by (simp add: NewClient_def sample_client_def zero_client_def NewAPI_def Let_def)

lemma sample_directory:
  obtains w1 where "GetCMListForConnect (ISteamDirectory (NewHTTPTransport (hs_DefaultClient sample_host) [])) cm_params directory_world =
    (Inr [listed ''a:1'' 10, listed ''b:2'' 90], w1)"
proof -
  have n: "ParseInt ''10'' 64 = Inr 10" "ParseInt ''90'' 64 = Inr 90" by (simp_all add: ParseInt_def ParseUint_def is_digit_def digit_val_def)
  have "decode_response dec_cm_list \<lparr>cl_Success = False, cl_Message = [], cl_ServerList = []\<rparr> directory_reply =
      Inr \<lparr>cl_Success = True, cl_Message = [], cl_ServerList = [listed ''a:1'' 10, listed ''b:2'' 90]\<rparr>"
    by (simp add: decode_response_def directory_reply_def dec_struct_def find_field_def dec_cm_list_def GetCMListForConnectResponse_fields_def dec_bool_def
        dec_with_def dec_kept_def p_bool_def p_array_def p_CMServer_def CMServer_fields_def dec_str_def p_str_def dec_int_def p_int_def n listed_def)
  then show ?thesis
    using that by (simp add: GetCMListForConnect_def Call_def sample_host_def NewHTTPTransport_def world_client_def
        directory_world_def Let_def)
qed

section \<open>Properties\<close>

text \<open>Property C8: the server a client ends up with. The servers are sorted by load, lowest
  first, but the loop over them does not stop at the first success: it is the server with
  the highest load that decides. If that one has another type or cannot be dialled, the
  call fails, however many others were reached; if it can, the protocol runs on it; and the
  connections to all other servers are opened and never closed.\<close>

theorem connect_uses_highest_load:
  assumes "sort_func (hs_SortFunc hs)" and "Client_Identity c = Inr i" and "c_api c = Some directory"
    and "GetCMListForConnect directory cm_params w = (Inr servers, w1)" and "servers \<noteq> []"
    and "\<forall>s \<in> set servers. \<bar>sv_Load s\<bar> < 2 ^ 62"
  shows "\<exists>s k c1. s \<in> set servers \<and> (\<forall>x \<in> set servers. sv_Load x \<le> sv_Load s) \<and>
    (\<forall>e. dialled hs cx c k s = Inl e \<longrightarrow>
       connect n depth en hs cx c w = Some (Fail (ErrWrap ''failed to create connection'' e), c1, w1)) \<and>
    (\<forall>t. dialled hs cx c k s = Inr t \<longrightarrow>
       connect n depth en hs cx c w =
         map_option (\<lambda>(r, c2). (r, c2, w1)) (run_protocol n depth en hs cx (Some (Some t)) c1)) \<and>
    ((\<forall>x \<in> set servers. \<forall>j. \<not> isl (dialled hs cx c j x)) \<longrightarrow>
       length (c_opened c1) = length (c_opened c) + length servers)"
proof -
  have w: "weak_order by_load (set servers)" using assms(6) by (rule by_load_order)
  define xs where "xs = hs_SortFunc hs by_load servers"
  have xs: "xs \<noteq> []" "set xs = set servers" "length xs = length servers"
    using sort_func.srt_nonempty [OF assms(1)] sort_func.set_srt [OF assms(1)] sort_func.mset_srt [OF assms(1)] assms(5)
    by (auto simp: xs_def intro: mset_eq_length)
  define s where "s = last xs"
  have s: "s \<in> set servers" "\<forall>x \<in> set servers. sv_Load x \<le> sv_Load s"
    using sort_func.last_srt [OF assms(1) w assms(5)] assms(6) by (auto simp: s_def xs_def by_load_exact)
  define k where "k = c_dials c + length (filter netfilter (butlast xs))"
  obtain conn err c1 where o: "open_servers hs cx xs c = (conn, err, c1)" by (metis prod_cases3)
  have e: "butlast xs @ [s] = xs" using xs(1) by (simp add: s_def)
  have l: "case dialled hs cx c k s of Inl e \<Rightarrow> err = Some e | Inr t \<Rightarrow> err = None \<and> conn = Some (Some t) \<and> last (c_opened c1) = t"
    using open_servers_last [of hs cx "butlast xs" s c conn err c1] o unfolding e k_def by simp
  have c: "connect n depth en hs cx c w =
      (case err of Some e \<Rightarrow> Some (Fail (ErrWrap ''failed to create connection'' e), c1, w1)
       | None \<Rightarrow> map_option (\<lambda>(r, c2). (r, c2, w1)) (run_protocol n depth en hs cx conn c1))"
    using assms(2-5) o by (simp add: connect_def xs_def split: option.splits)
  show ?thesis
    by (rule exI [of _ s], rule exI [of _ k], rule exI [of _ c1])
      (use s l c xs open_servers_opened [OF o] in auto)
qed

theorem connect_uses_highest_load_witness:
  "\<exists>e c1 w1. connect 9 9 sample_env sample_host Background (sample_client\<lparr>c_authIdentity := Some sample_identity\<rparr>)
     directory_world = Some (Fail e, c1, w1)"
proof -
  let ?c = "sample_client\<lparr>c_authIdentity := Some sample_identity\<rparr>"
  obtain w1 where d: "GetCMListForConnect (ISteamDirectory (NewHTTPTransport (hs_DefaultClient sample_host) [])) cm_params directory_world =
    (Inr [listed ''a:1'' 10, listed ''b:2'' 90], w1)" by (rule sample_directory)
  have f: "sort_func (hs_SortFunc sample_host)" "Client_Identity ?c = Inr sample_identity"
      "c_api ?c = Some (ISteamDirectory (NewHTTPTransport (hs_DefaultClient sample_host) []))"
      "[listed ''a:1'' 10, listed ''b:2'' 90] \<noteq> []" "\<forall>s \<in> set [listed ''a:1'' 10, listed ''b:2'' 90]. \<bar>sv_Load s\<bar> < 2 ^ 62"
    by (simp_all add: sample_host_def isort.sort_func_axioms Client_Identity_def sample_client_def listed_def)
  obtain s k c1 where s: "s \<in> set [listed ''a:1'' 10, listed ''b:2'' 90]"
      "\<forall>x \<in> set [listed ''a:1'' 10, listed ''b:2'' 90]. sv_Load x \<le> sv_Load s"
      "\<forall>e. dialled sample_host Background ?c k s = Inl e \<longrightarrow> connect 9 9 sample_env sample_host Background ?c directory_world =
         Some (Fail (ErrWrap ''failed to create connection'' e), c1, w1)"
    using connect_uses_highest_load [OF f(1-3) d f(4,5), where cx = Background and n = 9 and depth = 9 and en = sample_env]
    by blast
  then have "s = listed ''b:2'' 90" by (auto simp: listed_def)
  then have "\<exists>e. dialled sample_host Background ?c k s = Inl e"
    by (simp add: dialled_def listed_def NewTCPConnection_def sample_client_def sample_host_def)
  then show ?thesis using s(3) by blast
qed

text \<open>The header of a logon, completed: the identity's account, session 0, no jobs.\<close>

definition logon_proto :: "Identity \<Rightarrow> CMsgProtoBufHeader" where
  "logon_proto i = \<lparr>ph_Steamid = Some (id_steamID i), ph_ClientSessionid = Some 0, ph_JobidSource = Some JOBID_NONE,
     ph_JobidTarget = Some JOBID_NONE, ph_others = []\<rparr>"

lemma logon_header_filled: "the (h_Proto (fill_proto (logon_header i))) = logon_proto i"
  by (simp add: fill_proto_def logon_header_def logon_proto_def new_Header_def new_ProtoBufHeader_def emsg_defs Uint64_def
      Identity_SteamID_def Let_def)

lemma logon_step:
  assumes "c_authIdentity c = Some i" "c_protocol c = Some h" "healthy (p_connection h)" "armed (p_connection h)"
    "json_header en (logon_header i) = Inr j" "json_message en (logon_message i) = Inr j'"
    "pb_header en (logon_proto i) = Inr hb" "pb_message en (logon_message i) = Inr b"
    "length hb + length b + 40 \<le> max_packet"
  obtains body k d where "Logon en cx c = (Return (), c\<lparr>c_protocol := Some
      ((offer (EventMessageSent EMsg_ClientLogon j j') h)\<lparr>p_connection := (p_connection h)\<lparr>t_draws := d, t_calls := k,
         t_conn := (t_conn (p_connection h))\<lparr>nc_out := nc_out (t_conn (p_connection h)) @ frame body\<rparr>\<rparr>\<rparr>)\<rparr>)"
    and "carries (t_key (p_connection h)) body (proto_packet EMsg_ClientLogon hb b)"
proof -
  have e: "h_EMsg (logon_header i) = EMsg_ClientLogon" "h_Proto (logon_header i) \<noteq> None"
      "EMsg_ClientLogon \<noteq> EMsg_ChannelEncryptResponse"
    by (simp_all add: logon_header_def new_Header_def emsg_defs)
  note p = assms(7) [folded logon_header_filled]
  obtain body k d where "Protocol_Send en tcp_ops (Some cx) (Some (logon_header i)) (Some (logon_message i)) h =
      (Return (), (offer (EventMessageSent EMsg_ClientLogon j j') h)\<lparr>p_connection := (p_connection h)\<lparr>t_draws := d, t_calls := k,
         t_conn := (t_conn (p_connection h))\<lparr>nc_out := nc_out (t_conn (p_connection h)) @ frame body\<rparr>\<rparr>\<rparr>)"
    and "carries (t_key (p_connection h)) body (proto_packet EMsg_ClientLogon hb b)"
    by (rule Protocol_Send_healthy [OF assms(3,4) e(2) _ assms(5,6) p assms(8,9), of cx]) (use e in auto)
  then show ?thesis
    using assms(1,2) by (intro that) (simp_all add: Logon_def Client_Identity_def)
qed

text \<open>Property C16: logging on. With an identity, on a healthy connection with a working codec,
  \<^verbatim>\<open>Logon\<close> succeeds and adds exactly one packet to the connection's output: to a peer with
  the same key it reads as the logon message number with the protobuf mark, the header of
  the identity's account without a session and without jobs, and the logon message, whose
  access token is the identity's refresh token.\<close>

theorem logon_sends_token:
  assumes "c_authIdentity c = Some i" and "c_protocol c = Some h"
    and "healthy (p_connection h)" and "armed (p_connection h)"
    and "json_header en (logon_header i) = Inr j" and "json_message en (logon_message i) = Inr j'"
    and "pb_header en (logon_proto i) = Inr hb"
    and "pb_message en (logon_message i) = Inr b" and "length hb + length b + 40 \<le> max_packet"
  shows "\<exists>h' stream m. Logon en cx c = (Return (), c\<lparr>c_protocol := Some h'\<rparr>) \<and>
    nc_out (t_conn (p_connection h')) = nc_out (t_conn (p_connection h)) @ stream \<and>
    logon_message i = ClientLogon m \<and> lo_AccessToken m = id_refreshToken i \<and>
    delivers (t_key (p_connection h)) stream (proto_packet EMsg_ClientLogon hb b)"
proof -
  obtain body k d where "Logon en cx c = (Return (), c\<lparr>c_protocol := Some
      ((offer (EventMessageSent EMsg_ClientLogon j j') h)\<lparr>p_connection := (p_connection h)\<lparr>t_draws := d, t_calls := k,
         t_conn := (t_conn (p_connection h))\<lparr>nc_out := nc_out (t_conn (p_connection h)) @ frame body\<rparr>\<rparr>\<rparr>)\<rparr>)"
      (is "_ = (_, _\<lparr>c_protocol := Some ?h\<rparr>)")
    and "carries (t_key (p_connection h)) body (proto_packet EMsg_ClientLogon hb b)"
    by (rule logon_step [OF assms, of cx])
  then show ?thesis
    by (intro exI [of _ ?h] exI [of _ "frame body"])
      (simp add: logon_message_def Identity_RefreshToken_def carries_delivers)
qed

theorem logon_sends_token_witness:
  "\<exists>h'. Logon sample_env Background
     (sample_client\<lparr>c_authIdentity := Some sample_identity, c_protocol := Some sample_protocol\<rparr>) =
     (Return (), sample_client\<lparr>c_authIdentity := Some sample_identity, c_protocol := Some h'\<rparr>)"
  using logon_sends_token [of "sample_client\<lparr>c_authIdentity := Some sample_identity, c_protocol := Some sample_protocol\<rparr>"
      sample_identity sample_protocol sample_env "[]" "[]" _ "[]" Background]
  by (simp add: sample_protocol_def sample_env_def logon_proto_def max_packet_def) blast

text \<open>Property C25: without an identity nothing is sent. \<^verbatim>\<open>Logon\<close> and a single \<^verbatim>\<open>Connect\<close> fail and
  change neither the client nor the network. A client that reconnects tries again at once,
  without a pause: it reports the same error into each free place of its events channel, and
  then waits for ever for somebody to read them.\<close>

theorem identity_required:
  assumes "c_authIdentity c = None"
  shows "(\<exists>e. Logon en cx c = (Fail e, c)) \<and>
    (\<not> c_reconnect c \<longrightarrow> (\<exists>e. Connect (Suc k) n depth en hs cx c w = Some (Fail e, c, w))) \<and>
    (\<forall>ch. c_reconnect c \<and> c_events c = Some ch \<and> chcap ch - length (chbuf ch) < k \<longrightarrow>
       (\<exists>e. Connect k n depth en hs cx c w =
          Some (Parked, c\<lparr>c_events := Some (ch\<lparr>chbuf := chbuf ch @ replicate (chcap ch - length (chbuf ch)) (EventError e)\<rparr>)\<rparr>, w)))"
proof -
  obtain e where e: "\<And>c'. c_authIdentity c' = None \<Longrightarrow> connect n depth en hs cx c' w = Some (Fail e, c', w)"
    by (simp add: connect_def Client_Identity_def)
  have "Connect k n depth en hs cx c w =
      Some (Parked, c\<lparr>c_events := Some (ch\<lparr>chbuf := chbuf ch @ replicate (chcap ch - length (chbuf ch)) (EventError e)\<rparr>)\<rparr>, w)"
    if "c_reconnect c" "c_events c = Some ch" "chcap ch - length (chbuf ch) < k" for ch
    using that assms
  proof (induction k arbitrary: c ch)
    case (Suc k)
    show ?case
    proof (cases "chan_full ch")
      case True
      then have "chcap ch - length (chbuf ch) = 0" "c\<lparr>c_events := Some ch\<rparr> = c"
        using Suc.prems(2) by (auto simp: chan_full_def)
      with Suc.prems True show ?thesis by (simp add: e emit_event_def)
    next
      case False
      define ch1 where "ch1 = chan_push (EventError e) ch"
      have l: "chcap ch - length (chbuf ch) = Suc (chcap ch1 - length (chbuf ch1))"
        using False by (auto simp: ch1_def chan_push_def chan_full_def)
      have "Connect k n depth en hs cx (c\<lparr>c_events := Some ch1\<rparr>) w =
          Some (Parked, c\<lparr>c_events := Some (ch1\<lparr>chbuf := chbuf ch1 @ replicate (chcap ch1 - length (chbuf ch1)) (EventError e)\<rparr>)\<rparr>, w)"
        using Suc.IH [of "c\<lparr>c_events := Some ch1\<rparr>" ch1] Suc.prems l by simp
      moreover have "chbuf ch1 @ replicate (chcap ch1 - length (chbuf ch1)) (EventError e) =
          chbuf ch @ replicate (chcap ch - length (chbuf ch)) (EventError e)"
        by (simp add: l) (simp add: ch1_def chan_push_def)
      ultimately show ?thesis
        using Suc.prems False by (simp add: e emit_event_def ch1_def chan_push_def)
    qed
  qed simp
  moreover have "\<exists>e. Logon en cx c = (Fail e, c)" using assms by (simp add: Logon_def Client_Identity_def)
  ultimately show ?thesis using e [OF assms] by auto
qed

theorem identity_required_witness:
  "(\<exists>e. Logon sample_env Background sample_client = (Fail e, sample_client)) \<and>
   (\<exists>e. Connect 3 9 9 sample_env sample_host Background (sample_client\<lparr>c_reconnect := True, c_events := Some \<lparr>chbuf = [], chcap = 2\<rparr>\<rparr>)
      directory_world = Some (Parked, sample_client\<lparr>c_reconnect := True,
        c_events := Some \<lparr>chbuf = [EventError e, EventError e], chcap = 2\<rparr>\<rparr>, directory_world))"
  using identity_required [of sample_client sample_env Background]
    identity_required [of "sample_client\<lparr>c_reconnect := True, c_events := Some \<lparr>chbuf = [], chcap = 2\<rparr>\<rparr>" sample_env Background
      3 9 9 sample_host directory_world]
  by (simp add: sample_client_def zero_client_def numeral_2_eq_2)

text \<open>Property C26: the identity provider outlives its credentials. Once a client has begun a
  session, the credentials of later ones are ignored; and an identity installed with
  \<^verbatim>\<open>SetIdentity\<close> does not replace the one the provider keeps: while that is valid, the next
  code, of whatever session, brings it back without a request.\<close>

theorem provider_is_kept:
  assumes "c_authIDP c = Some idp"
  shows "Client_BeginAuthSession hs ps (Some cr) c w = Client_BeginAuthSession hs ps (Some cr') c w \<and>
    (\<forall>i j s c1. idp_identity idp = Some i \<and> wd_now w < id_expiresAt i \<and>
       SetIdentity sid token now c = (Inr j, c1) \<and> pickCodeType (as_AllowedConfirmations s) \<noteq> None \<longrightarrow>
       Client_Identity c1 = Inr j \<and> id_refreshToken j = token \<and>
       (\<exists>c2. Client_SubmitSteamGuardCode cx (Some s) code c1 w = Some (Return i, c2, w) \<and> Client_Identity c2 = Inr i))"
proof -
  have "Client_Identity c1 = Inr j \<and> id_refreshToken j = token \<and>
       (\<exists>c2. Client_SubmitSteamGuardCode cx (Some s) code c1 w = Some (Return i, c2, w) \<and> Client_Identity c2 = Inr i)"
    if a: "idp_identity idp = Some i" "wd_now w < id_expiresAt i" "SetIdentity sid token now c = (Inr j, c1)"
      "pickCodeType (as_AllowedConfirmations s) \<noteq> None" for i j s c1
  proof -
    have c1: "c1 = c\<lparr>c_authIdentity := Some j\<rparr>" "j = NewIdentity sid token now"
      using a(3) by (auto simp: SetIdentity_def Let_def split: if_splits)
    have "SubmitSteamGuardCode cx (Some s) code idp w = Some (Return i, idp, w)"
      using a(1,2,4) by (auto simp: SubmitSteamGuardCode_def fresh_identity_def)
    with assms c1 show ?thesis
      by (simp add: Client_SubmitSteamGuardCode_def keep_identity_def Client_Identity_def NewIdentity_def Let_def)
  qed
  moreover have "Client_BeginAuthSession hs ps (Some cr) c w = Client_BeginAuthSession hs ps (Some cr') c w"
    using assms by (simp add: Client_BeginAuthSession_def auth_provider_def)
  ultimately show ?thesis by blast
qed

theorem provider_is_kept_witness:
  "\<exists>c c1 c2 j. SetIdentity 76561198065346589 ''T'' 0 c = (Inr j, c1) \<and> Client_Identity c1 = Inr j \<and>
     Client_SubmitSteamGuardCode Background (Some sample_session) ''ABCDE'' c1 sample_world = Some (Return sample_identity, c2, sample_world)"
proof -
  let ?c = "sample_client\<lparr>c_authIDP := Some (sample_idp\<lparr>idp_identity := Some sample_identity\<rparr>)\<rparr>"
  have v: "IsValid 76561198065346589" by code_simp
  then have "SetIdentity 76561198065346589 ''T'' 0 ?c =
      (Inr (NewIdentity 76561198065346589 ''T'' 0), ?c\<lparr>c_authIdentity := Some (NewIdentity 76561198065346589 ''T'' 0)\<rparr>)"
    by (simp add: SetIdentity_def Let_def)
  moreover have "wd_now sample_world < id_expiresAt sample_identity"
    by (simp add: sample_world_def sample_identity_def NewIdentity_def Hour_def Second_def)
  moreover have "pickCodeType (as_AllowedConfirmations sample_session) \<noteq> None"
    by (simp add: pickCodeType_def pick_eq guard_type_defs sample_session_def)
  ultimately show ?thesis
    using provider_is_kept [of ?c "sample_idp\<lparr>idp_identity := Some sample_identity\<rparr>" sample_host "Inl EOF" _ sample_world _
        76561198065346589 "''T''" 0 Background "''ABCDE''"]
    by simp blast
qed

lemma run_protocol_reconnect:
  "run_protocol n depth en hs cx conn c = Some (r, c') \<Longrightarrow> c_reconnect c' = c_reconnect c"
  by (auto simp: run_protocol_def split: if_splits sum.splits)

lemma connect_reconnect:
  assumes "connect n depth en hs cx c w = Some (r, c', w')"
  shows "c_reconnect c' = c_reconnect c"
  using assms open_servers_client run_protocol_reconnect
  by (fastforce simp: connect_def split: sum.splits option.splits prod.splits if_splits)

text \<open>A client that reconnects does not return from \<^verbatim>\<open>Connect\<close>: whatever the
  servers do and however often it tries, the call never comes back with nil or an error,
  not even when its context is over; without reconnecting it is a single attempt.\<close>

theorem reconnect_never_returns:
  "(c_reconnect c \<and> Connect k n depth en hs cx c w = Some (r, c', w') \<longrightarrow> r = Parked \<or> (\<exists>e. r = Panic e)) \<and>
   (\<not> c_reconnect c \<longrightarrow> Connect (Suc k) n depth en hs cx c w = connect n depth en hs cx c w)"
proof
  show "c_reconnect c \<and> Connect k n depth en hs cx c w = Some (r, c', w') \<longrightarrow> r = Parked \<or> (\<exists>e. r = Panic e)"
  proof (induction k arbitrary: c w)
    case (Suc k)
    show ?case
    proof (cases "connect n depth en hs cx c w")
      case (Some x)
      obtain r1 c1 w1 where x: "x = (r1, c1, w1)" by (metis prod_cases3)
      have "c_reconnect c1 = c_reconnect c" using connect_reconnect Some x by blast
      then show ?thesis
        using Some x Suc.IH [of c1 w1] Suc.IH
        by (cases r1) (auto simp: emit_event_def split: option.splits if_splits)
    qed simp
  qed simp
  show "\<not> c_reconnect c \<longrightarrow> Connect (Suc k) n depth en hs cx c w = connect n depth en hs cx c w"
    by (auto dest: connect_reconnect split: option.splits outcome.splits)
qed

theorem reconnect_never_returns_witness:
  "Connect 1 9 9 sample_env sample_host Background sample_client directory_world =
     connect 9 9 sample_env sample_host Background sample_client directory_world"
  using reconnect_never_returns [of sample_client 0 9 9 sample_env sample_host Background directory_world]
  by (simp add: sample_client_def zero_client_def del: Connect.simps)

text \<open>Property C24: disconnecting. On a client with a protocol, \<^verbatim>\<open>Disconnect\<close> turns reconnecting
  off, the protocol's run loop returns nil at its next packet, and logging on fails. On a
  client without one it does nothing: a client that is to reconnect stays one.\<close>

theorem disconnect_stops:
  "(c_protocol c = None \<longrightarrow> Disconnect c = (Return (), c)) \<and>
   (c_protocol c = Some h \<longrightarrow>
      \<not> c_reconnect (snd (Disconnect c)) \<and>
      (\<exists>h'. c_protocol (snd (Disconnect c)) = Some h' \<and> Run (Suc n) depth en tcp_ops cx h' = Some (Return (), h')) \<and>
      (\<exists>e. fst (Logon en cx (snd (Disconnect c))) = Fail e))"
proof -
  have "\<exists>e. fst (Logon en cx (c\<lparr>c_reconnect := False, c_protocol := Some (snd (Protocol_Close tcp_ops h))\<rparr>)) = Fail e"
    using tcp.send_after_close [of en cx _ _ h]
    by (cases "c_authIdentity c") (auto simp: Logon_def Client_Identity_def case_prod_beta)
  then show ?thesis
    using tcp.run_after_close [of n depth en cx h] by (auto simp: Disconnect_def case_prod_beta)
qed

theorem disconnect_stops_witness:
  "Disconnect sample_client = (Return (), sample_client) \<and>
   (\<exists>e. fst (Logon sample_env Background (snd (Disconnect (sample_client\<lparr>c_protocol := Some sample_protocol\<rparr>)))) = Fail e)"
  using disconnect_stops [of sample_client] disconnect_stops [of "sample_client\<lparr>c_protocol := Some sample_protocol\<rparr>" sample_protocol]
  by (simp add: sample_client_def zero_client_def)

lemma forward_step:
  assumes "c_protocol c = Some h" "chbuf (p_events h) = e # es" "c_events c = Some ch"
  shows "forward c = c\<lparr>c_protocol := Some (h\<lparr>p_events := (p_events h)\<lparr>chbuf := es\<rparr>\<rparr>), c_events := Some (try_send e ch)\<rparr>"
  using assms by (simp add: forward_def offer_event_def)

text \<open>The events of the protocol reach the application in order. Forwarding all
  that wait appends as many of them, from the first on, as the client's channel has room
  for, drops the others, and leaves none behind.\<close>

theorem forward_in_order:
  assumes "c_protocol c = Some h" and "c_events c = Some ch"
  shows "(forward ^^ length (chbuf (p_events h))) c =
    c\<lparr>c_protocol := Some (h\<lparr>p_events := (p_events h)\<lparr>chbuf := []\<rparr>\<rparr>),
      c_events := Some (ch\<lparr>chbuf := chbuf ch @ take (chcap ch - length (chbuf ch)) (chbuf (p_events h))\<rparr>)\<rparr>"
  using assms
proof (induction "chbuf (p_events h)" arbitrary: c h ch)
  case Nil
  then show ?case by (cases c, cases h, cases "p_events h") auto
next
  case (Cons e es)
  define h1 where "h1 = h\<lparr>p_events := (p_events h)\<lparr>chbuf := es\<rparr>\<rparr>"
  define c1 where "c1 = c\<lparr>c_protocol := Some h1, c_events := Some (try_send e ch)\<rparr>"
  have f: "forward c = c1"
    using forward_step [of c h e es ch] Cons.hyps(2) Cons.prems by (simp add: c1_def h1_def)
  have "(forward ^^ length es) c1 =
      c1\<lparr>c_protocol := Some (h1\<lparr>p_events := (p_events h1)\<lparr>chbuf := []\<rparr>\<rparr>),
        c_events := Some ((try_send e ch)\<lparr>chbuf := chbuf (try_send e ch) @
          take (chcap (try_send e ch) - length (chbuf (try_send e ch))) es\<rparr>)\<rparr>"
    using Cons.hyps(1) [of h1 c1 "try_send e ch"] by (simp add: h1_def c1_def)
  moreover have "(try_send e ch)\<lparr>chbuf := chbuf (try_send e ch) @ take (chcap (try_send e ch) - length (chbuf (try_send e ch))) es\<rparr> =
      ch\<lparr>chbuf := chbuf ch @ take (chcap ch - length (chbuf ch)) (e # es)\<rparr>"
    by (auto simp: try_send_def chan_full_def chan_push_def Suc_diff_Suc [symmetric] not_le)
  ultimately show ?case
    unfolding Cons.hyps(2) [symmetric] by (simp add: funpow_swap1 f) (simp add: c1_def h1_def)
qed

theorem forward_in_order_witness:
  "c_events ((forward ^^ 2) (sample_client\<lparr>c_protocol := Some (sample_protocol\<lparr>p_events := \<lparr>chbuf = [EventConnected, EventLoggedOn 1 2], chcap = 128\<rparr>\<rparr>)\<rparr>)) =
     Some \<lparr>chbuf = [EventConnected, EventLoggedOn 1 2], chcap = 512\<rparr>"
  using forward_in_order [of "sample_client\<lparr>c_protocol := Some (sample_protocol\<lparr>p_events := \<lparr>chbuf = [EventConnected, EventLoggedOn 1 2], chcap = 128\<rparr>\<rparr>)\<rparr>"
      "sample_protocol\<lparr>p_events := \<lparr>chbuf = [EventConnected, EventLoggedOn 1 2], chcap = 128\<rparr>\<rparr>" "\<lparr>chbuf = [], chcap = 512\<rparr>"]
  by (simp add: sample_client_def numeral_2_eq_2)

section \<open>The invariant of the client\<close>

text \<open>No login ends with an empty refresh token.\<close>

definition kept_ok :: "CredentialsIdentityProvider \<Rightarrow> bool" where
  "kept_ok idp \<longleftrightarrow> (\<forall>i. idp_identity idp = Some i \<longrightarrow> id_refreshToken i \<noteq> [])"

lemma poll_token_nonempty:
  assumes "poll cx a s w = Some y"
  shows "\<forall>r. fst y = Return r \<longrightarrow> pr_RefreshToken r \<noteq> []"
  using assms by (rule poll.raw_induct [rotated]) (fastforce split: if_splits prod.splits sum.splits)

lemma finish_login_ok:
  assumes "kept_ok idp" "finish_login cx a s idp w = Some (r, idp', w')"
  shows "kept_ok idp' \<and> (\<forall>i. r = Return i \<longrightarrow> id_refreshToken i \<noteq> [])"
  using assms poll_token_nonempty
  by (fastforce simp: finish_login_def kept_ok_def Let_def split: option.splits outcome.splits)

lemma fresh_ok: "kept_ok idp \<Longrightarrow> fresh_identity idp w = Some i \<Longrightarrow> id_refreshToken i \<noteq> []"
  by (auto simp: kept_ok_def fresh_identity_def split: option.splits if_splits)

lemma second_half_ok:
  assumes "kept_ok idp"
  shows "SubmitSteamGuardCode cx s code idp w = Some (r, idp', w') \<Longrightarrow>
      kept_ok idp' \<and> (\<forall>i. r = Return i \<longrightarrow> id_refreshToken i \<noteq> [])"
    and "WaitForConfirmation cx s idp w = Some (r, idp', w') \<Longrightarrow>
      kept_ok idp' \<and> (\<forall>i. r = Return i \<longrightarrow> id_refreshToken i \<noteq> [])"
  using assms
  by (auto simp: SubmitSteamGuardCode_def WaitForConfirmation_def split: option.splits sum.splits prod.splits if_splits
      dest: finish_login_ok fresh_ok)

definition client_ok :: "Client \<Rightarrow> bool" where
  "client_ok c \<longleftrightarrow>
     (\<forall>i. c_authIdentity c = Some i \<longrightarrow> id_refreshToken i \<noteq> []) \<and>
     (\<forall>idp. c_authIDP c = Some idp \<longrightarrow> kept_ok idp) \<and>
     (\<exists>ch. c_events c = Some ch \<and> wf_chan ch \<and> chcap ch = 512) \<and>
     (\<forall>h. c_protocol c = Some h \<longrightarrow> proto_inv h)"

text \<open>The options the package offers.\<close>

definition client_options :: "ClientOption set" where
  "client_options = range client_WithAPI \<union> range WithAuthAPI \<union> range WithDialer \<union> range WithReconnect"

text \<open>One call, goroutine step or event read of a client.\<close>

inductive client_step :: "env \<Rightarrow> Host \<Rightarrow> Client \<times> World \<Rightarrow> Client \<times> World \<Rightarrow> bool" for en :: env and hs :: Host where
  cs_begin: "Client_BeginAuthSession hs ps cr c w = (r, c', w') \<Longrightarrow> client_step en hs (c, w) (c', w')"
| cs_submit: "Client_SubmitSteamGuardCode cx s code c w = Some (r, c', w') \<Longrightarrow> client_step en hs (c, w) (c', w')"
| cs_wait: "Client_WaitForConfirmation cx s c w = Some (r, c', w') \<Longrightarrow> client_step en hs (c, w) (c', w')"
| cs_set: "SetIdentity sid token (wd_now w) c = (r', c') \<Longrightarrow> client_step en hs (c, w) (c', w)"
| cs_connect: "connect n depth en hs cx c w = Some (r'', c', w') \<Longrightarrow> client_step en hs (c, w) (c', w')"
| cs_disconnect: "Disconnect c = (r'', c') \<Longrightarrow> client_step en hs (c, w) (c', w)"
| cs_logon: "Logon en cx c = (r'', c') \<Longrightarrow> client_step en hs (c, w) (c', w)"
| cs_forward: "client_step en hs (c, w) (forward c, w)"
| cs_beat: "c_protocol c = Some h \<Longrightarrow> hb_step en tcp_ops cx h h' \<Longrightarrow>
    client_step en hs (c, w) (c\<lparr>c_protocol := Some h'\<rparr>, w)"
| cs_report: "emit_event (EventError e) c = (r'', c') \<Longrightarrow> client_step en hs (c, w) (c', w)"
| cs_consume: "c_events c = Some ch \<Longrightarrow> chbuf ch = e # es \<Longrightarrow>
    client_step en hs (c, w) (c\<lparr>c_events := Some (ch\<lparr>chbuf := es\<rparr>)\<rparr>, w)"
| cs_time: "client_step en hs (c, w) (c, w\<lparr>wd_now := t\<rparr>)"

lemma client_ok_begin: "client_ok c \<Longrightarrow> Client_BeginAuthSession hs ps cr c w = (r, c', w') \<Longrightarrow> client_ok c'"
proof -
  assume c: "client_ok c" and b: "Client_BeginAuthSession hs ps cr c w = (r, c', w')"
  have k: "kept_ok idp" if "auth_provider hs x c = Inr idp" for x idp
    using that c
    by (auto simp: auth_provider_def client_ok_def NewCredentialsIdentityProvider_def identity_WithAPI_def kept_ok_def
        Let_def split: option.splits sum.splits if_splits)
  have o: "client_ok (offer_event e (c\<lparr>c_authIDP := Some idp\<rparr>))" "client_ok (c\<lparr>c_authIDP := Some idp\<rparr>)"
    if "kept_ok idp" for e idp
    using c that by (auto simp: client_ok_def offer_event_def)
  show "client_ok c'"
    using b c k o by (auto simp: Client_BeginAuthSession_def Let_def split: option.splits sum.splits prod.splits outcome.splits)
qed

lemma client_ok_keep:
  assumes "client_ok c" "keep_identity c x = Some (r, c', w')"
    "\<And>r idp w. x = Some (r, idp, w) \<Longrightarrow> kept_ok idp \<and> (\<forall>i. r = Return i \<longrightarrow> id_refreshToken i \<noteq> [])"
  shows "client_ok c'"
proof -
  obtain idp where "x = Some (r, idp, w')"
    and c': "c' = (case r of Return i \<Rightarrow> c\<lparr>c_authIDP := Some idp, c_authIdentity := Some i\<rparr> | _ \<Rightarrow> c\<lparr>c_authIDP := Some idp\<rparr>)"
    using assms(2) by (auto simp: keep_identity_def Let_def)
  with assms(3) have "kept_ok idp" "\<forall>i. r = Return i \<longrightarrow> id_refreshToken i \<noteq> []" by blast+
  with assms(1) c' show ?thesis by (cases r) (auto simp: client_ok_def)
qed

lemma client_ok_second:
  assumes "client_ok c"
  shows "Client_SubmitSteamGuardCode cx s code c w = Some (r, c', w') \<Longrightarrow> client_ok c'"
    and "Client_WaitForConfirmation cx s c w = Some (r, c', w') \<Longrightarrow> client_ok c'"
proof -
  have k: "kept_ok idp" if "c_authIDP c = Some idp" for idp using assms that by (simp add: client_ok_def)
  show "Client_SubmitSteamGuardCode cx s code c w = Some (r, c', w') \<Longrightarrow> client_ok c'"
    using assms client_ok_keep [OF assms] second_half_ok(1) [OF k]
    by (cases "c_authIDP c") (simp_all add: Client_SubmitSteamGuardCode_def)
  show "Client_WaitForConfirmation cx s c w = Some (r, c', w') \<Longrightarrow> client_ok c'"
    using assms client_ok_keep [OF assms] second_half_ok(2) [OF k]
    by (cases "c_authIDP c") (simp_all add: Client_WaitForConfirmation_def)
qed

lemma client_ok_connect: "client_ok c \<Longrightarrow> connect n depth en hs cx c w = Some (r, c', w') \<Longrightarrow> client_ok c'"
proof -
  assume c: "client_ok c" and r: "connect n depth en hs cx c w = Some (r, c', w')"
  have o: "client_ok c1" if "open_servers hs cx xs c = (conn, err, c1)" for xs conn err c1
    using open_servers_client [OF that] c by (simp add: client_ok_def)
  have p: "client_ok c2" if "run_protocol n depth en hs cx conn c1 = Some (r, c2)" "client_ok c1" for conn c1 r c2
  proof -
    have "proto_inv h1" if "NewProtocol rnd x \<lparr>chbuf = [], chcap = 128\<rparr> = Inr h" "Run n depth en tcp_ops cx h = Some (r, h1)"
      for h h1 and x :: "TCPConnection option" and rnd r
      using inv.Run_P [OF NewProtocol_inv [OF that(1)] that(2)] by (simp add: wf_chan_def)
    with that show ?thesis
      by (auto simp: run_protocol_def client_ok_def split: if_splits sum.splits)
  qed
  show "client_ok c'"
    using r c by (auto simp: connect_def split: sum.splits option.splits prod.splits if_splits dest: o p)
qed

lemma client_ok_forward: "client_ok c \<Longrightarrow> client_ok (forward c)"
  by (auto simp: forward_def offer_event_def client_ok_def proto_inv_def wf_chan_def
      split: option.splits list.splits)
    (auto simp: try_send_def chan_push_def chan_full_def)

lemma client_ok_Logon: "client_ok c \<Longrightarrow> client_ok (snd (Logon en cx c))"
  using inv.Send_P
  by (auto simp: Logon_def client_ok_def Client_Identity_def case_prod_beta split: option.splits sum.splits)

lemma client_step_ok: "client_step en hs p p' \<Longrightarrow> client_ok (fst p) \<Longrightarrow> client_ok (fst p')"
proof (induction rule: client_step.induct)
  case (cs_begin ps cr c w r c' w')
  then show ?case using client_ok_begin by simp
next
  case (cs_submit cx s code c w r c' w')
  then show ?case using client_ok_second(1) by simp
next
  case (cs_wait cx s c w r c' w')
  then show ?case using client_ok_second(2) by simp
next
  case (cs_connect n depth cx c w r'' c' w')
  then show ?case using client_ok_connect by simp
next
  case (cs_logon cx c r'' c' w)
  then show ?case using client_ok_Logon [of c en cx] by simp
next
  case (cs_disconnect c r'' c' w)
  then show ?case
    using Protocol_Close_inv [of "the (c_protocol c)" tcp_ops]
    by (cases "c_protocol c") (auto simp: Disconnect_def client_ok_def case_prod_beta)
next
  case (cs_set sid token w c r' c')
  then show ?case by (auto simp: SetIdentity_def client_ok_def NewIdentity_def Let_def split: if_splits)
next
  case (cs_beat c h cx h' w)
  then show ?case using hb_step_inv by (auto simp: client_ok_def)
next
  case (cs_forward c w)
  then show ?case by (simp add: client_ok_forward)
next
  case (cs_report e c r'' c' w)
  then show ?case
    by (auto simp: client_ok_def emit_event_def wf_chan_def chan_push_def chan_full_def split: option.splits if_splits)
next
  case (cs_consume c ch e es w)
  then show ?case by (auto simp: client_ok_def wf_chan_def)
qed simp

lemma options_keep:
  "set opts \<subseteq> client_options \<Longrightarrow>
   c_events (fold (\<lambda>opt x. opt x) opts c) = c_events c \<and> c_protocol (fold (\<lambda>opt x. opt x) opts c) = c_protocol c \<and>
   c_authIDP (fold (\<lambda>opt x. opt x) opts c) = c_authIDP c \<and> c_authIdentity (fold (\<lambda>opt x. opt x) opts c) = c_authIdentity c"
proof (induction opts arbitrary: c)
  case (Cons opt opts)
  have "c_events (opt c) = c_events c \<and> c_protocol (opt c) = c_protocol c \<and> c_authIDP (opt c) = c_authIDP c \<and>
      c_authIdentity (opt c) = c_authIdentity c"
    using Cons.prems
    by (auto simp: client_options_def client_WithAPI_def WithAuthAPI_def WithDialer_def WithReconnect_def)
  with Cons show ?case by simp
qed simp

lemma NewClient_ok: "set opts \<subseteq> client_options \<Longrightarrow> NewClient hs opts = Inr c \<Longrightarrow> client_ok c"
  using options_keep [of opts zero_client]
  by (auto simp: NewClient_def client_ok_def zero_client_def NewAPI_def wf_chan_def Let_def split: if_splits)

text \<open>Property C7: in every state a client reaches from \<^verbatim>\<open>NewClient\<close> with the package's options, by
  its methods, its goroutines and the reading of its events in any order, the identity it
  would log on with and the one its provider keeps have a refresh token, its events channel
  is within its capacity of 512, and its protocol keeps its own invariant.\<close>

theorem client_invariant:
  assumes "set opts \<subseteq> client_options" and "NewClient hs opts = Inr c0" and "(client_step en hs)\<^sup>*\<^sup>* (c0, w0) (c, w)"
  shows "(\<forall>i. Client_Identity c = Inr i \<longrightarrow> id_refreshToken i \<noteq> []) \<and>
    (\<forall>idp i. c_authIDP c = Some idp \<and> idp_identity idp = Some i \<longrightarrow> id_refreshToken i \<noteq> []) \<and>
    (\<exists>ch. Events c = Some ch \<and> length (chbuf ch) \<le> 512 \<and> chcap ch = 512) \<and>
    (\<forall>h. c_protocol c = Some h \<longrightarrow> proto_inv h)"
proof -
  have "client_ok (fst p)" if "(client_step en hs)\<^sup>*\<^sup>* (c0, w0) p" for p
    using that NewClient_ok [OF assms(1,2)]
    by (induction rule: rtranclp_induct) (simp_all add: client_step_ok)
  from this [OF assms(3)] show ?thesis
    by (auto simp: client_ok_def kept_ok_def Client_Identity_def Events_def wf_chan_def split: option.splits)
qed

theorem client_invariant_witness:
  "\<exists>c i. SetIdentity 76561198065346589 ''T'' 0 sample_client = (Inr i, c) \<and> Client_Identity c = Inr i \<and> id_refreshToken i \<noteq> []"
proof -
  have "IsValid 76561198065346589" by code_simp
  then have s: "SetIdentity 76561198065346589 ''T'' (wd_now directory_world) sample_client =
      (Inr (NewIdentity 76561198065346589 ''T'' 0), sample_client\<lparr>c_authIdentity := Some (NewIdentity 76561198065346589 ''T'' 0)\<rparr>)"
    by (simp add: SetIdentity_def directory_world_def Let_def)
  have "(client_step sample_env sample_host)\<^sup>*\<^sup>* (sample_client, directory_world)
      (sample_client\<lparr>c_authIdentity := Some (NewIdentity 76561198065346589 ''T'' 0)\<rparr>, directory_world)"
    by (rule r_into_rtranclp, rule cs_set, rule s)
  from client_invariant [OF _ sample_NewClient this] s show ?thesis
    by (simp add: Client_Identity_def directory_world_def)
qed

end
