(* ===== verification/Login.thy ===== *)
theory Login
  imports Client_Laws Api_Types
begin

text \<open>
  The first half of the login, as the server sees it, and the single-shot login as a
  composition of the two halves.
\<close>

section \<open>RSA with PKCS 1 padding\<close>

lemma bitlen_bounds: "n < 2 ^ bitlen n" "0 < n \<Longrightarrow> 2 ^ (bitlen n - 1) \<le> n"
proof (induction n rule: bitlen.induct)
  case (1 n)
  show "n < 2 ^ bitlen n" using 1(1) by (cases "n = 0") (simp_all add: bitlen.simps [of n])
  show "2 ^ (bitlen n - 1) \<le> n" if "0 < n"
  proof (cases "n = 1")
    case False
    with that have "0 < n div 2" "0 < bitlen (n div 2)" by (simp_all add: bitlen.simps [of "n div 2"])
    moreover have "2 ^ (bitlen (n div 2) - 1) \<le> n div 2" using 1(2) that \<open>0 < n div 2\<close> by simp
    ultimately show ?thesis using that
      by (cases "bitlen (n div 2)") (auto simp: bitlen.simps [of n])
  qed (simp add: bitlen.simps)
qed

definition modulus_size :: "int \<Rightarrow> nat" where "modulus_size N = (bitlen (nat N) + 7) div 8"

lemma modulus_bounds:
  assumes "0 < N" shows "256 ^ (modulus_size N - 1) \<le> N" "N < 256 ^ modulus_size N"
proof -
  let ?b = "bitlen (nat N)"
  have p: "0 < ?b" using assms by (simp add: bitlen.simps [of "nat N"])
  have e: "(256 :: nat) ^ k = 2 ^ (8 * k)" for k by (simp add: power_mult)
  have "(2 :: nat) ^ (8 * (modulus_size N - 1)) \<le> 2 ^ (?b - 1)"
    using p by (intro power_increasing) (unfold modulus_size_def, linarith, simp)
  also have "\<dots> \<le> nat N" using bitlen_bounds(2) [of "nat N"] assms by simp
  finally show "256 ^ (modulus_size N - 1) \<le> N" using assms unfolding e [symmetric] by (simp add: le_nat_iff)
  have "nat N < 2 ^ ?b" by (rule bitlen_bounds)
  also have "(2 :: nat) ^ ?b \<le> 2 ^ (8 * modulus_size N)"
    by (intro power_increasing) (unfold modulus_size_def, linarith, simp)
  finally show "N < 256 ^ modulus_size N" using assms unfolding e [symmetric] by (simp add: nat_less_iff)
qed


text \<open>The decoding of a padded message: at least eight bytes other than zero, then a zero.\<close>

definition pkcs1_open :: "bytes \<Rightarrow> bytes option" where
  "pkcs1_open em =
     (case em of
        a # b # r \<Rightarrow>
          if a = 0 \<and> b = 2 \<and> 0 \<in> set r \<and> 8 \<le> length (takeWhile (\<lambda>x. x \<noteq> 0) r)
          then Some (drop 1 (dropWhile (\<lambda>x. x \<noteq> 0) r)) else None
      | _ \<Rightarrow> None)"

text \<open>A key of the kind the standard library accepts.\<close>

definition usable_key :: "int \<Rightarrow> int \<Rightarrow> bool" where
  "usable_key N E \<longleftrightarrow> 0 < N \<and> odd N \<and> 1024 \<le> bitlen (nat N) \<and> 2 \<le> E \<and> odd E \<and> E < 2 ^ 31"

lemma EncryptPKCS1v15_open:
  assumes "usable_key N E" "length msg + 11 \<le> modulus_size N" "\<forall>i. f i \<noteq> 0"
  obtains em c where "EncryptPKCS1v15 (Inr f) N E msg = Inr c" and "int_of_be 0 c = int_of_be 0 em ^ nat E mod N"
    and "int_of_be 0 em < N" and "pkcs1_open em = Some msg" and "length c = modulus_size N"
proof -
  let ?k = "modulus_size N"
  define pad where "pad = map f [0..<?k - length msg - 3]"
  define em where "em = [0, 2] @ pad @ [0] @ msg"
  have N: "0 < N" "nat \<bar>N\<bar> = nat N" "even (nat N) = even N" using assms(1) by (auto simp: usable_key_def even_nat_iff)
  have z: "\<forall>x \<in> set pad. x \<noteq> 0" "length pad = ?k - length msg - 3" using assms(3) by (auto simp: pad_def)
  have "EncryptPKCS1v15 (Inr f) N E msg = Inr (be_of_int ?k (int_of_be 0 em ^ nat E mod N))" (is "_ = Inr ?c")
    using assms(1,2) N
    by (simp add: EncryptPKCS1v15_def usable_key_def rand_Read_def Let_def em_def pad_def modulus_size_def [symmetric])
  moreover have "int_of_be 0 ?c = int_of_be 0 em ^ nat E mod N"
    using N(1) less_trans [OF pos_mod_bound modulus_bounds(2)] by (intro int_of_be_of_int) simp_all
  moreover have "int_of_be 0 em < N"
  proof -
    have "int_of_be 0 em = int_of_be 0 (tl em)" by (simp add: em_def)
    also have "\<dots> < 256 ^ length (tl em)" using int_of_be_bounds [of 0 "tl em"] by simp
    also have "length (tl em) = ?k - 1" using z(2) assms(2) by (simp add: em_def)
    finally show ?thesis using modulus_bounds(1) [OF N(1)] by simp
  qed
  moreover have "pkcs1_open em = Some msg"
    using z assms(2) by (simp add: pkcs1_open_def em_def)
  ultimately show ?thesis by (rule that) simp
qed


section \<open>The request of the first half\<close>

lemma GetPasswordRSAPublicKey_timestamp:
  "GetPasswordRSAPublicKey a kp w = (Inr key, w') \<Longrightarrow> fits_uint 64 (gk_Timestamp key)"
  unfolding GetPasswordRSAPublicKey_def by (rule Call_typed) (auto intro: rsa_key.struct)

text \<open>A call to the world's server: one more request in the log, and what is made of the answer.\<close>

lemma Call_world_client:
  assumes "ht_HttpClient t = world_client parse" "\<forall>v u. parse v u = None"
  shows "Call t verb service meth version (Some (Inr vs)) decode w =
    (let req = http_request t verb service meth version (values_Add ''format'' ''json'' vs); n = length (wd_log w) in
     (case wd_reply w n req of
        Inl err \<Rightarrow> Inl (ErrWrap ''failed to make request'' err)
      | Inr res \<Rightarrow>
        if rs_eresult res \<noteq> [] \<and> rs_eresult res \<noteq> ''1'' then Inl (ErrNew (''request failed with error code: '' @ rs_eresult res))
        else (case rs_body res of
            Inl err \<Rightarrow> Inl (ErrWrap ''failed to decode response'' err)
          | Inr j \<Rightarrow> (case decode j of Inl err \<Rightarrow> Inl (ErrWrap ''failed to decode response'' err) | Inr r \<Rightarrow> Inr r)),
      w\<lparr>wd_log := wd_log w @ [req], wd_now := wd_now w + wd_cost w n\<rparr>))"
  using assms by (simp add: Call_def world_client_def Let_def split: sum.splits)

lemma received_post:
  "received k (rq_body (http_request t ''POST'' service meth version (values_Add ''format'' ''json'' (query_Values fs)))) =
     under k (field_pairs [] fs) @ (if k = ''format'' then [''json''] else [])"
proof -
  let ?m = "values_Add ''format'' ''json'' (query_Values fs)"
  have "received k (values_Encode ?m) = values_Get k ?m"
    by (rule received_encode) (auto simp: pairs_of_Add)
  then show ?thesis by (simp add: http_request_def values_Get_Add values_Get_query Let_def)
qed

text \<open>The parameters of the first half, and the session made of the answer.\<close>

definition login_params :: "string \<Rightarrow> string \<Rightarrow> uint64 \<Rightarrow> BeginAuthSessionViaCredentialsParameters" where
  "login_params account password ts =
     \<lparr>ba_DeviceFriendlyName = [], ba_AccountName = account, ba_EncryptedPassword = password,
      ba_EncryptionTimestamp = ts, ba_RememberLogin = False,
      ba_PlatformType = PlatformType_SteamClient, ba_Persistence = SessionPersistence_Persistent, ba_WebsiteID = ''Community'',
      ba_DeviceDetails = \<lparr>dd_DeviceFriendlyName = ''go-steam'', dd_PlatformType = PlatformType_SteamClient,
        dd_OsType = 0, dd_GamingDeviceType = 0, dd_ClientCount = 0, dd_MachineID = []\<rparr>,
      ba_GuardData = [], ba_Language = 0, ba_QosLevel = 4\<rparr>"

definition session_from :: "BeginAuthSessionViaCredentialsResponse \<Rightarrow> AuthSession" where
  "session_from r =
     \<lparr>as_ClientID = of_int (br_ClientID r), as_RequestID = br_RequestID r, as_SteamID = br_SteamID r,
      as_Interval = br_Interval r * Second, as_AllowedConfirmations = br_AllowedConfirmations r\<rparr>"

lemma login_params_received:
  assumes "e \<noteq> []"
  shows "under ''account_name'' (field_pairs [] (begin_auth_fields (login_params account e ts))) = (if account = [] then [] else [account])"
    "under ''encrypted_password'' (field_pairs [] (begin_auth_fields (login_params account e ts))) = [e]"
    "under ''encryption_timestamp'' (field_pairs [] (begin_auth_fields (login_params account e ts))) =
       (if ts = 0 then [] else [FormatInt (uint ts)])"
  using assms by (simp_all add: begin_auth_fields_def device_details_fields_def login_params_def uint_0_iff)

lemma beginAuth_params:
  "beginAuthSessionViaCredentials api account e ts = BeginAuthSessionViaCredentials (ia_auth api) (login_params account e ts)"
  by (simp add: beginAuthSessionViaCredentials_def login_params_def)

lemma begin_session_request:
  fixes idp tr f w
  defines "account \<equiv> cr_AccountName (idp_credentials idp)" and "password \<equiv> cr_Password (idp_credentials idp)"
  assumes "idp_api idp = Some (services_of tr)" and "ht_HttpClient tr = world_client parse" and "\<forall>v u. parse v u = None"
    and "GetPasswordRSAPublicKey (IAuthenticationService tr) \<lparr>gp_AccountName = account\<rparr> w = (Inr key, w1)"
    and "parse_hex (gk_PublicKeyMod key) = Some N" and "ParseInt16 (gk_PublicKeyExp key) = Some E"
    and "usable_key N E" and "length password + 11 \<le> modulus_size N" and "\<forall>i. f i \<noteq> 0"
  shows "\<exists>req e c em r w2. BeginAuthSession (Inr f) idp w = (r, w2) \<and> w2 = w1\<lparr>wd_log := wd_log w1 @ [req], wd_now := wd_now w1 + wd_cost w1 (length (wd_log w1))\<rparr> \<and>
    rq_verb req = ''POST'' \<and> rq_url req = ht_BaseURL tr @ ''/IAuthenticationService/BeginAuthSessionViaCredentials/v1'' \<and>
    received ''account_name'' (rq_body req) = (if account = [] then [] else [account]) \<and>
    received ''encryption_timestamp'' (rq_body req) = (if gk_Timestamp key = 0 then [] else [FormatInt (gk_Timestamp key)]) \<and>
    received ''encrypted_password'' (rq_body req) = [e] \<and> b64_decode e = Inr c \<and>
    int_of_be 0 c = int_of_be 0 em ^ nat E mod N \<and> int_of_be 0 em < N \<and> pkcs1_open em = Some (bytes_of_string password) \<and>
    (\<forall>res j resp. wd_reply w1 (length (wd_log w1)) req = Inr res \<and> rs_eresult res \<in> {'''', ''1''} \<and> rs_body res = Inr j \<and>
       decode_response dec_begin_auth zero_begin_auth j = Inr resp \<longrightarrow> r = Return (session_from resp))"
proof -
  have "length (bytes_of_string password) + 11 \<le> modulus_size N" using assms(10) by simp
  then obtain em c
    where c: "EncryptPKCS1v15 (Inr f) N E (bytes_of_string password) = Inr c"
      and em: "int_of_be 0 c = int_of_be 0 em ^ nat E mod N" "int_of_be 0 em < N" "pkcs1_open em = Some (bytes_of_string password)"
      and l: "length c = modulus_size N"
    by (rule EncryptPKCS1v15_open [OF assms(9) _ assms(11)])
  let ?e = "b64_encode c" and ?ts = "of_int (gk_Timestamp key) :: uint64"
  have e: "?e \<noteq> []" using b64_decode_encode [of c] l assms(10) by (auto simp: b64_decode_def)
  have u: "uint ?ts = gk_Timestamp key"
    using GetPasswordRSAPublicKey_timestamp [OF assms(6)]
    by (simp add: fits_uint_def unsigned_of_int take_bit_int_eq_self)
  then have ts: "uint ?ts = gk_Timestamp key" "(?ts = 0) = (gk_Timestamp key = 0)"
    by (simp_all add: uint_0_iff [symmetric])
  have p: "encryptPassword (Inr f) (services_of tr) account password w = (Inr (?e, ?ts), w1)"
    using assms(6,7,8) c by (simp add: encryptPassword_def services_of_def)
  let ?fs = "begin_auth_fields (login_params account ?e ?ts)"
  let ?req = "http_request tr ''POST'' ''IAuthenticationService'' ''BeginAuthSessionViaCredentials'' 1 (values_Add ''format'' ''json'' (query_Values ?fs))"
  obtain x w2 where b: "BeginAuthSessionViaCredentials (IAuthenticationService tr) (login_params account ?e ?ts) w1 = (x, w2)" by force
  note call = b [unfolded BeginAuthSessionViaCredentials_def IAuthenticationService.sel Call_world_client [OF assms(4,5)] Let_def]
  let ?r = "case x of Inl err \<Rightarrow> Fail (ErrWrap ''failed to begin auth session'' err) | Inr resp \<Rightarrow> Return (session_from resp)"
  have 1: "BeginAuthSession (Inr f) idp w = (?r, w2)"
    using assms(3) p b
    by (simp add: BeginAuthSession_def account_def password_def beginAuth_params services_of_def session_from_def split: sum.splits)
  have 2: "w2 = w1\<lparr>wd_log := wd_log w1 @ [?req], wd_now := wd_now w1 + wd_cost w1 (length (wd_log w1))\<rparr>" using call by auto
  have "FormatInt 1 = ''1''" by code_simp
  then have 3: "rq_verb ?req = ''POST''" "rq_url ?req = ht_BaseURL tr @ ''/IAuthenticationService/BeginAuthSessionViaCredentials/v1''"
    by (simp_all add: http_request_def)
  have 4: "received ''account_name'' (rq_body ?req) = (if account = [] then [] else [account])"
    "received ''encryption_timestamp'' (rq_body ?req) = (if gk_Timestamp key = 0 then [] else [FormatInt (gk_Timestamp key)])"
    "received ''encrypted_password'' (rq_body ?req) = [?e]"
    unfolding received_post login_params_received [OF e, of account ?ts] ts by simp_all
  have 5: "\<forall>res j resp. wd_reply w1 (length (wd_log w1)) ?req = Inr res \<and> rs_eresult res \<in> {'''', ''1''} \<and> rs_body res = Inr j \<and>
       decode_response dec_begin_auth zero_begin_auth j = Inr resp \<longrightarrow> ?r = Return (session_from resp)"
    using call by auto
  show ?thesis
    by (intro exI conjI, rule 1, rule 2, rule 3, rule 3, rule 4, rule 4, rule 4, rule b64_decode_encode, rule em, rule em, rule em, rule 5)
qed

text \<open>Property C6: the password reaches the server. With the key the server gave out, a password that
  fits it and a working random source, \<^verbatim>\<open>BeginAuthSession\<close> makes one more request, to the method
  of that name. Its body decodes to the account name, to the timestamp of the key, and to a
  base64 text of the RSA image of a padded message, from which the holder of the private key,
  who can invert that image, reads the password. Where the server answers with a session, that
  session is returned.\<close>

theorem password_reaches_server:
  fixes idp tr f w
  defines "account \<equiv> cr_AccountName (idp_credentials idp)" and "password \<equiv> cr_Password (idp_credentials idp)"
  assumes "idp_api idp = Some (services_of tr)" and "ht_HttpClient tr = world_client parse" and "\<forall>v u. parse v u = None"
    and "GetPasswordRSAPublicKey (IAuthenticationService tr) \<lparr>gp_AccountName = account\<rparr> w = (Inr key, w1)"
    and "parse_hex (gk_PublicKeyMod key) = Some N" and "ParseInt16 (gk_PublicKeyExp key) = Some E"
    and "usable_key N E" and "length password + 11 \<le> modulus_size N" and "\<forall>i. f i \<noteq> 0"
  shows "\<exists>req e c em r w2. BeginAuthSession (Inr f) idp w = (r, w2) \<and> w2 = w1\<lparr>wd_log := wd_log w1 @ [req], wd_now := wd_now w1 + wd_cost w1 (length (wd_log w1))\<rparr> \<and>
    rq_verb req = ''POST'' \<and> rq_url req = ht_BaseURL tr @ ''/IAuthenticationService/BeginAuthSessionViaCredentials/v1'' \<and>
    received ''account_name'' (rq_body req) = (if account = [] then [] else [account]) \<and>
    received ''encryption_timestamp'' (rq_body req) = (if gk_Timestamp key = 0 then [] else [FormatInt (gk_Timestamp key)]) \<and>
    received ''encrypted_password'' (rq_body req) = [e] \<and> b64_decode e = Inr c \<and>
    int_of_be 0 c = int_of_be 0 em ^ nat E mod N \<and> int_of_be 0 em < N \<and> pkcs1_open em = Some (bytes_of_string password) \<and>
    (\<forall>res j resp. wd_reply w1 (length (wd_log w1)) req = Inr res \<and> rs_eresult res \<in> {'''', ''1''} \<and> rs_body res = Inr j \<and>
       decode_response dec_begin_auth zero_begin_auth j = Inr resp \<longrightarrow> r = Return (session_from resp))"
  unfolding account_def password_def
  by (rule begin_session_request [OF assms(3-11) [unfolded account_def password_def]])

text \<open>A server with a key of 1024 bits, and a client that logs in to it.\<close>

definition key_reply :: "nat \<Rightarrow> HttpRequest \<Rightarrow> HttpResponse result" where
  "key_reply n req = Inr \<lparr>rs_status = 200, rs_eresult = ''1'', rs_body = Inr (JObj [(''response'',
     if n = 0 then JObj [(''publickey_mod'', JStr (replicate 256 (CHR ''f''))), (''publickey_exp'', JStr ''10001''), (''timestamp'', JStr ''7'')]
     else JObj [(''request_id'', JStr ''q''), (''interval'', JNum ''5'')])])\<rparr>"

definition key_world :: World where
  "key_world = \<lparr>wd_now = 0, wd_log = [], wd_reply = key_reply, wd_cost = (\<lambda>_. 1), wd_pick = (\<lambda>_. False)\<rparr>"

definition key_transport :: "World HTTPTransport" where
  "key_transport = NewHTTPTransport (world_client (\<lambda>_ _. None)) []"

definition key_idp :: CredentialsIdentityProvider where
  "key_idp = \<lparr>idp_api = Some (services_of key_transport),
     idp_credentials = \<lparr>cr_AccountName = ''u'', cr_Password = ''p&=%'', cr_SharedSecret = ''AQID''\<rparr>, idp_identity = None\<rparr>"

lemma hex_digits_f: "hex_digits acc (replicate n (CHR ''f'')) = Some ((acc + 1) * 16 ^ n - 1)"
  by (induction n arbitrary: acc) (simp_all add: hex_digit_val_def algebra_simps)

lemma bitlen_ones: "bitlen (2 ^ n - 1) = n"
proof (induction n)
  case (Suc n)
  have "(2 ^ Suc n - 1) div 2 = (2 :: nat) ^ n - 1" by simp
  moreover have "(1 :: nat) < 2 ^ Suc n" by (rule one_less_power) simp_all
  then have "(2 :: nat) ^ Suc n - 1 \<noteq> 0" by linarith
  ultimately show ?case using Suc by (subst bitlen.simps) (simp only: if_False)
qed (simp add: bitlen.simps)

lemma ones_key: "usable_key (2 ^ 1024 - 1) 65537" "modulus_size (2 ^ 1024 - 1) = 128"
proof -
  have "nat (2 ^ 1024 - 1) = 2 ^ 1024 - 1" by (simp add: nat_diff_distrib nat_power_eq)
  then have b: "bitlen (nat (2 ^ 1024 - 1)) = 1024" by (simp only: bitlen_ones)
  then show "modulus_size (2 ^ 1024 - 1) = 128" unfolding modulus_size_def by simp
  show "usable_key (2 ^ 1024 - 1) 65537" unfolding usable_key_def b by simp
qed

lemma key_numbers: "parse_hex (replicate 256 (CHR ''f'')) = Some (2 ^ 1024 - 1)" "ParseInt16 ''10001'' = Some 65537"
  by (simp add: parse_hex_def hex_digits_f) (simp add: ParseInt16_def parse_hex_def hex_digit_val_def)

lemma key_fits: "length (cr_Password (idp_credentials key_idp)) + 11 \<le> modulus_size (2 ^ 1024 - 1)"
  unfolding ones_key by (simp add: key_idp_def)

lemma key_idp_api: "idp_api key_idp = Some (services_of key_transport)"
  by (simp add: key_idp_def)

lemma key_transport_client: "ht_HttpClient key_transport = world_client (\<lambda>_ _. None)"
  by (simp add: key_transport_def NewHTTPTransport_def)

lemmas key_call = Call_world_client [OF key_transport_client, simplified]

lemma key_answer:
  assumes "wd_log w = []" "wd_reply w 0 = key_reply 0"
  obtains w1 where "GetPasswordRSAPublicKey (IAuthenticationService key_transport) ps w =
      (Inr \<lparr>gk_PublicKeyMod = replicate 256 (CHR ''f''), gk_PublicKeyExp = ''10001'', gk_Timestamp = 7\<rparr>, w1)"
    and "length (wd_log w1) = 1" "wd_reply w1 = wd_reply w"
proof -
  have n: "ParseUint ''7'' 64 = Inr 7" by (simp add: ParseUint_def is_digit_def digit_val_def)
  show ?thesis
    by (rule that, use assms in \<open>simp add: GetPasswordRSAPublicKey_def key_call key_reply_def Let_def decode_response_def
      dec_struct_def find_field_def dec_str_def dec_quoted_uint_def dec_uint_def dec_kept_def dec_with_def p_str_def p_uint_def unquoted_def
      n is_digit_def\<close>) (use assms in simp_all)
qed

text \<open>The first half of the login to this server, whatever session it opens.\<close>

lemma key_begin:
  assumes "wd_log w = []" "wd_reply w 0 = key_reply 0" "\<And>req. wd_reply w 1 req = Inr \<lparr>rs_status = 200, rs_eresult = ''1'', rs_body = Inr j\<rparr>"
    "decode_response dec_begin_auth zero_begin_auth j = Inr resp"
  obtains w2 where "BeginAuthSession (Inr (\<lambda>_. 1)) key_idp w = (Return (session_from resp), w2)"
    "length (wd_log w2) = 2" "wd_reply w2 = wd_reply w"
proof -
  obtain w1 where k: "GetPasswordRSAPublicKey (IAuthenticationService key_transport) \<lparr>gp_AccountName = cr_AccountName (idp_credentials key_idp)\<rparr>
      w = (Inr \<lparr>gk_PublicKeyMod = replicate 256 (CHR ''f''), gk_PublicKeyExp = ''10001'', gk_Timestamp = 7\<rparr>, w1)"
    and w1: "length (wd_log w1) = 1" "wd_reply w1 = wd_reply w"
    by (rule key_answer [OF assms(1,2)])
  have "\<exists>w2. BeginAuthSession (Inr (\<lambda>_. 1)) key_idp w = (Return (session_from resp), w2) \<and> length (wd_log w2) = 2 \<and> wd_reply w2 = wd_reply w"
    using begin_session_request [OF key_idp_api key_transport_client _ k, simplified, OF key_numbers ones_key(1) key_fits, of "\<lambda>_. 1"] w1 assms(3,4)
    by fastforce
  then show ?thesis using that by blast
qed

theorem password_reaches_server_witness:
  "\<exists>req e c em w2. BeginAuthSession (Inr (\<lambda>_. 1)) key_idp key_world =
      (Return \<lparr>as_ClientID = 0, as_RequestID = ''q'', as_SteamID = 0, as_Interval = 5 * Second, as_AllowedConfirmations = []\<rparr>, w2) \<and>
    last (wd_log w2) = req \<and> received ''encrypted_password'' (rq_body req) = [e] \<and> b64_decode e = Inr c \<and>
    int_of_be 0 c = int_of_be 0 em ^ 65537 mod (2 ^ 1024 - 1) \<and> pkcs1_open em = Some (bytes_of_string ''p&=%'') \<and>
    received ''encryption_timestamp'' (rq_body req) = [FormatInt 7]"
proof -
  obtain w1 where k: "GetPasswordRSAPublicKey (IAuthenticationService key_transport) \<lparr>gp_AccountName = cr_AccountName (idp_credentials key_idp)\<rparr>
      key_world = (Inr \<lparr>gk_PublicKeyMod = replicate 256 (CHR ''f''), gk_PublicKeyExp = ''10001'', gk_Timestamp = 7\<rparr>, w1)"
    and w1: "length (wd_log w1) = 1" "wd_reply w1 = wd_reply key_world"
    by (rule key_answer [of key_world]) (simp_all add: key_world_def)
  have i: "ParseInt ''5'' 32 = Inr 5" by (simp add: ParseInt_def ParseUint_def is_digit_def digit_val_def)
  have d: "decode_response dec_begin_auth zero_begin_auth (JObj [(''response'', JObj [(''request_id'', JStr ''q''), (''interval'', JNum ''5'')])]) =
      Inr (zero_begin_auth\<lparr>br_RequestID := ''q'', br_Interval := 5\<rparr>)"
    by (simp add: decode_response_def dec_begin_auth_def begin_auth_response_fields_def dec_struct_def find_field_def dec_str_def
        dec_int_def dec_kept_def dec_with_def p_str_def p_int_def i)
  show ?thesis
    using password_reaches_server [OF key_idp_api key_transport_client _ k, simplified, OF key_numbers ones_key(1) key_fits, of "\<lambda>_. 1"] w1 d
    by (auto simp: key_world_def key_reply_def session_from_def zero_begin_auth_def key_idp_def)
qed

section \<open>The single-shot login\<close>

lemma beginSessionLocked_eq: "beginSessionLocked = BeginAuthSession"
  by (intro ext) (simp add: beginSessionLocked_def BeginAuthSession_def)

lemma code_made:
  assumes "b64_decode secret = Inr key"
  obtains code where "CreateAuthenticationCode secret unix = Inr code" "length code = 5"
proof -
  have "unat (x AND 0x0F) + 4 \<le> 20" for x :: byte
  proof -
    have "x AND 0x0F = take_bit 4 x" by (simp add: take_bit_eq_mask mask_eq_exp_minus_1)
    then have "unat (x AND 0x0F) < 16" by (simp add: take_bit_eq_mod unat_mod)
    then show ?thesis by simp
  qed
  then show ?thesis
    using assms by (intro that) (simp add: CreateAuthenticationCode_def Let_def not_less, simp only: code_loop_digits length_map length_upt diff_zero)
qed

text \<open>Property C14: the single-shot login is the two-step login with a generated code. When it has
  no valid identity, opens a session that takes codes of the authenticator, and the server tells
  its time, a code of five characters is made of the shared secret and that time; from then on
  \<^verbatim>\<open>Identity\<close> does what \<^verbatim>\<open>SubmitSteamGuardCode\<close> does with that session and that code, up to the
  words with which it reports a refused code.\<close>

theorem single_shot_is_two_step:
  assumes "fresh_identity idp w = None" and "BeginAuthSession ps idp w = (Return s, w1)" and "idp_api idp = Some api"
    and "cr_SharedSecret (idp_credentials idp) \<noteq> []" and "b64_decode (cr_SharedSecret (idp_credentials idp)) = Inr k"
    and "QueryTime (ia_tfa api) w1 = (Inr t, w2)" and "fresh_identity idp w2 = None"
    and "GuardType_DeviceCode \<in> ac_ConfirmationType ` set (as_AllowedConfirmations s)"
  shows "\<exists>code. CreateAuthenticationCode (cr_SharedSecret (idp_credentials idp)) (qt_ServerTime t) = Inr code \<and> length code = 5 \<and>
    (case UpdateAuthSessionWithSteamGuardCode (ia_auth api) \<lparr>up_ClientID = as_ClientID s, up_SteamID = as_SteamID s, up_Code = code,
         up_CodeType = GuardType_DeviceCode\<rparr> w2 of
       (Inr _, w3) \<Rightarrow> Identity_login ps cx idp w = SubmitSteamGuardCode cx (Some s) code idp w2
     | (Inl err, w3) \<Rightarrow>
         Identity_login ps cx idp w = Some (Fail (ErrWrap ''failed to update with 2FA'' err), idp, w3) \<and>
         SubmitSteamGuardCode cx (Some s) code idp w2 = Some (Fail (ErrWrap ''failed to update with Steam Guard code'' err), idp, w3))"
proof -
  obtain code where code: "CreateAuthenticationCode (cr_SharedSecret (idp_credentials idp)) (qt_ServerTime t) = Inr code" "length code = 5"
    by (rule code_made [OF assms(5)])
  have "pickCodeType (as_AllowedConfirmations s) = Some GuardType_DeviceCode"
    using assms(8) by (simp add: pickCodeType_def pick_eq)
  then show ?thesis
    using code assms(1-4,6,7)
    by (intro exI [of _ code]) (simp add: Identity_login_def SubmitSteamGuardCode_def beginSessionLocked_eq split: prod.splits sum.splits)
qed

text \<open>A server for the whole single-shot login.\<close>

definition shot_body :: "nat \<Rightarrow> json" where
  "shot_body n = JObj [(''response'', JObj (
     if n = 1 then [(''request_id'', JStr ''q''), (''allowed_confirmations'', JArr [JObj [(''confirmation_type'', JNum ''3'')]])]
     else if n = 2 then [(''server_time'', JStr ''7'')]
     else if n = 3 then []
     else [(''refresh_token'', JStr ''R'')]))]"

definition shot_reply :: "nat \<Rightarrow> HttpRequest \<Rightarrow> HttpResponse result" where
  "shot_reply n req =
     (if n = 0 then key_reply 0 req else Inr \<lparr>rs_status = 200, rs_eresult = ''1'', rs_body = Inr (shot_body n)\<rparr>)"

definition shot_world :: World where "shot_world = key_world\<lparr>wd_reply := shot_reply\<rparr>"

definition shot_session :: AuthSession where
  "shot_session = \<lparr>as_ClientID = 0, as_RequestID = ''q'', as_SteamID = 0, as_Interval = 0,
     as_AllowedConfirmations = [\<lparr>ac_ConfirmationType = 3, ac_AssociatedMessage = []\<rparr>]\<rparr>"

lemma shot_begin:
  obtains w1 where "BeginAuthSession (Inr (\<lambda>_. 1)) key_idp shot_world = (Return shot_session, w1)"
    "length (wd_log w1) = 2" "wd_reply w1 = shot_reply"
proof -
  have i: "ParseInt ''3'' 32 = Inr 3" by (simp add: ParseInt_def ParseUint_def is_digit_def digit_val_def)
  have d: "decode_response dec_begin_auth zero_begin_auth (shot_body 1) =
      Inr (zero_begin_auth\<lparr>br_RequestID := ''q'', br_AllowedConfirmations := [\<lparr>ac_ConfirmationType = 3, ac_AssociatedMessage = []\<rparr>]\<rparr>)"
    by (simp add: decode_response_def dec_begin_auth_def begin_auth_response_fields_def dec_struct_def find_field_def dec_str_def
        shot_body_def p_array_def p_AllowedConfirmation_def GuardType_UnmarshalJSON_def dec_kept_def dec_with_def p_str_def i)
  obtain w1 where "BeginAuthSession (Inr (\<lambda>_. 1)) key_idp shot_world =
      (Return (session_from (zero_begin_auth\<lparr>br_RequestID := ''q'', br_AllowedConfirmations := [\<lparr>ac_ConfirmationType = 3, ac_AssociatedMessage = []\<rparr>]\<rparr>)), w1)"
    "length (wd_log w1) = 2" "wd_reply w1 = wd_reply shot_world"
    by (rule key_begin [OF _ _ _ d, of shot_world]) (auto simp: shot_world_def key_world_def shot_reply_def)
  then show ?thesis by (intro that) (simp_all add: session_from_def zero_begin_auth_def shot_session_def shot_world_def)
qed

text \<open>The requests after it.\<close>

definition shot_at :: "nat \<Rightarrow> World \<Rightarrow> bool" where "shot_at n w \<longleftrightarrow> length (wd_log w) = n \<and> wd_reply w = shot_reply"

lemma shot_call:
  assumes "shot_at n w" "0 < n" "decode (shot_body n) = Inr r"
  obtains w' where "Call key_transport verb service meth version (Some (Inr vs)) decode w = (Inr r, w')" "shot_at (Suc n) w'"
  using assms by (auto simp: key_call shot_reply_def shot_at_def Let_def)

lemma shot_services:
  "auth_transport (ia_auth (services_of key_transport)) = key_transport" "tfa_transport (ia_tfa (services_of key_transport)) = key_transport"
  by (simp_all add: services_of_def)

lemma shot_time:
  assumes "shot_at 2 w"
  obtains w' where "QueryTime (ia_tfa (services_of key_transport)) w = (Inr \<lparr>qt_ServerTime = 7\<rparr>, w')" "shot_at 3 w'"
proof -
  have n: "ParseInt ''7'' 64 = Inr 7" by (simp add: ParseInt_def ParseUint_def is_digit_def digit_val_def)
  have "decode_response (dec_struct [(''server_time'', dec_quoted_int qt_ServerTime_update)]) \<lparr>qt_ServerTime = 0\<rparr> (shot_body 2) = Inr \<lparr>qt_ServerTime = 7\<rparr>"
    by (simp add: shot_body_def decode_response_def dec_struct_def find_field_def dec_quoted_int_def dec_int_def dec_kept_def dec_with_def
        p_int_def unquoted_def n is_digit_def)
  moreover have "Call t v s m n None dec w = Call t v s m n (Some (Inr [])) dec w" for t :: "World HTTPTransport" and v s m n dec w
    by (simp add: Call_def)
  ultimately show ?thesis
    using shot_call [OF assms, where vs = "[]"] that unfolding QueryTime_def shot_services by (metis numeral_3_eq_3 numeral_2_eq_2 zero_less_Suc)
qed

lemma shot_submit:
  assumes "shot_at 3 w"
  obtains i idp' w' where "SubmitSteamGuardCode Background (Some shot_session) code key_idp w = Some (Return i, idp', w')" "id_refreshToken i = ''R''"
proof -
  define a where "a = ia_auth (services_of key_transport)"
  have "decode_response dec_empty () (shot_body 3) = Inr ()"
    by (simp add: shot_body_def decode_response_def dec_struct_def find_field_def dec_empty_def)
  then obtain w1 where u: "UpdateAuthSessionWithSteamGuardCode a \<lparr>up_ClientID = as_ClientID shot_session, up_SteamID = as_SteamID shot_session,
      up_Code = code, up_CodeType = GuardType_DeviceCode\<rparr> w = (Inr (), w1)" and w1: "shot_at (Suc 3) w1"
    unfolding UpdateAuthSessionWithSteamGuardCode_def a_def shot_services by (rule shot_call [OF assms zero_less_numeral])
  have "decode_response dec_poll zero_poll (shot_body (Suc 3)) = Inr (zero_poll\<lparr>pr_RefreshToken := ''R''\<rparr>)"
    by (simp add: shot_body_def decode_response_def dec_struct_def find_field_def dec_poll_def dec_str_def dec_kept_def dec_with_def p_str_def)
  then obtain w2 where p: "PollAuthSessionStatus a (poll_params shot_session) w1 = (Inr (zero_poll\<lparr>pr_RefreshToken := ''R''\<rparr>), w2)"
    unfolding PollAuthSessionStatus_def a_def shot_services by (rule shot_call [OF w1 zero_less_Suc])
  have "poll Background a shot_session w1 = Some (Return (zero_poll\<lparr>pr_RefreshToken := ''R''\<rparr>), w2)"
    by (rule poll_token [OF _ p]) (simp_all add: ctx_done_def Background_def)
  moreover have "pickCodeType (as_AllowedConfirmations shot_session) = Some GuardType_DeviceCode" "fresh_identity key_idp w = None"
    by (simp_all add: pickCodeType_def pick_eq guard_type_defs shot_session_def fresh_identity_def key_idp_def)
  ultimately show ?thesis
    using u that by (simp add: SubmitSteamGuardCode_def key_idp_api finish_login_def a_def [symmetric] Let_def)
qed

theorem single_shot_is_two_step_witness:
  "\<exists>i idp' w'. Identity_login (Inr (\<lambda>_. 1)) Background key_idp shot_world = Some (Return i, idp', w') \<and> id_refreshToken i = ''R''"
proof -
  obtain w1 where b: "BeginAuthSession (Inr (\<lambda>_. 1)) key_idp shot_world = (Return shot_session, w1)" and w1: "shot_at 2 w1"
    by (rule shot_begin) (simp add: shot_at_def)
  obtain w2 where q: "QueryTime (ia_tfa (services_of key_transport)) w1 = (Inr \<lparr>qt_ServerTime = 7\<rparr>, w2)" and w2: "shot_at 3 w2"
    by (rule shot_time [OF w1])
  have k: "b64_decode (cr_SharedSecret (idp_credentials key_idp)) = Inr [1, 2, 3]" by (simp add: key_idp_def) code_simp
  have f: "fresh_identity key_idp w = None" "cr_SharedSecret (idp_credentials key_idp) \<noteq> []"
      "GuardType_DeviceCode \<in> ac_ConfirmationType ` set (as_AllowedConfirmations shot_session)" for w
    by (simp_all add: key_idp_def fresh_identity_def shot_session_def guard_type_defs)
  from single_shot_is_two_step [OF f(1) b key_idp_api f(2) k q f(1,3), of Background] show ?thesis
  proof (elim exE conjE)
    fix code
    assume c: "case UpdateAuthSessionWithSteamGuardCode (ia_auth (services_of key_transport)) \<lparr>up_ClientID = as_ClientID shot_session,
      up_SteamID = as_SteamID shot_session, up_Code = code, up_CodeType = GuardType_DeviceCode\<rparr> w2 of
       (Inl err, w3) \<Rightarrow>
         Identity_login (Inr (\<lambda>_. 1)) Background key_idp shot_world = Some (Fail (ErrWrap ''failed to update with 2FA'' err), key_idp, w3) \<and>
         SubmitSteamGuardCode Background (Some shot_session) code key_idp w2 = Some (Fail (ErrWrap ''failed to update with Steam Guard code'' err), key_idp, w3)
     | (Inr _, w3) \<Rightarrow> Identity_login (Inr (\<lambda>_. 1)) Background key_idp shot_world = SubmitSteamGuardCode Background (Some shot_session) code key_idp w2"
    obtain i idp' w' where "SubmitSteamGuardCode Background (Some shot_session) code key_idp w2 = Some (Return i, idp', w')" "id_refreshToken i = ''R''"
      by (rule shot_submit [OF w2])
    with c show ?thesis by (auto split: prod.splits sum.splits)
  qed
qed

end
