(* ===== verification/Heartbeat.thy ===== *)
theory Heartbeat
  imports Protocol_Laws
begin

text \<open>
  The heartbeat goroutines of a protocol (\<^verbatim>\<open>heartbeat.go\<close>): which of them a restart and a close
  end. The \<^verbatim>\<open>select\<close> of a goroutine may take its tick although its stop channel is closed, and
  every round reads the protocol's stop channel anew, so the answer is about all the runs of
  the step relation of \<open>Protocol\<close>.
\<close>

section \<open>The stop channels\<close>

text \<open>A goroutine that waits on a stop channel; and one that no closed stop channel can end.\<close>

definition waits :: "beat \<Rightarrow> bool" where
  "waits b \<longleftrightarrow> (case b of Waiting d (Some ch) \<Rightarrow> True | _ \<Rightarrow> False)"

definition loose :: "'c Protocol \<Rightarrow> beat \<Rightarrow> bool" where
  "loose h b \<longleftrightarrow> (case b of Waiting d (Some ch) \<Rightarrow> ch \<notin> set (p_closed h) | _ \<Rightarrow> True)"

lemma loose_cong: "p_closed g = p_closed h \<Longrightarrow> loose g = loose h"
  by (intro ext) (simp add: loose_def split: beat.split option.split)

text \<open>Sending leaves the channels alone.\<close>

lemma Protocol_Send_channels:
  "p_stopHeartbeat (snd (Protocol_Send en ops ctx hdr body h)) = p_stopHeartbeat h"
  "p_closed (snd (Protocol_Send en ops ctx hdr body h)) = p_closed h"
  by (auto simp: Protocol_Send_def Write_def offer_def Let_def split: option.splits sum.splits prod.splits outcome.splits)

lemma heartbeat_send_channels:
  assumes "heartbeat_send en ops cx h = (r, h')"
  shows "p_stopHeartbeat h' = p_stopHeartbeat h" "p_closed h' = p_closed h"
proof -
  obtain q g where s: "Protocol_Send en ops (Some cx) (Some (heartbeat_header h)) (Some ClientHeartBeat) h = (q, g)" by force
  then have g: "p_stopHeartbeat g = p_stopHeartbeat h" "p_closed g = p_closed h"
    using Protocol_Send_channels [of en ops "Some cx" "Some (heartbeat_header h)" "Some ClientHeartBeat" h] by simp_all
  have "p_stopHeartbeat h' = p_stopHeartbeat h \<and> p_closed h' = p_closed h"
    using s g assms by (cases q) (auto simp: heartbeat_send_def emit_def split: if_splits)
  then show "p_stopHeartbeat h' = p_stopHeartbeat h" "p_closed h' = p_closed h" by simp_all
qed

text \<open>In a state that can be reached, the channel a goroutine waits on is closed or current.\<close>

definition beats_inv :: "'c Protocol \<Rightarrow> bool" where
  "beats_inv h \<longleftrightarrow>
     (\<forall>d ch. Waiting d (Some ch) \<in> set (p_beats h) \<longrightarrow>
        ch \<in> set (p_closed h) \<union> set_option (p_stopHeartbeat h))"

interpretation beats: handler_stable beats_inv
  by unfold_locales ((auto simp: beats_inv_def offer_def emit_def startHeartbeat_def Let_def split: option.splits; blast)+)

lemma hb_step_beats_inv: "hb_step en ops cx h h' \<Longrightarrow> beats_inv h \<Longrightarrow> beats_inv h'"
proof (induction rule: hb_step.induct)
  case (hb_beat h xs d ys h1)
  with heartbeat_send_channels [OF hb_beat(2)] show ?case by (auto simp: beats_inv_def)
qed (auto simp: beats_inv_def)

lemma Protocol_Close_beats_inv: "beats_inv h \<Longrightarrow> beats_inv (snd (Protocol_Close ops h))"
  by (auto simp: beats_inv_def Protocol_Close_def Let_def case_prod_beta split: option.splits; blast)

lemma proto_step_beats_inv: "proto_step en ops cx h h' \<Longrightarrow> beats_inv h \<Longrightarrow> beats_inv h'"
proof (induction rule: proto_step.induct)
  case (ps_run n depth h r h')
  then show ?case using beats.Run_P [of h n depth en ops cx "(r, h')"] by simp
next
  case (ps_send ctx hdr body h r h')
  then show ?case using beats.Send_P [of h en ops ctx hdr body] by simp
next
  case (ps_close h r h')
  then show ?case using Protocol_Close_beats_inv [of h ops] by simp
next
  case (ps_beat h h')
  then show ?case using hb_step_beats_inv by blast
next
  case (ps_consume h e es)
  then show ?case by (simp add: beats_inv_def)
qed

lemma reached_inv:
  assumes "NewProtocol rnd (Some c) ev = Inr h0" "wf_chan ev" "(proto_step en ops cx)\<^sup>*\<^sup>* h0 h"
  shows "proto_inv h" "beats_inv h"
proof -
  have "beats_inv h0" using assms(1) by (auto simp: NewProtocol_def beats_inv_def)
  with assms(3) show "beats_inv h" by (induction rule: rtranclp_induct) (auto intro: proto_step_beats_inv)
  show "proto_inv h"
    using assms(3) NewProtocol_inv [OF assms(1,2)] by (induction rule: rtranclp_induct) (auto intro: proto_step_inv)
qed

section \<open>Runs of the goroutines\<close>

text \<open>The stop channel of the protocol is not closed; the steps of the goroutines keep it.\<close>

definition stop_open :: "'c Protocol \<Rightarrow> bool" where
  "stop_open h \<longleftrightarrow> (\<forall>ch. p_stopHeartbeat h = Some ch \<longrightarrow> ch \<notin> set (p_closed h))"

definition loose_beats :: "'c Protocol \<Rightarrow> beat list" where "loose_beats h = filter (loose h) (p_beats h)"

lemma hb_step_channels:
  "hb_step en ops cx h h' \<Longrightarrow> p_stopHeartbeat h' = p_stopHeartbeat h \<and> p_closed h' = p_closed h"
  by (induction rule: hb_step.induct) (auto dest: heartbeat_send_channels)

lemma hb_step_count:
  assumes "hb_step en ops cx h h'" "ctx_done_at cx = None" "stop_open h"
  shows "length (loose_beats h) \<le> length (loose_beats h') \<and> length (p_beats h') \<le> length (p_beats h)"
proof -
  have l: "loose h' = loose h" using hb_step_channels [OF assms(1)] by (intro loose_cong) simp
  have o: "loose h (Waiting d (p_stopHeartbeat h))" for d
    using assms(3) by (auto simp: loose_def stop_open_def split: option.splits)
  show ?thesis
    using assms(1,2)
  proof cases
    case (hb_beat xs d ys h1)
    then have "p_stopHeartbeat h1 = p_stopHeartbeat h" using heartbeat_send_channels by blast
    with hb_beat l o show ?thesis by (simp add: loose_beats_def)
  qed (use l o in \<open>auto simp: loose_beats_def loose_def [of h "Starting _"] loose_def [of h "Ticking _"]
      loose_def [of h "Waiting _ (Some _)"]\<close>)
qed

lemma hb_steps_count:
  assumes "(hb_step en ops cx)\<^sup>*\<^sup>* h h'" "ctx_done_at cx = None" "stop_open h"
  shows "stop_open h' \<and> length (loose_beats h) \<le> length (loose_beats h') \<and> length (p_beats h') \<le> length (p_beats h)"
  using assms(1)
proof (induction rule: rtranclp_induct)
  case (step y z)
  then show ?case
    using hb_step_count [OF step(2) assms(2)] hb_step_channels [OF step(2)] by (auto simp: stop_open_def)
qed (use assms(3) in simp)

text \<open>A run in which every goroutine on a closed channel ends, and one in which each ticks first.\<close>

lemma stop_run:
  "p_beats h = xs @ ys \<Longrightarrow> (hb_step en ops cx)\<^sup>*\<^sup>* h (h\<lparr>p_beats := xs @ filter (loose h) ys\<rparr>)"
proof (induction ys arbitrary: xs h)
  case Nil
  then have "h\<lparr>p_beats := xs\<rparr> = h" by (cases h) simp
  then show ?case by simp
next
  case (Cons b ys)
  show ?case
  proof (cases "loose h b")
    case True
    with Cons.IH [of h "xs @ [b]"] Cons.prems show ?thesis by simp
  next
    case False
    then obtain d ch where b: "b = Waiting d (Some ch)" "ch \<in> set (p_closed h)"
      by (auto simp: loose_def split: beat.splits option.splits)
    let ?g = "h\<lparr>p_beats := xs @ ys\<rparr>"
    have "hb_step en ops cx h ?g" using Cons.prems b by (intro hb_stop [of _ _ d ch]) simp_all
    moreover have "loose ?g = loose h" by (rule loose_cong) simp
    then have "(hb_step en ops cx)\<^sup>*\<^sup>* ?g (h\<lparr>p_beats := xs @ filter (loose h) ys\<rparr>)"
      using Cons.IH [of ?g xs] by simp
    ultimately show ?thesis using False by (simp add: converse_rtranclp_into_rtranclp)
  qed
qed

definition tick :: "beat \<Rightarrow> beat" where "tick b = (case b of Waiting d c \<Rightarrow> Ticking d | _ \<Rightarrow> b)"

lemma tick_run:
  "p_beats h = xs @ ys \<Longrightarrow> (hb_step en ops cx)\<^sup>*\<^sup>* h (h\<lparr>p_beats := xs @ map tick ys\<rparr>)"
proof (induction ys arbitrary: xs h)
  case Nil
  then have "h\<lparr>p_beats := xs\<rparr> = h" by (cases h) simp
  then show ?case by simp
next
  case (Cons b ys)
  let ?g = "h\<lparr>p_beats := xs @ tick b # ys\<rparr>"
  have "(hb_step en ops cx)\<^sup>*\<^sup>* h ?g"
  proof (cases "\<exists>d c. b = Waiting d c")
    case True
    then show ?thesis using Cons.prems by (auto simp: tick_def intro!: r_into_rtranclp hb_tick)
  next
    case False
    then have "tick b = b" by (auto simp: tick_def split: beat.splits)
    then have "?g = h" using Cons.prems by (cases h) simp
    then show ?thesis by simp
  qed
  moreover have "(hb_step en ops cx)\<^sup>*\<^sup>* ?g (h\<lparr>p_beats := (xs @ [tick b]) @ map tick ys\<rparr>)"
    using Cons.IH [of ?g "xs @ [tick b]"] by simp
  ultimately show ?case by simp
qed

lemma tick_loose: "loose h (tick b)"
  by (auto simp: tick_def loose_def split: beat.splits)

text \<open>So the goroutines that are left in the end are at least the loose ones, at most all, and
  both are possible.\<close>

lemma heartbeat_runs:
  fixes g :: "'c Protocol" and en ops cx
  assumes "stop_open g" "ctx_done_at cx = None"
  defines "steps \<equiv> (hb_step en ops cx)\<^sup>*\<^sup>*"
  shows "(\<forall>g'. steps g g' \<longrightarrow> length (loose_beats g) \<le> length (p_beats g') \<and> length (p_beats g') \<le> length (p_beats g)) \<and>
    (\<exists>g'. steps g g' \<and> length (p_beats g') = length (loose_beats g)) \<and>
    (\<exists>g'. steps g g' \<and> (\<forall>g''. steps g' g'' \<longrightarrow> length (p_beats g'') = length (p_beats g)))"
proof (intro conjI allI impI)
  fix g' assume "steps g g'"
  then have "length (loose_beats g) \<le> length (loose_beats g')" "length (p_beats g') \<le> length (p_beats g)"
    using hb_steps_count assms unfolding steps_def by blast+
  moreover have "length (loose_beats g') \<le> length (p_beats g')" by (simp add: loose_beats_def)
  ultimately show "length (loose_beats g) \<le> length (p_beats g')" "length (p_beats g') \<le> length (p_beats g)" by simp_all
next
  show "\<exists>g'. steps g g' \<and> length (p_beats g') = length (loose_beats g)"
    using stop_run [of g "[]" "p_beats g" en ops cx] unfolding steps_def
    by (intro exI [of _ "g\<lparr>p_beats := filter (loose g) (p_beats g)\<rparr>"]) (simp add: loose_beats_def)
next
  let ?t = "g\<lparr>p_beats := map tick (p_beats g)\<rparr>"
  have t: "steps g ?t" using tick_run [of g "[]" "p_beats g" en ops cx] unfolding steps_def by simp
  have "loose_beats ?t = p_beats ?t" by (simp add: loose_beats_def tick_loose)
  moreover have "stop_open ?t" using assms(1) by (simp add: stop_open_def)
  ultimately have "length (p_beats g'') = length (p_beats g)" if "steps ?t g''" for g''
    using hb_steps_count [OF that [unfolded steps_def] assms(2)]
    by (simp add: loose_beats_def) (metis le_antisym length_filter_le order_trans)
  with t show "\<exists>g'. steps g g' \<and> (\<forall>g''. steps g' g'' \<longrightarrow> length (p_beats g'') = length (p_beats g))" by blast
qed

text \<open>After a restart and after a close every channel a goroutine waited on is closed.\<close>

lemma stopped_loose:
  assumes "proto_inv h" "beats_inv h"
  shows "stop_open (startHeartbeat d h)" "loose_beats (startHeartbeat d h) = filter (\<lambda>b. \<not> waits b) (p_beats h) @ [Starting d]"
    and "stop_open (snd (Protocol_Close ops h))" "loose_beats (snd (Protocol_Close ops h)) = filter (\<lambda>b. \<not> waits b) (p_beats h)"
proof -
  have l: "loose g b \<longleftrightarrow> \<not> waits b"
    if "b \<in> set (p_beats h)" "set (p_closed g) = set (p_closed h) \<union> set_option (p_stopHeartbeat h)" for g :: "'c Protocol" and b
    using that assms(2) by (auto simp: loose_def waits_def beats_inv_def split: beat.splits option.splits)
  have s: "set (p_closed (startHeartbeat d h)) = set (p_closed h) \<union> set_option (p_stopHeartbeat h)"
      "p_beats (startHeartbeat d h) = p_beats h @ [Starting d]"
    by (auto simp: startHeartbeat_def Let_def split: option.splits)
  have c: "set (p_closed (snd (Protocol_Close ops h))) = set (p_closed h) \<union> set_option (p_stopHeartbeat h)"
      "p_beats (snd (Protocol_Close ops h)) = p_beats h" "p_stopHeartbeat (snd (Protocol_Close ops h)) = None"
    by (auto simp: Protocol_Close_def Let_def case_prod_beta split: option.splits)
  show "loose_beats (startHeartbeat d h) = filter (\<lambda>b. \<not> waits b) (p_beats h) @ [Starting d]"
    using l [OF _ s(1)] by (simp add: loose_beats_def s(2) cong: filter_cong) (simp add: loose_def)
  show "loose_beats (snd (Protocol_Close ops h)) = filter (\<lambda>b. \<not> waits b) (p_beats h)"
    using l [OF _ c(1)] by (simp add: loose_beats_def c(2) cong: filter_cong)
  show "stop_open (snd (Protocol_Close ops h))" by (simp add: stop_open_def c(3))
  show "stop_open (startHeartbeat d h)"
    using assms(1) by (auto simp: stop_open_def startHeartbeat_def proto_inv_def Let_def split: option.splits)
qed

section \<open>Property\<close>

text \<open>Property C23: what a restart and a close of the heartbeat stop. In every state a protocol can
  reach, and as long as the context lasts: goroutines that are starting, sending, or waiting on
  a nil channel survive a close and a restart, whatever the goroutines do afterwards. Those
  that wait on a stop channel may all end, so that a close leaves only the others, and a
  restart those and the new one; but a goroutine whose tick is ready together with its closed
  channel may take the tick, and then waits on the new channel, or on nil after a close. So
  there is also a run after which not one of the goroutines ever ends, a close leaves as many
  as there were, and a restart one more. No run leaves fewer or more.\<close>

theorem heartbeat_stop:
  fixes h :: "'c Protocol" and en ops cx
  defines "steps \<equiv> (hb_step en ops cx)\<^sup>*\<^sup>*"
  assumes "NewProtocol rnd (Some c) ev = Inr h0" and "wf_chan ev" and "(proto_step en ops cx)\<^sup>*\<^sup>* h0 h"
    and "ctx_done_at cx = None" and "\<not> crashes g"
    and "g = snd (Protocol_Close ops h) \<and> new = 0 \<or> g = startHeartbeat d h \<and> new = 1"
  shows "(\<forall>g'. steps g g' \<longrightarrow> length (filter (\<lambda>b. \<not> waits b) (p_beats h)) + new \<le> length (p_beats g') \<and>
        length (p_beats g') \<le> length (p_beats h) + new) \<and>
    (\<exists>g'. steps g g' \<and> length (p_beats g') = length (filter (\<lambda>b. \<not> waits b) (p_beats h)) + new) \<and>
    (\<exists>g'. steps g g' \<and> (\<forall>g''. steps g' g'' \<longrightarrow> length (p_beats g'') = length (p_beats h) + new))"
proof -
  note L = stopped_loose [OF reached_inv [OF assms(2-4)]]
  have "stop_open g" using assms(7) L(1,3) by blast
  moreover have "length (loose_beats g) = length (filter (\<lambda>b. \<not> waits b) (p_beats h)) + new"
    using assms(7) L(2,4) by auto
  moreover have "length (p_beats g) = length (p_beats h) + new"
    using assms(7) by (auto simp: startHeartbeat_def Protocol_Close_def Let_def case_prod_beta split: option.splits)
  ultimately show ?thesis
    using heartbeat_runs [of g cx en ops] assms(5) unfolding steps_def by simp
qed

text \<open>A protocol that has logged on: its input was one logon response with an interval of 30 seconds.\<close>

definition logon_input :: "TCPConnection Protocol" where
  "logon_input = sample_protocol\<lparr>p_connection :=
     sample_conn [] (frame (proto_packet EMsg_ClientLogOnResponse (replicate 32 0) [30]))\<rparr>"

definition logged_protocol :: "TCPConnection Protocol" where
  "logged_protocol = snd (the (Run 2 1 sample_env tcp_ops Background logon_input))"

definition waiting_protocol :: "TCPConnection Protocol" where
  "waiting_protocol = logged_protocol\<lparr>p_beats := [Waiting (30 * Second) (p_stopHeartbeat logged_protocol)]\<rparr>"

lemma logged_protocol_run:
  "Run 2 1 sample_env tcp_ops Background logon_input \<noteq> None" "p_beats logged_protocol = [Starting (30 * Second)]"
  "p_stopHeartbeat logged_protocol = Some 0"
  unfolding logged_protocol_def by code_simp+

lemma waiting_reached: "(proto_step sample_env tcp_ops Background)\<^sup>*\<^sup>* logon_input waiting_protocol"
proof -
  obtain r where "Run 2 1 sample_env tcp_ops Background logon_input = Some (r, logged_protocol)"
    using logged_protocol_run(1) unfolding logged_protocol_def by (metis option.collapse prod.collapse)
  then have "proto_step sample_env tcp_ops Background logon_input logged_protocol" by (rule ps_run)
  moreover have "hb_step sample_env tcp_ops Background logged_protocol waiting_protocol"
    using hb_begin [of logged_protocol "[]" "30 * Second" "[]"] logged_protocol_run(2)
    by (simp add: waiting_protocol_def Second_def)
  ultimately show ?thesis by (meson ps_beat r_into_rtranclp rtranclp.rtrancl_into_rtrancl)
qed

theorem heartbeat_stop_witness:
  "p_beats waiting_protocol = [Waiting (30 * Second) (Some 0)] \<and>
   (\<exists>g. (hb_step sample_env tcp_ops Background)\<^sup>*\<^sup>* (snd (Protocol_Close tcp_ops waiting_protocol)) g \<and> p_beats g = []) \<and>
   (\<exists>g. (hb_step sample_env tcp_ops Background)\<^sup>*\<^sup>* (startHeartbeat Second waiting_protocol) g \<and> length (p_beats g) = 1) \<and>
   (\<exists>g. (hb_step sample_env tcp_ops Background)\<^sup>*\<^sup>* (startHeartbeat Second waiting_protocol) g \<and> length (p_beats g) = 2)"
proof -
  have b: "p_beats waiting_protocol = [Waiting (30 * Second) (Some 0)]"
    by (simp add: waiting_protocol_def logged_protocol_run(3))
  have n: "NewProtocol (p_random sample_protocol) (Some (p_connection logon_input)) \<lparr>chbuf = [], chcap = 128\<rparr> = Inr logon_input"
    by (simp add: NewProtocol_def logon_input_def sample_protocol_def)
  have x: "wf_chan \<lparr>chbuf = [], chcap = 128\<rparr>" "ctx_done_at Background = None"
    by (simp_all add: wf_chan_def Background_def)
  have k: "\<not> crashes (snd (Protocol_Close tcp_ops waiting_protocol))" "\<not> crashes (startHeartbeat Second waiting_protocol)"
    using b by (simp_all add: crashes_def Protocol_Close_def startHeartbeat_def Let_def case_prod_beta Second_def split: option.splits)
  have w: "length (filter (\<lambda>b. \<not> waits b) (p_beats waiting_protocol)) = 0" "length (p_beats waiting_protocol) = 1"
    using b by (simp_all add: waits_def)
  note S = heartbeat_stop [OF n x(1) waiting_reached x(2)]
  have "\<exists>g. (hb_step sample_env tcp_ops Background)\<^sup>*\<^sup>* (snd (Protocol_Close tcp_ops waiting_protocol)) g \<and> length (p_beats g) = 0 + 0"
    using S [OF k(1), of 0 0] unfolding w by blast
  moreover have "\<exists>g. (hb_step sample_env tcp_ops Background)\<^sup>*\<^sup>* (startHeartbeat Second waiting_protocol) g \<and> length (p_beats g) = 0 + 1"
      "\<exists>g. (hb_step sample_env tcp_ops Background)\<^sup>*\<^sup>* (startHeartbeat Second waiting_protocol) g \<and> length (p_beats g) = 1 + 1"
    using S [OF k(2), of 1 Second] unfolding w by blast+
  ultimately show ?thesis using b by (simp add: numeral_2_eq_2)
qed

end
