(* ===== verification/Session.thy ===== *)
theory Session
  imports Client_Laws
begin

text \<open>
  A whole session: the client's protocol, its connection and a server at the other end. First
  the keys: an abstract machine of drawing, offering and accepting session keys, which every
  step of a protocol on any connection that keeps the contract refines. Then the course of a
  session, from the server's encryption request to the event of a finished logon.
\<close>

section \<open>The abstract machine of keys\<close>

record session =
  s_pending :: bytes
  s_active :: bytes
  s_draws :: nat

text \<open>A draw may fail; a drawn key is offered; the one offered last becomes the active one.\<close>

inductive session_step :: "(nat \<Rightarrow> entropy \<times> entropy) \<Rightarrow> session \<Rightarrow> session \<Rightarrow> bool"
  for rnd :: "nat \<Rightarrow> entropy \<times> entropy" where
  s_fail: "session_step rnd s (s\<lparr>s_draws := Suc (s_draws s)\<rparr>)"
| s_offer: "rnd (s_draws s) = (Inr f, g) \<Longrightarrow>
    session_step rnd s (s\<lparr>s_draws := Suc (s_draws s), s_pending := map f [0..<32]\<rparr>)"
| s_accept: "s_pending s \<noteq> [] \<Longrightarrow> session_step rnd s (s\<lparr>s_active := s_pending s, s_pending := []\<rparr>)"

definition session_of :: "('c \<Rightarrow> bytes) \<Rightarrow> 'c Protocol \<Rightarrow> session" where
  "session_of key h = \<lparr>s_pending = p_sessionKey h, s_active = key (p_connection h), s_draws = p_drawn h\<rparr>"

text \<open>What the machine keeps: every key is one that was drawn.\<close>

definition drawn_key :: "(nat \<Rightarrow> entropy \<times> entropy) \<Rightarrow> nat \<Rightarrow> bytes \<Rightarrow> bool" where
  "drawn_key rnd n k \<longleftrightarrow> k = [] \<or> (\<exists>i < n. \<exists>f g. rnd i = (Inr f, g) \<and> k = map f [0..<32])"

lemma drawn_key_Suc: "drawn_key rnd n k \<Longrightarrow> drawn_key rnd (Suc n) k"
  by (auto simp: drawn_key_def intro: less_SucI)

lemma session_keys_drawn:
  assumes "(session_step rnd)\<^sup>*\<^sup>* s s'" "drawn_key rnd (s_draws s) (s_pending s)" "drawn_key rnd (s_draws s) (s_active s)"
  shows "drawn_key rnd (s_draws s') (s_pending s') \<and> drawn_key rnd (s_draws s') (s_active s')"
  using assms
proof (induction rule: rtranclp_induct)
  case (step t u)
  from step.hyps(2) step.IH [OF step.prems] show ?case
  proof cases
    case (s_offer f g)
    then have "drawn_key rnd (Suc (s_draws t)) (map f [0..<32])"
      unfolding drawn_key_def by blast
    with s_offer step.IH [OF step.prems] show ?thesis by (simp add: drawn_key_Suc del: upt_conv_Cons)
  qed (simp_all add: drawn_key_Suc, simp add: drawn_key_def)
qed simp

section \<open>The protocol refines it\<close>

definition session_refined :: "('c \<Rightarrow> bytes) \<Rightarrow> 'c Protocol \<Rightarrow> 'c Protocol \<Rightarrow> bool" where
  "session_refined key h h' \<longleftrightarrow>
     p_random h' = p_random h \<and> (session_step (p_random h))\<^sup>*\<^sup>* (session_of key h) (session_of key h')"

lemma session_refined_same:
  "p_random h' = p_random h \<Longrightarrow> session_of key h' = session_of key h \<Longrightarrow> session_refined key h h'"
  by (simp add: session_refined_def)

lemma session_refined_trans:
  "session_refined key h1 h2 \<Longrightarrow> session_refined key h2 h3 \<Longrightarrow> session_refined key h1 h3"
  unfolding session_refined_def by (metis rtranclp_trans)

lemma GenerateSessionKey_drawn:
  "GenerateSessionKey a b = Inr (k, e) \<Longrightarrow> \<exists>f. a = Inr f \<and> k = map f [0..<32]"
  by (auto simp: GenerateSessionKey_def rand_Read_def split: sum.splits simp del: upt_conv_Cons)

sublocale connection \<subseteq> keys: handler_refines ops "session_refined key"
proof unfold_locales
  fix h h2 h3 :: "'c Protocol" and k sealed_key
  show "session_refined key h h2 \<Longrightarrow> session_refined key h2 h3 \<Longrightarrow> session_refined key h h3"
    by (rule session_refined_trans)
  show "session_refined key h (h\<lparr>p_drawn := Suc (p_drawn h)\<rparr>)"
    using s_fail [of "p_random h" "session_of key h"]
    by (simp add: session_refined_def session_of_def)
  show "session_refined key h (h\<lparr>p_drawn := Suc (p_drawn h), p_sessionKey := k\<rparr>)"
    if "GenerateSessionKey (fst (p_random h (p_drawn h))) (snd (p_random h (p_drawn h))) = Inr (k, sealed_key)"
    using GenerateSessionKey_drawn [OF that] s_offer [of "p_random h" "session_of key h"]
    by (auto simp: session_refined_def session_of_def prod_eq_iff simp del: upt_conv_Cons)
  show "session_refined key h (h\<lparr>p_connection := cSetSessionKey ops (p_sessionKey h) (p_connection h), p_sessionKey := []\<rparr>)"
    using s_accept [of "session_of key h" "p_random h"]
    by (cases "p_sessionKey h = []") (auto simp: session_refined_def session_of_def set_key)
qed (auto intro!: session_refined_same
    simp: session_of_def offer_def emit_def startHeartbeat_def send_key read_key Let_def split: option.splits)

context connection
begin

lemma proto_step_keys: "proto_step en ops cx h h' \<Longrightarrow> session_refined key h h'"
proof (induction rule: proto_step.induct)
  case (ps_run n depth h r h')
  then show ?case using keys.Run_R by fastforce
next
  case (ps_send ctx hdr body h r h')
  then show ?case using keys.Send_R [of h en ctx hdr body] by simp
next
  case (ps_close h r h')
  then show ?case
    using close_key [of "p_connection h"]
    by (intro session_refined_same) (auto simp: Protocol_Close_def session_of_def Let_def split: option.splits prod.splits)
next
  case (ps_beat h h')
  then show ?case
  proof cases
    case (hb_beat xs d ys h1)
    then have "session_refined key h h1" using keys.heartbeat_send_R [of h en cx] by simp
    moreover have "session_refined key h1 h'" using hb_beat by (intro session_refined_same) (simp_all add: session_of_def)
    ultimately show ?thesis by (rule session_refined_trans)
  qed (auto intro!: session_refined_same simp: session_of_def)
next
  case (ps_consume h e es)
  then show ?case by (intro session_refined_same) (simp_all add: session_of_def)
qed

lemma proto_steps_keys: "(proto_step en ops cx)\<^sup>*\<^sup>* h h' \<Longrightarrow> session_refined key h h'"
  by (induction rule: rtranclp_induct)
    (auto intro: session_refined_same session_refined_trans proto_step_keys)

end

section \<open>The course of a session\<close>

text \<open>What the application is told: the events other than those of single messages.\<close>

definition announced :: "'c Protocol \<Rightarrow> Event list" where
  "announced h = filter (\<lambda>e. case e of EventMessageSent _ _ _ \<Rightarrow> False | EventMessageReceived _ _ \<Rightarrow> False | _ \<Rightarrow> True)
     (chbuf (p_events h))"

text \<open>One turn of the run loop on a frame at the front of the input.\<close>

lemma Run_frame:
  assumes "healthy (p_connection h)" "carries (t_key (p_connection h)) body m"
    "nc_in (t_conn (p_connection h)) = frame body @ rest"
  shows "\<exists>k. \<forall>h1. readMessage depth en tcp_ops cx m (h\<lparr>p_connection := (p_connection h)\<lparr>t_calls := k,
      t_conn := (t_conn (p_connection h))\<lparr>nc_in := rest\<rparr>\<rparr>\<rparr>) = Some (Return (), h1) \<longrightarrow>
    Run (Suc n) depth en tcp_ops cx h = Run n depth en tcp_ops cx h1"
proof -
  obtain k where "Read (Some cx) (p_connection h) =
      (Return (Some m), (p_connection h)\<lparr>t_calls := k, t_conn := (t_conn (p_connection h))\<lparr>nc_in := rest\<rparr>\<rparr>)"
    by (rule Read_carries [OF assms])
  then show ?thesis by (intro exI [of _ k]) simp
qed

lemma carries_plain: "length m \<le> max_packet \<Longrightarrow> carries [] m m"
  by (simp add: carries_def unwrap_def)

text \<open>The codec on the messages of a session: JSON, which only the events carry, does not fail, and
  a message is encoded within the size of a packet.\<close>

definition encodable :: "env \<Rightarrow> Header \<Rightarrow> message \<Rightarrow> bool" where
  "encodable en hdr m \<longleftrightarrow> (\<exists>hb b. pb_header en (the (h_Proto (fill_proto hdr))) = Inr hb \<and> pb_message en m = Inr b \<and>
     length hb + length b + 40 \<le> max_packet)"

definition events_total :: "env \<Rightarrow> bool" where
  "events_total en \<longleftrightarrow> json_total en \<and> (\<forall>m. \<exists>s. json_message en m = Inr s)"

text \<open>A connection with a working network and random source that is encrypted under a key.\<close>

definition secured :: "bytes \<Rightarrow> TCPConnection \<Rightarrow> bool" where
  "secured K c \<longleftrightarrow> healthy c \<and> armed c \<and> IsEncrypted c \<and> t_key c = K"

lemma secured_frame [simp]:
  "secured K (c\<lparr>t_draws := d, t_calls := k, t_conn := (t_conn c)\<lparr>nc_out := out\<rparr>\<rparr>) = secured K c"
  "secured K (c\<lparr>t_calls := k, t_conn := (t_conn c)\<lparr>nc_in := inp\<rparr>\<rparr>) = secured K c"
  "secured K (c\<lparr>t_conn := (t_conn c)\<lparr>nc_in := inp\<rparr>\<rparr>) = secured K c"
  by (simp_all add: secured_def armed_def IsEncrypted_def GetState_def healthy_def IsConnected_def)

lemma announced_push:
  assumes "p_events h' = chan_push e (p_events h)"
  shows "announced h' = announced h @ announced (h\<lparr>p_events := \<lparr>chbuf = [e], chcap = 0\<rparr>\<rparr>)"
  using assms by (simp add: announced_def chan_push_def)

lemma offer_pushed: "room (Suc k) h \<Longrightarrow> p_events (offer e h) = chan_push e (p_events h)"
  by (simp add: offer_def try_send_def room_def chan_full_def)

lemma Run_request:
  assumes "healthy (p_connection h)" "t_key (p_connection h) = []"
    "nc_in (t_conn (p_connection h)) = frame (request_packet t s nonce) @ rest"
    "length nonce = 16" "p_random h (p_drawn h) = (Inr f, Inr g)" "room (Suc k) h" "json_total en"
  obtains em h1 j dr m where "Run (Suc n) (Suc d) en tcp_ops cx h = Run n (Suc d) en tcp_ops cx h1"
    and "oaep_open em = Some (map f [0..<32])" and "p_sessionKey h1 = map f [0..<32]"
    and "p_connection h1 = (p_connection h)\<lparr>t_draws := dr, t_calls := m, t_conn := (t_conn (p_connection h))\<lparr>nc_in := rest,
      nc_out := nc_out (t_conn (p_connection h)) @ frame (response_packet t s (rsa_public steamPublicKey em) nonce)\<rparr>\<rparr>"
    and "p_events h1 = chan_push (EventMessageReceived EMsg_ChannelEncryptRequest j) (p_events h)" and "p_beats h1 = p_beats h"
proof -
  have c: "carries (t_key (p_connection h)) (request_packet t s nonce) (request_packet t s nonce)"
    using assms(2,4) by (auto simp: request_packet_def max_packet_def intro: carries_plain)
  obtain k1 where R: "\<forall>h1. readMessage (Suc d) en tcp_ops cx (request_packet t s nonce) (h\<lparr>p_connection := (p_connection h)\<lparr>t_calls := k1,
      t_conn := (t_conn (p_connection h))\<lparr>nc_in := rest\<rparr>\<rparr>\<rparr>) = Some (Return (), h1) \<longrightarrow>
    Run (Suc n) (Suc d) en tcp_ops cx h = Run n (Suc d) en tcp_ops cx h1"
    using Run_frame [OF assms(1) c assms(3), of "Suc d" en cx n] by (rule exE)
  define a where "a = h\<lparr>p_connection := (p_connection h)\<lparr>t_calls := k1, t_conn := (t_conn (p_connection h))\<lparr>nc_in := rest\<rparr>\<rparr>\<rparr>"
  have a: "healthy (p_connection a)" "t_key (p_connection a) = []" "p_random a (p_drawn a) = (Inr f, Inr g)" "room (Suc k) a"
    using assms by (simp_all add: a_def room_def)
  obtain em h1 j dr m where m1: "readMessage (Suc d) en tcp_ops cx (request_packet t s nonce) a = Some (Return (), h1)"
    and c1: "p_connection h1 = (p_connection a)\<lparr>t_draws := dr, t_calls := m,
         t_conn := (t_conn (p_connection a))\<lparr>nc_out := nc_out (t_conn (p_connection a)) @
           frame (response_packet t s (rsa_public steamPublicKey em) nonce)\<rparr>\<rparr>"
    and k: "p_sessionKey h1 = map f [0..<32]" and em: "oaep_open em = Some (map f [0..<32])"
    and e: "p_events h1 = chan_push (EventMessageReceived EMsg_ChannelEncryptRequest j) (p_events a)" "p_beats h1 = p_beats a"
    by (rule request_step [OF a(1,2) assms(4) a(3,4) assms(7)])
  have "Run (Suc n) (Suc d) en tcp_ops cx h = Run n (Suc d) en tcp_ops cx h1" using R m1 unfolding a_def by blast
  from this em k show ?thesis by (rule that) (use c1 e in \<open>simp_all add: a_def\<close>)
qed

lemma Run_result:
  assumes "healthy (p_connection h)" "t_key (p_connection h) = []" "t_state (p_connection h) = StateConnectedUnencrypted"
    "\<forall>i. \<not> isl (t_rand (p_connection h) i)" "length (p_sessionKey h) = 32"
    "nc_in (t_conn (p_connection h)) = frame (result_packet t s) @ rest" "room (Suc (Suc k)) h" "json_total en"
  obtains h1 j where "Run (Suc n) (Suc d) en tcp_ops cx h = Run n (Suc d) en tcp_ops cx h1"
    and "secured (p_sessionKey h) (p_connection h1)" and "nc_in (t_conn (p_connection h1)) = rest"
    and "nc_out (t_conn (p_connection h1)) = nc_out (t_conn (p_connection h))"
    and "p_events h1 = chan_push EventConnected (chan_push (EventMessageReceived EMsg_ChannelEncryptResult j) (p_events h))"
    and "p_beats h1 = p_beats h"
proof -
  have c: "carries (t_key (p_connection h)) (result_packet t s) (result_packet t s)"
    unfolding assms(2) by (rule carries_plain) (simp add: result_packet_def max_packet_def)
  obtain k1 where R: "\<forall>x. readMessage (Suc d) en tcp_ops cx (result_packet t s) (h\<lparr>p_connection := (p_connection h)\<lparr>t_calls := k1,
      t_conn := (t_conn (p_connection h))\<lparr>nc_in := rest\<rparr>\<rparr>\<rparr>) = Some (Return (), x) \<longrightarrow>
    Run (Suc n) (Suc d) en tcp_ops cx h = Run n (Suc d) en tcp_ops cx x"
    using Run_frame [OF assms(1) c assms(6), of "Suc d" en cx n] by (rule exE)
  define b where "b = h\<lparr>p_connection := (p_connection h)\<lparr>t_calls := k1, t_conn := (t_conn (p_connection h))\<lparr>nc_in := rest\<rparr>\<rparr>\<rparr>"
  have b: "room (Suc (Suc k)) b" using assms(7) by (simp add: b_def room_def)
  obtain h1 j where m: "readMessage (Suc d) en tcp_ops cx (result_packet t s) b = Some (Return (), h1)"
    and h1: "p_connection h1 = SetSessionKey (p_sessionKey b) (p_connection b)"
    and e: "p_events h1 = chan_push EventConnected (chan_push (EventMessageReceived EMsg_ChannelEncryptResult j) (p_events b))"
      "p_beats h1 = p_beats b"
    by (rule result_step [OF b assms(8)])
  have "p_sessionKey h \<noteq> []" using assms(5) by auto
  then have conn: "secured (p_sessionKey h) (p_connection h1)" "nc_in (t_conn (p_connection h1)) = rest"
      "nc_out (t_conn (p_connection h1)) = nc_out (t_conn (p_connection h))"
    using assms(1,3,4,5) unfolding h1
    by (simp_all add: b_def secured_def SetSessionKey_def healthy_def armed_def IsConnected_def IsEncrypted_def
        GetState_def state_defs Let_def)
  have "Run (Suc n) (Suc d) en tcp_ops cx h = Run n (Suc d) en tcp_ops cx h1" using R m unfolding b_def by blast
  from this conn show ?thesis by (rule that) (use e in \<open>simp_all add: b_def\<close>)
qed

lemma handshake_phase:
  assumes "healthy (p_connection h)" "t_key (p_connection h) = []" "t_state (p_connection h) = StateConnectedUnencrypted"
    "\<forall>i. \<not> isl (t_rand (p_connection h) i)"
    "nc_in (t_conn (p_connection h)) = frame (request_packet t s nonce) @ frame (result_packet t' s') @ rest"
    "length nonce = 16" "p_random h (p_drawn h) = (Inr f, Inr g)" "room (3 + k) h" "json_total en"
  obtains em h2 where "Run (Suc (Suc n)) (Suc d) en tcp_ops cx h = Run n (Suc d) en tcp_ops cx h2"
    and "oaep_open em = Some (map f [0..<32])" and "secured (map f [0..<32]) (p_connection h2)"
    and "nc_in (t_conn (p_connection h2)) = rest"
    and "nc_out (t_conn (p_connection h2)) = nc_out (t_conn (p_connection h)) @
      frame (response_packet t s (rsa_public steamPublicKey em) nonce)"
    and "announced h2 = announced h @ [EventConnected]" and "room k h2" and "p_beats h2 = p_beats h"
proof -
  have r: "room (Suc (2 + k)) h" using assms(8) by (simp add: room_def)
  obtain em h1 j dr m where run1: "Run (Suc (Suc n)) (Suc d) en tcp_ops cx h = Run (Suc n) (Suc d) en tcp_ops cx h1"
    and em: "oaep_open em = Some (map f [0..<32])" and k: "p_sessionKey h1 = map f [0..<32]"
    and c1: "p_connection h1 = (p_connection h)\<lparr>t_draws := dr, t_calls := m, t_conn := (t_conn (p_connection h))\<lparr>
      nc_in := frame (result_packet t' s') @ rest,
      nc_out := nc_out (t_conn (p_connection h)) @ frame (response_packet t s (rsa_public steamPublicKey em) nonce)\<rparr>\<rparr>"
    and e1: "p_events h1 = chan_push (EventMessageReceived EMsg_ChannelEncryptRequest j) (p_events h)" "p_beats h1 = p_beats h"
    by (rule Run_request [OF assms(1,2,5,6,7) r assms(9)])
  have h1: "healthy (p_connection h1)" "t_key (p_connection h1) = []" "t_state (p_connection h1) = StateConnectedUnencrypted"
      "\<forall>i. \<not> isl (t_rand (p_connection h1) i)" "length (p_sessionKey h1) = 32"
      "nc_in (t_conn (p_connection h1)) = frame (result_packet t' s') @ rest" "room (Suc (Suc k)) h1"
    using assms(1-4,8) k e1(1) by (simp_all add: c1 healthy_def IsConnected_def GetState_def room_def chan_push_def)
  obtain h2 j' where run2: "Run (Suc n) (Suc d) en tcp_ops cx h1 = Run n (Suc d) en tcp_ops cx h2"
    and conn: "secured (p_sessionKey h1) (p_connection h2)" "nc_in (t_conn (p_connection h2)) = rest"
      "nc_out (t_conn (p_connection h2)) = nc_out (t_conn (p_connection h1))"
    and e2: "p_events h2 = chan_push EventConnected (chan_push (EventMessageReceived EMsg_ChannelEncryptResult j') (p_events h1))"
      "p_beats h2 = p_beats h1"
    by (rule Run_result [OF h1 assms(9)])
  have out: "nc_out (t_conn (p_connection h2)) = nc_out (t_conn (p_connection h)) @
      frame (response_packet t s (rsa_public steamPublicKey em) nonce)" by (simp add: conn(3) c1)
  have "announced h2 = announced h @ [EventConnected]" "room k h2" "p_beats h2 = p_beats h"
    using e1 e2 h1(7) by (simp_all add: announced_def chan_push_def room_def)
  from run1 [unfolded run2] em conn(1) [unfolded k] conn(2) out this show ?thesis by (rule that)
qed

lemma announced_message [simp]:
  "announced (offer (EventMessageSent e x y) h) = announced h" "announced (offer (EventMessageReceived e x) h) = announced h"
  by (simp_all add: announced_def offer_def try_send_def chan_push_def)

text \<open>Sending on a secured connection: one more packet, and an event that only reports it.\<close>

lemma secured_send:
  assumes "secured K (p_connection g)" "events_total en" "encodable en w m"
    "h_Proto w \<noteq> None" "h_EMsg w \<noteq> EMsg_ChannelEncryptResponse"
  obtains hb b body h where "Protocol_Send en tcp_ops (Some cx) (Some w) (Some m) g = (Return (), h)"
    and "pb_header en (the (h_Proto (fill_proto w))) = Inr hb" and "pb_message en m = Inr b"
    and "carries K body (proto_packet (h_EMsg w) hb b)" and "secured K (p_connection h)"
    and "nc_in (t_conn (p_connection h)) = nc_in (t_conn (p_connection g))"
    and "nc_out (t_conn (p_connection h)) = nc_out (t_conn (p_connection g)) @ frame body"
    and "announced h = announced g" and "p_beats h = p_beats g" and "\<And>k. room (Suc k) g \<Longrightarrow> room k h"
proof -
  obtain j j' where j: "json_header en w = Inr j" "json_message en m = Inr j'"
    using assms(2) unfolding events_total_def json_total_def by blast
  obtain hb b where m: "pb_header en (the (h_Proto (fill_proto w))) = Inr hb" "pb_message en m = Inr b"
      "length hb + length b + 40 \<le> max_packet"
    using assms(3) unfolding encodable_def by blast
  have g: "healthy (p_connection g)" "armed (p_connection g)" "t_key (p_connection g) = K"
    using assms(1) by (simp_all add: secured_def)
  obtain body k d where s: "Protocol_Send en tcp_ops (Some cx) (Some w) (Some m) g =
      (Return (), (offer (EventMessageSent (h_EMsg w) j j') g)\<lparr>p_connection := (p_connection g)\<lparr>t_draws := d, t_calls := k,
         t_conn := (t_conn (p_connection g))\<lparr>nc_out := nc_out (t_conn (p_connection g)) @ frame body\<rparr>\<rparr>\<rparr>)" (is "_ = (_, ?h)")
    and b: "carries (t_key (p_connection g)) body (proto_packet (h_EMsg w) hb b)"
    by (rule Protocol_Send_healthy [OF g(1,2) assms(4,5) j m])
  from s m(1,2) b [unfolded g(3)] show ?thesis
  proof (rule that)
    show "secured K (p_connection ?h)" using assms(1) by simp
    show "announced ?h = announced g"
      using announced_message(1) [of "h_EMsg w" j j' g] by (simp add: announced_def)
    show "room k ?h" if "room (Suc k) g" for k using offer_room(1) [OF that] by (simp add: room_def)
  qed (simp_all add: offer_def)
qed

lemma logon_phase:
  assumes "c_authIdentity c = Some i" "secured K (p_connection h)" "events_total en"
    "encodable en (logon_header i) (logon_message i)" "room (Suc k) h"
  obtains hb b body h3 where "Logon en cx (c\<lparr>c_protocol := Some h\<rparr>) = (Return (), c\<lparr>c_protocol := Some h3\<rparr>)"
    and "pb_header en (logon_proto i) = Inr hb" and "pb_message en (logon_message i) = Inr b"
    and "carries K body (proto_packet EMsg_ClientLogon hb b)" and "secured K (p_connection h3)"
    and "nc_in (t_conn (p_connection h3)) = nc_in (t_conn (p_connection h))"
    and "nc_out (t_conn (p_connection h3)) = nc_out (t_conn (p_connection h)) @ frame body"
    and "announced h3 = announced h" and "room k h3" and "p_beats h3 = p_beats h"
proof -
  have w: "h_EMsg (logon_header i) = EMsg_ClientLogon" "h_Proto (logon_header i) \<noteq> None"
      "h_EMsg (logon_header i) \<noteq> EMsg_ChannelEncryptResponse"
    by (simp_all add: logon_header_def new_Header_def emsg_defs)
  show ?thesis
  proof (rule secured_send [OF assms(2-4) w(2,3), of cx])
    fix hb b body h3
    assume s: "Protocol_Send en tcp_ops (Some cx) (Some (logon_header i)) (Some (logon_message i)) h = (Return (), h3)"
      and p: "pb_header en (the (h_Proto (fill_proto (logon_header i)))) = Inr hb" "pb_message en (logon_message i) = Inr b"
        "carries K body (proto_packet (h_EMsg (logon_header i)) hb b)"
      and c: "secured K (p_connection h3)" "nc_in (t_conn (p_connection h3)) = nc_in (t_conn (p_connection h))"
        "nc_out (t_conn (p_connection h3)) = nc_out (t_conn (p_connection h)) @ frame body"
        "announced h3 = announced h" "p_beats h3 = p_beats h" "\<And>k. room (Suc k) h \<Longrightarrow> room k h3"
    have "Logon en cx (c\<lparr>c_protocol := Some h\<rparr>) = (Return (), c\<lparr>c_protocol := Some h3\<rparr>)"
      using s assms(1) by (simp add: Logon_def Client_Identity_def)
    from this p [unfolded logon_header_filled w(1)] c(1-4) c(6) [OF assms(5)] c(5) show ?thesis by (rule that)
  qed
qed

definition items_header :: "uint64 \<Rightarrow> 32 word \<Rightarrow> Header" where
  "items_header sid ses = (new_Header EMsg_ClientRequestItemAnnouncements)\<lparr>h_Proto := Some (new_ProtoBufHeader
     \<lparr>ph_Steamid := Some sid, ph_ClientSessionid := Some ses\<rparr>)\<rparr>"

lemma logged_on_items:
  "logged_on_header (logged_on hdr secs h) = items_header (GetSteamid (h_Proto hdr)) (GetClientSessionid (h_Proto hdr))"
  by (simp add: logged_on_header_def items_header_def Uint64_def)

lemma response_step:
  assumes "secured K (p_connection h)" "events_total en" "room (Suc (Suc k)) h"
    "pb_to_header en hb = Inr ph" "length hb < 2 ^ 32" "hb @ b \<noteq> []"
    "pb_to_logon_response en b = Inr resp" "GetEresult resp = 1" "lr_HeartbeatSeconds resp = Some secs"
    "encodable en (items_header (GetSteamid (Some ph)) (GetClientSessionid (Some ph))) ClientRequestItemAnnouncements"
  obtains h4 hb' b' body where "readMessage (Suc n) en tcp_ops cx (proto_packet EMsg_ClientLogOnResponse hb b) h = Some (Return (), h4)"
    and "secured K (p_connection h4)" and "nc_in (t_conn (p_connection h4)) = nc_in (t_conn (p_connection h))"
    and "nc_out (t_conn (p_connection h4)) = nc_out (t_conn (p_connection h)) @ frame body"
    and "carries K body (proto_packet EMsg_ClientRequestItemAnnouncements hb' b')"
    and "announced h4 = announced h @ [EventLoggedOn (GetSteamid (Some ph)) (GetClientSessionid (Some ph))]"
    and "p_beats h4 = p_beats h @ [Starting (sint secs * Second)]"
proof -
  let ?hdr = "received_header EMsg_ClientLogOnResponse ph"
  let ?w = "items_header (GetSteamid (Some ph)) (GetClientSessionid (Some ph))"
  obtain j where j: "json_header en ?hdr = Inr j"
    using assms(2) unfolding events_total_def json_total_def by blast
  define g0 where "g0 = offer (EventMessageReceived EMsg_ClientLogOnResponse j) h"
  have g0: "room 1 g0" "announced g0 = announced h" "p_connection g0 = p_connection h" "p_beats g0 = p_beats h"
    using offer_room(1) [OF assms(3), of "EventMessageReceived EMsg_ClientLogOnResponse j"]
    by (simp_all add: g0_def room_def offer_room) (simp add: offer_def)
  define g1 where "g1 = logged_on ?hdr secs g0"
  have p: "h_Proto ?hdr = Some ph" "h_EMsg ?hdr = EMsg_ClientLogOnResponse" by (simp_all add: received_header_def)
  have g1: "p_connection g1 = p_connection h" "logged_on_header g1 = ?w"
      "announced g1 = announced h @ [EventLoggedOn (GetSteamid (Some ph)) (GetClientSessionid (Some ph))]"
      "p_beats g1 = p_beats h @ [Starting (sint secs * Second)]"
    using g0 p by (simp_all add: g1_def logged_on_items) (simp add: announced_def chan_push_def)
  have w: "h_Proto ?w \<noteq> None" "h_EMsg ?w = EMsg_ClientRequestItemAnnouncements" "h_EMsg ?w \<noteq> EMsg_ChannelEncryptResponse"
    by (simp_all add: items_header_def new_Header_def emsg_defs)
  obtain hb' b' body h4 where s: "Protocol_Send en tcp_ops (Some cx) (Some ?w) (Some ClientRequestItemAnnouncements) g1 = (Return (), h4)"
    and c: "carries K body (proto_packet (h_EMsg ?w) hb' b')" "secured K (p_connection h4)"
      "nc_in (t_conn (p_connection h4)) = nc_in (t_conn (p_connection g1))"
      "nc_out (t_conn (p_connection h4)) = nc_out (t_conn (p_connection g1)) @ frame body"
      "announced h4 = announced g1" "p_beats h4 = p_beats g1"
    by (rule secured_send [OF assms(1) [folded g1(1)] assms(2,10) w(1,3)])
  have "handleMessage en tcp_ops cx rd ?hdr b h = Some (handleClientLogOnResponse en tcp_ops cx ?hdr b g0)" for rd
    using j p(2) by (simp add: handleMessage_def g0_def) (simp add: emsg_defs)
  also have "handleClientLogOnResponse en tcp_ops cx ?hdr b g0 = (Return (), h4)"
    using logon_accepted [OF assms(7,8,9) g0(1), of tcp_ops cx ?hdr] s g1(2) by (simp add: g1_def [symmetric])
  finally have hm: "handleMessage en tcp_ops cx rd ?hdr b h = Some (Return (), h4)" for rd .
  have z: "EMsg_ClientLogOnResponse AND PROTO_MASK = 0" by (simp add: emsg_defs PROTO_MASK_def)
  have "readMessage (Suc n) en tcp_ops cx (proto_packet EMsg_ClientLogOnResponse hb b) h = Some (Return (), h4)"
    unfolding proto_packet_def readMessage_proto [OF z assms(4,5,6)] hm by simp
  from this c(2) c(3,4) [unfolded g1(1)] c(1) [unfolded w(2)] c(5) [unfolded g1(3)] c(6) [unfolded g1(4)]
  show ?thesis by (rule that)
qed

definition arrives :: "bytes \<Rightarrow> TCPConnection Protocol \<Rightarrow> TCPConnection Protocol" where
  "arrives bs h = h\<lparr>p_connection := (p_connection h)\<lparr>t_conn :=
     (t_conn (p_connection h))\<lparr>nc_in := nc_in (t_conn (p_connection h)) @ bs\<rparr>\<rparr>\<rparr>"

lemma response_phase:
  assumes "secured K (p_connection h)" "nc_in (t_conn (p_connection h)) = []" "events_total en" "room (Suc (Suc k)) h"
    "pb_to_header en hb = Inr ph" "length hb < 2 ^ 32" "hb @ b \<noteq> []"
    "pb_to_logon_response en b = Inr resp" "GetEresult resp = 1" "lr_HeartbeatSeconds resp = Some secs"
    "encodable en (items_header (GetSteamid (Some ph)) (GetClientSessionid (Some ph))) ClientRequestItemAnnouncements"
    "carries K body (proto_packet EMsg_ClientLogOnResponse hb b)"
  shows "\<exists>h4 stream hb' b'. Run (Suc n) (Suc d) en tcp_ops cx (arrives (frame body) h) = Run n (Suc d) en tcp_ops cx h4 \<and>
    secured K (p_connection h4) \<and> nc_out (t_conn (p_connection h4)) = nc_out (t_conn (p_connection h)) @ stream \<and>
    delivers K stream (proto_packet EMsg_ClientRequestItemAnnouncements hb' b') \<and>
    announced h4 = announced h @ [EventLoggedOn (GetSteamid (Some ph)) (GetClientSessionid (Some ph))] \<and>
    p_beats h4 = p_beats h @ [Starting (sint secs * Second)]"
proof -
  let ?a = "arrives (frame body) h"
  have a: "healthy (p_connection ?a)" "carries (t_key (p_connection ?a)) body (proto_packet EMsg_ClientLogOnResponse hb b)"
      "nc_in (t_conn (p_connection ?a)) = frame body @ []"
    using assms(1,2,12) by (simp_all add: arrives_def secured_def)
  obtain k1 where R: "\<forall>x. readMessage (Suc d) en tcp_ops cx (proto_packet EMsg_ClientLogOnResponse hb b)
      (?a\<lparr>p_connection := (p_connection ?a)\<lparr>t_calls := k1, t_conn := (t_conn (p_connection ?a))\<lparr>nc_in := []\<rparr>\<rparr>\<rparr>) = Some (Return (), x) \<longrightarrow>
    Run (Suc n) (Suc d) en tcp_ops cx ?a = Run n (Suc d) en tcp_ops cx x"
    using Run_frame [OF a, of "Suc d" en cx n] by (rule exE)
  define g where "g = ?a\<lparr>p_connection := (p_connection ?a)\<lparr>t_calls := k1, t_conn := (t_conn (p_connection ?a))\<lparr>nc_in := []\<rparr>\<rparr>\<rparr>"
  have g: "secured K (p_connection g)" "room (Suc (Suc k)) g" "announced g = announced h" "p_beats g = p_beats h"
      "nc_out (t_conn (p_connection g)) = nc_out (t_conn (p_connection h))"
    using assms(1,4) by (simp_all add: g_def arrives_def) (simp add: announced_def)
  obtain h4 hb' b' body' where m: "readMessage (Suc d) en tcp_ops cx (proto_packet EMsg_ClientLogOnResponse hb b) g = Some (Return (), h4)"
    and h4: "secured K (p_connection h4)" "nc_in (t_conn (p_connection h4)) = nc_in (t_conn (p_connection g))"
      "nc_out (t_conn (p_connection h4)) = nc_out (t_conn (p_connection g)) @ frame body'"
      "carries K body' (proto_packet EMsg_ClientRequestItemAnnouncements hb' b')"
      "announced h4 = announced g @ [EventLoggedOn (GetSteamid (Some ph)) (GetClientSessionid (Some ph))]"
      "p_beats h4 = p_beats g @ [Starting (sint secs * Second)]"
    by (rule response_step [OF g(1) assms(3) g(2) assms(5-11)])
  have "Run (Suc n) (Suc d) en tcp_ops cx ?a = Run n (Suc d) en tcp_ops cx h4" using R m unfolding g_def by blast
  then show ?thesis using h4 g carries_delivers by metis
qed

lemma served_phase:
  assumes "secured K (p_connection h)" "nc_in (t_conn (p_connection h)) = []" "events_total en" "room (Suc (Suc k)) h"
    "pb_to_header en hb = Inr ph" "hb @ b \<noteq> []" "sendable (proto_packet EMsg_ClientLogOnResponse hb b)"
    "pb_to_logon_response en b = Inr resp" "GetEresult resp = 1" "lr_HeartbeatSeconds resp = Some secs"
    "encodable en (items_header (GetSteamid (Some ph)) (GetClientSessionid (Some ph))) ClientRequestItemAnnouncements"
    "healthy srv" "armed srv" "t_key srv = K"
  shows "\<exists>srv' stream h4 hb2 b2 stream2.
    Send (Some cx) (proto_packet EMsg_ClientLogOnResponse hb b) srv = (Return (), srv') \<and>
    nc_out (t_conn srv') = nc_out (t_conn srv) @ stream \<and>
    Run (Suc n) (Suc d) en tcp_ops cx (arrives stream h) = Run n (Suc d) en tcp_ops cx h4 \<and>
    IsEncrypted (p_connection h4) \<and> GetSessionKey (p_connection h4) = K \<and>
    announced h4 = announced h @ [EventLoggedOn (GetSteamid (Some ph)) (GetClientSessionid (Some ph))] \<and>
    p_beats h4 = p_beats h @ [Starting (sint secs * Second)] \<and>
    nc_out (t_conn (p_connection h4)) = nc_out (t_conn (p_connection h)) @ stream2 \<and>
    delivers K stream2 (proto_packet EMsg_ClientRequestItemAnnouncements hb2 b2)"
proof -
  have l: "length hb < 2 ^ 32" using assms(7) by (simp add: sendable_def proto_packet_def max_packet_def)
  obtain body k' d' where s: "Send (Some cx) (proto_packet EMsg_ClientLogOnResponse hb b) srv =
      (Return (), srv\<lparr>t_draws := d', t_calls := k',
        t_conn := (t_conn srv)\<lparr>nc_out := nc_out (t_conn srv) @ frame body\<rparr>\<rparr>)" (is "_ = (_, ?srv)")
    and c: "carries K body (proto_packet EMsg_ClientLogOnResponse hb b)"
    by (rule Send_carries [OF assms(12,13,7), of cx]) (use assms(14) in simp)
  from response_phase [OF assms(1-5) l assms(6,8-11) c, of n d cx]
  obtain h4 stream2 hb2 b2 where "Run (Suc n) (Suc d) en tcp_ops cx (arrives (frame body) h) = Run n (Suc d) en tcp_ops cx h4"
    and "secured K (p_connection h4)" "nc_out (t_conn (p_connection h4)) = nc_out (t_conn (p_connection h)) @ stream2"
      "delivers K stream2 (proto_packet EMsg_ClientRequestItemAnnouncements hb2 b2)"
      "announced h4 = announced h @ [EventLoggedOn (GetSteamid (Some ph)) (GetClientSessionid (Some ph))]"
      "p_beats h4 = p_beats h @ [Starting (sint secs * Second)]" by blast
  with s show ?thesis
    by (intro exI [of _ ?srv] exI [of _ "frame body"] exI [of _ h4] exI [of _ hb2] exI [of _ b2] exI [of _ stream2])
      (simp add: secured_def GetSessionKey_def del: Run.simps)
qed

text \<open>At the end of its input the run loop ends, with the keys as they are.\<close>

lemma Run_empty:
  assumes "nc_in (t_conn (p_connection h)) = []"
  shows "\<exists>r c. Run (Suc n) depth en tcp_ops cx h = Some (r, h\<lparr>p_connection := c\<rparr>) \<and> t_key c = t_key (p_connection h)"
proof -
  obtain r c where r: "Read (Some cx) (p_connection h) = (r, c)" by force
  have "r \<noteq> Return (Some p)" for p
  proof
    assume "r = Return (Some p)"
    with r obtain body where "nc_in (t_conn (p_connection h)) = frame body @ nc_in (t_conn c)" using Read_SomeE by metis
    with assms show False by (simp add: frame_def le_bytes_nonempty)
  qed
  moreover have "t_key c = t_key (p_connection h)" using Read_key [of "Some cx" "p_connection h"] r by simp
  ultimately show ?thesis using r by (cases r) (auto split: option.splits)
qed

text \<open>The concrete protocol with packets waiting, and the end of its input.\<close>

definition arriving :: "bytes list \<Rightarrow> TCPConnection Protocol" where
  "arriving ms = sample_protocol\<lparr>p_connection := sample_conn [] (concat (map frame ms))\<rparr>"

lemma sample_events_total: "events_total sample_env"
  by (simp add: events_total_def sample_env_laws) (simp add: sample_env_def)

lemma sample_encodable: "ph_others (the (h_Proto (fill_proto hdr))) = [] \<Longrightarrow> encodable sample_env hdr m"
  by (simp add: encodable_def sample_env_def max_packet_def)


section \<open>Properties\<close>

text \<open>Property C2: session keys are this side's own. Every state a protocol on a TCP connection
  reaches, by running, sending, closing, heartbeats and consumed events in any order, is one
  its machine of keys reaches; so a key in use, and one on offer, is 32 bytes of this side's
  random source, never anything the peer has sent.\<close>

theorem session_keys:
  assumes "NewProtocol rnd (Some c) ev = Inr h0" and "t_key c = []" and "(proto_step en tcp_ops cx)\<^sup>*\<^sup>* h0 h"
  shows "(session_step rnd)\<^sup>*\<^sup>* (session_of t_key h0) (session_of t_key h) \<and>
    (\<forall>k \<in> {GetSessionKey (p_connection h), p_sessionKey h}. k \<noteq> [] \<longrightarrow>
       (\<exists>i < p_drawn h. \<exists>f g. rnd i = (Inr f, g) \<and> k = map f [0..<32]))"
proof -
  have h0: "p_random h0 = rnd" "session_of t_key h0 = \<lparr>s_pending = [], s_active = [], s_draws = 0\<rparr>"
    using assms(1,2) by (auto simp: NewProtocol_def session_of_def)
  have 1: "(session_step rnd)\<^sup>*\<^sup>* (session_of t_key h0) (session_of t_key h)"
    using tcp.proto_steps_keys [OF assms(3)] h0(1) by (simp add: session_refined_def)
  show ?thesis
    using 1 session_keys_drawn [OF 1] h0(2)
    by (auto simp: drawn_key_def session_of_def GetSessionKey_def simp del: upt_conv_Cons)
qed

theorem session_keys_witness:
  "\<exists>r h i f g. Run (Suc (Suc 1)) (Suc 0) sample_env tcp_ops Background
      (arriving [request_packet 5 6 (replicate 16 1), result_packet 5 6]) = Some (r, h) \<and>
    GetSessionKey (p_connection h) = replicate 32 7 \<and> i < p_drawn h \<and>
    p_random sample_protocol i = (Inr f, g) \<and> replicate 32 7 = map f [0..<32]"
proof -
  let ?h = "arriving [request_packet 5 6 (replicate 16 1), result_packet 5 6]"
  have n: "NewProtocol (p_random sample_protocol) (Some (p_connection ?h)) \<lparr>chbuf = [], chcap = 128\<rparr> = Inr ?h"
    by (simp add: NewProtocol_def arriving_def sample_protocol_def)
  have K: "map (\<lambda>_. 7 :: byte) [0..<32] = replicate 32 7" by (simp add: map_replicate_const)
  have i: "nc_in (t_conn (p_connection ?h)) = frame (request_packet 5 6 (replicate 16 1)) @ frame (result_packet 5 6) @ []"
    and h: "healthy (p_connection ?h)" "t_key (p_connection ?h) = []" "t_state (p_connection ?h) = StateConnectedUnencrypted"
      "\<forall>i. \<not> isl (t_rand (p_connection ?h) i)" "p_random ?h (p_drawn ?h) = (Inr (\<lambda>_. 7), Inr (\<lambda>_. 9))" "room (3 + 0) ?h"
    by (simp_all add: arriving_def sample_protocol_def room_def) (simp_all add: sample_conn_def)
  obtain em h2 where run: "Run (Suc (Suc 1)) (Suc 0) sample_env tcp_ops Background ?h = Run 1 (Suc 0) sample_env tcp_ops Background h2"
    and s: "secured (map (\<lambda>_. 7) [0..<32]) (p_connection h2)" and i2: "nc_in (t_conn (p_connection h2)) = []"
    by (rule handshake_phase [OF h(1-4) i _ h(5,6) sample_env_laws(2), of 1 0 Background]) simp_all
  obtain r c where last: "Run 1 (Suc 0) sample_env tcp_ops Background h2 = Some (r, h2\<lparr>p_connection := c\<rparr>)"
    and c: "t_key c = t_key (p_connection h2)"
    using Run_empty [OF i2, of 0 "Suc 0" sample_env Background] by auto
  from run last have R: "Run (Suc (Suc 1)) (Suc 0) sample_env tcp_ops Background ?h = Some (r, h2\<lparr>p_connection := c\<rparr>)" by (rule trans)
  have k: "GetSessionKey (p_connection (h2\<lparr>p_connection := c\<rparr>)) = replicate 32 7" "replicate 32 (7 :: byte) \<noteq> []"
    using s c by (simp_all add: secured_def GetSessionKey_def K)
  have "(proto_step sample_env tcp_ops Background)\<^sup>*\<^sup>* ?h (h2\<lparr>p_connection := c\<rparr>)"
    using R by (intro r_into_rtranclp ps_run)
  from session_keys [OF n h(2) this] k
  obtain i f g where "i < p_drawn (h2\<lparr>p_connection := c\<rparr>)" "p_random sample_protocol i = (Inr f, g)" "replicate 32 7 = map f [0..<32]"
    by (metis insertI1)
  with R k(1) show ?thesis by (intro exI conjI)
qed

text \<open>Property C1: a session comes about. With a working network, random source and codec, room for
  the events and an identity, the run loop takes the server's encryption request and its
  positive result; what it has sent by then is the response, with a key the server opens and
  the request's nonce. \<^verbatim>\<open>Logon\<close> then sends one packet, which a peer with that key reads as the
  logon message of the identity. And once a server with that key has sent a positive logon
  response, the loop goes on encrypted, the application has been told that it is connected and
  that it is logged on with the account and session of the response, in this order, the
  heartbeat is started with the interval of the response, and one more packet asks for the
  item announcements.\<close>

theorem session_established:
  assumes "c_authIdentity c = Some i"
    and "healthy (p_connection h)" and "t_key (p_connection h) = []"
    and "t_state (p_connection h) = StateConnectedUnencrypted" and "\<forall>i. \<not> isl (t_rand (p_connection h) i)"
    and "nc_in (t_conn (p_connection h)) = frame (request_packet t s nonce) @ frame (result_packet t' s')"
    and "length nonce = 16" and "p_random h (p_drawn h) = (Inr f, Inr g)" and "room 6 h"
    and "events_total en" and "encodable en (logon_header i) (logon_message i)"
    and "encodable en (items_header (GetSteamid (Some ph)) (GetClientSessionid (Some ph))) ClientRequestItemAnnouncements"
    and "pb_to_header en hb = Inr ph" and "hb @ b \<noteq> []" and "sendable (proto_packet EMsg_ClientLogOnResponse hb b)"
    and "pb_to_logon_response en b = Inr resp" and "GetEresult resp = 1" and "lr_HeartbeatSeconds resp = Some secs"
  shows "\<exists>em h2 h3 hb1 b1 stream1.
    Run (Suc (Suc n)) (Suc d) en tcp_ops cx h = Run n (Suc d) en tcp_ops cx h2 \<and>
    nc_out (t_conn (p_connection h2)) = nc_out (t_conn (p_connection h)) @
      frame (response_packet t s (rsa_public steamPublicKey em) nonce) \<and> oaep_open em = Some (map f [0..<32]) \<and>
    Logon en cx (c\<lparr>c_protocol := Some h2\<rparr>) = (Return (), c\<lparr>c_protocol := Some h3\<rparr>) \<and>
    pb_header en (logon_proto i) = Inr hb1 \<and> pb_message en (logon_message i) = Inr b1 \<and>
    nc_out (t_conn (p_connection h3)) = nc_out (t_conn (p_connection h2)) @ stream1 \<and>
    delivers (map f [0..<32]) stream1 (proto_packet EMsg_ClientLogon hb1 b1) \<and>
    (\<forall>srv. healthy srv \<and> armed srv \<and> t_key srv = map f [0..<32] \<longrightarrow>
       (\<exists>srv' stream h4 hb2 b2 stream2.
          Send (Some cx) (proto_packet EMsg_ClientLogOnResponse hb b) srv = (Return (), srv') \<and>
          nc_out (t_conn srv') = nc_out (t_conn srv) @ stream \<and>
          Run (Suc n) (Suc d) en tcp_ops cx (arrives stream h3) = Run n (Suc d) en tcp_ops cx h4 \<and>
          IsEncrypted (p_connection h4) \<and> GetSessionKey (p_connection h4) = map f [0..<32] \<and>
          announced h4 = announced h @ [EventConnected, EventLoggedOn (GetSteamid (Some ph)) (GetClientSessionid (Some ph))] \<and>
          p_beats h4 = p_beats h @ [Starting (sint secs * Second)] \<and>
          nc_out (t_conn (p_connection h4)) = nc_out (t_conn (p_connection h3)) @ stream2 \<and>
          delivers (map f [0..<32]) stream2 (proto_packet EMsg_ClientRequestItemAnnouncements hb2 b2)))"
proof -
  let ?K = "map f [0..<32]"
  have inp: "nc_in (t_conn (p_connection h)) = frame (request_packet t s nonce) @ frame (result_packet t' s') @ []"
    and r6: "room (3 + 3) h" and jt: "json_total en"
    using assms(6,9,10) by (simp_all add: events_total_def)
  obtain em h2 where run: "Run (Suc (Suc n)) (Suc d) en tcp_ops cx h = Run n (Suc d) en tcp_ops cx h2"
    and em: "oaep_open em = Some ?K" and h2: "secured ?K (p_connection h2)" "nc_in (t_conn (p_connection h2)) = []"
    and out2: "nc_out (t_conn (p_connection h2)) = nc_out (t_conn (p_connection h)) @
      frame (response_packet t s (rsa_public steamPublicKey em) nonce)"
    and ev2: "announced h2 = announced h @ [EventConnected]" "room 3 h2" "p_beats h2 = p_beats h"
    by (rule handshake_phase [OF assms(2-5) inp assms(7,8) r6 jt])
  have r3: "room (Suc 2) h2" using ev2(2) by (simp add: eval_nat_numeral)
  obtain hb1 b1 body1 h3 where lg: "Logon en cx (c\<lparr>c_protocol := Some h2\<rparr>) = (Return (), c\<lparr>c_protocol := Some h3\<rparr>)"
    and pb: "pb_header en (logon_proto i) = Inr hb1" "pb_message en (logon_message i) = Inr b1"
    and c1: "carries ?K body1 (proto_packet EMsg_ClientLogon hb1 b1)" and h3: "secured ?K (p_connection h3)"
      "nc_in (t_conn (p_connection h3)) = nc_in (t_conn (p_connection h2))"
    and out3: "nc_out (t_conn (p_connection h3)) = nc_out (t_conn (p_connection h2)) @ frame body1"
    and ev3: "announced h3 = announced h2" "room 2 h3" "p_beats h3 = p_beats h2"
    by (rule logon_phase [OF assms(1) h2(1) assms(10,11) r3])
  have r2: "room (Suc (Suc 0)) h3" using ev3(2) by (simp add: eval_nat_numeral)
  have i3: "nc_in (t_conn (p_connection h3)) = []" using h3(2) h2(2) by simp
  have "announced h3 @ [x] = announced h @ [EventConnected, x]" "p_beats h3 = p_beats h" for x
    using ev2 ev3 by simp_all
  note served_phase [OF h3(1) i3 assms(10) r2 assms(13,14,15,16,17,18,12), of _ cx n d, unfolded this]
  with run out2 em lg pb out3 carries_delivers [OF c1] show ?thesis by blast
qed

theorem session_established_witness:
  "\<exists>em h2 h3. Run (Suc (Suc 1)) (Suc 0) sample_env tcp_ops Background
      (arriving [request_packet 5 6 (replicate 16 1), result_packet 5 6]) = Run 1 (Suc 0) sample_env tcp_ops Background h2 \<and>
    oaep_open em = Some (replicate 32 7) \<and>
    Logon sample_env Background (sample_client\<lparr>c_authIdentity := Some sample_identity, c_protocol := Some h2\<rparr>) =
      (Return (), sample_client\<lparr>c_authIdentity := Some sample_identity, c_protocol := Some h3\<rparr>) \<and>
    (\<exists>stream h4. Run (Suc 1) (Suc 0) sample_env tcp_ops Background (arrives stream h3) =
         Run 1 (Suc 0) sample_env tcp_ops Background h4 \<and>
       announced h4 = [EventConnected, EventLoggedOn 0 0] \<and> p_beats h4 = [Starting (30 * Second)])"
proof -
  let ?h = "arriving [request_packet 5 6 (replicate 16 1), result_packet 5 6]"
  let ?ph = "\<lparr>ph_Steamid = None, ph_ClientSessionid = None, ph_JobidSource = None, ph_JobidTarget = None, ph_others = []\<rparr>"
  let ?resp = "\<lparr>lr_Eresult = Some 1, lr_HeartbeatSeconds = Some 30, lr_others = []\<rparr>"
  let ?c = "sample_client\<lparr>c_authIdentity := Some sample_identity\<rparr>"
  have h: "healthy (p_connection ?h)" "t_key (p_connection ?h) = []" "t_state (p_connection ?h) = StateConnectedUnencrypted"
      "\<forall>i. \<not> isl (t_rand (p_connection ?h) i)"
      "nc_in (t_conn (p_connection ?h)) = frame (request_packet 5 6 (replicate 16 1)) @ frame (result_packet 5 6)"
      "p_random ?h (p_drawn ?h) = (Inr (\<lambda>_. 7), Inr (\<lambda>_. 9))" "room 6 ?h" "announced ?h = []" "p_beats ?h = []"
    by (simp_all add: arriving_def sample_protocol_def room_def announced_def) (simp_all add: sample_conn_def)
  have d: "pb_to_header sample_env (replicate 32 0) = Inr ?ph" "pb_to_logon_response sample_env [30] = Inr ?resp"
    by (simp_all add: sample_env_def dec_opt_def)
  have e: "encodable sample_env (logon_header sample_identity) (logon_message sample_identity)"
    "encodable sample_env (items_header 0 0) ClientRequestItemAnnouncements"
    by (rule sample_encodable, simp add: logon_header_filled logon_proto_def)
      (rule sample_encodable, simp add: items_header_def fill_proto_def new_Header_def new_ProtoBufHeader_def emsg_defs)
  have K: "map (\<lambda>_. 7 :: byte) [0..<32] = replicate 32 7" by (simp add: map_replicate_const)
  let ?srv = "sample_conn (replicate 32 7) []"
  have srv: "healthy ?srv" "armed ?srv" "t_key ?srv = replicate 32 7" by simp_all
  have snd: "sendable (proto_packet EMsg_ClientLogOnResponse (replicate 32 0) [30])"
    by (simp add: sendable_def proto_packet_def max_packet_def)
  have g: "GetSteamid (Some ?ph) = 0" "GetClientSessionid (Some ?ph) = 0" "GetEresult ?resp = 1"
    by (simp_all add: GetSteamid_def GetClientSessionid_def GetEresult_def)
  have len: "length (replicate 16 (1 :: byte)) = 16" "replicate 32 0 @ [30] \<noteq> ([] :: bytes)" "lr_HeartbeatSeconds ?resp = Some 30"
      "c_authIdentity ?c = Some sample_identity" "sint (30 :: 32 word) = 30" by simp_all
  note T = session_established [of ?c sample_identity ?h 5 6 "replicate 16 1" 5 6 "\<lambda>_. 7" "\<lambda>_. 9" sample_env ?ph "replicate 32 0" "[30]"
      ?resp 30 1 0 Background, unfolded K g, OF len(4) h(1-5) len(1) h(6,7) sample_events_total e d(1) len(2) snd d(2) refl len(3)]
  have "?c\<lparr>c_protocol := Some x\<rparr> = sample_client\<lparr>c_authIdentity := Some sample_identity, c_protocol := Some x\<rparr>" for x by simp
  then show ?thesis using T srv unfolding h(8,9) len(5) append_Nil by metis
qed

end
