(* ===== verification/Examples.thy ===== *)
theory Examples
  imports Client_Laws
begin

text \<open>
  The example programs' use of the client: the saved session, the interactive login and the
  event handler of \<^verbatim>\<open>examples/steam-library-example\<close>, and the second half of the login in
  \<^verbatim>\<open>examples/simple-client\<close> and \<^verbatim>\<open>examples/simple\<close>.

  The program's state is a client, the world of its requests, its files, its standard input
  and what it has printed. A file holds a JSON text, as its value, or something else (\<open>None\<close>).
  A buffered reader takes from standard input what one read delivers, which \<open>os_chunk\<close> says
  for each read, and keeps what it has not handed out. \<^verbatim>\<open>log.Fatal\<close> ends the program like a
  panic. Durations and message numbers are printed by parameters, like the parts of paths.
\<close>

section \<open>The operating system\<close>

record OS =
  os_readErr :: "string \<Rightarrow> goerr option"
  os_mkdirErr :: "string \<Rightarrow> goerr option"
  os_writeErr :: "string \<Rightarrow> goerr option"
  os_Dir :: "string \<Rightarrow> string"
  os_chunk :: "nat \<Rightarrow> nat"
  os_password :: "string result option"
  os_duration :: "int \<Rightarrow> string"
  os_emsg :: "EMsg \<Rightarrow> string"

record Program =
  pg_client :: Client
  pg_world :: World
  pg_files :: "string \<rightharpoonup> json option"
  pg_stdin :: string
  pg_reads :: nat
  pg_out :: "string list"
  pg_err :: "string list"
  pg_fetches :: "(uint64 \<times> string) list"

definition ErrNotExist :: goerr where "ErrNotExist = ErrNew ''file does not exist''"

definition Println :: "string \<Rightarrow> Program \<Rightarrow> Program" where "Println s g = g\<lparr>pg_out := pg_out g @ [s]\<rparr>"
definition Eprintln :: "string \<Rightarrow> Program \<Rightarrow> Program" where "Eprintln s g = g\<lparr>pg_err := pg_err g @ [s]\<rparr>"

text \<open>\<^verbatim>\<open>(*bufio.Reader).ReadString\<close> up to a line feed: the text with it, or what there is and
  \<^verbatim>\<open>io.EOF\<close>; the new buffer, the rest of the input, and the number of reads so far.\<close>

definition LF :: char where "LF = CHR 0x0A"

function read_string :: "OS \<Rightarrow> string \<Rightarrow> string \<Rightarrow> nat \<Rightarrow> (string \<times> goerr option) \<times> string \<times> string \<times> nat" where
  "read_string os buf inp k =
     (if LF \<in> set buf then
        ((takeWhile (\<lambda>c. c \<noteq> LF) buf @ [LF], None), drop 1 (dropWhile (\<lambda>c. c \<noteq> LF) buf), inp, k)
      else if inp = [] then ((buf, Some EOF), [], [], k)
      else let n = max 1 (min 4096 (os_chunk os k)) in read_string os (buf @ take n inp) (drop n inp) (Suc k))"
  by pat_completeness auto
termination
  by (relation "measure (\<lambda>(os, buf, inp, k). length inp)") (auto simp: Let_def)

declare read_string.simps [simp del]

definition ReadString :: "OS \<Rightarrow> string \<Rightarrow> Program \<Rightarrow> (string \<times> goerr option) \<times> string \<times> Program" where
  "ReadString os buf g =
     (case read_string os buf (pg_stdin g) (pg_reads g) of
        (r, buf', inp, k) \<Rightarrow> (r, buf', g\<lparr>pg_stdin := inp, pg_reads := k\<rparr>))"

section \<open>The saved session\<close>

record savedSession =
  ss_SteamID :: uint64
  ss_RefreshToken :: string
  ss_Username :: string

text \<open>Encoding replaces every byte of a text that is not part of a UTF-8 character by U+FFFD.
  \<open>rune_width\<close> is the number of bytes of the character at the front of a text, 0 where there is
  none.\<close>

definition in_range :: "nat \<Rightarrow> nat \<Rightarrow> string \<Rightarrow> nat \<Rightarrow> bool" where
  "in_range lo hi s i \<longleftrightarrow> i < length s \<and> lo \<le> of_char (s ! i) \<and> of_char (s ! i) \<le> hi"

definition rune_width :: "string \<Rightarrow> nat" where
  "rune_width s =
     (let more = in_range 0x80 0xBF s in
      if in_range 0 0x7F s 0 then 1
      else if in_range 0xC2 0xDF s 0 then (if more 1 then 2 else 0)
      else if in_range 0xE0 0xEF s 0 then
        (if in_range (if s ! 0 = CHR 0xE0 then 0xA0 else 0x80) (if s ! 0 = CHR 0xED then 0x9F else 0xBF) s 1 \<and> more 2
         then 3 else 0)
      else if in_range 0xF0 0xF4 s 0 then
        (if in_range (if s ! 0 = CHR 0xF0 then 0x90 else 0x80) (if s ! 0 = CHR 0xF4 then 0x8F else 0xBF) s 1 \<and>
            more 2 \<and> more 3 then 4 else 0)
      else 0)"

function coerce_utf8 :: "string \<Rightarrow> string" where
  "coerce_utf8 s =
     (if s = [] then []
      else let n = rune_width s
        in if n = 0 then [CHR 0xEF, CHR 0xBF, CHR 0xBD] @ coerce_utf8 (drop 1 s)
           else take n s @ coerce_utf8 (drop n s))"
  by pat_completeness auto
termination
  by (relation "measure length") auto

declare coerce_utf8.simps [simp del]

definition savedSession_json :: "savedSession \<Rightarrow> json" where
  "savedSession_json s = JObj
     ([(''steam_id'', JNum (FormatUint (unat (ss_SteamID s)))), (''refresh_token'', JStr (coerce_utf8 (ss_RefreshToken s)))] @
      (if ss_Username s = [] then [] else [(''username'', JStr (coerce_utf8 (ss_Username s)))]))"

definition dec_savedSession :: "json \<Rightarrow> savedSession result" where
  "dec_savedSession j =
     dec_struct [(''steam_id'', dec_uint 64 (\<lambda>f r. r\<lparr>ss_SteamID := of_int (f (uint (ss_SteamID r)))\<rparr>)),
        (''refresh_token'', dec_str ss_RefreshToken_update), (''username'', dec_str ss_Username_update)] j
       \<lparr>ss_SteamID = 0, ss_RefreshToken = [], ss_Username = []\<rparr>"

definition loadSession :: "OS \<Rightarrow> string \<Rightarrow> Program \<Rightarrow> savedSession result" where
  "loadSession os path g =
     (if path = [] then Inl (ErrNew ''session file path is empty'')
      else case os_readErr os path of
          Some err \<Rightarrow> Inl err
        | None \<Rightarrow>
          (case pg_files g path of
             None \<Rightarrow> Inl ErrNotExist
           | Some None \<Rightarrow> Inl ErrJSON
           | Some (Some j) \<Rightarrow>
             (case dec_savedSession j of
                Inl err \<Rightarrow> Inl err
              | Inr s \<Rightarrow>
                if ss_SteamID s = 0 \<or> ss_RefreshToken s = [] then Inl (ErrNew ''session file is empty or incomplete'')
                else Inr s)))"

definition saveSession :: "OS \<Rightarrow> string \<Rightarrow> string \<Rightarrow> Program \<Rightarrow> goerr option \<times> Program" where
  "saveSession os path username g =
     (if path = [] then (None, g)
      else case Client_Identity (pg_client g) of
          Inl err \<Rightarrow> (Some err, g)
        | Inr i \<Rightarrow>
          let j = savedSession_json \<lparr>ss_SteamID = Uint64 (Identity_SteamID i), ss_RefreshToken = Identity_RefreshToken i,
                    ss_Username = username\<rparr>;
              mkdir = (if os_Dir os path \<noteq> [] \<and> os_Dir os path \<noteq> ''.'' then os_mkdirErr os (os_Dir os path) else None)
          in (case mkdir of
                Some err \<Rightarrow> (Some err, g)
              | None \<Rightarrow>
                (case os_writeErr os path of
                   Some err \<Rightarrow> (Some err, g)
                 | None \<Rightarrow> (None, g\<lparr>pg_files := (pg_files g)(path \<mapsto> Some j)\<rparr>))))"

definition restoreSession :: "OS \<Rightarrow> string \<Rightarrow> Program \<Rightarrow> savedSession result \<times> Program" where
  "restoreSession os path g =
     (case loadSession os path g of
        Inl err \<Rightarrow> (Inl err, g)
      | Inr s \<Rightarrow>
        (case SetIdentity (ss_SteamID s) (ss_RefreshToken s) (wd_now (pg_world g)) (pg_client g) of
           (Inl err, c) \<Rightarrow> (Inl err, g\<lparr>pg_client := c\<rparr>)
         | (Inr _, c) \<Rightarrow> (Inr s, g\<lparr>pg_client := c\<rparr>)))"

section \<open>Steam Guard methods\<close>

definition confirmationAllowed :: "AllowedConfirmation list \<Rightarrow> EAuthSessionGuardType \<Rightarrow> bool" where
  "confirmationAllowed allowed want = list_ex (\<lambda>c. ac_ConfirmationType c = want) allowed"

definition externalConfirmationPrompt :: "AllowedConfirmation list \<Rightarrow> string" where
  "externalConfirmationPrompt allowed =
     (if confirmationAllowed allowed GuardType_DeviceConfirmation
      then ''Steam Guard: please approve the login in your Steam Mobile app...''
      else if confirmationAllowed allowed GuardType_EmailConfirmation
      then ''Steam Guard: please click the approval link in the email sent to you...''
      else ''Steam Guard: waiting for external confirmation...'')"

definition guardTypeLabel :: "EAuthSessionGuardType \<Rightarrow> string" where
  "guardTypeLabel t =
     (let prefix = ''k_EAuthSessionGuardType_''; name = GuardType_String t
      in if has_prefix prefix name then drop (length prefix) name else name)"

definition joinGuardTypes :: "AllowedConfirmation list \<Rightarrow> string" where
  "joinGuardTypes allowed =
     (if length allowed = 0 then ''<none>''
      else join '', '' (map (\<lambda>c. guardTypeLabel (ac_ConfirmationType c)) allowed))"

definition errNeedsExternalConfirmation :: goerr where
  "errNeedsExternalConfirmation = ErrNew ''needs external confirmation''"

text \<open>The time of a code: whole seconds.\<close>

definition unix_now :: "Program \<Rightarrow> int" where "unix_now g = wd_now (pg_world g) div Second"

definition resolveSteamGuardCode :: "OS \<Rightarrow> string \<Rightarrow> string \<Rightarrow> AllowedConfirmation list \<Rightarrow> Program \<Rightarrow>
    string result \<times> string \<times> Program" where
  "resolveSteamGuardCode os reader sharedSecret allowed g =
     (let hasDeviceCode = confirmationAllowed allowed GuardType_DeviceCode;
          hasDeviceConfirmation = confirmationAllowed allowed GuardType_DeviceConfirmation
      in if sharedSecret \<noteq> [] then
           (if \<not> hasDeviceCode then
              (Inl (ErrNew (''shared secret supplied but Steam did not allow DeviceCode (TOTP); allowed: '' @
                 joinGuardTypes allowed)), reader, g)
            else (CreateAuthenticationCode sharedSecret (unix_now g), reader, g))
         else if hasDeviceConfirmation then
           (Inl errNeedsExternalConfirmation, reader,
            Println (externalConfirmationPrompt allowed)
              (Println (''Steam Guard required. Allowed methods: '' @ joinGuardTypes allowed) g))
         else if \<not> confirmationAllowed allowed GuardType_EmailCode \<and> \<not> confirmationAllowed allowed GuardType_MachineToken then
           (Inl (ErrNew (''no usable Steam Guard method; allowed: '' @ joinGuardTypes allowed)), reader, g)
         else
           (case ReadString os reader (Println ''Enter Steam Guard code: ''
                (Println (''Steam Guard required. Allowed methods: '' @ joinGuardTypes allowed) g)) of
              ((code, err), reader', g') \<Rightarrow>
                (case err of
                   Some e \<Rightarrow> if errors_Is e EOF then (Inr (TrimSpace code), reader', g') else (Inl e, reader', g')
                 | None \<Rightarrow> (Inr (TrimSpace code), reader', g'))))"

section \<open>The interactive login\<close>

definition prompt :: "OS \<Rightarrow> string \<Rightarrow> string \<Rightarrow> Program \<Rightarrow> string outcome \<times> string \<times> Program" where
  "prompt os reader label g =
     (case ReadString os reader (Println label g) of
        ((line, Some err), reader', g') \<Rightarrow> (Panic (ErrWrap ''read input'' err), reader', g')
      | ((line, None), reader', g') \<Rightarrow> (Return (TrimSpace line), reader', g'))"

text \<open>Without a terminal (\<open>os_password\<close> is \<open>None\<close>) a new reader is made on standard input, and
  dropped with what it has buffered.\<close>

definition promptPassword :: "OS \<Rightarrow> string \<Rightarrow> Program \<Rightarrow> string result \<times> Program" where
  "promptPassword os label g =
     (case os_password os of
        None \<Rightarrow>
          (case ReadString os [] (Println label g) of
             ((line, err), _, g') \<Rightarrow>
               (case err of
                  Some e \<Rightarrow> if errors_Is e EOF then (Inr (TrimSpace line), g') else (Inl e, g')
                | None \<Rightarrow> (Inr (TrimSpace line), g')))
      | Some (Inl err) \<Rightarrow> (Inl err, Println [] (Println label g))
      | Some (Inr p) \<Rightarrow> (Inr p, Println [] (Println label g)))"

text \<open>After the prompts: the session, the code, and the second half.\<close>

definition second_half :: "string \<Rightarrow> Program \<Rightarrow> (Identity outcome \<times> Client \<times> World) option \<Rightarrow> (unit outcome \<times> Program) option" where
  "second_half msg g = map_option (\<lambda>(r, c, w).
     let g1 = g\<lparr>pg_client := c, pg_world := w\<rparr> in
     (case r of
        Return _ \<Rightarrow> (Return (), Println ''Steam Guard accepted; tokens cached.'' g1)
      | Fail e \<Rightarrow> (Fail (ErrWrap msg e), g1)
      | Panic e \<Rightarrow> (Panic e, g1)
      | Parked \<Rightarrow> (Parked, g1)))"

definition login_with :: "OS \<Rightarrow> Host \<Rightarrow> entropy \<Rightarrow> goctx \<Rightarrow> string \<Rightarrow> client_Credentials \<Rightarrow> Program \<Rightarrow> (unit outcome \<times> Program) option" where
  "login_with os hs ps cx reader creds g =
     (case Client_BeginAuthSession hs ps (Some creds) (pg_client g) (pg_world g) of
        (Fail err, c, w) \<Rightarrow> Some (Fail (ErrWrap ''begin auth session'' err), g\<lparr>pg_client := c, pg_world := w\<rparr>)
      | (Panic e, c, w) \<Rightarrow> Some (Panic e, g\<lparr>pg_client := c, pg_world := w\<rparr>)
      | (Parked, c, w) \<Rightarrow> Some (Parked, g\<lparr>pg_client := c, pg_world := w\<rparr>)
      | (Return session, c, w) \<Rightarrow>
        let g1 = Println (''auth session opened: client_id='' @ FormatUint (unat (as_ClientID session)) @ '' interval='' @
                   os_duration os (as_Interval session)) (g\<lparr>pg_client := c, pg_world := w\<rparr>)
        in (case resolveSteamGuardCode os reader (cc_SharedSecret creds) (as_AllowedConfirmations session) g1 of
              (Inr logonCode, _, g2) \<Rightarrow>
                second_half ''submit Steam Guard code'' g2
                  (Client_SubmitSteamGuardCode cx (Some session) logonCode (pg_client g2) (pg_world g2))
            | (Inl err, _, g2) \<Rightarrow>
                if errors_Is err errNeedsExternalConfirmation then
                  second_half ''wait for confirmation'' g2
                    (Client_WaitForConfirmation cx (Some session) (pg_client g2) (pg_world g2))
                else Some (Fail (ErrWrap ''prepare Steam Guard code'' err), g2)))"

definition runFullLogin :: "OS \<Rightarrow> Host \<Rightarrow> entropy \<Rightarrow> goctx \<Rightarrow> string \<Rightarrow> string \<Rightarrow> string \<Rightarrow> Program \<Rightarrow> (unit outcome \<times> Program) option" where
  "runFullLogin os hs ps cx username0 password0 sharedSecret g =
     (case (if username0 = [] then prompt os [] ''Steam username: '' g else (Return username0, [], g)) of
        (Return username, reader, g1) \<Rightarrow>
          (case (if password0 = [] then promptPassword os ''Steam password: '' g1 else (Inr password0, g1)) of
             (Inl err, g2) \<Rightarrow> Some (Fail (ErrWrap ''read password'' err), g2)
           | (Inr password, g2) \<Rightarrow>
             login_with os hs ps cx reader
               \<lparr>cc_Username = username, cc_Password = password, cc_SharedSecret = sharedSecret\<rparr> g2)
      | (Fail e, reader, g1) \<Rightarrow> Some (Fail e, g1)
      | (Panic e, reader, g1) \<Rightarrow> Some (Panic e, g1)
      | (Parked, reader, g1) \<Rightarrow> Some (Parked, g1))"

section \<open>Events\<close>

text \<open>The handler of one event. Fetching the library is started in a goroutine of its own.\<close>

definition handleEvent :: "OS \<Rightarrow> env \<Rightarrow> bool \<Rightarrow> string \<Rightarrow> string \<Rightarrow> string \<Rightarrow> Event \<Rightarrow> Program \<Rightarrow> unit outcome \<times> Program" where
  "handleEvent os en verbose apiKey sessionFile username event g =
     (case event of
        EventSteamGuardChallenge session allowed \<Rightarrow>
          (Return (), fold (\<lambda>c. Println (''  - '' @ guardTypeLabel (ac_ConfirmationType c))) allowed
             (Println (''Steam Guard required ('' @ FormatUint (length allowed) @ '' confirmations allowed)'') g))
      | EventConnected \<Rightarrow>
          let g1 = Println ''connected to a Steam CM server'' g in
          (case Logon en Background (pg_client g1) of
             (Return _, c) \<Rightarrow> (Return (), g1\<lparr>pg_client := c\<rparr>)
           | (Fail err, c) \<Rightarrow> (Return (), Eprintln (''logon: '' @ Error err) (g1\<lparr>pg_client := c\<rparr>))
           | (Panic e, c) \<Rightarrow> (Panic e, g1\<lparr>pg_client := c\<rparr>)
           | (Parked, c) \<Rightarrow> (Parked, g1\<lparr>pg_client := c\<rparr>))
      | EventLoggedOn steamID session \<Rightarrow>
          let g1 = Println (''logged on: SteamID='' @ FormatUint (unat steamID) @ '' SessionID='' @ FormatInt (sint session)) g in
          (case saveSession os sessionFile username g1 of
             (err, g2) \<Rightarrow>
               let g3 = (case err of None \<Rightarrow> g2 | Some e \<Rightarrow> Eprintln (''save session: '' @ Error e) g2)
               in (Return (), g3\<lparr>pg_fetches := pg_fetches g3 @ [(steamID, apiKey)]\<rparr>))
      | EventError err \<Rightarrow> (Return (), Eprintln (''protocol error: '' @ Error err) g)
      | EventItemAnnouncements n \<Rightarrow> (Return (), Println (''item announcements: '' @ FormatUint (unat n) @ '' new'') g)
      | EventUserNotification t n \<Rightarrow>
          (Return (), Println (''user notification: type='' @ FormatUint (unat t) @ '' count='' @ FormatUint (unat n)) g)
      | EventMessageSent e hdr body \<Rightarrow>
          (Return (), if verbose then Println (''[out] '' @ os_emsg os e @ '' '' @ hdr) g else g)
      | EventMessageReceived e hdr \<Rightarrow>
          (Return (), if verbose then Println (''[in]  '' @ os_emsg os e @ '' '' @ hdr) g else g))"

section \<open>The minimal examples\<close>

definition contains :: "string \<Rightarrow> string \<Rightarrow> bool" where
  "contains s sub \<longleftrightarrow> list_ex (\<lambda>i. take (length sub) (drop i s) = sub) [0..<Suc (length s)]"

text \<open>How the second half of the login goes on with the client's answer.\<close>

definition ended :: "Program \<Rightarrow> Identity outcome \<times> Client \<times> World \<Rightarrow> unit outcome \<times> Program" where
  "ended g x = (case x of (r, c, w) \<Rightarrow>
     (case r of Return _ \<Rightarrow> Return () | Fail e \<Rightarrow> Fail e | Panic e \<Rightarrow> Panic e | Parked \<Rightarrow> Parked,
      g\<lparr>pg_client := c, pg_world := w\<rparr>))"

text \<open>Typing a code: a new reader on standard input, whose error is ignored.\<close>

definition typed_code :: "OS \<Rightarrow> goctx \<Rightarrow> AuthSession \<Rightarrow> Program \<Rightarrow> (unit outcome \<times> Program) option" where
  "typed_code os cx session g =
     (case ReadString os [] g of
        ((line, _), _, g1) \<Rightarrow>
          map_option (ended g1)
            (Client_SubmitSteamGuardCode cx (Some session) (TrimSpace line) (pg_client g1) (pg_world g1)))"

definition authorize :: "OS \<Rightarrow> goctx \<Rightarrow> AuthSession \<Rightarrow> string \<Rightarrow> Program \<Rightarrow> (unit outcome \<times> Program) option" where
  "authorize os cx session sharedSecret g =
     (if sharedSecret \<noteq> [] then
        (case CreateAuthenticationCode sharedSecret (unix_now g) of
           Inl err \<Rightarrow> Some (Fail (ErrWrap ''generate TOTP code'' err), g)
         | Inr code \<Rightarrow>
           map_option (ended g) (Client_SubmitSteamGuardCode cx (Some session) code (pg_client g) (pg_world g)))
      else
        (case Client_WaitForConfirmation cx (Some session) (pg_client g) (pg_world g) of
           None \<Rightarrow> None
         | Some (Return i, c, w) \<Rightarrow>
             Some (Return (), Println ''approved externally; tokens cached.'' (g\<lparr>pg_client := c, pg_world := w\<rparr>))
         | Some (Fail err, c, w) \<Rightarrow>
             if \<not> contains (Error err) ''no allowed external confirmation''
             then Some (Fail err, g\<lparr>pg_client := c, pg_world := w\<rparr>)
             else typed_code os cx session (Println ''Enter Steam Guard code: '' (g\<lparr>pg_client := c, pg_world := w\<rparr>))
         | Some x \<Rightarrow> Some (ended g x)))"

definition simple_submitSteamGuardCode :: "OS \<Rightarrow> goctx \<Rightarrow> AuthSession \<Rightarrow> string \<Rightarrow> Program \<Rightarrow> (unit outcome \<times> Program) option" where
  "simple_submitSteamGuardCode os cx session sharedSecret g =
     (if sharedSecret \<noteq> [] then
        (case CreateAuthenticationCode sharedSecret (unix_now g) of
           Inl err \<Rightarrow> Some (Fail (ErrWrap ''failed to generate TOTP code'' err), g)
         | Inr code \<Rightarrow>
           map_option (ended g) (Client_SubmitSteamGuardCode cx (Some session) code (pg_client g) (pg_world g)))
      else
        (case Client_WaitForConfirmation cx (Some session) (pg_client g) (pg_world g) of
           None \<Rightarrow> None
         | Some (Return i, c, w) \<Rightarrow> Some (Return (), g\<lparr>pg_client := c, pg_world := w\<rparr>)
         | Some (Fail err, c, w) \<Rightarrow>
             if \<not> contains (Error err) ''no allowed external confirmation''
             then Some (Fail err, g\<lparr>pg_client := c, pg_world := w\<rparr>)
             else typed_code os cx session (Println ''Enter Steam Guard code:'' (g\<lparr>pg_client := c, pg_world := w\<rparr>))
         | Some x \<Rightarrow> Some (ended g x)))"

section \<open>The library of games\<close>

text \<open>Whether an image can be fetched: a plain request on the default client, with a context that
  ends after ten seconds, which is part of what the client's answer depends on.\<close>

definition urlStatus :: "Host \<Rightarrow> string \<Rightarrow> World \<Rightarrow> string \<times> World" where
  "urlStatus hs raw w =
     (if raw = [] then ([], w)
      else if hc_parse (hs_DefaultClient hs) ''GET'' raw \<noteq> None then ('' [INVALID]'', w)
      else (case hc_do (hs_DefaultClient hs) \<lparr>rq_verb = ''GET'', rq_url = raw, rq_body = [], rq_content_type = None\<rparr> w of
          (Inl err, w1) \<Rightarrow> ('' [INVALID]'', w1)
        | (Inr resp, w1) \<Rightarrow> (if rs_status resp = 404 then '' [INVALID]'' else [], w1)))"

text \<open>Quoting of names and the date of a time are the library's formatting, given as parameters.\<close>

definition game_line :: "(string \<Rightarrow> string) \<Rightarrow> (int \<Rightarrow> string) \<Rightarrow> OwnedGame \<Rightarrow> string \<Rightarrow> string \<Rightarrow> string" where
  "game_line quo date g coverTag logoTag =
     ''  - appid='' @ FormatInt (g_AppID g) @ '' name='' @ quo (g_Name g) @ '' playtime_forever='' @
     FormatInt (g_PlaytimeForever g) @ ''m last_played='' @
     (if g_RTimeLastPlayed g \<noteq> 0 then date (g_RTimeLastPlayed g) else ''never'') @ '' img='' @ g_GameIconURL g @
     '' cover='' @ g_GameCoverURL g @ coverTag @ '' logo='' @ g_GameLogoURL g @ logoTag"

definition print_game :: "Host \<Rightarrow> (string \<Rightarrow> string) \<Rightarrow> (int \<Rightarrow> string) \<Rightarrow> OwnedGame \<Rightarrow> Program \<Rightarrow> Program" where
  "print_game hs quo date game g =
     (case urlStatus hs (g_GameCoverURL game) (pg_world g) of
        (coverTag, w1) \<Rightarrow>
          (case urlStatus hs (g_GameLogoURL game) w1 of
             (logoTag, w2) \<Rightarrow> Println (game_line quo date game coverTag logoTag) (g\<lparr>pg_world := w2\<rparr>)))"

definition printOwnedGames :: "Host \<Rightarrow> (string \<Rightarrow> string) \<Rightarrow> (int \<Rightarrow> string) \<Rightarrow> GetOwnedGamesResponse \<Rightarrow> Program \<Rightarrow> Program" where
  "printOwnedGames hs quo date r g =
     fold (print_game hs quo date) (or_Games r)
       (Println (''owned games: '' @ FormatInt (or_GameCount r)) g)"

definition fetchAndPrintOwnedGames :: "Host \<Rightarrow> (string \<Rightarrow> string) \<Rightarrow> (int \<Rightarrow> string) \<Rightarrow> uint64 \<Rightarrow> string \<Rightarrow> Program \<Rightarrow> Program" where
  "fetchAndPrintOwnedGames hs quo date steamID apiKey g =
     (if apiKey = [] then
        Println ''(skipping GetOwnedGames: no -api-key provided; register one at https://steamcommunity.com/dev/apikey)'' g
      else
        (case NewIPlayerService (Some (NewHTTPTransport (hs_DefaultClient hs) [])) of
           Return playerService \<Rightarrow>
             (case GetOwnedGames playerService \<lparr>og_APIKey = apiKey, og_SteamID = steamID, og_IncludeAppInfo = True,
                 og_IncludePlayedFreeGames = True, og_AppIDsFilter = [], og_IncludeFreeSub = False,
                 og_Language = ''schinese''\<rparr> (pg_world g) of
                (Inl err, w) \<Rightarrow> Eprintln (''GetOwnedGames: '' @ Error err) (g\<lparr>pg_world := w\<rparr>)
              | (Inr games, w) \<Rightarrow> printOwnedGames hs quo date games (g\<lparr>pg_world := w\<rparr>))
         | _ \<Rightarrow> g))"

section \<open>The main program\<close>

text \<open>The start of \<^verbatim>\<open>main\<close>, up to connecting: the saved session, or else the login. Its flags are
  arguments. The user name it goes on with is part of the result.\<close>

definition startup :: "OS \<Rightarrow> Host \<Rightarrow> entropy \<Rightarrow> goctx \<Rightarrow> string \<Rightarrow> string \<Rightarrow> string \<Rightarrow> string \<Rightarrow> Program \<Rightarrow>
    (string outcome \<times> Program) option" where
  "startup os hs ps cx username password sharedSecret sessionFile g0 =
     (case NewClient hs [WithReconnect True] of
        Inl err \<Rightarrow> Some (Panic (ErrWrap ''create client'' err), g0)
      | Inr c \<Rightarrow>
        (case restoreSession os sessionFile (g0\<lparr>pg_client := c\<rparr>) of
           (Inr restored, g) \<Rightarrow>
             Some (Return (if username = [] then ss_Username restored else username),
               Println (''restored session for '' @ ss_Username restored @ '' (SteamID='' @
                 FormatUint (unat (ss_SteamID restored)) @ '') from '' @ sessionFile) g)
         | (Inl err, g) \<Rightarrow>
             let g1 = (if sessionFile \<noteq> [] \<and> \<not> errors_Is err ErrNotExist
                       then Eprintln (''restore session: '' @ Error err) g else g)
             in map_option (\<lambda>(r, g2).
                  (case r of
                     Return _ \<Rightarrow> Return username
                   | Fail e \<Rightarrow> Panic (ErrWrap ''login'' e)
                   | Panic e \<Rightarrow> Panic e
                   | Parked \<Rightarrow> Parked, g2))
                (runFullLogin os hs ps cx username password sharedSecret g1)))"

text \<open>What reaches the select of a loop, in order: the context's end; the error of the connecting
  goroutine; an event; and in between, the state of the client and the world as that
  goroutine leaves it. Where nothing more arrives, the loop waits.\<close>

datatype arrival = Interrupted | ConnectDone "goerr option" | Arrived Event | Progress Client World

fun delivers_error :: "arrival list \<Rightarrow> bool" where
  "delivers_error [] = False"
| "delivers_error (ConnectDone err # as) = True"
| "delivers_error (_ # as) = delivers_error as"

text \<open>
  Leaving the event loop: the context is over, or the connecting goroutine has delivered its
  error into \<^verbatim>\<open>connectDone\<close>. The deferred function then disconnects and receives from that
  channel, for which there is a value if one is still to arrive.
\<close>

definition ErrCanceled :: goerr where "ErrCanceled = ErrNew ''context canceled''"

definition deferred :: "arrival list \<Rightarrow> Program \<Rightarrow> unit outcome \<times> Program" where
  "deferred later g =
     (case Disconnect (pg_client g) of
        (r, c) \<Rightarrow>
          let g1 = (case r of Fail e \<Rightarrow> Eprintln (''disconnect: '' @ Error e) | _ \<Rightarrow> id) (g\<lparr>pg_client := c\<rparr>) in
          (case r of
             Panic e \<Rightarrow> (Panic e, g1)
           | Parked \<Rightarrow> (Parked, g1)
           | _ \<Rightarrow> (if delivers_error later then Return () else Parked, g1)))"

text \<open>A panic runs the deferred function \<open>d\<close> on its way out.\<close>

definition unwind :: "(Program \<Rightarrow> unit outcome \<times> Program) \<Rightarrow> goerr \<Rightarrow> Program \<Rightarrow> unit outcome \<times> Program" where
  "unwind d e g = (case d g of (Return _, g1) \<Rightarrow> (Panic e, g1) | (r, g1) \<Rightarrow> (r, g1))"

definition on_interrupt :: "arrival list \<Rightarrow> Program \<Rightarrow> unit outcome \<times> Program" where
  "on_interrupt later g = deferred later (Println (LF # ''interrupted, shutting down...'') g)"

definition on_connectDone :: "goerr option \<Rightarrow> Program \<Rightarrow> unit outcome \<times> Program" where
  "on_connectDone err g =
     (case err of
        Some e \<Rightarrow> if \<not> errors_Is e ErrCanceled then (Panic (ErrWrap ''connection terminated'' e), g) else deferred [] g
      | None \<Rightarrow> deferred [] g)"

fun event_loop :: "OS \<Rightarrow> env \<Rightarrow> bool \<Rightarrow> string \<Rightarrow> string \<Rightarrow> string \<Rightarrow> arrival list \<Rightarrow> Program \<Rightarrow> unit outcome \<times> Program" where
  "event_loop os en verbose apiKey sessionFile username [] g = (Parked, g)"
| "event_loop os en verbose apiKey sessionFile username (a # as) g =
     (case a of
        Interrupted \<Rightarrow> on_interrupt as g
      | ConnectDone err \<Rightarrow> on_connectDone err g
      | Progress c w \<Rightarrow> event_loop os en verbose apiKey sessionFile username as (g\<lparr>pg_client := c, pg_world := w\<rparr>)
      | Arrived event \<Rightarrow>
        (case handleEvent os en verbose apiKey sessionFile username event g of
           (Return _, g1) \<Rightarrow> event_loop os en verbose apiKey sessionFile username as g1
         | (Panic e, g1) \<Rightarrow> unwind (deferred as) e g1
         | (r, g1) \<Rightarrow> (r, g1)))"

definition library_main :: "OS \<Rightarrow> Host \<Rightarrow> entropy \<Rightarrow> env \<Rightarrow> goctx \<Rightarrow> bool \<Rightarrow> string \<Rightarrow> string \<Rightarrow> string \<Rightarrow> string \<Rightarrow> string \<Rightarrow>
    arrival list \<Rightarrow> Program \<Rightarrow> (unit outcome \<times> Program) option" where
  "library_main os hs ps en cx verbose apiKey username password sharedSecret sessionFile arrivals g0 =
     map_option (\<lambda>(r, g).
       (case r of
          Return user \<Rightarrow>
            event_loop os en verbose apiKey sessionFile user arrivals (Println ''waiting for events (Ctrl-C to quit)...'' g)
        | Fail e \<Rightarrow> (Fail e, g)
        | Panic e \<Rightarrow> (Panic e, g)
        | Parked \<Rightarrow> (Parked, g)))
     (startup os hs ps cx username password sharedSecret sessionFile g0)"

definition defaultSessionPath :: "string result \<Rightarrow> string result \<Rightarrow> (string list \<Rightarrow> string) \<Rightarrow> string" where
  "defaultSessionPath configDir homeDir path_Join =
     (case configDir of
        Inr dir \<Rightarrow>
          if dir \<noteq> [] then path_Join [dir, ''go-steam-example'', ''session.json'']
          else (case homeDir of Inr home \<Rightarrow> path_Join [home, ''.go-steam-example-session.json''] | Inl _ \<Rightarrow> ''session.json'')
      | Inl _ \<Rightarrow> (case homeDir of Inr home \<Rightarrow> path_Join [home, ''.go-steam-example-session.json''] | Inl _ \<Rightarrow> ''session.json''))"

text \<open>
  The command line, as \<^verbatim>\<open>flag.Parse\<close> reads it: a flag has one or two hyphens, a boolean one takes
  a value only after an equals sign, the others also from the next argument; parsing ends at the
  first argument that is no flag, or after two hyphens alone. An error ends the program. The
  quotes around values in messages are those of Go's \<open>%q\<close>, a parameter.
\<close>

record flags =
  fl_username :: string
  fl_password :: string
  fl_sharedSecret :: string
  fl_apiKey :: string
  fl_verbose :: bool
  fl_sessionFile :: string

definition ParseBool :: "string \<Rightarrow> bool option" where
  "ParseBool s =
     (if s \<in> {''1'', ''t'', ''T'', ''true'', ''TRUE'', ''True''} then Some True
      else if s \<in> {''0'', ''f'', ''F'', ''false'', ''FALSE'', ''False''} then Some False else None)"

definition string_flag :: "string \<Rightarrow> (string \<Rightarrow> flags \<Rightarrow> flags) option" where
  "string_flag name =
     (if name = ''username'' then Some (\<lambda>v. fl_username_update (\<lambda>_. v))
      else if name = ''password'' then Some (\<lambda>v. fl_password_update (\<lambda>_. v))
      else if name = ''shared-secret'' then Some (\<lambda>v. fl_sharedSecret_update (\<lambda>_. v))
      else if name = ''api-key'' then Some (\<lambda>v. fl_apiKey_update (\<lambda>_. v))
      else if name = ''session-file'' then Some (\<lambda>v. fl_sessionFile_update (\<lambda>_. v))
      else None)"

text \<open>The name and the value of an argument without its hyphens; the equals sign is not its first
  character.\<close>

definition split_flag :: "string \<Rightarrow> string \<times> string option" where
  "split_flag s =
     (let name = takeWhile (\<lambda>c. c \<noteq> CHR ''='') s in
      (name, if length name < length s then Some (drop (Suc (length name)) s) else None))"

definition ErrHelp :: goerr where "ErrHelp = ErrNew ''flag: help requested''"

fun parse_flags :: "(string \<Rightarrow> string) \<Rightarrow> string list \<Rightarrow> flags \<Rightarrow> flags result" where
  "parse_flags quote [] fl = Inr fl"
| "parse_flags quote (s # args) fl =
     (if length s < 2 \<or> hd s \<noteq> CHR ''-'' then Inr fl
      else if s = ''--'' then Inr fl
      else let t = (if s ! 1 = CHR ''-'' then drop 2 s else drop 1 s) in
        if hd t = CHR ''-'' \<or> hd t = CHR ''='' then Inl (ErrNew (''bad flag syntax: '' @ s))
        else case split_flag t of (name, val) \<Rightarrow>
          if name = ''v'' then
            (case val of
               None \<Rightarrow> parse_flags quote args (fl\<lparr>fl_verbose := True\<rparr>)
             | Some v \<Rightarrow>
               (case ParseBool v of
                  Some b \<Rightarrow> parse_flags quote args (fl\<lparr>fl_verbose := b\<rparr>)
                | None \<Rightarrow> Inl (ErrNew (''invalid boolean value '' @ quote v @ '' for -'' @ name @ '': parse error''))))
          else case string_flag name of
            None \<Rightarrow>
              Inl (if name = ''help'' \<or> name = ''h'' then ErrHelp
                   else ErrNew (''flag provided but not defined: -'' @ name))
          | Some set_flag \<Rightarrow>
            (case val of
               Some v \<Rightarrow> parse_flags quote args (set_flag v fl)
             | None \<Rightarrow>
               (case args of
                  [] \<Rightarrow> Inl (ErrNew (''flag needs an argument: -'' @ name))
                | v # rest \<Rightarrow> parse_flags quote rest (set_flag v fl))))"

definition library_program :: "OS \<Rightarrow> Host \<Rightarrow> entropy \<Rightarrow> env \<Rightarrow> goctx \<Rightarrow> (string \<Rightarrow> string) \<Rightarrow> string \<Rightarrow> string list \<Rightarrow>
    arrival list \<Rightarrow> Program \<Rightarrow> (unit outcome \<times> Program) option" where
  "library_program os hs ps en cx quote defaultPath args arrivals g0 =
     (case parse_flags quote args
             \<lparr>fl_username = [], fl_password = [], fl_sharedSecret = [], fl_apiKey = [], fl_verbose = False,
              fl_sessionFile = defaultPath\<rparr> of
        Inl err \<Rightarrow> Some (Panic err, g0)
      | Inr fl \<Rightarrow>
        library_main os hs ps en cx (fl_verbose fl) (fl_apiKey fl) (fl_username fl) (fl_password fl)
          (fl_sharedSecret fl) (fl_sessionFile fl) arrivals g0)"

section \<open>The main programs of the minimal examples\<close>

definition begin_session :: "Host \<Rightarrow> entropy \<Rightarrow> client_Credentials \<Rightarrow> Program \<Rightarrow> AuthSession outcome \<times> Program" where
  "begin_session hs ps creds g =
     (case Client_BeginAuthSession hs ps (Some creds) (pg_client g) (pg_world g) of
        (r, c, w) \<Rightarrow> (r, g\<lparr>pg_client := c, pg_world := w\<rparr>))"

definition simple_client_startup :: "OS \<Rightarrow> Host \<Rightarrow> entropy \<Rightarrow> goctx \<Rightarrow> string \<Rightarrow> string \<Rightarrow> string \<Rightarrow> Program \<Rightarrow>
    (unit outcome \<times> Program) option" where
  "simple_client_startup os hs ps cx username password sharedSecret g0 =
     (if username = [] \<or> password = []
      then Some (Panic (ErrNew ''STEAM_USERNAME and STEAM_PASSWORD must be set''), g0)
      else case NewClient hs [] of
          Inl err \<Rightarrow> Some (Panic (ErrWrap ''create client'' err), g0)
        | Inr c \<Rightarrow>
          (case begin_session hs ps \<lparr>cc_Username = username, cc_Password = password, cc_SharedSecret = sharedSecret\<rparr>
                  (g0\<lparr>pg_client := c\<rparr>) of
             (Fail err, g) \<Rightarrow> Some (Panic (ErrWrap ''begin auth session'' err), g)
           | (Panic e, g) \<Rightarrow> Some (Panic e, g)
           | (Parked, g) \<Rightarrow> Some (Parked, g)
           | (Return session, g) \<Rightarrow>
             map_option (\<lambda>(r, g2).
               (case r of
                  Return _ \<Rightarrow> (Return (), Println ''authorized; tokens cached.'' g2)
                | Fail err \<Rightarrow> (Panic (ErrWrap ''authorize'' err), g2)
                | _ \<Rightarrow> (r, g2)))
             (authorize os cx session sharedSecret
               (Println (''auth session opened: client_id='' @ FormatUint (unat (as_ClientID session)) @ '' interval='' @
                  os_duration os (as_Interval session)) g))))"

text \<open>One event; \<open>True\<close> where the program returns after it.\<close>

definition simple_client_event :: "env \<Rightarrow> goctx \<Rightarrow> Event \<Rightarrow> Program \<Rightarrow> bool outcome \<times> Program" where
  "simple_client_event en cx event g =
     (case event of
        EventSteamGuardChallenge session allowed \<Rightarrow>
          (Return False, Println (''Steam Guard required ('' @ FormatUint (length allowed) @ '' confirmations allowed)'') g)
      | EventConnected \<Rightarrow>
          let g1 = Println ''connected to Steam CM server'' g in
          (case Logon en cx (pg_client g1) of
             (Return _, c) \<Rightarrow> (Return False, g1\<lparr>pg_client := c\<rparr>)
           | (Fail err, c) \<Rightarrow> (Return False, Eprintln (''logon: '' @ Error err) (g1\<lparr>pg_client := c\<rparr>))
           | (Panic e, c) \<Rightarrow> (Panic e, g1\<lparr>pg_client := c\<rparr>)
           | (Parked, c) \<Rightarrow> (Parked, g1\<lparr>pg_client := c\<rparr>))
      | EventLoggedOn steamID session \<Rightarrow>
          (Return True, Println (''logged on: SteamID='' @ FormatUint (unat steamID) @ '' SessionID='' @ FormatInt (sint session)) g)
      | EventError err \<Rightarrow> (Return False, Eprintln (''protocol error: '' @ Error err) g)
      | _ \<Rightarrow> (Return False, g))"

definition simple_client_deferred :: "Program \<Rightarrow> unit outcome \<times> Program" where
  "simple_client_deferred g =
     (case Disconnect (pg_client g) of
        (Fail err, c) \<Rightarrow> (Return (), Eprintln (''disconnect: '' @ Error err) (g\<lparr>pg_client := c\<rparr>))
      | (r, c) \<Rightarrow> (r, g\<lparr>pg_client := c\<rparr>))"

text \<open>The connecting goroutine of the minimal programs prints its error, and the loop goes on.\<close>

fun simple_client_loop :: "env \<Rightarrow> goctx \<Rightarrow> arrival list \<Rightarrow> Program \<Rightarrow> unit outcome \<times> Program" where
  "simple_client_loop en cx [] g = (Parked, g)"
| "simple_client_loop en cx (a # as) g =
     (case a of
        Interrupted \<Rightarrow> simple_client_deferred g
      | ConnectDone err \<Rightarrow>
          simple_client_loop en cx as (case err of Some e \<Rightarrow> Eprintln (''connect: '' @ Error e) g | None \<Rightarrow> g)
      | Progress c w \<Rightarrow> simple_client_loop en cx as (g\<lparr>pg_client := c, pg_world := w\<rparr>)
      | Arrived event \<Rightarrow>
        (case simple_client_event en cx event g of
           (Return True, g1) \<Rightarrow> simple_client_deferred g1
         | (Return False, g1) \<Rightarrow> simple_client_loop en cx as g1
         | (Panic e, g1) \<Rightarrow> unwind simple_client_deferred e g1
         | (_, g1) \<Rightarrow> (Parked, g1)))"

text \<open>\<^verbatim>\<open>os.Getenv\<close>: an unset variable reads as the empty string.\<close>

definition Getenv :: "(string \<rightharpoonup> string) \<Rightarrow> string \<Rightarrow> string" where
  "Getenv vars name = (case vars name of Some v \<Rightarrow> v | None \<Rightarrow> [])"

definition simple_client_main :: "OS \<Rightarrow> Host \<Rightarrow> entropy \<Rightarrow> env \<Rightarrow> goctx \<Rightarrow> (string \<rightharpoonup> string) \<Rightarrow> arrival list \<Rightarrow> Program \<Rightarrow>
    (unit outcome \<times> Program) option" where
  "simple_client_main os hs ps en cx vars arrivals g0 =
     map_option (\<lambda>(r, g). case r of Return _ \<Rightarrow> simple_client_loop en cx arrivals g | _ \<Rightarrow> (r, g))
       (simple_client_startup os hs ps cx (Getenv vars ''STEAM_USERNAME'') (Getenv vars ''STEAM_PASSWORD'')
          (Getenv vars ''STEAM_SHARED_SECRET'') g0)"

text \<open>\<^verbatim>\<open>GO_STEAM_CREDENTIALS\<close> is a variable that may be unset, or hold a JSON text or something
  else. The start ends with the user name where the program goes on to connect. \<open>pick_one n\<close> is the random index below \<open>n\<close>; with nothing to choose from, choosing panics.\<close>

definition p_credentials :: "json \<Rightarrow> client_Credentials result" where
  "p_credentials j =
     dec_struct [(''username'', dec_str cc_Username_update), (''password'', dec_str cc_Password_update),
        (''shared_secret'', dec_str cc_SharedSecret_update)] j
       \<lparr>cc_Username = [], cc_Password = [], cc_SharedSecret = []\<rparr>"

definition simple_startup :: "OS \<Rightarrow> Host \<Rightarrow> entropy \<Rightarrow> goctx \<Rightarrow> json option option \<Rightarrow> (nat \<Rightarrow> nat) \<Rightarrow> Program \<Rightarrow>
    (string option outcome \<times> Program) option" where
  "simple_startup os hs ps cx var pick_one g0 =
     (case var of
        None \<Rightarrow> Some (Return None, Println ''GO_STEAM_CREDENTIALS is not set'' g0)
      | Some text \<Rightarrow>
        (case (case text of None \<Rightarrow> Inl ErrJSON | Some j \<Rightarrow> p_array p_credentials j) of
           Inl err \<Rightarrow> Some (Return None, Println (''failed to unmarshal credentials: '' @ Error err) g0)
         | Inr credentialsList \<Rightarrow>
           if credentialsList = [] then Some (Panic (ErrNew ''invalid argument to IntN''), g0)
           else let credentials = credentialsList ! pick_one (length credentialsList) in
             (case NewClient hs [] of
                Inl err \<Rightarrow> Some (Return None, Println (''failed to create client: '' @ Error err) g0)
              | Inr c \<Rightarrow>
                (case begin_session hs ps credentials (g0\<lparr>pg_client := c\<rparr>) of
                   (Fail err, g) \<Rightarrow> Some (Return None, Println (''failed to begin auth session: '' @ Error err) g)
                 | (Panic e, g) \<Rightarrow> Some (Panic e, g)
                 | (Parked, g) \<Rightarrow> Some (Parked, g)
                 | (Return session, g) \<Rightarrow>
                   map_option (\<lambda>(r, g2).
                     (case r of
                        Return _ \<Rightarrow> (Return (Some (cc_Username credentials)), g2)
                      | Fail err \<Rightarrow> (Return None, Println (''failed to submit Steam Guard code: '' @ Error err) g2)
                      | Panic e \<Rightarrow> (Panic e, g2)
                      | Parked \<Rightarrow> (Parked, g2)))
                   (simple_submitSteamGuardCode os cx session (cc_SharedSecret credentials) g)))))"

definition simple_event :: "OS \<Rightarrow> env \<Rightarrow> goctx \<Rightarrow> string \<Rightarrow> Event \<Rightarrow> Program \<Rightarrow> unit outcome \<times> Program" where
  "simple_event os en cx username event g =
     (case event of
        EventMessageSent e hdr body \<Rightarrow> (Return (), Println (''-> '' @ os_emsg os e @ '' '' @ hdr @ '' '' @ body) g)
      | EventMessageReceived e hdr \<Rightarrow> (Return (), Println (''<- '' @ os_emsg os e @ '' '' @ hdr) g)
      | EventSteamGuardChallenge session allowed \<Rightarrow>
          (Return (), Println (''Steam Guard challenge required: allowed='' @ FormatUint (length allowed)) g)
      | EventConnected \<Rightarrow>
          let g1 = Println ''Connected!'' g in
          (case Logon en cx (pg_client g1) of
             (Fail err, c) \<Rightarrow> (Return (), Println (''failed to login: '' @ Error err) (g1\<lparr>pg_client := c\<rparr>))
           | (r, c) \<Rightarrow> (r, g1\<lparr>pg_client := c\<rparr>))
      | EventLoggedOn steamID session \<Rightarrow>
          (Return (), Println (''Logged on as '' @ username @ '' ('' @ FormatUint (unat steamID) @ '')!'') g)
      | EventItemAnnouncements n \<Rightarrow> (Return (), Println (''Item announcements: Count='' @ FormatUint (unat n)) g)
      | EventUserNotification t n \<Rightarrow>
          (Return (), Println (''User notification: Type='' @ FormatUint (unat t) @ '' Count='' @ FormatUint (unat n)) g)
      | _ \<Rightarrow> (Return (), g))"

definition simple_deferred :: "Program \<Rightarrow> unit outcome \<times> Program" where
  "simple_deferred g =
     (let g0 = Println ''Disconnecting...'' g in
      case Disconnect (pg_client g0) of
        (Return _, c) \<Rightarrow> (Return (), Println ''Disconnected!'' (g0\<lparr>pg_client := c\<rparr>))
      | (Fail err, c) \<Rightarrow> (Return (), Println (''failed to disconnect: '' @ Error err) (g0\<lparr>pg_client := c\<rparr>))
      | (r, c) \<Rightarrow> (r, g0\<lparr>pg_client := c\<rparr>))"

fun simple_loop :: "OS \<Rightarrow> env \<Rightarrow> goctx \<Rightarrow> string \<Rightarrow> arrival list \<Rightarrow> Program \<Rightarrow> unit outcome \<times> Program" where
  "simple_loop os en cx username [] g = (Parked, g)"
| "simple_loop os en cx username (a # as) g =
     (case a of
        Interrupted \<Rightarrow> simple_deferred g
      | ConnectDone err \<Rightarrow>
          simple_loop os en cx username as (case err of Some e \<Rightarrow> Println (''failed to connect: '' @ Error e) g | None \<Rightarrow> g)
      | Progress c w \<Rightarrow> simple_loop os en cx username as (g\<lparr>pg_client := c, pg_world := w\<rparr>)
      | Arrived event \<Rightarrow>
        (case simple_event os en cx username event g of
           (Return _, g1) \<Rightarrow> simple_loop os en cx username as g1
         | (Panic e, g1) \<Rightarrow> unwind simple_deferred e g1
         | (r, g1) \<Rightarrow> (r, g1)))"

definition simple_main :: "OS \<Rightarrow> Host \<Rightarrow> entropy \<Rightarrow> env \<Rightarrow> goctx \<Rightarrow> json option option \<Rightarrow> (nat \<Rightarrow> nat) \<Rightarrow> arrival list \<Rightarrow> Program \<Rightarrow>
    (unit outcome \<times> Program) option" where
  "simple_main os hs ps en cx var pick_one arrivals g0 =
     map_option (\<lambda>(r, g).
       (case r of
          Return (Some username) \<Rightarrow> simple_loop os en cx username arrivals g
        | Return None \<Rightarrow> (Return (), g)
        | Fail e \<Rightarrow> (Fail e, g)
        | Panic e \<Rightarrow> (Panic e, g)
        | Parked \<Rightarrow> (Parked, g)))
     (simple_startup os hs ps cx var pick_one g0)"

section \<open>Lemmas\<close>

lemma read_string_line:
  assumes "LF \<notin> set l" "length (l @ LF # r) \<le> min 4096 (os_chunk os k)"
  shows "read_string os [] (l @ LF # r) k = ((l @ [LF], None), r, [], Suc k)"
proof -
  have n: "take (max (Suc 0) (min 4096 (os_chunk os k))) (l @ LF # r) = l @ LF # r"
      "drop (max (Suc 0) (min 4096 (os_chunk os k))) (l @ LF # r) = []"
    using assms(2) by (auto intro: take_all drop_all simp del: take_append drop_append length_append)
  have t: "takeWhile (\<lambda>c. c \<noteq> LF) (l @ LF # r) = l" "dropWhile (\<lambda>c. c \<noteq> LF) (l @ LF # r) = LF # r"
    using assms(1) by (induction l) auto
  have "read_string os [] (l @ LF # r) k = read_string os (l @ LF # r) [] (Suc k)"
    by (subst read_string.simps) (simp add: n Let_def del: take_append drop_append)
  also have "\<dots> = ((l @ [LF], None), r, [], Suc k)"
    by (subst read_string.simps) (simp add: t)
  finally show ?thesis .
qed

lemma IsValid_nonzero: "IsValid sid \<Longrightarrow> sid \<noteq> 0"
  by (auto simp: IsValid_def AccountID_def getBits_def Uint64_def)

lemma coerce_utf8_Nil [simp]: "coerce_utf8 [] = []"
  by (simp add: coerce_utf8.simps)

lemma coerce_utf8_ascii: "(\<And>c. c \<in> set s \<Longrightarrow> of_char c \<le> (0x7F :: nat)) \<Longrightarrow> coerce_utf8 s = s"
proof (induction s)
  case (Cons c s)
  then have "rune_width (c # s) = 1" by (simp add: rune_width_def in_range_def)
  with Cons show ?case by (subst coerce_utf8.simps) (simp add: Let_def)
qed simp

lemma dec_uint_Format:
  "dec_uint 64 upd (JNum (FormatUint (unat (n :: uint64)))) r = Inr (upd (\<lambda>_. uint n) r)"
proof -
  have "unat n < 2 ^ 64" using unsigned_less [of n, where ?'a = nat] by simp
  then have "ParseUint (FormatUint (unat n)) 64 = Inr (unat n)" by (rule ParseUint_FormatUint)
  then show ?thesis by (simp add: dec_uint_def dec_kept_def dec_with_def p_uint_def)
qed

lemma dec_savedSession_json:
  "dec_savedSession (savedSession_json s) =
     Inr \<lparr>ss_SteamID = ss_SteamID s, ss_RefreshToken = coerce_utf8 (ss_RefreshToken s),
       ss_Username = coerce_utf8 (ss_Username s)\<rparr>"
  by (simp add: dec_savedSession_def savedSession_json_def dec_struct_def find_field_def dec_uint_Format dec_str_def dec_kept_def
      dec_with_def p_str_def)

lemma confirmationAllowed_iff: "confirmationAllowed allowed t \<longleftrightarrow> t \<in> ac_ConfirmationType ` set allowed"
  by (auto simp: confirmationAllowed_def list_ex_iff)

section \<open>Properties\<close>

text \<open>Property C40: a saved session is restored. When saving succeeds and the file can be read, a
  later program, whatever client it starts with, gets from it the same user name and an
  identity with the same account and refresh token, provided the account is valid and the
  token a text of UTF-8 characters and not empty. The user name comes back with U+FFFD for
  every byte that is not part of a character.\<close>

theorem saved_session_restored:
  assumes "Client_Identity (pg_client g) = Inr i" and "IsValid (id_steamID i)" and "id_refreshToken i \<noteq> []"
    and "coerce_utf8 (id_refreshToken i) = id_refreshToken i" and "path \<noteq> []" and "saveSession os path user g = (None, g1)" and "os_readErr os path = None"
  shows "\<exists>s g2 j. restoreSession os path (g1\<lparr>pg_client := c\<rparr>) = (Inr s, g2) \<and> ss_Username s = coerce_utf8 user \<and>
    Client_Identity (pg_client g2) = Inr j \<and> id_steamID j = id_steamID i \<and> id_refreshToken j = id_refreshToken i"
proof -
  let ?s = "\<lparr>ss_SteamID = id_steamID i, ss_RefreshToken = id_refreshToken i, ss_Username = user\<rparr>"
  have "g1 = g\<lparr>pg_files := (pg_files g)(path \<mapsto> Some (savedSession_json ?s))\<rparr>"
    using assms(1,5,6)
    by (auto simp: saveSession_def Let_def Identity_SteamID_def Identity_RefreshToken_def Uint64_def
        split: option.splits if_splits)
  then have "loadSession os path (g1\<lparr>pg_client := c\<rparr>) = Inr (?s\<lparr>ss_Username := coerce_utf8 user\<rparr>)"
    using assms(2-5,7) IsValid_nonzero by (auto simp: loadSession_def dec_savedSession_json)
  then show ?thesis
    using assms(2-4) by (simp add: restoreSession_def SetIdentity_def Client_Identity_def NewIdentity_def Let_def)
qed

text \<open>How the minimal example finishes a login. With a shared secret it submits the code
  of the secret and the time; without one it waits for an external confirmation where the
  session allows one, and where it allows none, the refusal is recognised by its text and a
  typed code, without the spaces around it, is submitted instead.\<close>

theorem authorize_dispatch:
  assumes "c_authIDP (pg_client g) = Some idp"
  shows "(\<forall>code. secret \<noteq> [] \<and> CreateAuthenticationCode secret (unix_now g) = Inr code \<longrightarrow>
      authorize os cx s secret g =
        map_option (ended g) (Client_SubmitSteamGuardCode cx (Some s) code (pg_client g) (pg_world g))) \<and>
    (\<forall>i c w. Client_WaitForConfirmation cx (Some s) (pg_client g) (pg_world g) = Some (Return i, c, w) \<longrightarrow>
      pickConfirmationType (as_AllowedConfirmations s) \<noteq> None \<and>
      (\<exists>g1. authorize os cx s [] g = Some (Return (), g1) \<and> Client_Identity (pg_client g1) = Inr i)) \<and>
    (pickConfirmationType (as_AllowedConfirmations s) = None \<longrightarrow>
      (\<exists>line err buf inp k. read_string os [] (pg_stdin g) (pg_reads g) = ((line, err), buf, inp, k) \<and>
        authorize os cx s [] g =
          map_option (ended ((Println ''Enter Steam Guard code: '' g)\<lparr>pg_stdin := inp, pg_reads := k\<rparr>))
            (Client_SubmitSteamGuardCode cx (Some s) (TrimSpace line) (pg_client g) (pg_world g))))"
proof (intro conjI allI impI)
  fix code assume "secret \<noteq> [] \<and> CreateAuthenticationCode secret (unix_now g) = Inr code"
  then show "authorize os cx s secret g =
      map_option (ended g) (Client_SubmitSteamGuardCode cx (Some s) code (pg_client g) (pg_world g))"
    by (simp add: authorize_def)
next
  fix i c w assume w: "Client_WaitForConfirmation cx (Some s) (pg_client g) (pg_world g) = Some (Return i, c, w)"
  then show "pickConfirmationType (as_AllowedConfirmations s) \<noteq> None"
    using assms by (auto simp: Client_WaitForConfirmation_def WaitForConfirmation_def keep_identity_def Let_def split: if_splits)
  have "c_authIdentity c = Some i"
    using w assms by (auto simp: Client_WaitForConfirmation_def keep_identity_def Let_def)
  with w show "\<exists>g1. authorize os cx s [] g = Some (Return (), g1) \<and> Client_Identity (pg_client g1) = Inr i"
    by (simp add: authorize_def Println_def Client_Identity_def)
next
  assume p: "pickConfirmationType (as_AllowedConfirmations s) = None"
  define e where "e = ErrNew ''no allowed external confirmation; use SubmitSteamGuardCode for a Steam Guard code''"
  have "(pg_client g)\<lparr>c_authIDP := Some idp\<rparr> = pg_client g" using assms by (cases "pg_client g") simp
  then have w: "Client_WaitForConfirmation cx (Some s) (pg_client g) (pg_world g) = Some (Fail e, pg_client g, pg_world g)"
    using assms p by (simp add: Client_WaitForConfirmation_def WaitForConfirmation_def keep_identity_def e_def)
  have "take (length ''no allowed external confirmation'') (drop 0 (Error e)) = ''no allowed external confirmation''"
    by (simp add: e_def)
  moreover have "0 \<in> set [0..<Suc (length (Error e))]" by simp
  ultimately have "contains (Error e) ''no allowed external confirmation''"
    unfolding contains_def list_ex_iff by blast
  moreover obtain line buf inp k where r: "read_string os [] (pg_stdin g) (pg_reads g) = (line, buf, inp, k)"
    by (metis prod_cases4)
  moreover have "g\<lparr>pg_client := pg_client g, pg_world := pg_world g\<rparr> = g" by simp
  ultimately show "\<exists>line err buf inp k. read_string os [] (pg_stdin g) (pg_reads g) = ((line, err), buf, inp, k) \<and>
        authorize os cx s [] g =
          map_option (ended ((Println ''Enter Steam Guard code: '' g)\<lparr>pg_stdin := inp, pg_reads := k\<rparr>))
            (Client_SubmitSteamGuardCode cx (Some s) (TrimSpace line) (pg_client g) (pg_world g))"
    using w by (intro exI [of _ "fst line"] exI [of _ "snd line"] exI [of _ buf] exI [of _ inp] exI [of _ k])
      (cases line, simp add: authorize_def typed_code_def ReadString_def Println_def)
qed

text \<open>A machine without failures, whose reads deliver all there is, and a program on it with a
  client that keeps an identity.\<close>

definition sample_os :: OS where
  "sample_os = \<lparr>os_readErr = (\<lambda>_. None), os_mkdirErr = (\<lambda>_. None), os_writeErr = (\<lambda>_. None), os_Dir = (\<lambda>_. ''.''),
     os_chunk = (\<lambda>_. 4096), os_password = None, os_duration = (\<lambda>_. ''5s''), os_emsg = (\<lambda>_. [])\<rparr>"

definition sample_program :: Program where
  "sample_program = \<lparr>pg_client = sample_client\<lparr>c_authIDP := Some (sample_idp\<lparr>idp_identity := Some sample_identity\<rparr>),
       c_authIdentity := Some sample_identity\<rparr>,
     pg_world = sample_world, pg_files = Map.empty, pg_stdin = '' ABCDE'' @ [LF], pg_reads = 0, pg_out = [], pg_err = [],
     pg_fetches = []\<rparr>"

theorem saved_session_restored_witness:
  "\<exists>g1 s g2. saveSession sample_os ''session'' ''gopher'' sample_program = (None, g1) \<and>
     restoreSession sample_os ''session'' (g1\<lparr>pg_client := sample_client\<rparr>) = (Inr s, g2) \<and> ss_Username s = ''gopher'' \<and>
     id_refreshToken (case Client_Identity (pg_client g2) of Inr j \<Rightarrow> j) = ''R''"
proof -
  have v: "IsValid 76561198065346589" by code_simp
  have i: "Client_Identity (pg_client sample_program) = Inr sample_identity"
    by (simp add: sample_program_def Client_Identity_def)
  obtain g1 where g1: "saveSession sample_os ''session'' ''gopher'' sample_program = (None, g1)"
    using i by (simp add: saveSession_def sample_os_def Let_def)
  have t: "id_steamID sample_identity = 76561198065346589" "id_refreshToken sample_identity = ''R''"
    by (simp_all add: sample_identity_def NewIdentity_def)
  have a: "coerce_utf8 ''R'' = ''R''" "coerce_utf8 ''gopher'' = ''gopher''"
    by (rule coerce_utf8_ascii; auto)+
  show ?thesis
    using saved_session_restored [OF i _ _ _ _ g1, of sample_client] g1 v t a by (auto simp: sample_os_def)
qed

theorem authorize_dispatch_witness:
  "\<exists>g. authorize sample_os Background sample_session [] sample_program =
     map_option (ended g) (Client_SubmitSteamGuardCode Background (Some sample_session) ''ABCDE''
       (pg_client sample_program) sample_world)"
proof -
  have r: "read_string sample_os [] (pg_stdin sample_program) (pg_reads sample_program) = (('' ABCDE'' @ [LF], None), [], [], 1)"
    using read_string_line [of "'' ABCDE''" "[]" sample_os 0] by (simp add: LF_def sample_os_def sample_program_def)
  have "pickConfirmationType (as_AllowedConfirmations sample_session) = None"
    by (simp add: pickConfirmationType_def pick_eq guard_type_defs sample_session_def)
  moreover have "c_authIDP (pg_client sample_program) = Some (sample_idp\<lparr>idp_identity := Some sample_identity\<rparr>)"
    by (simp add: sample_program_def)
  moreover have "TrimSpace ('' ABCDE'' @ [LF]) = ''ABCDE''" by code_simp
  moreover have "pg_world sample_program = sample_world" by (simp add: sample_program_def)
  ultimately show ?thesis
    using authorize_dispatch [of sample_program _ "[]" sample_os Background sample_session] r by auto
qed

section \<open>What the programs cannot do\<close>

text \<open>Once the connection has ended, the program does not: whatever the error was, it is either
  fatal or the deferred function waits for a second one.\<close>

lemma connection_end_hangs: "fst (on_connectDone err g) \<noteq> Return ()"
  by (auto simp: on_connectDone_def deferred_def Let_def split: option.splits outcome.splits prod.splits)

text \<open>So the loop ends normally only when it is interrupted and the connecting goroutine delivers its
  error after that.\<close>

lemma loop_ends_only_interrupted:
  "fst (event_loop os en verbose apiKey sessionFile username as g) = Return () \<Longrightarrow>
     \<exists>pre post. as = pre @ Interrupted # post \<and> delivers_error post"
proof (induction as arbitrary: g)
  case (Cons a as)
  have *: "\<exists>pre post. as = pre @ Interrupted # post \<and> delivers_error post \<Longrightarrow> ?case"
    by (metis append_Cons)
  show ?case
  proof (cases a)
    case Interrupted
    then show ?thesis
      using Cons.prems by (intro exI [of _ "[]"] exI [of _ as])
        (auto simp: on_interrupt_def deferred_def Let_def split: outcome.splits prod.splits if_splits)
  next
    case (Arrived e)
    with Cons.prems have "\<exists>g1. fst (event_loop os en verbose apiKey sessionFile username as g1) = Return ()"
      by (auto simp: unwind_def split: prod.splits outcome.splits)
    then show ?thesis using Cons.IH * by blast
  qed (use Cons connection_end_hangs * in auto)
qed simp

text \<open>The minimal programs return after an interrupt, and \<^verbatim>\<open>simple-client\<close> at the first logon too.\<close>

lemma simple_client_loop_ends:
  "fst (simple_client_loop en cx as g) = Return () \<Longrightarrow>
     Interrupted \<in> set as \<or> (\<exists>id session. Arrived (EventLoggedOn id session) \<in> set as)"
proof (induction as arbitrary: g)
  case (Cons a as)
  show ?case
  proof (cases a)
    case (Arrived e)
    with Cons show ?thesis
      by (cases e) (auto simp: simple_client_event_def unwind_def Let_def split: prod.splits outcome.splits bool.splits)
  qed (use Cons in auto)
qed simp

lemma simple_loop_ends: "fst (simple_loop os en cx username as g) = Return () \<Longrightarrow> Interrupted \<in> set as"
proof (induction as arbitrary: g)
  case (Cons a as)
  show ?case
  proof (cases a)
    case (Arrived e)
    with Cons show ?thesis by (auto simp: unwind_def split: prod.splits outcome.splits)
  qed (use Cons in auto)
qed simp

text \<open>Every setting of the flags can be given on the command line, whatever the values are, in the form
  with the equals sign and in the form with the value as the next argument.\<close>

definition flag_args :: "flags \<Rightarrow> string list" where
  "flag_args fl =
     [''-username'', fl_username fl, ''-password='' @ fl_password fl, ''--shared-secret'', fl_sharedSecret fl,
      ''--api-key='' @ fl_apiKey fl, ''-v='' @ (if fl_verbose fl then ''true'' else ''false''), ''-session-file'', fl_sessionFile fl]"

lemma parse_flags_given: "parse_flags quote (flag_args fl) fl0 = Inr fl"
  by (simp add: flag_args_def split_flag_def string_flag_def ParseBool_def Let_def)

text \<open>A user name and a password piped in together: the reader of the first line takes the second
  one along, and the password is empty.\<close>

lemma piped_password_lost:
  assumes "LF \<notin> set u" and "pg_stdin g = u @ LF # p" and "length (pg_stdin g) \<le> min 4096 (os_chunk os (pg_reads g))"
    and "os_password os = None" and "prompt os [] l g = (r, reader, g1)"
  shows "r = Return (TrimSpace (u @ [LF])) \<and> reader = p \<and> fst (promptPassword os l' g1) = Inr []"
proof -
  have "ReadString os [] (Println l g) = ((u @ [LF], None), p, (Println l g)\<lparr>pg_stdin := [], pg_reads := Suc (pg_reads g)\<rparr>)"
    using read_string_line [of u p os "pg_reads g"] assms(1-3) by (simp add: ReadString_def Println_def)
  then have "r = Return (TrimSpace (u @ [LF]))" "reader = p" "pg_stdin g1 = []"
    using assms(5) by (auto simp: prompt_def)
  moreover have "read_string os [] [] k = (([], Some EOF), [], [], k)" for k by (simp add: read_string.simps)
  moreover have "TrimSpace [] = []" "errors_Is EOF EOF" by code_simp+
  ultimately show ?thesis
    using assms(4) by (simp add: promptPassword_def ReadString_def Println_def)
qed

text \<open>Without a shared secret the library example goes on only where the server allows an approval
  on a device, a code by mail or a machine token: a session of the mail's approval link, or of
  the codes of an authenticator, is refused although the client could finish it.\<close>

lemma resolve_refuses:
  assumes "ac_ConfirmationType ` set allowed \<subseteq> {GuardType_EmailConfirmation, GuardType_DeviceCode}"
  shows "resolveSteamGuardCode os reader [] allowed g =
    (Inl (ErrNew (''no usable Steam Guard method; allowed: '' @ joinGuardTypes allowed)), reader, g)"
  using assms by (auto simp: resolveSteamGuardCode_def confirmationAllowed_iff guard_type_defs)

end
