(* ===== verification/Generator.thy ===== *)
theory Generator
  imports Language
begin

text \<open>
  The build-time plug-in \<^verbatim>\<open>cmd/protoc-gen-enums\<close>, which gives the enumerations of the protocol
  files their query encoding. The compiler's request is the third-party package's: of each of
  its files the plug-in uses what \<open>proto_file\<close> holds. A generated file is its name, its import
  path and its lines, before the package formats them.
\<close>

record proto_file =
  pf_Generate :: bool
  pf_Prefix :: string
  pf_ImportPath :: string
  pf_Package :: string
  pf_Enums :: "string list"

type_synonym generated = "string \<times> string \<times> string list"

definition import_line :: "string \<Rightarrow> string" where
  "import_line path = [CHR 0x09, CHR 0x22] @ path @ [CHR 0x22]"

definition file_head :: "string \<Rightarrow> string list" where
  "file_head package =
     [''// Code generated by protoc-gen-enums. DO NOT EDIT.'', [], ''package '' @ package, [], ''import ('',
      import_line ''net/url'', import_line ''strconv'', '')'', []]"

definition enum_method :: "string \<Rightarrow> string list" where
  "enum_method name =
     [''// EncodeValues implements the query.Encoder interface for '' @ name @ ''.'',
      ''// This allows the enum to be encoded as its numerical value in URL parameters.'',
      ''func (x '' @ name @ '') EncodeValues(key string, v *url.Values) error {'',
      CHR 0x09 # ''v.Add(key, strconv.FormatInt(int64(x), 10))'',
      CHR 0x09 # ''return nil'',
      ''}'', []]"

fun Handler :: "proto_file list \<Rightarrow> generated list" where
  "Handler [] = []"
| "Handler (f # fs) =
     (if \<not> pf_Generate f \<or> length (pf_Enums f) = 0 then Handler fs
      else (pf_Prefix f @ ''_extensions.pb.go'', pf_ImportPath f,
            file_head (pf_Package f) @ concat (map enum_method (pf_Enums f))) # Handler fs)"

text \<open>The files generated are those of the request that are to be generated and declare an
  enumeration, in its order, and each has one method per enumeration.\<close>

lemma Handler_files:
  "map fst (Handler fs) =
     map (\<lambda>f. pf_Prefix f @ ''_extensions.pb.go'') (filter (\<lambda>f. pf_Generate f \<and> pf_Enums f \<noteq> []) fs)"
  by (induction fs) auto

lemma Handler_methods:
  "(name, path, ls) \<in> set (Handler fs) \<Longrightarrow>
     \<exists>f \<in> set fs. pf_Generate f \<and> length (filter (\<lambda>l. l = ''}'') ls) = length (pf_Enums f)"
proof (induction fs)
  case (Cons f fs)
  have "filter (\<lambda>l. l = ''}'') (enum_method e) = [''}'']" for e
    by (simp add: enum_method_def)
  then have "filter (\<lambda>l. l = ''}'') (concat (map enum_method es)) = map (\<lambda>_. ''}'') es" for es
    by (induction es) simp_all
  moreover have "filter (\<lambda>l. l = ''}'') (file_head p) = []" for p
    by (simp add: file_head_def import_line_def)
  ultimately show ?case using Cons by (auto split: if_splits)
qed simp

end
