(* ===== verification/Spec2Isabelle.thy ===== *)
theory Spec2Isabelle
  imports SteamID Totp Api_Types Identity Pipe Concurrent Login
    Protocol_Laws Heartbeat Client_Laws Session Examples Generator
begin

text \<open>
  \<^bold>\<open>go-steam.\<close> A Go client for the Steam network. An application logs in over Steam's web
  interface, asks the directory for connection manager servers, opens a TCP connection to one
  of them, exchanges a session key, logs on with the refresh token of the login, and from then
  on receives the protocol's messages as events. This development models the library, its
  example programs and its enumeration generator, and proves what makes them correct; where the
  code does something else than it means to, the property says what it does.

  \<^bold>\<open>Parts and theories.\<close>

  \<^item> \<open>Prelude\<close>, \<open>GoLib\<close>: the Go values, errors and library functions the code uses. A result is
    \<open>goerr + 'a\<close>; a call that may also panic or wait for ever has an \<open>outcome\<close> (\<open>Return\<close>, \<open>Fail\<close>,
    \<open>Panic\<close>, \<open>Parked\<close>). Integers that wrap are words. JSON texts are values of type \<open>json\<close>, with
    the numbers as written.
  \<^item> \<open>AES\<close>, \<open>Digest\<close>: the standard library's AES-256, SHA-1, SHA-256, HMAC, CRC-32, base64
    and hexadecimal, executable, with the inverse laws the encryption needs.
  \<^item> \<open>Crypto\<close>: \<^verbatim>\<open>crypto/\<close>. Padding, CBC with the vector derived from an HMAC, session keys sealed with
    RSA-OAEP, signatures. Encryption and decryption are inverse to each other, and decryption
    accepts only what encryption makes.
  \<^item> \<open>Connection\<close>: \<^verbatim>\<open>connection/\<close>. The record \<open>TCPConnection\<close> is the struct, the network it is on,
    and the moment a concurrent \<^verbatim>\<open>Close\<close> happens; its methods are one definition each. Framing round
    trips, soundness of \<^verbatim>\<open>Read\<close> against any network, the state machine, truncation, closing.
  \<^item> \<open>Pipe\<close>: the contract the layers above rely on. The locale of a first-in first-out refinement
    is interpreted on two connections, in plain and under a key. \<open>Concurrent\<close>: calls of \<^verbatim>\<open>Send\<close> by
    several goroutines, in turns between which others may come.
  \<^item> \<open>SteamID\<close>: \<^verbatim>\<open>steamid/\<close>. The 64-bit identifier, its packed fields and its textual forms.
  \<^item> \<open>Language\<close>: what the library uses of the generated \<^verbatim>\<open>language/steam\<close>. \<open>Generator\<close>:
    \<^verbatim>\<open>cmd/protoc-gen-enums\<close>.
  \<^item> \<open>Totp\<close>: \<^verbatim>\<open>totp/\<close>. Steam Guard codes and device identifiers.
  \<^item> \<open>Http\<close>: \<^verbatim>\<open>api/transports\<close>. The request of a call, and what is made of the response. \<open>Api\<close>:
    \<^verbatim>\<open>api/\<close>, its services, and \<^verbatim>\<open>internal/\<close>. \<open>Api_Types\<close>: the integers of the responses, which
    the model keeps as \<open>int\<close>, fit the Go types of their fields, and the games and servers a server
    reports are the ones the application gets.
  \<^item> \<open>Identity\<close>: \<^verbatim>\<open>identity/\<close>. Both halves of the login, with the polling loop. \<open>Login\<close>: the first
    half as the server sees it, and the single-shot login as the two halves.
  \<^item> \<open>Protocol\<close>: \<^verbatim>\<open>protocol/\<close>. Headers on the wire, the handlers, nested messages, the read loop, the
    heartbeat goroutines. \<open>Protocol_Laws\<close>: its properties. \<open>Heartbeat\<close>: all runs of the heartbeat
    goroutines after a restart and after a close.
  \<^item> \<open>Client\<close>: \<^verbatim>\<open>client/\<close>. Options, the two-step login, choosing a server, connecting, forwarding of
    events, logging on. \<open>Client_Laws\<close>: its properties.
  \<^item> \<open>Session\<close>: client, protocol and connection together. An abstract machine of session keys, which
    every step of a protocol refines, and the course of a session from the server's encryption
    request to the finished logon.
  \<^item> \<open>Examples\<close>: \<^verbatim>\<open>examples/\<close>. The saved session, the interactive login, the event handlers, the
    command line and the main programs with their loops.

  \<^bold>\<open>Interaction.\<close> \<open>Client\<close> holds an identity provider (\<open>Identity\<close>), a directory service (\<open>Api\<close>) and a
  protocol; the protocol is parametric in its connection through the record \<open>Connection\<close>
  of its operations, which for TCP is \<open>tcp_ops\<close>. A message from the network goes through \<open>Read\<close>, \<open>readMessage\<close>
  and \<open>handleMessage\<close> into the protocol's events channel, from there by \<open>forward\<close> into the
  client's, and from there to the application. The reachable states of a connection, a protocol
  and a client are those of the step relations of \<open>Connection\<close>, \<open>Protocol\<close> and \<open>Client_Laws\<close>, whose
  steps are the exported methods and the goroutines' turns, in any order. What all of a protocol's
  steps keep or refine is proved once from its elementary changes, in the locales
  \<open>handler_refines\<close> and \<open>handler_stable\<close> of \<open>Protocol\<close>.

  \<^bold>\<open>Parameters.\<close> Code outside the repository enters as an argument: the protobuf codec and gzip
  (\<open>env\<close>), with the round trip of the codec, or that a field of bytes is no longer than its message, as a
  hypothesis where a property needs it; the HTTP
  client and the clock (\<open>World\<close>, \<open>HTTPClient\<close>); the dialer and the network; random sources
  (\<open>entropy\<close>); the sorting function, with the contract of the locale \<open>sort_func\<close>; the machine the
  examples run on (\<open>OS\<close>). Every property with such a hypothesis has a witness on concrete ones.

  \<^bold>\<open>Loops and fuel.\<close> \<open>poll\<close>, which may wait for ever, is a partial function into \<open>option\<close>, and that a
  login returns is a property of its own. \<open>readMessage\<close> has one unit of fuel per level of nesting;
  some fuel is proved enough for every packet without an endless chain of messages, one more than the
  bytes of its unpacked data where nothing within it is compressed, and a compressed message that
  expands to itself is proved to outlast any fuel. \<open>Run\<close>
  has one unit per packet and \<open>Connect\<close> one per attempt, \<open>None\<close> where they are used up; the claims
  that something returns give the fuel. All other loops are structural or have a measure.

  \<^bold>\<open>Groups of lemmas.\<close> Round trips (framing, encryption, headers, identifiers,
  requests, the saved session, the password of a login); refinement of the queue of messages and of the
  machine of keys; the contents of responses; invariants of connection, protocol and client by rule
  induction; the functional behaviour of the handshake, the logon and the login on every branch; the
  schedules of concurrent sends and the runs of the heartbeat; a whole session that comes about; termination of the login and of
  reading; the errors of truncated, oversized and misdirected input; and the places where the code
  leaks, hangs or picks the wrong server.

  \<^bold>\<open>Not modelled.\<close> Mutexes: a method is atomic except where it calls the network, where a concurrent
  close may happen, and except for \<^verbatim>\<open>Send\<close> in \<open>Concurrent\<close>. What the goroutines of an earlier connection
  still do after a reconnect: the client's steps are those of its current protocol. The generated
  messages the library does not use, and their reflection. The timeouts and tracing of HTTP, the
  usage text of the example's flags, and the formatting of quoted strings, dates and durations,
  which are parameters. Vendored packages.
\<close>

end
